(* ===== verification/Prelude.thy ===== *)
theory Prelude
  imports Main "HOL-Library.AList" "HOL-Library.Sublist" "HOL-Library.State_Monad"
begin

text \<open>
  What every theory of the development shares: Go's \<open>map\<close> as an association list
  (the list order is one of the iteration orders Go may choose, so a statement for every list
  is a statement for every iteration order), 64-bit \<open>int\<close> arithmetic with its
  wrap-around, and the interfaces (locales) between components together with the lemmas
  their clients use.
\<close>

named_theorems go_map "facts about Go maps"
named_theorems go_int "facts about 64-bit arithmetic"

section \<open>Go maps\<close>

type_synonym ('k, 'v) gomap = "('k \<times> 'v) list"

abbreviation wf_map :: "('k, 'v) gomap \<Rightarrow> bool" where
  "wf_map m \<equiv> distinct (map fst m)"

abbreviation keys :: "('k, 'v) gomap \<Rightarrow> 'k set" where
  "keys m \<equiv> fst ` set m"

abbreviation vals :: "('k, 'v) gomap \<Rightarrow> 'v set" where
  "vals m \<equiv> snd ` set m"

text \<open>\<open>m[k]\<close> with the comma-ok form is \<open>map_of m k\<close>; \<open>m[k] = v\<close> and
  \<open>delete(m, k)\<close> keep the keys distinct.\<close>

definition put :: "'k \<Rightarrow> 'v \<Rightarrow> ('k, 'v) gomap \<Rightarrow> ('k, 'v) gomap" where
  "put k v m = AList.update k v m"

definition del :: "'k \<Rightarrow> ('k, 'v) gomap \<Rightarrow> ('k, 'v) gomap" where
  "del k m = AList.delete k m"

text \<open>\<open>maps.Copy(dst, src)\<close>: every entry of \<open>src\<close> overwrites the one of \<open>dst\<close>.\<close>

fun maps_copy :: "('k, 'v) gomap \<Rightarrow> ('k, 'v) gomap \<Rightarrow> ('k, 'v) gomap" where
  "maps_copy dst [] = dst"
| "maps_copy dst ((k, v) # src) = maps_copy (put k v dst) src"

lemma map_of_put [simp, go_map]: "map_of (put k v m) = (map_of m)(k \<mapsto> v)"
  by (simp add: put_def AList.update_conv')

lemma map_of_del [simp, go_map]: "map_of (del k m) = (map_of m)(k := None)"
  by (simp add: del_def AList.delete_conv')

lemma wf_put [simp, intro]: "wf_map m \<Longrightarrow> wf_map (put k v m)"
  by (simp add: put_def AList.distinct_update)

lemma wf_del [simp, intro]: "wf_map m \<Longrightarrow> wf_map (del k m)"
  by (simp add: del_def AList.distinct_delete)

lemma put_not_Nil [simp]: "put k v m \<noteq> []"
  by (simp add: put_def AList.update_nonempty)

lemma keys_put [simp, go_map]: "keys (put k v m) = insert k (keys m)"
  by (simp add: put_def AList.dom_update)

lemma vals_put_subset: "vals (put k v m) \<subseteq> insert v (vals m)"
  unfolding put_def by (induction m) auto

lemma wf_maps_copy [simp, intro]: "wf_map dst \<Longrightarrow> wf_map (maps_copy dst src)"
  by (induction dst src rule: maps_copy.induct) auto

lemma map_of_maps_copy:
  "wf_map src \<Longrightarrow> map_of (maps_copy dst src) = map_of dst ++ map_of src"
proof (induction dst src rule: maps_copy.induct)
  case (2 dst k v src)
  then have "map_of src k = None"
    by (simp add: map_of_eq_None_iff)
  with 2 show ?case
    by (auto simp: map_add_def fun_eq_iff split: option.splits)
qed simp

lemma keys_maps_copy [simp, go_map]: "keys (maps_copy dst src) = keys dst \<union> keys src"
  by (induction dst src rule: maps_copy.induct) auto

lemma vals_maps_copy: "vals (maps_copy dst src) \<subseteq> vals dst \<union> vals src"
proof (induction dst src rule: maps_copy.induct)
  case (2 dst k v src)
  have "vals (maps_copy (put k v dst) src) \<subseteq> vals (put k v dst) \<union> vals src"
    by (rule 2)
  also have "\<dots> \<subseteq> insert v (vals dst) \<union> vals src"
    using vals_put_subset [of k v dst] by (rule Un_mono) simp
  finally show ?case by simp
qed simp

lemma map_of_vals: "map_of m k = Some v \<Longrightarrow> v \<in> vals m"
  by (force dest: map_of_SomeD)

lemma map_of_keys: "map_of m k = Some v \<Longrightarrow> k \<in> keys m"
  by (force dest: map_of_SomeD)

lemma map_of_filter_val:
  "map_of (filter (\<lambda>(k, v). P k \<and> Q v) m) k = Some v \<Longrightarrow> wf_map m \<Longrightarrow> map_of m k = Some v"
  by (auto dest!: map_of_SomeD intro: map_of_is_SomeI)

section \<open>Loops that sort their items\<close>

text \<open>
  A range loop whose body either appends a result to one slice or a rejected item to another
  (\<open>continue\<close>) collects both, in order.
\<close>

fun collect :: "('a \<Rightarrow> 'u + 'b) \<Rightarrow> 'a list \<Rightarrow> 'b list \<times> 'u list" where
  "collect f [] = ([], [])"
| "collect f (x # xs) =
     (case collect f xs of (ok, bad) \<Rightarrow>
        (case f x of Inl u \<Rightarrow> (ok, u # bad) | Inr y \<Rightarrow> (y # ok, bad)))"

lemma collect_length: "length (fst (collect f xs)) + length (snd (collect f xs)) = length xs"
  by (induction xs) (auto split: prod.splits sum.splits)

lemma collect_ok: "set (fst (collect f xs)) = {y. \<exists>x \<in> set xs. f x = Inr y}"
  by (induction xs) (auto split: prod.splits sum.splits)

lemma collect_bad: "set (snd (collect f xs)) = {u. \<exists>x \<in> set xs. f x = Inl u}"
  by (induction xs) (auto split: prod.splits sum.splits)

lemma collect_all_ok: "(\<And>x. x \<in> set xs \<Longrightarrow> f x = Inr (g x)) \<Longrightarrow> collect f xs = (map g xs, [])"
  by (induction xs) auto

lemma collect_append:
  "collect f (xs @ ys) =
     (fst (collect f xs) @ fst (collect f ys), snd (collect f xs) @ snd (collect f ys))"
  by (induction xs) (auto split: prod.splits sum.splits)

section \<open>64-bit integers\<close>

text \<open>Go's \<open>int\<close> on a 64-bit platform: results are reduced to the signed range, and
  division truncates towards zero.\<close>

definition int_min :: int where "int_min = - 9223372036854775808"
definition int_max :: int where "int_max = 9223372036854775807"

definition in_int64 :: "int \<Rightarrow> bool" where
  "in_int64 x \<longleftrightarrow> int_min \<le> x \<and> x \<le> int_max"

definition wrap64 :: "int \<Rightarrow> int" where
  "wrap64 x = (x + 9223372036854775808) mod 18446744073709551616 - 9223372036854775808"

definition go_quot :: "int \<Rightarrow> int \<Rightarrow> int" where
  "go_quot a b = wrap64 (sgn a * sgn b * (\<bar>a\<bar> div \<bar>b\<bar>))"

lemma wrap64_id [simp, go_int]: "in_int64 x \<Longrightarrow> wrap64 x = x"
  by (simp add: wrap64_def in_int64_def int_min_def int_max_def)

lemma wrap64_range [simp, intro]: "in_int64 (wrap64 x)"
  by (simp add: wrap64_def in_int64_def int_min_def int_max_def)

lemma go_quot_range [simp, intro]: "in_int64 (go_quot a b)"
  by (simp add: go_quot_def)

lemma go_quot_nonneg:
  assumes "0 \<le> a" "0 < b" "in_int64 a"
  shows "go_quot a b = a div b"
proof (cases "a = 0")
  case True
  then show ?thesis by (simp add: go_quot_def wrap64_def)
next
  case False
  with assms have "sgn a * sgn b * (\<bar>a\<bar> div \<bar>b\<bar>) = a div b" by simp
  moreover have "0 \<le> a div b" "a div b \<le> a"
    using assms zdiv_mono2 [of a 1 b] by (auto simp: pos_imp_zdiv_nonneg_iff)
  with assms(3) have "in_int64 (a div b)"
    by (auto simp: in_int64_def int_min_def)
  ultimately show ?thesis by (simp add: go_quot_def)
qed

lemma go_quot_neg_le_0:
  assumes "a < 0" "0 < b" "in_int64 a"
  shows "go_quot a b \<le> 0"
proof -
  have "\<bar>a\<bar> div b \<le> \<bar>a\<bar>" "0 \<le> \<bar>a\<bar> div b"
    using assms zdiv_mono2 [of "\<bar>a\<bar>" 1 b] by (auto simp: pos_imp_zdiv_nonneg_iff)
  with assms have "in_int64 (- (\<bar>a\<bar> div b))"
    by (auto simp: in_int64_def int_max_def int_min_def)
  with assms \<open>0 \<le> \<bar>a\<bar> div b\<close> show ?thesis
    by (simp add: go_quot_def)
qed

end
