(* ===== verification/Go_Strings.thy ===== *)
theory Go_Strings
  imports Prelude "HOL-Library.Char_ord" "HOL-Library.List_Lexorder"
begin

text \<open>
  The part of Go's \<open>strings\<close>, \<open>strconv\<close> and \<open>sort\<close> packages the source uses.
  A Go string is its byte sequence, a \<open>string\<close> here. White space and letter case are the
  ASCII ones: \<open>TrimSpace\<close>, \<open>ToLower\<close>, \<open>ToUpper\<close>, \<open>Fields\<close> and
  \<open>EqualFold\<close> agree with Go on strings of ASCII bytes, and leave other bytes alone.
\<close>

named_theorems go_str "facts about Go strings"

definition is_space :: "char \<Rightarrow> bool" where
  "is_space c \<longleftrightarrow> c \<in> {CHR 0x09, CHR 0x0A, CHR 0x0B, CHR 0x0C, CHR 0x0D, CHR '' ''}"

definition lower_char :: "char \<Rightarrow> char" where
  "lower_char c = (let n = of_char c :: nat in if 65 \<le> n \<and> n \<le> 90 then char_of (n + 32) else c)"

definition upper_char :: "char \<Rightarrow> char" where
  "upper_char c = (let n = of_char c :: nat in if 97 \<le> n \<and> n \<le> 122 then char_of (n - 32) else c)"

definition trim_left :: "string \<Rightarrow> string" where
  "trim_left s = dropWhile is_space s"

definition trim_space :: "string \<Rightarrow> string" where
  "trim_space s = rev (dropWhile is_space (rev (trim_left s)))"

definition to_lower :: "string \<Rightarrow> string" where
  "to_lower s = map lower_char s"

definition to_upper :: "string \<Rightarrow> string" where
  "to_upper s = map upper_char s"

definition equal_fold :: "string \<Rightarrow> string \<Rightarrow> bool" where
  "equal_fold a b \<longleftrightarrow> to_lower a = to_lower b"

text \<open>\<open>strings.Split(s, sep)\<close> for a one-byte separator, and the split at runs of bytes in a class.\<close>

fun split_by :: "(char \<Rightarrow> bool) \<Rightarrow> string \<Rightarrow> string list" where
  "split_by P [] = [[]]"
| "split_by P (x # xs) =
     (if P x then [] # split_by P xs
      else case split_by P xs of [] \<Rightarrow> [[x]] | w # ws \<Rightarrow> (x # w) # ws)"

definition split_on :: "char \<Rightarrow> string \<Rightarrow> string list" where
  "split_on c s = split_by (\<lambda>x. x = c) s"

definition str_fields :: "string \<Rightarrow> string list" where
  "str_fields s = filter (\<lambda>w. w \<noteq> []) (split_by is_space s)"

text \<open>\<open>strings.Cut(s, sep)\<close>: the text before and after the first occurrence of \<open>sep\<close>.\<close>

fun cut_at :: "string \<Rightarrow> string \<Rightarrow> (string \<times> string) option" where
  "cut_at sep [] = (if sep = [] then Some ([], []) else None)"
| "cut_at sep (x # xs) =
     (if prefix sep (x # xs) then Some ([], drop (length sep) (x # xs))
      else map_option (\<lambda>(a, b). (x # a, b)) (cut_at sep xs))"

definition contains_sub :: "string \<Rightarrow> string \<Rightarrow> bool" where
  "contains_sub s sep \<longleftrightarrow> cut_at sep s \<noteq> None"

fun join :: "string \<Rightarrow> string list \<Rightarrow> string" where
  "join sep [] = []"
| "join sep [x] = x"
| "join sep (x # y # zs) = x @ sep @ join sep (y # zs)"

text \<open>\<open>strconv.Itoa\<close> and \<open>fmt.Sprintf("%d", n)\<close>.\<close>

definition digit_char :: "nat \<Rightarrow> char" where
  "digit_char d = char_of (48 + d)"

fun nat_digits :: "nat \<Rightarrow> string" where
  "nat_digits n = (if n < 10 then [digit_char n] else nat_digits (n div 10) @ [digit_char (n mod 10)])"

declare nat_digits.simps [simp del]

definition itoa :: "int \<Rightarrow> string" where
  "itoa n = (if n < 0 then CHR ''-'' # nat_digits (nat (- n)) else nat_digits (nat n))"

definition format_bool :: "bool \<Rightarrow> string" where
  "format_bool b = (if b then ''true'' else ''false'')"

text \<open>\<open>sort.Strings\<close> orders bytewise.\<close>

definition sort_strings :: "string list \<Rightarrow> string list" where
  "sort_strings xs = sort xs"

section \<open>Trimming\<close>

lemma hd_dropWhile_not: "dropWhile P xs \<noteq> [] \<Longrightarrow> \<not> P (hd (dropWhile P xs))"
  by (induction xs) auto

lemma dropWhile_id: "xs = [] \<or> \<not> P (hd xs) \<Longrightarrow> dropWhile P xs = xs"
  by (cases xs) auto

definition is_trimmed :: "string \<Rightarrow> bool" where
  "is_trimmed s \<longleftrightarrow> s = [] \<or> (\<not> is_space (hd s) \<and> \<not> is_space (last s))"

lemma trim_right_suffix: "\<exists>t. xs = rev (dropWhile P (rev xs)) @ t"
  by (metis rev_append rev_rev_ident takeWhile_dropWhile_id)

lemma hd_rev_dropWhile_rev:
  assumes "rev (dropWhile P (rev xs)) \<noteq> []"
  shows "hd (rev (dropWhile P (rev xs))) = hd xs"
proof -
  obtain t where "xs = rev (dropWhile P (rev xs)) @ t"
    using trim_right_suffix by blast
  then show ?thesis using assms by (metis hd_append2)
qed

lemma trimmed_trim_space [simp, intro]: "is_trimmed (trim_space s)"
proof (cases "trim_space s = []")
  case True
  then show ?thesis by (simp add: is_trimmed_def)
next
  case False
  let ?l = "trim_left s" and ?t = "rev (dropWhile is_space (rev (trim_left s)))"
  have t: "?t \<noteq> []" using False by (simp add: trim_space_def)
  then have "hd ?t = hd ?l" by (rule hd_rev_dropWhile_rev)
  moreover have "?l \<noteq> []"
  proof
    assume "?l = []"
    with t show False by simp
  qed
  then have "\<not> is_space (hd ?l)" unfolding trim_left_def by (rule hd_dropWhile_not)
  moreover have "last ?t = hd (dropWhile is_space (rev ?l))"
    using t by (simp add: last_rev)
  moreover have "\<not> is_space (hd (dropWhile is_space (rev ?l)))"
  proof (rule hd_dropWhile_not)
    show "dropWhile is_space (rev ?l) \<noteq> []" using t by simp
  qed
  ultimately show ?thesis by (simp add: is_trimmed_def trim_space_def)
qed

lemma trim_space_id [simp, go_str]: "is_trimmed s \<Longrightarrow> trim_space s = s"
  by (cases s rule: rev_cases)
    (auto simp: is_trimmed_def trim_space_def trim_left_def dropWhile_id hd_rev)

lemma trim_space_idem [simp, go_str]: "trim_space (trim_space s) = trim_space s"
  by simp

lemma trim_space_Nil [simp, go_str]: "trim_space [] = []"
  by (simp add: trim_space_def trim_left_def)

lemma set_trim_space: "set (trim_space s) \<subseteq> set s"
  unfolding trim_space_def trim_left_def
  by (metis set_dropWhileD set_rev subsetI)

lemma trim_space_eq_Nil: "trim_space s = [] \<longleftrightarrow> (\<forall>c \<in> set s. is_space c)"
proof
  assume "trim_space s = []"
  then have "dropWhile is_space (rev (dropWhile is_space s)) = []"
    by (simp add: trim_space_def trim_left_def)
  then have a: "\<forall>c \<in> set (dropWhile is_space s). is_space c"
    by (simp add: dropWhile_eq_Nil_conv)
  have "dropWhile is_space s = []"
  proof (rule ccontr)
    assume "dropWhile is_space s \<noteq> []"
    with a hd_dropWhile_not [of is_space s] show False by (metis hd_in_set)
  qed
  then show "\<forall>c \<in> set s. is_space c" by (simp add: dropWhile_eq_Nil_conv)
next
  assume "\<forall>c \<in> set s. is_space c"
  then show "trim_space s = []"
    by (simp add: trim_space_def trim_left_def dropWhile_eq_Nil_conv [THEN iffD2])
qed

section \<open>Letter case\<close>

lemma of_char_char_of [simp]: "n < 256 \<Longrightarrow> of_char (char_of n :: char) = (n :: nat)"
  by (simp add: of_char_of)

lemma lower_char_idem [simp, go_str]: "lower_char (lower_char c) = lower_char c"
  by (auto simp: lower_char_def Let_def)

lemma upper_char_idem [simp, go_str]: "upper_char (upper_char c) = upper_char c"
  by (auto simp: upper_char_def Let_def)

lemma to_lower_idem [simp, go_str]: "to_lower (to_lower s) = to_lower s"
  by (simp add: to_lower_def)

lemma to_upper_idem [simp, go_str]: "to_upper (to_upper s) = to_upper s"
  by (simp add: to_upper_def)

lemma to_lower_Nil [simp, go_str]: "to_lower [] = []"
  by (simp add: to_lower_def)

lemma to_lower_eq_Nil [simp, go_str]: "to_lower s = [] \<longleftrightarrow> s = []"
  by (simp add: to_lower_def)

lemma to_upper_eq_Nil [simp, go_str]: "to_upper s = [] \<longleftrightarrow> s = []"
  by (simp add: to_upper_def)

lemma is_space_code: "is_space c \<longleftrightarrow> (of_char c :: nat) \<in> {9, 10, 11, 12, 13, 32}"
proof -
  have "c = char_of (of_char c :: nat)" by simp
  then show ?thesis
    unfolding is_space_def
    by (auto simp: of_char_eq_iff [symmetric, where ?'a = nat])
qed

lemma is_space_lower_char [simp, go_str]: "is_space (lower_char c) = is_space c"
  unfolding is_space_code by (auto simp: lower_char_def Let_def)

lemma is_space_upper_char [simp, go_str]: "is_space (upper_char c) = is_space c"
  unfolding is_space_code by (auto simp: upper_char_def Let_def)

lemma trim_space_map:
  assumes "\<And>c. is_space (f c) = is_space c"
  shows "trim_space (map f s) = map f (trim_space s)"
proof -
  have "is_space \<circ> f = is_space" using assms by auto
  then show ?thesis
    by (simp add: trim_space_def trim_left_def dropWhile_map rev_map)
qed

lemma trimmed_to_lower [simp, go_str]: "is_trimmed (to_lower s) = is_trimmed s"
  by (auto simp: is_trimmed_def to_lower_def hd_map last_map)

lemma trim_space_to_lower [go_str]: "trim_space (to_lower s) = to_lower (trim_space s)"
  by (simp add: to_lower_def trim_space_map)

lemma trim_space_to_upper [go_str]: "trim_space (to_upper s) = to_upper (trim_space s)"
  by (simp add: to_upper_def trim_space_map)

section \<open>Splitting and joining\<close>

lemma split_by_not_Nil [simp]: "split_by P s \<noteq> []"
  by (induction s) (auto split: list.splits)

lemma split_by_free: "w \<in> set (split_by P s) \<Longrightarrow> c \<in> set w \<Longrightarrow> \<not> P c"
proof (induction s arbitrary: w)
  case (Cons x xs)
  then show ?case
    by (cases "split_by P xs") (fastforce split: if_splits)+
qed simp

lemma split_on_free: "w \<in> set (split_on c s) \<Longrightarrow> c \<notin> set w"
  unfolding split_on_def by (auto dest: split_by_free)

lemma split_by_none: "\<forall>c \<in> set s. \<not> P c \<Longrightarrow> split_by P s = [s]"
  by (induction s) auto

lemma split_on_none [go_str]: "c \<notin> set s \<Longrightarrow> split_on c s = [s]"
  unfolding split_on_def by (rule split_by_none) auto

lemma split_by_append:
  assumes "\<forall>c \<in> set s. \<not> P c" "P x"
  shows "split_by P (s @ x # t) = s # split_by P t"
  using assms by (induction s) auto

lemma split_on_join:
  assumes "xs \<noteq> []" "\<forall>x \<in> set xs. c \<notin> set x"
  shows "split_on c (join [c] xs) = xs"
  using assms
proof (induction "[c]" xs rule: join.induct)
  case (2 x)
  then show ?case by (simp add: split_on_none)
next
  case (3 x y zs)
  then have "split_by (\<lambda>z. z = c) (x @ c # join [c] (y # zs))
      = x # split_by (\<lambda>z. z = c) (join [c] (y # zs))"
    by (intro split_by_append) auto
  with 3 show ?case by (simp add: split_on_def)
qed simp

lemma join_split_on: "join [c] (split_on c s) = s"
proof (induction s)
  case (Cons x xs)
  have ne: "split_on c xs \<noteq> []" by (simp add: split_on_def)
  then obtain w ws where w: "split_on c xs = w # ws" by (cases "split_on c xs") auto
  show ?case
  proof (cases "x = c")
    case True
    with Cons w show ?thesis by (simp add: split_on_def)
  next
    case False
    with w have "split_on c (x # xs) = (x # w) # ws" by (simp add: split_on_def)
    with Cons w show ?thesis by (cases ws) auto
  qed
qed (simp add: split_on_def)

lemma cut_at_Some: "cut_at sep s = Some (a, b) \<Longrightarrow> s = a @ sep @ b"
proof (induction s arbitrary: a)
  case (Cons x xs)
  then show ?case
    by (auto split: if_splits simp: prefix_def)
qed (auto split: if_splits)

lemma cut_at_append_singleton:
  assumes "c \<notin> set a"
  shows "cut_at [c] (a @ c # b) = Some (a, b)"
  using assms by (induction a) auto

lemma cut_at_notin: "c \<notin> set s \<Longrightarrow> cut_at [c] s = None"
  by (induction s) auto

lemma str_fields_word: "w \<in> set (str_fields s) \<Longrightarrow> w \<noteq> [] \<and> is_trimmed w"
  unfolding str_fields_def is_trimmed_def
  using split_by_free [of w is_space s] by (auto dest: hd_in_set last_in_set)

section \<open>Sorting\<close>

lemma set_sort_strings [simp]: "set (sort_strings xs) = set xs"
  by (simp add: sort_strings_def)

lemma sorted_sort_strings [simp, intro]: "sorted (sort_strings xs)"
  by (simp add: sort_strings_def)

lemma length_sort_strings [simp]: "length (sort_strings xs) = length xs"
  by (simp add: sort_strings_def)

section \<open>Normalisers\<close>

text \<open>
  The source compares field names, operator tokens, columns and header values only after
  normalising them (trimming, folding case). A component that does so relies on one law:
  normalising twice is normalising once. Two texts are then the same key exactly when their
  normal forms are equal, and a normal form may be stored or looked up as it is.
\<close>

locale normaliser =
  fixes norm :: "string \<Rightarrow> string"
  assumes norm_idem: "norm (norm s) = norm s"
    and norm_Nil: "norm [] = []"
begin

definition normal :: "string \<Rightarrow> bool" where
  "normal s \<longleftrightarrow> norm s = s"

lemma normal_norm: "normal (norm s)"
  by (simp add: normal_def norm_idem)

lemma normal_fixpoint: "normal s \<longleftrightarrow> (\<exists>t. s = norm t)"
  by (auto simp: normal_def norm_idem) (metis)

lemma lookup_norm_norm: "map_of m (norm (norm s)) = map_of m (norm s)"
  by (simp add: norm_idem)

lemma blank_norm: "norm s = [] \<longleftrightarrow> norm (norm s) = []"
  by (simp add: norm_idem)

end

interpretation trim: normaliser trim_space
  by unfold_locales auto

interpretation lower: normaliser to_lower
  by unfold_locales auto

end
