(* ===== verification/Query_Operators.thy ===== *)
theory Query_Operators
  imports Go_Strings
begin

text \<open>
  Operators of the query language: \<open>operator.go\<close>, \<open>errors.go\<close>, \<open>types.go\<close> and
  \<open>options.go\<close> of \<open>pkg/go-query-bun\<close>, with the operator tables of \<open>options.go\<close>.
  An operator token of a request (\<open>gte\<close> in \<open>age__gte\<close>) is resolved to a canonical
  operator and the SQL operator text; the text never comes from the token.
\<close>

section \<open>Data\<close>

datatype validation_code =
  ValidationUnsupportedOperator | ValidationSearchColumnsRequired | ValidationFieldNotAllowed

record validation_error =
  ve_code :: validation_code
  ve_field :: string
  ve_operator :: string
  ve_search :: string

record operator =
  op_token :: string
  op_canonical :: string
  op_sql :: string

record config =
  allowed_fields :: "(string, string) gomap"
  search_columns :: "string list"
  operator_map :: "(string, string) gomap"
  strict_validation :: bool
  strict_search_columns :: bool
  strict_fields :: bool
  fallback_unsupported :: bool
  default_limit :: int
  default_offset :: int

text \<open>The zero value \<open>Config{}\<close>.\<close>

definition zero_config :: config where
  "zero_config =
     \<lparr>allowed_fields = [], search_columns = [], operator_map = [], strict_validation = False,
      strict_search_columns = False, strict_fields = False, fallback_unsupported = False,
      default_limit = 0, default_offset = 0\<rparr>"

definition canonical_operator_sql :: "(string, string) gomap" where
  "canonical_operator_sql =
     [(''eq'', ''=''), (''ne'', ''<>''), (''gt'', ''>''), (''lt'', ''<''), (''gte'', ''>=''),
      (''lte'', ''<=''), (''in'', ''IN''), (''ilike'', ''ILIKE''), (''like'', ''LIKE''),
      (''and'', ''and''), (''or'', ''or'')]"

definition canonical_operator_by_sql :: "(string, string) gomap" where
  "canonical_operator_by_sql =
     [(''='', ''eq''), (''<>'', ''ne''), (''>'', ''gt''), (''<'', ''lt''), (''>='', ''gte''),
      (''<='', ''lte''), (''IN'', ''in''), (''ILIKE'', ''ilike''), (''LIKE'', ''like''),
      (''AND'', ''and''), (''OR'', ''or'')]"

text \<open>
  The two package-level tables: \<open>operatorMap\<close> of the controller package and
  \<open>defaultOperatorMap\<close> of the query package. \<open>SetOperatorMap\<close> replaces both.
\<close>

record op_tables =
  crud_ops :: "(string, string) gomap"
  bun_ops :: "(string, string) gomap"

definition initial_tables :: op_tables where
  "initial_tables = \<lparr>crud_ops = canonical_operator_sql, bun_ops = canonical_operator_sql\<rparr>"

definition set_default_operator_map :: "(string, string) gomap \<Rightarrow> op_tables \<Rightarrow> op_tables" where
  "set_default_operator_map ops t = t\<lparr>bun_ops := ops\<rparr>"

definition set_operator_map :: "(string, string) gomap \<Rightarrow> op_tables \<Rightarrow> op_tables" where
  "set_operator_map om t =
     (if om = [] then set_default_operator_map [] (t\<lparr>crud_ops := []\<rparr>)
      else set_default_operator_map om (t\<lparr>crud_ops := om\<rparr>))"

section \<open>Resolution\<close>

definition normalize_operator_token :: "string \<Rightarrow> string" where
  "normalize_operator_token op = to_lower (trim_space op)"

definition normalize_sql_operator :: "string \<Rightarrow> string" where
  "normalize_sql_operator op = to_upper (trim_space op)"

definition canonical_operator_for_sql :: "string \<Rightarrow> string" where
  "canonical_operator_for_sql sql =
     (case map_of canonical_operator_by_sql (normalize_sql_operator sql) of
        Some canonical \<Rightarrow> canonical | None \<Rightarrow> '''')"

definition effective_operator_map ::
  "(string, string) gomap \<Rightarrow> (string, string) gomap \<Rightarrow> (string, string) gomap" where
  "effective_operator_map defaults operators = maps_copy defaults operators"

text \<open>The non-blank entry of a table, trimmed: \<open>if mapped, ok := m[k]; ok {if trimmed := \<dots>}\<close>.\<close>

definition mapped_sql :: "(string, string) gomap \<Rightarrow> string \<Rightarrow> string option" where
  "mapped_sql operators k =
     (case map_of operators k of
        None \<Rightarrow> None
      | Some mapped \<Rightarrow> (if trim_space mapped = [] then None else Some (trim_space mapped)))"

definition normalized_token :: "string \<Rightarrow> string" where
  "normalized_token token =
     (let n = normalize_operator_token (trim_space token) in if n = [] then ''eq'' else n)"

definition resolve_operator ::
  "(string, string) gomap \<Rightarrow> string \<Rightarrow> string \<Rightarrow> config \<Rightarrow> validation_error + operator" where
  "resolve_operator defaults token fld cfg =
     (let rawToken = trim_space token;
          normalized = normalized_token token;
          operators = effective_operator_map defaults (operator_map cfg);
          alias =
            (case mapped_sql operators normalized of
               None \<Rightarrow> None
             | Some trimmed \<Rightarrow>
                 (if canonical_operator_for_sql trimmed \<noteq> []
                  then Some \<lparr>op_token = normalized,
                             op_canonical = canonical_operator_for_sql trimmed,
                             op_sql = trimmed\<rparr>
                  else None))
      in case map_of canonical_operator_sql normalized of
           Some canonicalSQL \<Rightarrow>
             Inr \<lparr>op_token = normalized, op_canonical = normalized,
                  op_sql = (case mapped_sql operators normalized of
                              Some trimmed \<Rightarrow> trimmed | None \<Rightarrow> canonicalSQL)\<rparr>
         | None \<Rightarrow>
             (case alias of
                Some op \<Rightarrow> Inr op
              | None \<Rightarrow>
                  (if strict_validation cfg
                   then Inl \<lparr>ve_code = ValidationUnsupportedOperator, ve_field = trim_space fld,
                             ve_operator = rawToken, ve_search = []\<rparr>
                   else Inr \<lparr>op_token = ''eq'', op_canonical = ''eq'',
                             op_sql = (case mapped_sql operators ''eq'' of
                                         Some trimmed \<Rightarrow> trimmed | None \<Rightarrow> ''='')\<rparr>)))"

definition operator_token_supported ::
  "(string, string) gomap \<Rightarrow> string \<Rightarrow> (string, string) gomap \<Rightarrow> bool" where
  "operator_token_supported defaults token operators =
     (let n0 = normalize_operator_token token;
          normalized = (if n0 = [] then ''eq'' else n0)
      in if map_of canonical_operator_sql normalized \<noteq> None then True
         else (case map_of (effective_operator_map defaults operators) normalized of
                 None \<Rightarrow> False
               | Some mapped \<Rightarrow>
                   (if trim_space mapped = [] then False
                    else canonical_operator_for_sql mapped \<noteq> [])))"

definition resolve_sql_operator ::
  "(string, string) gomap \<Rightarrow> string \<Rightarrow> config \<Rightarrow> string" where
  "resolve_sql_operator defaults op cfg =
     (case resolve_operator defaults op '''' cfg of Inl _ \<Rightarrow> op | Inr r \<Rightarrow> op_sql r)"

text \<open>
  \<open>resolveFilterOperator\<close>: the operator, whether it may be used, or the validation error.
\<close>

definition resolve_filter_operator ::
  "(string, string) gomap \<Rightarrow> string \<Rightarrow> string \<Rightarrow> config \<Rightarrow> validation_error + operator option" where
  "resolve_filter_operator defaults token fld cfg =
     (if operator_token_supported defaults token (operator_map cfg) \<or> fallback_unsupported cfg
      then (case resolve_operator defaults token fld cfg of Inl e \<Rightarrow> Inl e | Inr r \<Rightarrow> Inr (Some r))
      else if strict_validation cfg
      then (case resolve_operator defaults token fld cfg of Inl e \<Rightarrow> Inl e | Inr _ \<Rightarrow> Inr None)
      else Inr None)"

section \<open>Facts\<close>

text \<open>The SQL operator texts a build can emit: the canonical ones and the entries of the tables.\<close>

definition trusted_operators :: "(string, string) gomap \<Rightarrow> config \<Rightarrow> string set" where
  "trusted_operators defaults cfg =
     vals canonical_operator_sql \<union>
     trim_space ` (vals defaults \<union> vals (operator_map cfg))"

definition canonical_operators :: "string set" where
  "canonical_operators = keys canonical_operator_sql"

lemma canonical_operators_eq:
  "canonical_operators =
     {''eq'', ''ne'', ''gt'', ''lt'', ''gte'', ''lte'', ''in'', ''ilike'', ''like'', ''and'', ''or''}"
  by (auto simp: canonical_operators_def canonical_operator_sql_def)

lemma canonical_sql_dom: "map_of canonical_operator_sql k = None \<longleftrightarrow> k \<notin> canonical_operators"
  unfolding canonical_operators_def by (rule map_of_eq_None_iff)

lemma normalize_operator_token_idem [simp, go_str]:
  "normalize_operator_token (normalize_operator_token t) = normalize_operator_token t"
  by (simp add: normalize_operator_token_def trim_space_to_lower)

lemma normalize_operator_token_trim [simp, go_str]:
  "normalize_operator_token (trim_space t) = normalize_operator_token t"
  by (simp add: normalize_operator_token_def)

lemma normalize_sql_operator_idem [simp, go_str]:
  "normalize_sql_operator (normalize_sql_operator t) = normalize_sql_operator t"
  by (simp add: normalize_sql_operator_def trim_space_to_upper)

interpretation token: normaliser normalize_operator_token
  by (unfold_locales, simp, simp add: normalize_operator_token_def)

interpretation sqlop: normaliser normalize_sql_operator
  by (unfold_locales, simp, simp add: normalize_sql_operator_def to_upper_def)

lemma normalized_token_eq [simp]: "normalized_token ''eq'' = ''eq''"
  by code_simp

lemma normalized_token_idem [simp, go_str]:
  "normalized_token (normalized_token t) = normalized_token t"
  using normalized_token_eq by (simp add: normalized_token_def Let_def)

lemma mapped_sql_Some:
  "mapped_sql m k = Some s \<Longrightarrow> s \<noteq> [] \<and> is_trimmed s \<and> s \<in> trim_space ` vals m"
  by (auto simp: mapped_sql_def split: option.splits if_splits dest: map_of_vals)

lemma mapped_sql_effective:
  assumes "mapped_sql (effective_operator_map defaults (operator_map cfg)) k = Some s"
  shows "s \<noteq> [] \<and> s \<in> trusted_operators defaults cfg"
proof -
  from mapped_sql_Some [OF assms] obtain v where
    "s = trim_space v" "v \<in> vals (effective_operator_map defaults (operator_map cfg))" "s \<noteq> []"
    by auto
  moreover from this have "v \<in> vals defaults \<union> vals (operator_map cfg)"
    using subsetD [OF vals_maps_copy [of defaults "operator_map cfg"]]
    unfolding effective_operator_map_def by blast
  ultimately show ?thesis
    unfolding trusted_operators_def by (metis UnI2 imageI)
qed

lemma canonical_sql_trusted:
  "map_of canonical_operator_sql k = Some s \<Longrightarrow> s \<noteq> [] \<and> s \<in> trusted_operators defaults cfg"
  by (auto simp: trusted_operators_def dest: map_of_vals)
    (auto simp: canonical_operator_sql_def split: if_splits)

lemma eq_sql_trusted: "''='' \<in> trusted_operators defaults cfg"
  by (auto simp: trusted_operators_def canonical_operator_sql_def)

lemma canonical_for_sql:
  "canonical_operator_for_sql s \<noteq> [] \<Longrightarrow> canonical_operator_for_sql s \<in> canonical_operators"
  by (auto simp: canonical_operator_for_sql_def canonical_operators_eq canonical_operator_by_sql_def
      split: option.splits if_splits)

lemma resolve_operator_trusted:
  assumes "resolve_operator defaults token fld cfg = Inr r"
  shows "op_sql r \<noteq> [] \<and> op_sql r \<in> trusted_operators defaults cfg"
  using assms eq_sql_trusted [of defaults cfg]
  by (auto simp: resolve_operator_def Let_def split: option.splits if_splits
      dest: mapped_sql_effective canonical_sql_trusted)

lemma resolve_operator_canonical:
  assumes "resolve_operator defaults token fld cfg = Inr r"
  shows "op_canonical r \<in> canonical_operators"
proof -
  have "''eq'' \<in> canonical_operators" by (simp add: canonical_operators_eq)
  moreover have "map_of canonical_operator_sql k = Some s \<Longrightarrow> k \<in> canonical_operators" for k s
    using canonical_sql_dom [of k] by auto
  ultimately show ?thesis
    using assms
    by (auto simp: resolve_operator_def Let_def canonical_for_sql split: option.splits if_splits)
qed

lemma resolve_operator_lenient:
  "\<not> strict_validation cfg \<Longrightarrow> \<exists>r. resolve_operator defaults token fld cfg = Inr r"
  by (auto simp: resolve_operator_def Let_def split: option.splits)

lemma resolve_canonical_token:
  "normalized_token token \<in> canonical_operators \<Longrightarrow>
   \<exists>s. resolve_operator defaults token fld cfg =
        Inr \<lparr>op_token = normalized_token token, op_canonical = normalized_token token, op_sql = s\<rparr>"
  using canonical_sql_dom [of "normalized_token token"]
  by (auto simp: resolve_operator_def Let_def split: option.splits)

lemma canonical_for_sql_trim [simp, go_str]:
  "canonical_operator_for_sql (trim_space s) = canonical_operator_for_sql s"
  by (simp add: canonical_operator_for_sql_def normalize_sql_operator_def)

lemma operator_token_supported_alt:
  "operator_token_supported defaults token ops \<longleftrightarrow>
   normalized_token token \<in> canonical_operators \<or>
   (case mapped_sql (effective_operator_map defaults ops) (normalized_token token) of
      None \<Rightarrow> False | Some s \<Rightarrow> canonical_operator_for_sql s \<noteq> [])"
proof -
  have n: "normalized_token token =
      (let n0 = normalize_operator_token token in if n0 = [] then ''eq'' else n0)"
    by (simp add: normalized_token_def)
  show ?thesis
    unfolding operator_token_supported_def Let_def n [unfolded Let_def, symmetric]
    using canonical_sql_dom [of "normalized_token token"]
    by (auto simp: mapped_sql_def split: option.splits)
qed

lemma resolve_operator_error:
  "resolve_operator defaults token fld cfg = Inl e \<longleftrightarrow>
   strict_validation cfg \<and> \<not> operator_token_supported defaults token (operator_map cfg) \<and>
   e = \<lparr>ve_code = ValidationUnsupportedOperator, ve_field = trim_space fld,
        ve_operator = trim_space token, ve_search = []\<rparr>"
proof (cases "map_of canonical_operator_sql (normalized_token token)")
  case None
  then show ?thesis
    unfolding operator_token_supported_alt resolve_operator_def Let_def
    using canonical_sql_dom [of "normalized_token token"]
    by (cases "mapped_sql (effective_operator_map defaults (operator_map cfg)) (normalized_token token)")
      auto
next
  case (Some s)
  then show ?thesis
    unfolding operator_token_supported_alt resolve_operator_def Let_def
    using canonical_sql_dom [of "normalized_token token"] by auto
qed

lemma operator_token_supported_iff:
  "operator_token_supported defaults token (operator_map cfg) \<longleftrightarrow>
   (\<exists>r. resolve_operator defaults token fld (cfg\<lparr>strict_validation := True\<rparr>) = Inr r)"
  using resolve_operator_error [of defaults token fld "cfg\<lparr>strict_validation := True\<rparr>"]
  by (cases "resolve_operator defaults token fld (cfg\<lparr>strict_validation := True\<rparr>)") auto

lemma resolve_operator_again:
  assumes "resolve_operator defaults token fld cfg = Inr r"
  shows "resolve_operator defaults (op_token r) fld' cfg = Inr r"
proof -
  have c: "map_of canonical_operator_sql ''eq'' = Some ''=''"
    by (simp add: canonical_operator_sql_def)
  show ?thesis
    using assms
    by (auto simp: resolve_operator_def Let_def c split: option.splits if_splits)
qed

lemma resolve_filter_operator_error:
  "resolve_filter_operator defaults token fld cfg = Inl e \<Longrightarrow>
   strict_validation cfg \<and> \<not> operator_token_supported defaults token (operator_map cfg) \<and>
   ve_code e = ValidationUnsupportedOperator \<and> ve_field e = trim_space fld"
  by (auto simp: resolve_filter_operator_def resolve_operator_error split: sum.splits if_splits)

lemma resolve_filter_operator_used:
  "resolve_filter_operator defaults token fld cfg = Inr (Some r) \<Longrightarrow>
   resolve_operator defaults token fld cfg = Inr r"
  by (auto simp: resolve_filter_operator_def split: sum.splits if_splits)

lemma resolve_sql_operator_canonical:
  assumes "op \<in> canonical_operators"
  shows "resolve_sql_operator defaults op cfg \<noteq> [] \<and>
         resolve_sql_operator defaults op cfg \<in> trusted_operators defaults cfg"
proof -
  have "normalized_token op = op" "op \<noteq> []"
    using assms unfolding canonical_operators_eq by (auto, code_simp+)
  with assms obtain s where "resolve_operator defaults op [] cfg =
      Inr \<lparr>op_token = op, op_canonical = op, op_sql = s\<rparr>"
    using resolve_canonical_token [of op defaults "[]" cfg] by auto
  then show ?thesis
    using resolve_operator_trusted by (fastforce simp: resolve_sql_operator_def)
qed

section \<open>The interface of an operator source\<close>

text \<open>
  What the criteria builders rely on: whatever token they resolve, the SQL text that comes back
  is non-blank and one of a fixed set of texts, so no request can add a new one.
\<close>

locale operator_source =
  fixes resolve :: "string \<Rightarrow> string \<Rightarrow> 'e + operator"
    and trusted :: "string set"
  assumes resolve_trusted: "resolve token fld = Inr r \<Longrightarrow> op_sql r \<in> trusted"
    and resolve_nonblank: "resolve token fld = Inr r \<Longrightarrow> op_sql r \<noteq> []"
begin

lemma resolved_texts: "{op_sql r | r token fld. resolve token fld = Inr r} \<subseteq> trusted - {[]}"
  by (auto dest: resolve_trusted resolve_nonblank)

end

interpretation ops: operator_source
  "\<lambda>token fld. resolve_operator defaults token fld cfg" "trusted_operators defaults cfg"
  for defaults cfg
  by unfold_locales (auto dest: resolve_operator_trusted)

end
