(* ===== verification/Query_Predicates.thy ===== *)
theory Query_Predicates
  imports Query_Operators
begin

text \<open>
  Predicates of a list query: \<open>predicate.go\<close>, the predicate types of \<open>types.go\<close> and the
  list options of \<open>options.go\<close> of \<open>pkg/go-query-bun\<close>. Filters (a map from
  \<open>field__operator\<close> keys to arbitrary values) and explicit predicates are brought to one
  form; what cannot be brought to it is reported, never dropped silently.
\<close>

section \<open>Dynamic values\<close>

text \<open>
  A value of type \<open>any\<close>, by the case of the type switch of \<open>NormalizeValueStrings\<close> it
  reaches: \<open>AText\<close> is a text marshaler (\<open>None\<close>: marshalling fails), \<open>AStringer\<close> a
  stringer, \<open>AFloat\<close> a float given by its \<open>FormatFloat\<close> text, \<open>ASeq\<close> a slice or
  array of another element type, \<open>ARef\<close> a map, struct, function or channel and
  \<open>AOther\<close> any other value, given by its \<open>fmt.Sprint\<close> text.
\<close>

datatype go_any =
    ANil
  | AString string
  | AStrings "string list"
  | AAnys "go_any list"
  | AText "string option"
  | AStringer string
  | AInt int
  | AFloat string
  | ABool bool
  | ASeq "go_any list"
  | ARef
  | AOther string

definition normalize_string_values :: "string list \<Rightarrow> string list" where
  "normalize_string_values values =
     concat (map (\<lambda>value. filter (\<lambda>t. t \<noteq> []) (map trim_space (split_on CHR '','' value))) values)"

fun normalize_value_strings :: "go_any \<Rightarrow> string list option"
  and normalize_value_list :: "go_any list \<Rightarrow> string list option" where
  "normalize_value_strings ANil = Some []"
| "normalize_value_strings (AString s) = Some (normalize_string_values [s])"
| "normalize_value_strings (AStrings ss) = Some (normalize_string_values ss)"
| "normalize_value_strings (AAnys vs) = normalize_value_list vs"
| "normalize_value_strings (AText t) =
     (case t of None \<Rightarrow> None | Some s \<Rightarrow> Some (normalize_string_values [s]))"
| "normalize_value_strings (AStringer s) = Some (normalize_string_values [s])"
| "normalize_value_strings (AInt n) = Some (normalize_string_values [itoa n])"
| "normalize_value_strings (AFloat s) = Some (normalize_string_values [s])"
| "normalize_value_strings (ABool b) = Some (normalize_string_values [format_bool b])"
| "normalize_value_strings (ASeq vs) = normalize_value_list vs"
| "normalize_value_strings ARef = None"
| "normalize_value_strings (AOther s) = Some (normalize_string_values [s])"
| "normalize_value_list [] = Some []"
| "normalize_value_list (v # vs) =
     (case normalize_value_strings v of
        None \<Rightarrow> None
      | Some a \<Rightarrow> (case normalize_value_list vs of None \<Rightarrow> None | Some b \<Rightarrow> Some (a @ b)))"

section \<open>Predicates and options\<close>

datatype unsupported_reason =
  UnsupportedUnknownField | UnsupportedDisallowedField | UnsupportedOperator
| UnsupportedEmptyValue | UnsupportedValueShape

record predicate =
  pr_field :: string
  pr_operator :: string
  pr_values :: "string list"
  pr_raw_key :: string
  pr_raw_value :: go_any

record unsupported_predicate =
  up_field :: string
  up_operator :: string
  up_raw_key :: string
  up_raw_value :: go_any
  up_reason :: unsupported_reason

record list_options =
  lo_page :: int
  lo_per_page :: int
  lo_limit :: int
  lo_limit_set :: bool
  lo_offset :: int
  lo_offset_set :: bool
  lo_sort_by :: string
  lo_sort_desc :: bool
  lo_order :: string
  lo_search :: string
  lo_filters :: "(string, go_any) gomap"
  lo_predicates :: "predicate list"
  lo_select :: "string list"
  lo_include :: "string list"

text \<open>The zero value \<open>ListOptions{}\<close>.\<close>

definition zero_list_options :: list_options where
  "zero_list_options =
     \<lparr>lo_page = 0, lo_per_page = 0, lo_limit = 0, lo_limit_set = False, lo_offset = 0,
      lo_offset_set = False, lo_sort_by = [], lo_sort_desc = False, lo_order = [], lo_search = [],
      lo_filters = [], lo_predicates = [], lo_select = [], lo_include = []\<rparr>"

text \<open>\<open>ParsePredicateKey\<close>: \<open>strings.SplitN(key, "__", 2)\<close> cuts at the first \<open>__\<close>.\<close>

definition parse_predicate_key :: "string \<Rightarrow> string \<times> string" where
  "parse_predicate_key key =
     (case cut_at ''__'' (trim_space key) of
        None \<Rightarrow> (trim_space (trim_space key), ''eq'')
      | Some (f, rest) \<Rightarrow>
          (let op = to_lower (trim_space rest)
           in (trim_space f, if op \<noteq> [] then op else ''eq'')))"

text \<open>One iteration of the loop over explicit predicates.\<close>

definition normalize_predicate :: "predicate \<Rightarrow> unsupported_predicate + predicate" where
  "normalize_predicate p =
     (let fld = trim_space (pr_field p);
          reject = (\<lambda>reason. Inl \<lparr>up_field = fld, up_operator = pr_operator p,
                      up_raw_key = pr_raw_key p, up_raw_value = pr_raw_value p,
                      up_reason = reason\<rparr>)
      in if fld = [] then reject UnsupportedUnknownField
         else case normalize_value_strings (AStrings (pr_values p)) of
                None \<Rightarrow> reject UnsupportedValueShape
              | Some vs \<Rightarrow>
                  (if vs = [] then reject UnsupportedEmptyValue
                   else Inr \<lparr>pr_field = fld, pr_operator = to_lower (trim_space (pr_operator p)),
                             pr_values = vs, pr_raw_key = pr_raw_key p,
                             pr_raw_value = pr_raw_value p\<rparr>))"

text \<open>One iteration of the loop over filters.\<close>

definition normalize_filter_entry :: "string \<times> go_any \<Rightarrow> unsupported_predicate + predicate" where
  "normalize_filter_entry entry =
     (let rawKey = fst entry; rawValue = snd entry;
          fld = fst (parse_predicate_key rawKey);
          op = snd (parse_predicate_key rawKey);
          reject = (\<lambda>reason. Inl \<lparr>up_field = fld, up_operator = op, up_raw_key = rawKey,
                      up_raw_value = rawValue, up_reason = reason\<rparr>)
      in if fld = [] then reject UnsupportedUnknownField
         else case normalize_value_strings rawValue of
                None \<Rightarrow> reject UnsupportedValueShape
              | Some vs \<Rightarrow>
                  (if vs = [] then reject UnsupportedEmptyValue
                   else Inr \<lparr>pr_field = fld, pr_operator = op, pr_values = vs,
                             pr_raw_key = rawKey, pr_raw_value = rawValue\<rparr>))"

text \<open>\<open>NormalizePredicatesWithUnsupported\<close>: explicit predicates take precedence.\<close>

definition normalize_predicates_with_unsupported ::
  "list_options \<Rightarrow> predicate list \<times> unsupported_predicate list" where
  "normalize_predicates_with_unsupported opts =
     (if lo_predicates opts \<noteq> [] then collect normalize_predicate (lo_predicates opts)
      else if lo_filters opts = [] then ([], [])
      else collect normalize_filter_entry (lo_filters opts))"

definition normalize_predicates :: "list_options \<Rightarrow> predicate list" where
  "normalize_predicates opts = fst (normalize_predicates_with_unsupported opts)"

section \<open>Facts\<close>

definition clean_value :: "string \<Rightarrow> bool" where
  "clean_value v \<longleftrightarrow> v \<noteq> [] \<and> is_trimmed v \<and> CHR '','' \<notin> set v"

definition wf_predicate :: "predicate \<Rightarrow> bool" where
  "wf_predicate p \<longleftrightarrow> pr_field p \<noteq> [] \<and> is_trimmed (pr_field p) \<and>
     is_trimmed (pr_operator p) \<and> to_lower (pr_operator p) = pr_operator p \<and>
     pr_values p \<noteq> [] \<and> list_all clean_value (pr_values p)"

lemma normalize_string_values_clean: "list_all clean_value (normalize_string_values values)"
  using set_trim_space split_on_free
  by (fastforce simp: normalize_string_values_def clean_value_def list_all_iff)

lemma normalize_value_strings_clean:
  "normalize_value_strings v = Some vs \<Longrightarrow> list_all clean_value vs"
  "normalize_value_list xs = Some vs \<Longrightarrow> list_all clean_value vs"
  by (induction v and xs arbitrary: vs and vs rule: normalize_value_strings_normalize_value_list.induct)
    (auto simp: normalize_string_values_clean split: option.splits)

lemma normalize_string_values_append:
  "normalize_string_values (xs @ ys) = normalize_string_values xs @ normalize_string_values ys"
  by (simp add: normalize_string_values_def)

lemma normalize_clean_value: "clean_value v \<Longrightarrow> normalize_string_values [v] = [v]"
  by (simp add: normalize_string_values_def clean_value_def split_on_none)

lemma normalize_string_values_id [simp]:
  "list_all clean_value vs \<Longrightarrow> normalize_string_values vs = vs"
proof (induction vs)
  case (Cons v vs)
  then show ?case
    using normalize_string_values_append [of "[v]" vs] normalize_clean_value [of v] by simp
qed (simp add: normalize_string_values_def)

lemma normalize_joined_values:
  assumes "vs \<noteq> []" "list_all clean_value vs"
  shows "normalize_string_values [join '','' vs] = vs"
proof -
  have "split_on CHR '','' (join '','' vs) = vs"
    using assms by (intro split_on_join) (auto simp: list_all_iff clean_value_def)
  moreover have "filter (\<lambda>t. t \<noteq> []) (map trim_space vs) = vs"
    using assms(2) by (induction vs) (auto simp: clean_value_def)
  ultimately show ?thesis by (simp add: normalize_string_values_def)
qed

lemma normalize_predicate_wf: "normalize_predicate p = Inr q \<Longrightarrow> wf_predicate q"
  by (auto simp: normalize_predicate_def wf_predicate_def Let_def normalize_string_values_clean
      trim_space_to_lower split: if_splits)

lemma parse_predicate_key_op:
  "is_trimmed (snd (parse_predicate_key k)) \<and> to_lower (snd (parse_predicate_key k)) = snd (parse_predicate_key k)
   \<and> snd (parse_predicate_key k) \<noteq> [] \<and> is_trimmed (fst (parse_predicate_key k))"
proof -
  have "is_trimmed ''eq''" "to_lower ''eq'' = ''eq''" by code_simp+
  then show ?thesis
    by (auto simp: parse_predicate_key_def Let_def split: option.splits)
qed

lemma normalize_filter_entry_wf: "normalize_filter_entry e = Inr q \<Longrightarrow> wf_predicate q"
  using parse_predicate_key_op [of "fst e"]
  by (auto simp: normalize_filter_entry_def wf_predicate_def Let_def
      dest: normalize_value_strings_clean split: if_splits option.splits)

lemma normalize_predicates_wf:
  "list_all wf_predicate (normalize_predicates opts)"
  by (auto simp: normalize_predicates_def normalize_predicates_with_unsupported_def list_all_iff
      collect_ok normalize_predicate_wf normalize_filter_entry_wf split: if_splits)

lemma normalize_predicate_id: "wf_predicate p \<Longrightarrow> normalize_predicate p = Inr p"
  by (auto simp: normalize_predicate_def wf_predicate_def Let_def)

lemma collect_wf_predicates:
  "list_all wf_predicate ps \<Longrightarrow> collect normalize_predicate ps = (ps, [])"
  using collect_all_ok [of ps normalize_predicate "\<lambda>p. p"]
  by (auto simp: list_all_iff normalize_predicate_id)

end
