(* ===== verification/Query_Criteria.thy ===== *)
theory Query_Criteria
  imports Query_Predicates
begin

text \<open>
  The criteria builders of \<open>pkg/go-query-bun\<close>: \<open>filter.go\<close>, \<open>order.go\<close>,
  \<open>search.go\<close>, \<open>select.go\<close>, \<open>pagination.go\<close> and \<open>virtual.go\<close>. A criterion is a
  function on the ORM's query builder. The builder itself is third-party code: it is represented
  by the calls the criteria make on it, in order, with nothing said about what they do. The last
  three are the criteria the repository package provides (\<open>SelectBy\<close>, \<open>SelectColumnIn\<close> and
  \<open>SelectColumnNotIn\<close>).
\<close>

section \<open>The query builder, as the calls made on it\<close>

datatype sql_arg = Arg string | InArgs "string list"

datatype qcall =
    QLimit int
  | QOffset int
  | QOrderExpr string
  | QWhere string sql_arg
  | QWhereOr string sql_arg
  | QWhereGroup string "qcall list"
  | QColumn "string list"
  | QRelation string "qcall list"
  | QSelectBy string string string
  | QSelectColumnIn string "string list"
  | QSelectColumnNotIn string "string list"

datatype dialect_name = PG | SQLite | OtherDialect

record select_query =
  sq_dialect :: "dialect_name option"
  sq_calls :: "qcall list"

type_synonym criteria = "select_query \<Rightarrow> select_query"

definition emit :: "qcall \<Rightarrow> criteria" where
  "emit c q = q\<lparr>sq_calls := sq_calls q @ [c]\<rparr>"

definition q_where :: "string \<Rightarrow> sql_arg \<Rightarrow> criteria" where
  "q_where txt a = emit (QWhere txt a)"

definition q_where_or :: "string \<Rightarrow> sql_arg \<Rightarrow> criteria" where
  "q_where_or txt a = emit (QWhereOr txt a)"

text \<open>A callback given to the builder runs on the same builder; its calls are recorded inside the group.\<close>

definition calls_of :: "criteria \<Rightarrow> select_query \<Rightarrow> qcall list" where
  "calls_of fn q = sq_calls (fn (q\<lparr>sq_calls := []\<rparr>))"

definition q_where_group :: "string \<Rightarrow> criteria \<Rightarrow> criteria" where
  "q_where_group sep fn q = emit (QWhereGroup sep (calls_of fn q)) q"

definition q_relation :: "string \<Rightarrow> criteria \<Rightarrow> criteria" where
  "q_relation name fn q = emit (QRelation name (calls_of fn q)) q"

fun apply_criteria :: "criteria list \<Rightarrow> criteria" where
  "apply_criteria [] q = q"
| "apply_criteria (f # fs) q = apply_criteria fs (f q)"

section \<open>Shared helpers\<close>

definition clone_string_map :: "(string, string) gomap \<Rightarrow> (string, string) gomap" where
  "clone_string_map m = filter (\<lambda>(k, v). trim_space k \<noteq> [] \<and> trim_space v \<noteq> []) m"

text \<open>\<open>columnName, ok := allowedFields[field]; if !ok || TrimSpace(columnName) == "" \<dots>\<close>\<close>

definition column_for :: "(string, string) gomap \<Rightarrow> string \<Rightarrow> string option" where
  "column_for allowed fld =
     (case map_of allowed fld of
        None \<Rightarrow> None
      | Some c \<Rightarrow> (if trim_space c = [] then None else Some c))"

definition where_text :: "string \<Rightarrow> string \<Rightarrow> string" where
  "where_text column op = column @ '' '' @ op @ '' ?''"

text \<open>The loops \<open>for _, value := range values {q = q.Where(\<dots>, value)}\<close> and their OR variant.\<close>

definition where_all :: "string \<Rightarrow> string \<Rightarrow> string list \<Rightarrow> criteria" where
  "where_all column op vs = apply_criteria (map (\<lambda>v. q_where (where_text column op) (Arg v)) vs)"

fun where_any :: "string \<Rightarrow> string \<Rightarrow> string list \<Rightarrow> criteria" where
  "where_any column op [] q = q"
| "where_any column op (v # vs) q =
     apply_criteria (map (\<lambda>v. q_where_or (where_text column op) (Arg v)) vs)
       (q_where (where_text column op) (Arg v) q)"

section \<open>Filters\<close>

definition unsupported_from_predicate :: "predicate \<Rightarrow> unsupported_reason \<Rightarrow> unsupported_predicate" where
  "unsupported_from_predicate p reason =
     (let op = to_lower (trim_space (pr_operator p))
      in \<lparr>up_field = trim_space (pr_field p), up_operator = (if op = [] then ''eq'' else op),
          up_raw_key = pr_raw_key p, up_raw_value = pr_raw_value p, up_reason = reason\<rparr>)"

text \<open>What one iteration does with a predicate: skip it, fail, or add a condition.\<close>

datatype filter_step =
    FSkip unsupported_predicate
  | FFail unsupported_predicate validation_error
  | FAnd criteria
  | FOr criteria

definition filter_predicate ::
  "(string, string) gomap \<Rightarrow> config \<Rightarrow> (string, string) gomap \<Rightarrow> predicate \<Rightarrow> filter_step" where
  "filter_predicate defaults cfg allowed p =
     (let fld = trim_space (pr_field p);
          op0 = to_lower (trim_space (pr_operator p));
          operatorToken = (if op0 = [] then ''eq'' else op0);
          cleaned = normalize_string_values (pr_values p)
      in if fld = [] then FSkip (unsupported_from_predicate p UnsupportedUnknownField)
         else case column_for allowed fld of
           None \<Rightarrow>
             (let entry = unsupported_from_predicate p
                    (if allowed = [] then UnsupportedUnknownField else UnsupportedDisallowedField)
              in if strict_fields cfg
                 then FFail entry \<lparr>ve_code = ValidationFieldNotAllowed, ve_field = fld,
                                   ve_operator = [], ve_search = []\<rparr>
                 else FSkip entry)
         | Some column \<Rightarrow>
             (if cleaned = [] then FSkip (unsupported_from_predicate p UnsupportedEmptyValue)
              else case resolve_filter_operator defaults operatorToken fld cfg of
                Inl e \<Rightarrow> FFail (unsupported_from_predicate p UnsupportedOperator) e
              | Inr None \<Rightarrow> FSkip (unsupported_from_predicate p UnsupportedOperator)
              | Inr (Some r) \<Rightarrow>
                  (if op_canonical r = ''and''
                   then FAnd (where_all column (resolve_sql_operator defaults ''eq'' cfg) cleaned)
                   else if op_canonical r = ''or''
                   then FOr (let sql0 = resolve_sql_operator defaults ''eq'' cfg
                             in where_any column (if sql0 = [] then ''='' else sql0) cleaned)
                   else if op_canonical r = ''in''
                   then FAnd (q_where (column @ '' IN (?)'') (InArgs cleaned))
                   else FAnd (where_all column (op_sql r) cleaned))))"

text \<open>The loop, with the unsupported entries, AND conditions and OR groups gathered so far.\<close>

fun filter_loop ::
  "(string, string) gomap \<Rightarrow> config \<Rightarrow> (string, string) gomap \<Rightarrow> predicate list \<Rightarrow>
   unsupported_predicate list \<Rightarrow> criteria list \<Rightarrow> criteria list \<Rightarrow>
   (validation_error \<times> unsupported_predicate list) +
     unsupported_predicate list \<times> criteria list \<times> criteria list" where
  "filter_loop defaults cfg allowed [] uns ands ors = Inr (uns, ands, ors)"
| "filter_loop defaults cfg allowed (p # ps) uns ands ors =
     (case filter_predicate defaults cfg allowed p of
        FSkip u \<Rightarrow> filter_loop defaults cfg allowed ps (uns @ [u]) ands ors
      | FFail u e \<Rightarrow> Inl (e, uns @ [u])
      | FAnd c \<Rightarrow> filter_loop defaults cfg allowed ps uns (ands @ [c]) ors
      | FOr c \<Rightarrow> filter_loop defaults cfg allowed ps uns ands (ors @ [c]))"

text \<open>The OR groups: the first one runs inside the outer group, every other in a group of its own.\<close>

fun or_groups :: "criteria list \<Rightarrow> criteria" where
  "or_groups [] q = q"
| "or_groups (g # gs) q = apply_criteria (map (q_where_group '' OR '') gs) (g q)"

definition combined_filter :: "criteria list \<Rightarrow> criteria list \<Rightarrow> criteria" where
  "combined_filter ands ors q =
     (let q1 = apply_criteria ands q
      in if ors \<noteq> [] then q_where_group '' AND '' (or_groups ors) q1 else q1)"

definition build_filter_criteria_from_predicates ::
  "(string, string) gomap \<Rightarrow> predicate list \<Rightarrow> config \<Rightarrow>
   criteria list \<times> unsupported_predicate list \<times> validation_error option" where
  "build_filter_criteria_from_predicates defaults predicates cfg =
     (if predicates = [] then ([], [], None)
      else case filter_loop defaults cfg (clone_string_map (allowed_fields cfg)) predicates [] [] [] of
        Inl (e, uns) \<Rightarrow> ([], uns, Some e)
      | Inr (uns, ands, ors) \<Rightarrow>
          (if ands = [] \<and> ors = [] then ([], uns, None)
           else ([combined_filter ands ors], uns, None)))"

section \<open>Ordering\<close>

record order =
  ord_field :: string
  ord_dir :: string

definition normalize_order :: "list_options \<Rightarrow> string" where
  "normalize_order opts =
     (if trim_space (lo_order opts) \<noteq> [] then trim_space (lo_order opts)
      else let fld = trim_space (lo_sort_by opts)
           in if fld = [] then []
              else fld @ '' '' @ (if lo_sort_desc opts then ''desc'' else ''asc''))"

definition normalize_direction :: "string \<Rightarrow> string" where
  "normalize_direction dir =
     (let d = trim_space (to_upper dir) in if d = ''ASC'' \<or> d = ''DESC'' then d else ''ASC'')"

text \<open>One comma-separated item of the order text.\<close>

definition order_entry :: "(string \<Rightarrow> string option) \<Rightarrow> string \<Rightarrow> order option" where
  "order_entry column raw =
     (case str_fields (trim_space raw) of
        [] \<Rightarrow> None
      | fld # rest \<Rightarrow>
          (case column fld of
             None \<Rightarrow> None
           | Some c \<Rightarrow>
               Some \<lparr>ord_field = c,
                     ord_dir = (case rest of [] \<Rightarrow> ''ASC'' | d # _ \<Rightarrow> normalize_direction d)\<rparr>))"

definition order_criterion :: "order list \<Rightarrow> criteria" where
  "order_criterion orders =
     apply_criteria (map (\<lambda>o'. emit (QOrderExpr (ord_field o' @ '' '' @ ord_dir o'))) orders)"

definition build_order_criteria :: "string \<Rightarrow> config \<Rightarrow> criteria list \<times> order list" where
  "build_order_criteria ordr cfg =
     (if trim_space ordr = [] then ([], [])
      else let orders = List.map_filter
                 (order_entry (column_for (clone_string_map (allowed_fields cfg))))
                 (split_on CHR '','' ordr)
           in if orders = [] then ([], []) else ([order_criterion orders], orders))"

section \<open>Search\<close>

definition resolve_search_candidate ::
  "(string, string) gomap \<Rightarrow> string list \<Rightarrow> string \<Rightarrow> string" where
  "resolve_search_candidate allowed allowedColumns raw =
     (if trim_space raw = [] then []
      else case map_of allowed (trim_space raw) of
        Some mapped \<Rightarrow> trim_space mapped
      | None \<Rightarrow> (if to_lower (trim_space raw) \<in> set allowedColumns then trim_space raw else []))"

fun resolve_search_loop ::
  "(string, string) gomap \<Rightarrow> string list \<Rightarrow> string list \<Rightarrow> string list \<Rightarrow> string list" where
  "resolve_search_loop allowed allowedColumns seen [] = []"
| "resolve_search_loop allowed allowedColumns seen (raw # rest) =
     (let resolved = resolve_search_candidate allowed allowedColumns raw
      in if resolved = [] \<or> to_lower resolved \<in> set seen
         then resolve_search_loop allowed allowedColumns seen rest
         else resolved # resolve_search_loop allowed allowedColumns (to_lower resolved # seen) rest)"

definition resolve_search_columns :: "string list \<Rightarrow> (string, string) gomap \<Rightarrow> string list" where
  "resolve_search_columns configured allowedFields =
     (if configured = [] then []
      else let allowed = clone_string_map allowedFields;
               allowedColumns = map to_lower (filter (\<lambda>t. t \<noteq> []) (map (trim_space \<circ> snd) allowed))
           in resolve_search_loop allowed allowedColumns [] configured)"

definition supports_ilike :: "select_query \<Rightarrow> bool" where
  "supports_ilike q \<longleftrightarrow> sq_dialect q = Some PG"

definition lower_like_text :: "string \<Rightarrow> string" where
  "lower_like_text column = ''LOWER('' @ column @ '') LIKE LOWER(?)''"

definition search_text :: "(string, string) gomap \<Rightarrow> config \<Rightarrow> string \<Rightarrow> select_query \<Rightarrow> string" where
  "search_text defaults cfg column q =
     (if supports_ilike q then where_text column (resolve_sql_operator defaults ''ilike'' cfg)
      else lower_like_text column)"

definition apply_search_where :: "(string, string) gomap \<Rightarrow> string \<Rightarrow> string \<Rightarrow> config \<Rightarrow> criteria" where
  "apply_search_where defaults column pattern cfg q =
     q_where (search_text defaults cfg column q) (Arg pattern) q"

definition apply_search_where_or :: "(string, string) gomap \<Rightarrow> string \<Rightarrow> string \<Rightarrow> config \<Rightarrow> criteria" where
  "apply_search_where_or defaults column pattern cfg q =
     q_where_or (search_text defaults cfg column q) (Arg pattern) q"

fun search_group :: "(string, string) gomap \<Rightarrow> string list \<Rightarrow> string \<Rightarrow> config \<Rightarrow> criteria" where
  "search_group defaults [] pattern cfg q = q"
| "search_group defaults (c # cs) pattern cfg q =
     apply_criteria (map (\<lambda>c. apply_search_where_or defaults c pattern cfg) cs)
       (apply_search_where defaults c pattern cfg q)"

definition build_search_criteria ::
  "(string, string) gomap \<Rightarrow> string \<Rightarrow> config \<Rightarrow> criteria list \<times> string \<times> validation_error option" where
  "build_search_criteria defaults search cfg =
     (let searchTerm = trim_space search;
          searchColumns = resolve_search_columns (search_columns cfg) (allowed_fields cfg)
      in if searchTerm = [] then ([], [], None)
         else if searchColumns = []
         then (if strict_validation cfg \<and> strict_search_columns cfg
               then ([], searchTerm,
                     Some \<lparr>ve_code = ValidationSearchColumnsRequired, ve_field = [],
                           ve_operator = [], ve_search = searchTerm\<rparr>)
               else ([], searchTerm, None))
         else ([q_where_group '' AND ''
                  (search_group defaults searchColumns (''%'' @ searchTerm @ ''%'') cfg)],
               searchTerm, None))"

section \<open>Projection\<close>

definition select_items :: "string list \<Rightarrow> string list" where
  "select_items raws = filter (\<lambda>f. f \<noteq> []) (map trim_space (concat (map (split_on CHR '','') raws)))"

definition build_select_criteria :: "string list \<Rightarrow> config \<Rightarrow> criteria list \<times> string list" where
  "build_select_criteria raws cfg =
     (if raws = [] then ([], [])
      else let columns = List.map_filter (column_for (clone_string_map (allowed_fields cfg)))
                 (select_items raws)
           in if columns = [] then ([], []) else ([emit (QColumn columns)], columns))"

section \<open>Pagination\<close>

definition page_for :: "int \<Rightarrow> int \<Rightarrow> int" where
  "page_for limit offset = (if limit \<le> 0 then 1 else wrap64 (go_quot offset limit + 1))"

definition normalize_pagination_options :: "list_options \<Rightarrow> config \<Rightarrow> int \<times> int \<times> int" where
  "normalize_pagination_options opts cfg =
     (let limit0 = (if default_limit cfg = 0 then 25 else default_limit cfg);
          offset0 = default_offset cfg
      in if lo_limit_set opts \<or> lo_offset_set opts
         then (let limit = (if lo_limit_set opts then lo_limit opts else limit0);
                   offset = (if lo_offset_set opts then lo_offset opts else offset0)
               in (limit, offset, page_for limit offset))
         else if lo_limit opts > 0 \<or> lo_offset opts \<noteq> 0
         then (let limit = (if lo_limit opts > 0 then lo_limit opts else limit0);
                   offset = lo_offset opts
               in (limit, offset, page_for limit offset))
         else if lo_page opts > 0 \<or> lo_per_page opts > 0
         then (let perPage = (if lo_per_page opts \<le> 0 then limit0 else lo_per_page opts);
                   page = max (lo_page opts) 1
               in (perPage, wrap64 (wrap64 (page - 1) * perPage), page))
         else (limit0, offset0, page_for limit0 offset0))"

definition build_pagination_criteria :: "list_options \<Rightarrow> config \<Rightarrow> criteria list \<times> int \<times> int \<times> int" where
  "build_pagination_criteria opts cfg =
     (case normalize_pagination_options opts cfg of (limit, offset, page) \<Rightarrow>
        ([\<lambda>q. emit (QOffset offset) (emit (QLimit limit) q)], limit, offset, page))"

section \<open>Virtual fields\<close>

definition virtual_field_expr :: "string \<Rightarrow> string \<Rightarrow> string \<Rightarrow> bool \<Rightarrow> string" where
  "virtual_field_expr dialect sourceField key asJSON =
     (if to_lower dialect = ''sqlite''
      then ''json_extract('' @ sourceField @ '', '' @ [CHR 0x27] @ ''$.'' @ key @ [CHR 0x27] @ '')''
      else if asJSON then sourceField @ ''->'' @ [CHR 0x27] @ key @ [CHR 0x27]
      else sourceField @ ''->>'' @ [CHR 0x27] @ key @ [CHR 0x27])"

section \<open>Trusted SQL\<close>

text \<open>
  A fragment is trusted when its text is built from a column of \<open>C\<close> and an operator of
  \<open>O'\<close> only; values reach the query as bound arguments. A call is trusted when all its
  fragments, those of nested groups included, are.
\<close>

definition trusted_fragment :: "string set \<Rightarrow> string set \<Rightarrow> string \<Rightarrow> bool" where
  "trusted_fragment C O' t \<longleftrightarrow>
     (\<exists>c \<in> C. (\<exists>op \<in> O'. t = where_text c op) \<or> t = c @ '' IN (?)'' \<or> t = lower_like_text c)"

fun trusted_call :: "string set \<Rightarrow> string set \<Rightarrow> qcall \<Rightarrow> bool" where
  "trusted_call C O' (QLimit n) = True"
| "trusted_call C O' (QOffset n) = True"
| "trusted_call C O' (QOrderExpr t) = (\<exists>c \<in> C. t = c @ '' ASC'' \<or> t = c @ '' DESC'')"
| "trusted_call C O' (QWhere t a) = trusted_fragment C O' t"
| "trusted_call C O' (QWhereOr t a) = trusted_fragment C O' t"
| "trusted_call C O' (QWhereGroup sep cs) =
     (sep \<in> {'' AND '', '' OR ''} \<and> list_all (trusted_call C O') cs)"
| "trusted_call C O' (QColumn cs) = (set cs \<subseteq> C)"
| "trusted_call C O' _ = False"

text \<open>A safe criterion only appends trusted calls to the query it is given.\<close>

definition appends :: "(qcall \<Rightarrow> bool) \<Rightarrow> criteria \<Rightarrow> bool" where
  "appends P f \<longleftrightarrow> (\<forall>q. \<exists>cs. f q = q\<lparr>sq_calls := sq_calls q @ cs\<rparr> \<and> list_all P cs)"

abbreviation safe :: "string set \<Rightarrow> string set \<Rightarrow> criteria \<Rightarrow> bool" where
  "safe C O' \<equiv> appends (trusted_call C O')"

lemma safeI:
  "(\<And>q. \<exists>cs. f q = q\<lparr>sq_calls := sq_calls q @ cs\<rparr> \<and> list_all P cs) \<Longrightarrow> appends P f"
  by (simp add: appends_def)

lemma safeE:
  assumes "appends P f"
  obtains cs where "f q = q\<lparr>sq_calls := sq_calls q @ cs\<rparr>" "list_all P cs"
  using assms by (auto simp: appends_def)

lemma appends_mono: "(\<And>c. P c \<Longrightarrow> Q c) \<Longrightarrow> appends P f \<Longrightarrow> appends Q f"
  by (auto simp: appends_def list_all_iff) meson

lemma safe_emit: "P c \<Longrightarrow> appends P (emit c)"
  by (rule safeI) (auto simp: emit_def)

lemma safe_id: "appends P (\<lambda>q. q)"
proof (rule safeI)
  fix q :: select_query
  have "q = q\<lparr>sq_calls := sq_calls q @ []\<rparr> \<and> list_all P []" by simp
  then show "\<exists>cs. q = q\<lparr>sq_calls := sq_calls q @ cs\<rparr> \<and> list_all P cs" by blast
qed

lemma safe_comp:
  assumes "appends P f" "appends P g"
  shows "appends P (\<lambda>q. g (f q))"
proof (rule safeI)
  fix q
  obtain cs where f: "f q = q\<lparr>sq_calls := sq_calls q @ cs\<rparr>" "list_all P cs"
    using assms(1) by (rule safeE)
  obtain ds where g: "g (f q) = (f q)\<lparr>sq_calls := sq_calls (f q) @ ds\<rparr>" "list_all P ds"
    using assms(2) by (rule safeE)
  have "g (f q) = q\<lparr>sq_calls := sq_calls q @ (cs @ ds)\<rparr>" using f g by simp
  then show "\<exists>cs. g (f q) = q\<lparr>sq_calls := sq_calls q @ cs\<rparr> \<and> list_all P cs"
    using f g by (intro exI [of _ "cs @ ds"]) simp
qed

lemma safe_apply_criteria: "list_all (appends P) fs \<Longrightarrow> appends P (apply_criteria fs)"
proof (induction fs)
  case Nil
  have "apply_criteria [] = (\<lambda>q. q)" by auto
  then show ?case using safe_id by simp
next
  case (Cons f fs)
  have "apply_criteria (f # fs) = (\<lambda>q. apply_criteria fs (f q))" by auto
  with Cons show ?case by (simp add: safe_comp)
qed

lemma safe_calls_of: "appends P f \<Longrightarrow> list_all P (calls_of f q)"
  by (erule safeE [of _ _ "q\<lparr>sq_calls := []\<rparr>"]) (simp add: calls_of_def)

lemma appends_relation:
  "appends P f \<Longrightarrow> (\<And>cs. list_all P cs \<Longrightarrow> Q (QRelation n cs)) \<Longrightarrow> appends Q (q_relation n f)"
  by (intro safeI) (auto simp: q_relation_def emit_def safe_calls_of)

lemma safe_group:
  assumes "safe C O' f" "sep \<in> {'' AND '', '' OR ''}"
  shows "safe C O' (q_where_group sep f)"
  using assms
  by (intro safeI) (auto simp: q_where_group_def emit_def safe_calls_of)

lemma safe_where: "trusted_fragment C O' t \<Longrightarrow> safe C O' (q_where t a)"
  unfolding q_where_def by (rule safe_emit) simp

lemma safe_where_or: "trusted_fragment C O' t \<Longrightarrow> safe C O' (q_where_or t a)"
  unfolding q_where_or_def by (rule safe_emit) simp

lemma safe_where_all:
  assumes "c \<in> C" "op \<in> O'"
  shows "safe C O' (where_all c op vs)"
proof -
  have t: "trusted_fragment C O' (where_text c op)" using assms by (auto simp: trusted_fragment_def)
  show ?thesis
    unfolding where_all_def
    by (rule safe_apply_criteria) (auto simp: list_all_iff safe_where [OF t])
qed

lemma safe_where_any:
  assumes "c \<in> C" "op \<in> O'"
  shows "safe C O' (where_any c op vs)"
proof (cases vs)
  case Nil
  have "where_any c op [] = (\<lambda>q. q)" by auto
  with Nil show ?thesis using safe_id by simp
next
  case (Cons v ws)
  have t: "trusted_fragment C O' (where_text c op)" using assms by (auto simp: trusted_fragment_def)
  have "where_any c op (v # ws) = (\<lambda>q. apply_criteria
      (map (\<lambda>v. q_where_or (where_text c op) (Arg v)) ws) (q_where (where_text c op) (Arg v) q))"
    by auto
  moreover have "safe C O' (apply_criteria (map (\<lambda>v. q_where_or (where_text c op) (Arg v)) ws))"
    using t by (intro safe_apply_criteria) (auto simp: list_all_iff intro: safe_where_or)
  ultimately show ?thesis using Cons safe_comp [OF safe_where [OF t]] by simp
qed

lemma safe_where_in: "c \<in> C \<Longrightarrow> safe C O' (q_where (c @ '' IN (?)'') a)"
  by (rule safe_where) (auto simp: trusted_fragment_def)

lemma safe_or_groups: "list_all (safe C O') gs \<Longrightarrow> safe C O' (or_groups gs)"
proof (cases gs)
  case Nil
  have "or_groups [] = (\<lambda>q. q)" by auto
  with Nil show ?thesis using safe_id by simp
next
  case (Cons g hs)
  assume a: "list_all (safe C O') gs"
  have "or_groups (g # hs) = (\<lambda>q. apply_criteria (map (q_where_group '' OR '') hs) (g q))" by auto
  moreover have "safe C O' (apply_criteria (map (q_where_group '' OR '') hs))"
    using a Cons by (intro safe_apply_criteria) (auto simp: list_all_iff intro!: safe_group)
  ultimately show ?thesis using a Cons by (simp add: safe_comp)
qed

lemma safe_combined_filter:
  assumes "list_all (safe C O') ands" "list_all (safe C O') ors"
  shows "safe C O' (combined_filter ands ors)"
proof (cases "ors = []")
  case True
  then have "combined_filter ands ors = apply_criteria ands" by (auto simp: combined_filter_def)
  with assms show ?thesis by (simp add: safe_apply_criteria)
next
  case False
  then have "combined_filter ands ors =
      (\<lambda>q. q_where_group '' AND '' (or_groups ors) (apply_criteria ands q))"
    by (auto simp: combined_filter_def)
  with assms show ?thesis
    by (simp add: safe_comp safe_apply_criteria safe_group safe_or_groups)
qed

text \<open>
  The interface of a column source: every column a lookup of a request's field name returns is
  one of a fixed set. Together with an operator source it is all a builder needs to emit
  trusted SQL only, whatever names, tokens and values the request carries.
\<close>

locale column_source =
  fixes lookup :: "string \<Rightarrow> string option"
    and columns :: "string set"
  assumes lookup_column: "lookup fld = Some c \<Longrightarrow> c \<in> columns"
begin

lemma projected_columns: "set (List.map_filter lookup flds) \<subseteq> columns"
  by (auto simp: List.map_filter_def dest: lookup_column)

lemma safe_projection: "safe columns O' (emit (QColumn (List.map_filter lookup flds)))"
  by (rule safe_emit) (use projected_columns in simp)

lemma order_entry_column: "order_entry lookup raw = Some o' \<Longrightarrow> ord_field o' \<in> columns"
  by (auto simp: order_entry_def split: list.splits option.splits dest: lookup_column)

lemma order_entry_dir: "order_entry lookup raw = Some o' \<Longrightarrow> ord_dir o' \<in> {''ASC'', ''DESC''}"
  by (auto simp: order_entry_def normalize_direction_def Let_def split: list.splits option.splits if_splits)

lemma safe_ordering: "safe columns O' (order_criterion (List.map_filter (order_entry lookup) raws))"
  unfolding order_criterion_def
proof (rule safe_apply_criteria, unfold list_all_iff, rule ballI)
  fix f
  assume "f \<in> set (map (\<lambda>o'. emit (QOrderExpr (ord_field o' @ '' '' @ ord_dir o')))
      (List.map_filter (order_entry lookup) raws))"
  then obtain raw o' where o': "order_entry lookup raw = Some o'"
      and f: "f = emit (QOrderExpr (ord_field o' @ '' '' @ ord_dir o'))"
    by (auto simp: List.map_filter_def)
  then show "safe columns O' f"
    using order_entry_column [OF o'] order_entry_dir [OF o']
    by (auto intro!: safe_emit)
qed

end

locale sql_source = column_source lookup columns + operator_source resolve trusted
  for lookup :: "string \<Rightarrow> string option" and columns :: "string set"
    and resolve :: "string \<Rightarrow> string \<Rightarrow> 'e + operator" and trusted :: "string set"
begin

lemma safe_comparison:
  "lookup fld = Some c \<Longrightarrow> resolve token f = Inr r \<Longrightarrow> safe columns trusted (where_all c (op_sql r) vs)"
  by (intro safe_where_all) (auto dest: lookup_column resolve_trusted)

lemma safe_alternatives:
  "lookup fld = Some c \<Longrightarrow> resolve token f = Inr r \<Longrightarrow> safe columns trusted (where_any c (op_sql r) vs)"
  by (intro safe_where_any) (auto dest: lookup_column resolve_trusted)

lemma safe_membership:
  "lookup fld = Some c \<Longrightarrow> safe columns trusted (q_where (c @ '' IN (?)'') (InArgs vs))"
  by (intro safe_where_in) (auto dest: lookup_column)

end

section \<open>What the builders emit\<close>

text \<open>
  The columns a configuration admits: an allowed column, or, for search, a configured text equal
  to an allowed column up to case and surrounding space.
\<close>

definition trusted_columns :: "config \<Rightarrow> string set" where
  "trusted_columns cfg =
     {c. \<exists>v \<in> vals (clone_string_map (allowed_fields cfg)).
           c = v \<or> to_lower c = to_lower (trim_space v)}"

lemma column_for_Some:
  "column_for allowed fld = Some c \<Longrightarrow> map_of allowed fld = Some c \<and> trim_space c \<noteq> []"
  by (auto simp: column_for_def split: option.splits if_splits)

lemma column_for_vals: "column_for allowed fld = Some c \<Longrightarrow> c \<in> vals allowed"
  by (auto dest!: column_for_Some map_of_vals)

lemma trusted_columnsI: "c \<in> vals (clone_string_map (allowed_fields cfg)) \<Longrightarrow> c \<in> trusted_columns cfg"
  unfolding trusted_columns_def by blast

interpretation fields: column_source
  "column_for (clone_string_map (allowed_fields cfg))" "trusted_columns cfg" for cfg
  by unfold_locales (blast intro: trusted_columnsI column_for_vals)

interpretation sql: sql_source
  "column_for (clone_string_map (allowed_fields cfg))" "trusted_columns cfg"
  "\<lambda>token fld. resolve_operator defaults token fld cfg" "trusted_operators defaults cfg"
  for defaults cfg
  by unfold_locales

lemma eq_operator_trusted:
  "resolve_sql_operator defaults ''eq'' cfg \<in> trusted_operators defaults cfg"
  "resolve_sql_operator defaults ''ilike'' cfg \<in> trusted_operators defaults cfg"
  "resolve_sql_operator defaults ''eq'' cfg \<noteq> []"
  using resolve_sql_operator_canonical [of "''eq''" defaults cfg]
    resolve_sql_operator_canonical [of "''ilike''" defaults cfg]
  by (auto simp: canonical_operators_eq)

abbreviation safe_criteria :: "(string, string) gomap \<Rightarrow> config \<Rightarrow> criteria list \<Rightarrow> bool" where
  "safe_criteria defaults cfg \<equiv> list_all (safe (trusted_columns cfg) (trusted_operators defaults cfg))"

lemma filter_predicate_safe:
  assumes "filter_predicate defaults cfg (clone_string_map (allowed_fields cfg)) p = s"
  shows "s = FAnd c \<or> s = FOr c \<Longrightarrow> safe (trusted_columns cfg) (trusted_operators defaults cfg) c"
proof -
  assume s: "s = FAnd c \<or> s = FOr c"
  let ?col = "column_for (clone_string_map (allowed_fields cfg)) (trim_space (pr_field p))"
  obtain column where col: "?col = Some column"
    using assms s by (cases ?col) (auto simp: filter_predicate_def Let_def split: if_splits)
  have t: "column \<in> trusted_columns cfg" using col by (rule fields.lookup_column)
  show ?thesis
    using assms s col
    by (auto simp: filter_predicate_def Let_def eq_operator_trusted(3)
        intro!: safe_where_all safe_where_any safe_where_in t eq_operator_trusted
        dest!: resolve_filter_operator_used resolve_operator_trusted
        split: if_splits sum.splits option.splits)
qed

lemma filter_loop_safe:
  assumes "filter_loop defaults cfg (clone_string_map (allowed_fields cfg)) ps uns ands ors =
      Inr (uns', ands', ors')"
    and "safe_criteria defaults cfg ands" "safe_criteria defaults cfg ors"
  shows "safe_criteria defaults cfg ands' \<and> safe_criteria defaults cfg ors'"
  using assms
proof (induction ps arbitrary: uns ands ors)
  case (Cons p ps)
  then show ?case
    using filter_predicate_safe [OF refl, of defaults cfg p]
    by (auto split: filter_step.splits)
qed simp

lemma build_filter_safe:
  "safe_criteria defaults cfg (fst (build_filter_criteria_from_predicates defaults ps cfg))"
  by (auto simp: build_filter_criteria_from_predicates_def safe_combined_filter
      dest: filter_loop_safe split: sum.splits prod.splits)

lemma build_order_safe: "safe_criteria defaults cfg (fst (build_order_criteria o' cfg))"
  by (auto simp: build_order_criteria_def Let_def fields.safe_ordering)

lemma build_select_safe: "safe_criteria defaults cfg (fst (build_select_criteria raws cfg))"
  by (auto simp: build_select_criteria_def Let_def fields.safe_projection)

lemma build_pagination_safe: "safe_criteria defaults cfg (fst (build_pagination_criteria opts cfg))"
  by (auto simp: build_pagination_criteria_def split: prod.splits
      intro!: safe_comp [of _ "emit (QLimit a)" "emit (QOffset b)" for a b] safe_emit)

text \<open>The search columns: non-blank, trusted, and no two equal up to case.\<close>

lemma resolve_search_candidate_source:
  "resolve_search_candidate allowed cols raw \<noteq> [] \<Longrightarrow>
   (\<exists>v \<in> vals allowed. resolve_search_candidate allowed cols raw = trim_space v) \<or>
   to_lower (resolve_search_candidate allowed cols raw) \<in> set cols"
  by (auto simp: resolve_search_candidate_def split: option.splits if_splits dest: map_of_vals)

lemma resolve_search_loop_props:
  assumes "c \<in> set (resolve_search_loop allowed cols seen raws)"
  shows "c \<noteq> [] \<and> to_lower c \<notin> set seen \<and>
    ((\<exists>v \<in> vals allowed. c = trim_space v) \<or> to_lower c \<in> set cols)"
  using assms
proof (induction raws arbitrary: seen)
  case (Cons raw raws)
  let ?r = "resolve_search_candidate allowed cols raw"
  consider "?r \<noteq> []" "to_lower ?r \<notin> set seen" "c = ?r"
    | "c \<in> set (resolve_search_loop allowed cols (to_lower ?r # seen) raws)"
    | "c \<in> set (resolve_search_loop allowed cols seen raws)"
    using Cons.prems by (auto simp: Let_def split: if_splits)
  then show ?case
  proof cases
    case 1
    with resolve_search_candidate_source [of allowed cols raw] show ?thesis by simp
  next
    case 2
    from Cons.IH [OF this] show ?thesis by simp
  next
    case 3
    from Cons.IH [OF this] show ?thesis .
  qed
qed simp

lemma resolve_search_loop_distinct:
  "distinct (map to_lower (resolve_search_loop allowed cols seen raws))"
proof (induction raws arbitrary: seen)
  case (Cons raw raws)
  have "to_lower c \<notin> to_lower ` set (resolve_search_loop allowed cols (to_lower c # seen) raws)" for c
    using resolve_search_loop_props [of _ allowed cols "to_lower c # seen" raws] by fastforce
  with Cons show ?case by (simp add: Let_def)
qed simp

lemma resolve_search_columns_distinct:
  "distinct (map to_lower (resolve_search_columns configured allowed))"
  by (simp add: resolve_search_columns_def Let_def resolve_search_loop_distinct)

lemma resolve_search_columns_trusted:
  assumes "c \<in> set (resolve_search_columns configured (allowed_fields cfg))"
  shows "c \<noteq> [] \<and> c \<in> trusted_columns cfg"
proof -
  let ?A = "clone_string_map (allowed_fields cfg)"
  let ?L = "map to_lower (filter (\<lambda>t. t \<noteq> []) (map (trim_space \<circ> snd) ?A))"
  have "c \<in> set (resolve_search_loop ?A ?L [] configured)"
    using assms by (simp add: resolve_search_columns_def Let_def split: if_splits)
  from resolve_search_loop_props [OF this]
  have "c \<noteq> []" and "(\<exists>v \<in> vals ?A. c = trim_space v) \<or> to_lower c \<in> set ?L"
    by simp_all
  then show ?thesis
    unfolding trusted_columns_def by auto
qed

lemma safe_search_text:
  assumes "c \<in> trusted_columns cfg"
  shows "safe (trusted_columns cfg) (trusted_operators defaults cfg) (apply_search_where defaults c p cfg)"
    and "safe (trusted_columns cfg) (trusted_operators defaults cfg) (apply_search_where_or defaults c p cfg)"
proof -
  have "trusted_fragment (trusted_columns cfg) (trusted_operators defaults cfg) (search_text defaults cfg c q)" for q
    using assms eq_operator_trusted(2) [of defaults cfg]
    unfolding trusted_fragment_def search_text_def by (cases "supports_ilike q") (simp_all, blast+)
  then show "safe (trusted_columns cfg) (trusted_operators defaults cfg) (apply_search_where defaults c p cfg)"
    and "safe (trusted_columns cfg) (trusted_operators defaults cfg) (apply_search_where_or defaults c p cfg)"
    by (auto intro!: safeI simp: apply_search_where_def apply_search_where_or_def q_where_def
        q_where_or_def emit_def)
qed

lemma safe_search_group:
  assumes "set cs \<subseteq> trusted_columns cfg"
  shows "safe (trusted_columns cfg) (trusted_operators defaults cfg) (search_group defaults cs p cfg)"
proof (cases cs)
  case Nil
  have "search_group defaults [] p cfg = (\<lambda>q. q)" by auto
  with Nil show ?thesis using safe_id by simp
next
  case (Cons c ds)
  have "search_group defaults (c # ds) p cfg = (\<lambda>q. apply_criteria
      (map (\<lambda>c. apply_search_where_or defaults c p cfg) ds) (apply_search_where defaults c p cfg q))"
    by auto
  moreover have "list_all (safe (trusted_columns cfg) (trusted_operators defaults cfg))
      (map (\<lambda>c. apply_search_where_or defaults c p cfg) ds)"
    using assms Cons by (auto simp: list_all_iff safe_search_text subset_iff)
  ultimately show ?thesis
    using assms Cons by (simp add: safe_comp safe_search_text safe_apply_criteria)
qed

lemma build_search_safe: "safe_criteria defaults cfg (fst (build_search_criteria defaults s cfg))"
  using resolve_search_columns_trusted [of _ "search_columns cfg" cfg]
  by (auto simp: build_search_criteria_def Let_def intro!: safe_group safe_search_group)

section \<open>Filters: nothing is dropped silently\<close>

text \<open>The loop as a partition of the steps; the first failing predicate ends it.\<close>

fun is_fail :: "filter_step \<Rightarrow> bool" where
  "is_fail (FFail u e) = True"
| "is_fail _ = False"

fun skipped :: "filter_step \<Rightarrow> unsupported_predicate option" where
  "skipped (FSkip u) = Some u"
| "skipped _ = None"

fun and_part :: "filter_step \<Rightarrow> criteria option" where
  "and_part (FAnd c) = Some c"
| "and_part _ = None"

fun or_part :: "filter_step \<Rightarrow> criteria option" where
  "or_part (FOr c) = Some c"
| "or_part _ = None"

abbreviation filter_steps ::
  "(string, string) gomap \<Rightarrow> config \<Rightarrow> predicate list \<Rightarrow> filter_step list" where
  "filter_steps defaults cfg ps \<equiv>
     map (filter_predicate defaults cfg (clone_string_map (allowed_fields cfg))) ps"

lemma first_fail:
  obtains u e after where "dropWhile (\<lambda>s. \<not> is_fail s) steps = FFail u e # after" "FFail u e \<in> set steps"
  | "dropWhile (\<lambda>s. \<not> is_fail s) steps = []" "\<not> list_ex is_fail steps"
proof (cases "dropWhile (\<lambda>s. \<not> is_fail s) steps")
  case Nil
  then show ?thesis using that(2) by (auto simp: list_ex_iff)
next
  case (Cons s after)
  then have "is_fail s" using hd_dropWhile_not [of "\<lambda>s. \<not> is_fail s" steps] by simp
  moreover have "s \<in> set steps" using Cons set_dropWhileD [of s "\<lambda>s. \<not> is_fail s" steps] by simp
  ultimately show ?thesis using that(1) Cons by (cases s) auto
qed

lemma filter_loop_steps:
  "filter_loop defaults cfg allowed ps uns ands ors =
     (let steps = map (filter_predicate defaults cfg allowed) ps
      in case dropWhile (\<lambda>s. \<not> is_fail s) steps of
           FFail u e # _ \<Rightarrow> Inl (e, uns @ List.map_filter skipped (takeWhile (\<lambda>s. \<not> is_fail s) steps) @ [u])
         | _ \<Rightarrow> Inr (uns @ List.map_filter skipped steps, ands @ List.map_filter and_part steps,
                  ors @ List.map_filter or_part steps))"
proof (induction ps arbitrary: uns ands ors)
  case (Cons p ps)
  then show ?case
    by (cases rule: first_fail [of "map (filter_predicate defaults cfg allowed) ps"];
        cases "filter_predicate defaults cfg allowed p")
      (simp_all add: List.map_filter_simps Let_def del: dropWhile_eq_Nil_conv)
qed (simp add: List.map_filter_simps)

lemma filter_loop_ok:
  "filter_loop defaults cfg allowed ps [] [] [] = Inr (uns, ands, ors) \<Longrightarrow>
   (let steps = map (filter_predicate defaults cfg allowed) ps
    in \<not> list_ex is_fail steps \<and> uns = List.map_filter skipped steps \<and>
       ands = List.map_filter and_part steps \<and> ors = List.map_filter or_part steps)"
  by (cases rule: first_fail [of "map (filter_predicate defaults cfg allowed) ps"])
    (simp_all add: filter_loop_steps Let_def)

lemma filter_steps_count:
  "\<not> list_ex is_fail steps \<Longrightarrow>
   length (List.map_filter skipped steps) + length (List.map_filter and_part steps)
     + length (List.map_filter or_part steps) = length steps"
proof (induction steps)
  case (Cons s steps)
  then show ?case by (cases s) (auto simp: List.map_filter_simps)
qed (simp add: List.map_filter_simps)

lemma filter_predicate_fails:
  assumes "filter_predicate defaults cfg allowed p = FFail u e"
  shows "(strict_fields cfg \<and> ve_code e = ValidationFieldNotAllowed \<and>
            column_for allowed (trim_space (pr_field p)) = None) \<or>
         (strict_validation cfg \<and> ve_code e = ValidationUnsupportedOperator)"
  using assms
  by (auto simp: filter_predicate_def Let_def dest: resolve_filter_operator_error
      split: if_splits option.splits sum.splits)

lemma filter_predicate_skips:
  assumes "filter_predicate defaults cfg allowed p = FSkip u"
    and "strict_fields cfg" "strict_validation cfg"
  shows "\<not> wf_predicate p"
proof
  assume "wf_predicate p"
  then have "normalize_string_values (pr_values p) = pr_values p" "pr_values p \<noteq> []"
      "trim_space (pr_field p) = pr_field p" "pr_field p \<noteq> []"
    by (auto simp: wf_predicate_def)
  moreover have "resolve_filter_operator defaults t f cfg \<noteq> Inr None" for t f
    using assms(3) resolve_operator_error [of defaults t f cfg]
    by (cases "resolve_operator defaults t f cfg")
      (auto simp: resolve_filter_operator_def split: sum.splits)
  ultimately show False
    using assms by (auto simp: filter_predicate_def Let_def split: if_splits option.splits sum.splits)
qed

text \<open>
  The filter loop is a partition: it fails exactly at the first predicate that
  may not be used, and otherwise every predicate is either reported as unsupported or adds one
  AND condition or one OR group, each in the order of the request; nothing is dropped silently.
\<close>

theorem filter_accounting:
  "build_filter_criteria_from_predicates defaults ps cfg =
     (let steps = filter_steps defaults cfg ps;
          before = takeWhile (\<lambda>s. \<not> is_fail s) steps
      in case dropWhile (\<lambda>s. \<not> is_fail s) steps of
           FFail u e # _ \<Rightarrow> ([], List.map_filter skipped before @ [u], Some e)
         | _ \<Rightarrow> ((if List.map_filter and_part steps = [] \<and> List.map_filter or_part steps = [] then []
                 else [combined_filter (List.map_filter and_part steps) (List.map_filter or_part steps)]),
                List.map_filter skipped steps, None))"
  by (cases rule: first_fail [of "filter_steps defaults cfg ps"])
    (auto simp: build_filter_criteria_from_predicates_def filter_loop_steps Let_def
      List.map_filter_simps simp del: dropWhile_eq_Nil_conv)

text \<open>
  In strict mode a build that succeeds has used every predicate: normalised
  predicates are never skipped, so a client never gets a wider result than it asked for.
\<close>

theorem strict_filters_complete:
  assumes "strict_fields cfg" "strict_validation cfg" "list_all wf_predicate ps"
    and "build_filter_criteria_from_predicates defaults ps cfg = (cs, uns, None)"
  shows "uns = [] \<and> (ps \<noteq> [] \<longrightarrow> length cs = 1)"
proof (cases "ps = []")
  case False
  let ?steps = "filter_steps defaults cfg ps"
  from assms(4) False obtain ands ors where
    l: "filter_loop defaults cfg (clone_string_map (allowed_fields cfg)) ps [] [] [] = Inr (uns, ands, ors)"
    and cs: "cs = (if ands = [] \<and> ors = [] then [] else [combined_filter ands ors])"
    by (auto simp: build_filter_criteria_from_predicates_def split: sum.splits if_splits)
  have "skipped (filter_predicate defaults cfg (clone_string_map (allowed_fields cfg)) p) = None"
    if "p \<in> set ps" for p
    using that assms(1-3) filter_predicate_skips [of defaults cfg _ p]
    by (cases "filter_predicate defaults cfg (clone_string_map (allowed_fields cfg)) p")
      (auto simp: list_all_iff)
  then have "List.map_filter skipped ?steps = []"
    by (auto simp: List.map_filter_def filter_empty_conv)
  with filter_loop_ok [OF l]
  have "uns = []" "ands = List.map_filter and_part ?steps" "ors = List.map_filter or_part ?steps"
    by (auto simp: Let_def)
  moreover from filter_loop_ok [OF l] have "\<not> list_ex is_fail ?steps" by (simp add: Let_def)
  from filter_steps_count [OF this] have "length ands + length ors = length ps"
    using calculation \<open>List.map_filter skipped ?steps = []\<close> by simp
  ultimately show ?thesis using False cs by auto
qed (use assms in \<open>simp add: build_filter_criteria_from_predicates_def\<close>)

text \<open>
  Without the strict switches a filter build never fails.\<close>

theorem lenient_filters_never_fail:
  assumes "\<not> strict_fields cfg" "\<not> strict_validation cfg"
  shows "snd (snd (build_filter_criteria_from_predicates defaults ps cfg)) = None"
proof (cases rule: first_fail [of "filter_steps defaults cfg ps"])
  case (1 u e after)
  then obtain p where "filter_predicate defaults cfg (clone_string_map (allowed_fields cfg)) p = FFail u e"
    by (metis (no_types, lifting) image_iff image_set)
  from filter_predicate_fails [OF this] assms show ?thesis by simp
next
  case 2
  then show ?thesis
    by (simp add: build_filter_criteria_from_predicates_def filter_loop_steps Let_def
        del: dropWhile_eq_Nil_conv)
qed

section \<open>What a single filter does\<close>

lemma apply_emits: "apply_criteria (map (\<lambda>v. emit (f v)) vs) q = q\<lparr>sq_calls := sq_calls q @ map f vs\<rparr>"
  by (induction vs arbitrary: q) (simp_all add: emit_def)

lemma where_all_calls:
  "where_all c op vs q = q\<lparr>sq_calls := sq_calls q @ map (\<lambda>v. QWhere (where_text c op) (Arg v)) vs\<rparr>"
  using apply_emits [of "\<lambda>v. QWhere (where_text c op) (Arg v)"] by (simp add: where_all_def q_where_def)

lemma where_any_calls:
  "where_any c op (v # vs) q = q\<lparr>sq_calls := sq_calls q @ QWhere (where_text c op) (Arg v)
     # map (\<lambda>v. QWhereOr (where_text c op) (Arg v)) vs\<rparr>"
  using apply_emits [of "\<lambda>v. QWhereOr (where_text c op) (Arg v)"]
  by (simp add: q_where_def q_where_or_def emit_def)

abbreviation predicate_operator :: "predicate \<Rightarrow> string" where
  "predicate_operator p \<equiv> (if pr_operator p = [] then ''eq'' else pr_operator p)"

lemma build_filter_single:
  "build_filter_criteria_from_predicates defaults [p] cfg =
     (case filter_predicate defaults cfg (clone_string_map (allowed_fields cfg)) p of
        FSkip u \<Rightarrow> ([], [u], None)
      | FFail u e \<Rightarrow> ([], [u], Some e)
      | FAnd c \<Rightarrow> ([combined_filter [c] []], [], None)
      | FOr c \<Rightarrow> ([combined_filter [] [c]], [], None))"
  by (simp add: build_filter_criteria_from_predicates_def split: filter_step.splits)

text \<open>
  One normalised predicate on an allowed field adds exactly the conditions its
  operator asks for: one AND condition per value for a comparison, one membership test with all
  values for \<open>in\<close>, and for \<open>or\<close> one AND group whose alternatives are the values.
\<close>

theorem filter_single_calls:
  assumes "wf_predicate p"
    and "column_for (clone_string_map (allowed_fields cfg)) (pr_field p) = Some c"
    and "resolve_filter_operator defaults (predicate_operator p) (pr_field p) cfg = Inr (Some r)"
  shows "sq_calls (apply_criteria (fst (build_filter_criteria_from_predicates defaults [p] cfg)) q) =
    sq_calls q @
      (if op_canonical r = ''in'' then [QWhere (c @ '' IN (?)'') (InArgs (pr_values p))]
       else if op_canonical r = ''or''
       then [QWhereGroup '' AND ''
               (QWhere (where_text c (resolve_sql_operator defaults ''eq'' cfg)) (Arg (hd (pr_values p)))
                # map (\<lambda>v. QWhereOr (where_text c (resolve_sql_operator defaults ''eq'' cfg)) (Arg v))
                    (tl (pr_values p)))]
       else map (\<lambda>v. QWhere (where_text c (if op_canonical r = ''and''
                   then resolve_sql_operator defaults ''eq'' cfg else op_sql r)) (Arg v)) (pr_values p))"
proof -
  obtain v vs where v: "pr_values p = v # vs" using assms(1) by (cases "pr_values p") (auto simp: wf_predicate_def)
  have n: "trim_space (pr_field p) = pr_field p" "pr_field p \<noteq> []"
      "normalize_string_values (pr_values p) = pr_values p"
      "to_lower (trim_space (pr_operator p)) = pr_operator p"
    using assms(1) by (auto simp: wf_predicate_def)
  show ?thesis
    using assms(2,3) n(2) v unfolding build_filter_single filter_predicate_def n Let_def
    by (simp add: eq_operator_trusted combined_filter_def where_all_calls where_any_calls
        q_where_group_def calls_of_def q_where_def emit_def Let_def del: where_any.simps)
qed

section \<open>Pagination\<close>

lemma page_for_range: "in_int64 (page_for limit offset) \<or> limit \<le> 0"
  by (simp add: page_for_def)

lemma page_for_product:
  assumes "1 \<le> page" "0 < per" "in_int64 page" "in_int64 ((page - 1) * per)"
  shows "page_for per ((page - 1) * per) = page"
  using assms by (simp add: page_for_def go_quot_nonneg)

text \<open>
  Page-based pagination agrees with limit/offset pagination: asking for a page
  gives the limit and offset of that page, and asking again with this limit and offset gives the
  same page number back, as long as the offset fits in 64 bits.
\<close>

theorem page_mode_agrees:
  assumes "\<not> lo_limit_set opts" "\<not> lo_offset_set opts" "lo_limit opts \<le> 0" "lo_offset opts = 0"
    and "1 \<le> lo_page opts" "0 < lo_per_page opts" "in_int64 (lo_page opts)"
    and "in_int64 ((lo_page opts - 1) * lo_per_page opts)"
  shows "normalize_pagination_options opts cfg =
      (lo_per_page opts, (lo_page opts - 1) * lo_per_page opts, lo_page opts) \<and>
    normalize_pagination_options
      (opts\<lparr>lo_limit := lo_per_page opts, lo_limit_set := True,
            lo_offset := (lo_page opts - 1) * lo_per_page opts, lo_offset_set := True\<rparr>) cfg =
      normalize_pagination_options opts cfg"
proof -
  have "in_int64 (lo_page opts - 1)"
    using assms by (auto simp: in_int64_def int_min_def)
  then have n: "normalize_pagination_options opts cfg =
      (lo_per_page opts, (lo_page opts - 1) * lo_per_page opts, lo_page opts)"
    using assms by (simp add: normalize_pagination_options_def Let_def max_def)
  show ?thesis
    using assms page_for_product unfolding n by (simp add: normalize_pagination_options_def Let_def)
qed

lemma page_mode_agrees_witness:
  "normalize_pagination_options (zero_list_options\<lparr>lo_page := 3, lo_per_page := 20\<rparr>) zero_config =
     (20, 40, 3)"
  using page_mode_agrees [of "zero_list_options\<lparr>lo_page := 3, lo_per_page := 20\<rparr>" zero_config]
  by (simp add: zero_list_options_def in_int64_def int_min_def int_max_def)

text \<open>
  Without that bound the product wraps: a large page number gives a negative offset,
  which is passed on to the query builder as it is.
\<close>

theorem page_mode_wraps:
  "normalize_pagination_options
     (zero_list_options\<lparr>lo_page := 4611686018427387906, lo_per_page := 2\<rparr>) zero_config =
     (2, - 9223372036854775806, 4611686018427387906)"
  by (simp add: normalize_pagination_options_def zero_list_options_def wrap64_def)

text \<open>A strict configuration, and a normalised predicate that it accepts.\<close>

definition strict_config :: config where
  "strict_config = zero_config\<lparr>allowed_fields := [(''name'', ''name''), (''age'', ''t.age'')],
     strict_fields := True, strict_validation := True\<rparr>"

definition age_predicate :: predicate where
  "age_predicate = \<lparr>pr_field = ''age'', pr_operator = ''gte'', pr_values = [''18'', ''21''],
     pr_raw_key = ''age__gte'', pr_raw_value = AString ''18,21''\<rparr>"

lemma age_predicate_wf: "wf_predicate age_predicate"
  by code_simp

lemma strict_filters_complete_witness:
  "snd (build_filter_criteria_from_predicates [] [age_predicate] strict_config) = ([], None) \<and>
   length (fst (build_filter_criteria_from_predicates [] [age_predicate] strict_config)) = 1"
proof -
  have ok: "snd (snd (build_filter_criteria_from_predicates [] [age_predicate] strict_config)) = None"
    by code_simp
  have s: "strict_fields strict_config" "strict_validation strict_config"
    by (simp_all add: strict_config_def)
  obtain cs uns where b: "build_filter_criteria_from_predicates [] [age_predicate] strict_config = (cs, uns, None)"
    using ok by (cases "build_filter_criteria_from_predicates [] [age_predicate] strict_config") auto
  from strict_filters_complete [OF s _ b] show ?thesis using age_predicate_wf b by simp
qed

lemma lenient_filters_never_fail_witness:
  "snd (snd (build_filter_criteria_from_predicates [] [age_predicate] zero_config)) = None"
  using lenient_filters_never_fail [of zero_config "[]" "[age_predicate]"] by (simp add: zero_config_def)

lemma filter_single_calls_witness:
  "sq_calls (apply_criteria (fst (build_filter_criteria_from_predicates [] [age_predicate] strict_config))
     \<lparr>sq_dialect = None, sq_calls = []\<rparr>) =
   [QWhere ''t.age >= ?'' (Arg ''18''), QWhere ''t.age >= ?'' (Arg ''21'')]"
proof -
  have c: "column_for (clone_string_map (allowed_fields strict_config)) (pr_field age_predicate) = Some ''t.age''"
    by code_simp
  have r: "resolve_filter_operator [] (predicate_operator age_predicate) (pr_field age_predicate) strict_config =
      Inr (Some \<lparr>op_token = ''gte'', op_canonical = ''gte'', op_sql = ''>=''\<rparr>)"
    by code_simp
  show ?thesis
    using filter_single_calls [OF age_predicate_wf c r, of "\<lparr>sq_dialect = None, sq_calls = []\<rparr>"]
    by (simp add: age_predicate_def where_text_def)
qed

end
