(* ===== verification/Query_Plan.thy ===== *)
theory Query_Plan
  imports Query_Criteria
begin

text \<open>
  Query plans: \<open>plan.go\<close> of \<open>pkg/go-query-bun\<close>. A plan keeps the criteria of a list
  request in groups (filters, search, order, pagination, projection) with the values a response
  reports, and what could not be planned.
\<close>

section \<open>Plans\<close>

record metadata =
  md_limit :: int
  md_offset :: int
  md_page :: int
  md_search :: string
  md_order :: "order list"
  md_fields :: "string list"
  md_include :: "string list"

record include_request =
  inc_path :: string

record plan =
  plan_filters :: "criteria list"
  plan_search :: "criteria list"
  plan_order :: "criteria list"
  plan_pagination :: "criteria list"
  plan_select :: "criteria list"
  plan_includes :: "include_request list"
  plan_metadata :: metadata
  plan_unsupported :: "unsupported_predicate list"

definition empty_plan :: plan where
  "empty_plan =
     \<lparr>plan_filters = [], plan_search = [], plan_order = [], plan_pagination = [], plan_select = [],
      plan_includes = [],
      plan_metadata = \<lparr>md_limit = 0, md_offset = 0, md_page = 0, md_search = [], md_order = [],
                       md_fields = [], md_include = []\<rparr>,
      plan_unsupported = []\<rparr>"

definition list_criteria :: "plan \<Rightarrow> criteria list" where
  "list_criteria p = plan_pagination p @ plan_order p @ plan_filters p @ plan_search p @ plan_select p"

definition read_criteria :: "plan \<Rightarrow> criteria list" where
  "read_criteria p = plan_select p"

section \<open>The search pseudo-field\<close>

definition is_search_field :: "string \<Rightarrow> bool" where
  "is_search_field fld = equal_fold (trim_space fld) ''_search''"

definition unsupported_search_predicate ::
  "string \<Rightarrow> string \<Rightarrow> string \<Rightarrow> go_any \<Rightarrow> unsupported_reason \<Rightarrow> unsupported_predicate" where
  "unsupported_search_predicate fld op rawKey rawValue reason =
     (let normalizedOperator = to_lower (trim_space op)
      in \<lparr>up_field = trim_space fld,
          up_operator = (if normalizedOperator = [] then ''eq'' else normalizedOperator),
          up_raw_key = rawKey, up_raw_value = rawValue, up_reason = reason\<rparr>)"

text \<open>What a search entry contributes: its first value, or an unsupported entry.\<close>

definition search_values :: "go_any \<Rightarrow> (unsupported_reason \<Rightarrow> 'u) \<Rightarrow> 'u + string" where
  "search_values v reject =
     (case normalize_value_strings v of
        None \<Rightarrow> Inl (reject UnsupportedValueShape)
      | Some [] \<Rightarrow> Inl (reject UnsupportedEmptyValue)
      | Some (t # _) \<Rightarrow> Inr t)"

text \<open>The loop over predicates, and the loop over filters, with the search term found so far.\<close>

fun search_from_predicates ::
  "string \<Rightarrow> predicate list \<Rightarrow> predicate list \<times> string \<times> unsupported_predicate list" where
  "search_from_predicates search [] = ([], search, [])"
| "search_from_predicates search (p # ps) =
     (if \<not> is_search_field (pr_field p)
      then (case search_from_predicates search ps of (kept, s, uns) \<Rightarrow> (p # kept, s, uns))
      else case search_values (AStrings (pr_values p))
                  (unsupported_search_predicate (pr_field p) (pr_operator p) (pr_raw_key p) (pr_raw_value p)) of
             Inl u \<Rightarrow> (case search_from_predicates search ps of (kept, s, uns) \<Rightarrow> (kept, s, u # uns))
           | Inr t \<Rightarrow> search_from_predicates (if search = [] then t else search) ps)"

fun search_from_filters ::
  "string \<Rightarrow> (string, go_any) gomap \<Rightarrow> (string, go_any) gomap \<times> string \<times> unsupported_predicate list" where
  "search_from_filters search [] = ([], search, [])"
| "search_from_filters search ((rawKey, rawValue) # fs) =
     (case parse_predicate_key rawKey of (fld, op) \<Rightarrow>
        if \<not> is_search_field fld
        then (case search_from_filters search fs of (kept, s, uns) \<Rightarrow> ((rawKey, rawValue) # kept, s, uns))
        else case search_values rawValue (unsupported_search_predicate fld op rawKey rawValue) of
               Inl u \<Rightarrow> (case search_from_filters search fs of (kept, s, uns) \<Rightarrow> (kept, s, u # uns))
             | Inr t \<Rightarrow> search_from_filters (if search = [] then t else search) fs)"

definition normalize_search_options :: "list_options \<Rightarrow> list_options \<times> unsupported_predicate list" where
  "normalize_search_options opts =
     (let search = trim_space (lo_search opts)
      in if lo_predicates opts \<noteq> []
         then (case search_from_predicates search (lo_predicates opts) of (kept, s, uns) \<Rightarrow>
                 (opts\<lparr>lo_predicates := kept, lo_search := s\<rparr>, uns))
         else if lo_filters opts = [] then (opts\<lparr>lo_search := search\<rparr>, [])
         else (case search_from_filters search (lo_filters opts) of (kept, s, uns) \<Rightarrow>
                 (opts\<lparr>lo_filters := kept, lo_search := s\<rparr>, uns)))"

section \<open>Building a plan\<close>

definition normalize_includes :: "string list \<Rightarrow> include_request list" where
  "normalize_includes includes =
     map (\<lambda>path. \<lparr>inc_path = path\<rparr>)
       (filter (\<lambda>path. path \<noteq> []) (map trim_space (concat (map (split_on CHR '','') includes))))"

definition normalize_config :: "config \<Rightarrow> config" where
  "normalize_config cfg =
     cfg\<lparr>allowed_fields := clone_string_map (allowed_fields cfg),
         default_limit := (if default_limit cfg = 0 then 25 else default_limit cfg)\<rparr>"

text \<open>
  \<open>BuildQueryPlan\<close>: a validation error is returned with the plan built so far.
\<close>

definition build_query_plan ::
  "(string, string) gomap \<Rightarrow> list_options \<Rightarrow> config \<Rightarrow> plan \<times> validation_error option" where
  "build_query_plan defaults opts0 cfg0 =
     (let cfg = normalize_config cfg0;
          (opts, searchUnsupported) = normalize_search_options opts0;
          (pagination, limit, offset, page) = build_pagination_criteria opts cfg;
          (orderCriteria, orders) = build_order_criteria (normalize_order opts) cfg;
          (predicates, unsupported) = normalize_predicates_with_unsupported opts;
          (filterCriteria, filterUnsupported, ferr) =
             build_filter_criteria_from_predicates defaults predicates cfg;
          md = (plan_metadata empty_plan)
                 \<lparr>md_limit := limit, md_offset := offset, md_page := page, md_order := orders\<rparr>;
          plan1 = empty_plan
                    \<lparr>plan_pagination := pagination, plan_order := orderCriteria,
                     plan_filters := filterCriteria, plan_metadata := md,
                     plan_unsupported := searchUnsupported @ unsupported @ filterUnsupported\<rparr>
      in if ferr \<noteq> None then (plan1, ferr)
         else case build_search_criteria defaults (lo_search opts) cfg of (searchCriteria, search, serr) \<Rightarrow>
           (let plan2 = plan1\<lparr>plan_search := searchCriteria,
                              plan_metadata := md\<lparr>md_search := search\<rparr>\<rparr>
            in if serr \<noteq> None then (plan2, serr)
               else let (selectCriteria, selected) = build_select_criteria (lo_select opts) cfg;
                        includes = normalize_includes (lo_include opts)
                    in (plan2\<lparr>plan_select := selectCriteria, plan_includes := includes,
                              plan_metadata := (plan_metadata plan2)
                                \<lparr>md_fields := selected, md_include := map inc_path includes\<rparr>\<rparr>,
                        None)))"

section \<open>Facts\<close>

lemma clone_string_map_idem [simp]: "clone_string_map (clone_string_map m) = clone_string_map m"
  by (simp add: clone_string_map_def)

lemma trusted_columns_normalize [simp]: "trusted_columns (normalize_config cfg) = trusted_columns cfg"
  by (simp add: trusted_columns_def normalize_config_def)

lemma trusted_operators_normalize [simp]:
  "trusted_operators defaults (normalize_config cfg) = trusted_operators defaults cfg"
  by (simp add: trusted_operators_def normalize_config_def)

lemma planned_criteria_safe:
  "build_pagination_criteria opts (normalize_config cfg) = (cs, r1) \<Longrightarrow> safe_criteria defaults cfg cs"
  "build_order_criteria o' (normalize_config cfg) = (cs, r2) \<Longrightarrow> safe_criteria defaults cfg cs"
  "build_filter_criteria_from_predicates defaults ps (normalize_config cfg) = (cs, r3) \<Longrightarrow>
    safe_criteria defaults cfg cs"
  "build_search_criteria defaults s (normalize_config cfg) = (cs, r4) \<Longrightarrow> safe_criteria defaults cfg cs"
  "build_select_criteria raws (normalize_config cfg) = (cs, r5) \<Longrightarrow> safe_criteria defaults cfg cs"
  using build_pagination_safe [where cfg = "normalize_config cfg" and defaults = defaults and opts = opts]
    build_order_safe [where cfg = "normalize_config cfg" and defaults = defaults and o' = o']
    build_filter_safe [where cfg = "normalize_config cfg" and defaults = defaults and ps = ps]
    build_search_safe [where cfg = "normalize_config cfg" and defaults = defaults and s = s]
    build_select_safe [where cfg = "normalize_config cfg" and defaults = defaults and raws = raws]
  by simp_all

lemma plan_groups_safe:
  assumes "build_query_plan defaults opts cfg = (p, err)"
  shows "safe_criteria defaults cfg (list_criteria p)"
  using assms
  by (auto simp: build_query_plan_def list_criteria_def Let_def empty_plan_def
      split: prod.splits if_splits dest: planned_criteria_safe)

lemma safe_list_calls:
  assumes "list_all (appends P) fs"
  shows "\<exists>cs. apply_criteria fs q = q\<lparr>sq_calls := sq_calls q @ cs\<rparr> \<and> list_all P cs"
  using safe_apply_criteria [OF assms] by (auto simp: appends_def)

text \<open>
  C12 (safety). Whatever a list request carries, the criteria of its plan only append calls whose
  SQL text is built from configured columns and configured operators; field names, operator
  tokens and sort directions of the request never reach the text, its values only as bound
  arguments. This holds on every path, a rejected request included.
\<close>

theorem plan_emits_trusted_sql:
  "\<exists>calls. apply_criteria (list_criteria (fst (build_query_plan defaults opts cfg))) q =
       q\<lparr>sq_calls := sq_calls q @ calls\<rparr> \<and>
     list_all (trusted_call (trusted_columns cfg) (trusted_operators defaults cfg)) calls"
  using plan_groups_safe [of defaults opts cfg]
  by (cases "build_query_plan defaults opts cfg") (auto intro: safe_list_calls)

text \<open>The search entries are taken out of the predicates and filters, and the others are kept in order.\<close>

lemma search_from_predicates_kept:
  "fst (search_from_predicates s ps) = filter (\<lambda>p. \<not> is_search_field (pr_field p)) ps"
  by (induction s ps rule: search_from_predicates.induct) (auto split: prod.splits sum.splits)

lemma search_from_filters_kept:
  "fst (search_from_filters s fs) = filter (\<lambda>(k, v). \<not> is_search_field (fst (parse_predicate_key k))) fs"
  by (induction s fs rule: search_from_filters.induct) (auto split: prod.splits sum.splits)

lemma search_from_predicates_set:
  "s \<noteq> [] \<Longrightarrow> fst (snd (search_from_predicates s ps)) = s"
  by (induction s ps rule: search_from_predicates.induct) (auto split: prod.splits sum.splits)

lemma search_from_filters_set:
  "s \<noteq> [] \<Longrightarrow> fst (snd (search_from_filters s fs)) = s"
  by (induction s fs rule: search_from_filters.induct) (auto split: prod.splits sum.splits)

lemma normalize_search_kept:
  assumes "normalize_search_options opts = (opts', uns)"
  shows "\<forall>p \<in> set (lo_predicates opts'). \<not> is_search_field (pr_field p)"
    and "trim_space (lo_search opts) \<noteq> [] \<Longrightarrow> lo_search opts' = trim_space (lo_search opts)"
proof -
  show "\<forall>p \<in> set (lo_predicates opts'). \<not> is_search_field (pr_field p)"
    using assms search_from_predicates_kept [of "trim_space (lo_search opts)" "lo_predicates opts"]
    by (auto simp: normalize_search_options_def Let_def split: prod.splits if_splits)
  assume "trim_space (lo_search opts) \<noteq> []"
  then show "lo_search opts' = trim_space (lo_search opts)"
    using assms search_from_predicates_set [of "trim_space (lo_search opts)" "lo_predicates opts"]
      search_from_filters_set [of "trim_space (lo_search opts)" "lo_filters opts"]
    by (auto simp: normalize_search_options_def Let_def split: prod.splits if_splits)
qed

text \<open>
  An explicit search term wins over \<open>_search\<close> entries: the term a plan reports
  is the trimmed explicit one, and the \<open>_search\<close> entries never become filters.
\<close>

theorem explicit_search_wins:
  assumes "trim_space (lo_search opts) \<noteq> []"
    and "build_query_plan defaults opts cfg = (p, None)"
  shows "md_search (plan_metadata p) = trim_space (lo_search opts) \<and>
    (\<forall>f \<in> set (lo_predicates (fst (normalize_search_options opts))). \<not> is_search_field (pr_field f))"
proof -
  obtain opts' uns where o': "normalize_search_options opts = (opts', uns)" by fastforce
  have "lo_search opts' = trim_space (lo_search opts)"
    using normalize_search_kept(2) [OF o'] assms(1) by blast
  moreover from this have "fst (snd (build_search_criteria defaults (lo_search opts') (normalize_config cfg))) = lo_search opts'"
    by (simp add: build_search_criteria_def Let_def)
  ultimately have "md_search (plan_metadata p) = trim_space (lo_search opts)"
    using assms(2) o'
    by (auto simp: build_query_plan_def Let_def empty_plan_def split: prod.splits if_splits)
  with normalize_search_kept(1) [OF o'] o' show ?thesis by simp
qed

lemma explicit_search_wins_witness:
  "md_search (plan_metadata (fst (build_query_plan []
      (zero_list_options\<lparr>lo_search := '' ada '', lo_filters := [(''_search'', AString ''bob'')]\<rparr>)
      zero_config))) = ''ada''"
proof -
  let ?o = "zero_list_options\<lparr>lo_search := '' ada '', lo_filters := [(''_search'', AString ''bob'')]\<rparr>"
  have t: "trim_space (lo_search ?o) = ''ada''" by code_simp
  have "snd (build_query_plan [] ?o zero_config) = None" by code_simp
  then obtain p where p: "build_query_plan [] ?o zero_config = (p, None)"
    by (cases "build_query_plan [] ?o zero_config") auto
  from explicit_search_wins [OF _ this] show ?thesis unfolding p using t by simp
qed

text \<open>A filter entry and the predicate it is normalised to are treated alike.\<close>

lemma normalize_filter_entry_fields:
  "normalize_filter_entry (k, v) = Inr p \<Longrightarrow>
   pr_field p = fst (parse_predicate_key k) \<and> normalize_value_strings v = Some (pr_values p) \<and>
   pr_values p \<noteq> [] \<and> list_all clean_value (pr_values p)"
  by (auto simp: normalize_filter_entry_def Let_def normalize_value_strings_clean
      split: if_splits option.splits)

lemma not_search_Nil [simp]: "\<not> is_search_field []"
  by code_simp

lemma normalize_filter_entry_rejects:
  "normalize_filter_entry (k, v) = Inl u \<Longrightarrow> is_search_field (fst (parse_predicate_key k)) \<Longrightarrow>
   \<exists>r. search_values v reject = Inl r"
  using not_search_Nil
  by (cases "normalize_value_strings v")
    (auto simp: normalize_filter_entry_def Let_def search_values_def split: if_splits)

lemma search_from_filters_parity:
  "search_from_predicates s (fst (collect normalize_filter_entry m)) =
     (fst (collect normalize_filter_entry (fst (search_from_filters s m))),
      fst (snd (search_from_filters s m)), [])"
proof (induction m arbitrary: s)
  case (Cons e m)
  obtain k v where e: "e = (k, v)" by fastforce
  obtain fld op where key: "parse_predicate_key k = (fld, op)" by fastforce
  obtain oks bad where c: "collect normalize_filter_entry m = (oks, bad)" by fastforce
  have IH: "search_from_predicates s' oks = (fst (collect normalize_filter_entry kept), s'', [])"
    if "search_from_filters s' m = (kept, s'', uns)" for s' kept s'' uns
    using Cons [of s'] that c by simp
  obtain kept s1 uns where f: "search_from_filters s m = (kept, s1, uns)" by (metis surj_pair)
  let ?u = "unsupported_search_predicate fld op k v"
  show ?case
  proof (cases "normalize_filter_entry e")
    case (Inl u)
    show ?thesis
    proof (cases "is_search_field fld")
      case True
      with Inl e key obtain r where "search_values v ?u = Inl r"
        using normalize_filter_entry_rejects [of k v u ?u] by auto
      with True Inl e key c f show ?thesis using IH [OF f] by simp
    next
      case False
      with Inl e key c f show ?thesis
        using IH [OF f] by (cases "collect normalize_filter_entry kept") simp
    qed
  next
    case (Inr p)
    have p: "pr_field p = fld" "normalize_value_strings v = Some (pr_values p)"
        "normalize_string_values (pr_values p) = pr_values p" "pr_values p \<noteq> []"
      using normalize_filter_entry_fields [OF Inr [unfolded e]] key by auto
    from p(4) obtain t ts where t: "pr_values p = t # ts" by (cases "pr_values p") auto
    let ?u' = "unsupported_search_predicate (pr_field p) (pr_operator p) (pr_raw_key p) (pr_raw_value p)"
    have sv: "search_values v ?u = Inr t" "search_values (AStrings (pr_values p)) ?u' = Inr t"
      using p t by (auto simp: search_values_def)
    obtain kept' s2 uns' where g: "search_from_filters (if s = [] then t else s) m = (kept', s2, uns')"
      by (metis surj_pair)
    show ?thesis
    proof (cases "is_search_field fld")
      case True
      with Inr e key c sv p(1) show ?thesis using IH [OF g] g by simp
    next
      case False
      with Inr e key c p(1) f show ?thesis
        using IH [OF f] by (cases "collect normalize_filter_entry kept") simp
    qed
  qed
qed simp

text \<open>A plan depends on the options through what the builders read, the search entries taken out.\<close>

lemma plans_agree:
  assumes "fst (normalize_search_options o1) = p1" "fst (normalize_search_options o2) = p2"
    and "build_pagination_criteria p2 (normalize_config cfg) = build_pagination_criteria p1 (normalize_config cfg)"
    and "normalize_order p2 = normalize_order p1"
    and "normalize_predicates p2 = normalize_predicates p1"
    and "lo_search p2 = lo_search p1" "lo_select p2 = lo_select p1" "lo_include p2 = lo_include p1"
  shows "snd (build_query_plan defaults o2 cfg) = snd (build_query_plan defaults o1 cfg) \<and>
    list_criteria (fst (build_query_plan defaults o2 cfg)) = list_criteria (fst (build_query_plan defaults o1 cfg)) \<and>
    plan_metadata (fst (build_query_plan defaults o2 cfg)) = plan_metadata (fst (build_query_plan defaults o1 cfg)) \<and>
    plan_includes (fst (build_query_plan defaults o2 cfg)) = plan_includes (fst (build_query_plan defaults o1 cfg))"
proof -
  let ?c = "normalize_config cfg"
  obtain u1 u2 where o': "normalize_search_options o1 = (p1, u1)" "normalize_search_options o2 = (p2, u2)"
    using assms(1,2) by (metis prod.collapse)
  obtain pg l off pn where pg: "build_pagination_criteria p1 ?c = (pg, l, off, pn)" by (metis prod_cases4)
  obtain oc os where oc: "build_order_criteria (normalize_order p1) ?c = (oc, os)" by fastforce
  obtain fc fu fe where fc: "build_filter_criteria_from_predicates defaults (normalize_predicates p1) ?c = (fc, fu, fe)"
    by (metis prod_cases3)
  obtain sc st se where sc: "build_search_criteria defaults (lo_search p1) ?c = (sc, st, se)"
    by (metis prod_cases3)
  obtain lc ls where lc: "build_select_criteria (lo_select p1) ?c = (lc, ls)" by fastforce
  obtain v1 v2 where v: "normalize_predicates_with_unsupported p1 = (normalize_predicates p1, v1)"
      "normalize_predicates_with_unsupported p2 = (normalize_predicates p1, v2)"
    using assms(5) unfolding normalize_predicates_def by (metis prod.collapse)
  show ?thesis
    using assms(3,4,6-8) o' pg oc fc sc lc v
    by (cases "fe = None"; cases "se = None")
      (simp_all add: build_query_plan_def list_criteria_def Let_def empty_plan_def)
qed

text \<open>
  Filters given as a map with \<open>field__operator\<close> keys and the same filters given
  as explicit predicates build the same plan: same criteria in every group, same metadata, same
  error.
\<close>

theorem filters_predicates_parity:
  assumes "lo_predicates opts = []" "normalize_predicates opts \<noteq> []"
    and "build_query_plan defaults opts cfg = (p, err)"
    and "build_query_plan defaults
           (opts\<lparr>lo_filters := [], lo_predicates := normalize_predicates opts\<rparr>) cfg = (p', err')"
  shows "err' = err \<and> list_criteria p' = list_criteria p \<and> plan_metadata p' = plan_metadata p \<and>
    plan_includes p' = plan_includes p"
proof -
  let ?m = "lo_filters opts" and ?s = "trim_space (lo_search opts)"
  let ?ps = "fst (collect normalize_filter_entry ?m)"
  have ps: "normalize_predicates opts = ?ps" "?m \<noteq> []" "?ps \<noteq> []"
    using assms(1,2) by (auto simp: normalize_predicates_def normalize_predicates_with_unsupported_def
        split: if_splits)
  obtain kept s uns where k: "search_from_filters ?s ?m = (kept, s, uns)" by (metis surj_pair)
  have k': "search_from_predicates ?s ?ps = (fst (collect normalize_filter_entry kept), s, [])"
    using search_from_filters_parity [of ?s ?m] k by simp
  have wf: "list_all wf_predicate (fst (collect normalize_filter_entry kept))"
    using normalize_filter_entry_wf by (auto simp: list_all_iff collect_ok)
  have n: "fst (normalize_search_options opts) = opts\<lparr>lo_filters := kept, lo_search := s\<rparr>"
      "fst (normalize_search_options (opts\<lparr>lo_filters := [], lo_predicates := ?ps\<rparr>)) =
       opts\<lparr>lo_filters := [], lo_predicates := fst (collect normalize_filter_entry kept), lo_search := s\<rparr>"
    using assms(1) ps k k' by (simp_all add: normalize_search_options_def)
  have q: "normalize_predicates (opts\<lparr>lo_filters := [],
        lo_predicates := fst (collect normalize_filter_entry kept), lo_search := s\<rparr>) =
      normalize_predicates (opts\<lparr>lo_filters := kept, lo_search := s\<rparr>)"
    using collect_wf_predicates [OF wf] assms(1)
    by (simp add: normalize_predicates_def normalize_predicates_with_unsupported_def)
  have "build_pagination_criteria (opts\<lparr>lo_filters := [],
        lo_predicates := fst (collect normalize_filter_entry kept), lo_search := s\<rparr>) c =
      build_pagination_criteria (opts\<lparr>lo_filters := kept, lo_search := s\<rparr>) c" for c
    by (simp add: build_pagination_criteria_def normalize_pagination_options_def Let_def)
  moreover have "normalize_order (opts\<lparr>lo_filters := [],
        lo_predicates := fst (collect normalize_filter_entry kept), lo_search := s\<rparr>) =
      normalize_order (opts\<lparr>lo_filters := kept, lo_search := s\<rparr>)"
    by (simp add: normalize_order_def Let_def)
  ultimately show ?thesis
    using plans_agree [OF n _ _ q, of cfg defaults] assms(3,4) ps(1) by simp
qed

lemma filters_predicates_parity_witness:
  "\<exists>opts ps. lo_filters opts = [(''age__gte'', AString ''18, 21'')] \<and>
     ps = [\<lparr>pr_field = ''age'', pr_operator = ''gte'', pr_values = [''18'', ''21''],
            pr_raw_key = ''age__gte'', pr_raw_value = AString ''18, 21''\<rparr>] \<and>
     list_criteria (fst (build_query_plan [] (opts\<lparr>lo_filters := [], lo_predicates := ps\<rparr>) strict_config)) =
     list_criteria (fst (build_query_plan [] opts strict_config))"
proof -
  let ?o = "zero_list_options\<lparr>lo_filters := [(''age__gte'', AString ''18, 21'')]\<rparr>"
  let ?ps = "[\<lparr>pr_field = ''age'', pr_operator = ''gte'', pr_values = [''18'', ''21''],
            pr_raw_key = ''age__gte'', pr_raw_value = AString ''18, 21''\<rparr>]"
  have n: "normalize_predicates ?o = ?ps" by code_simp
  have "lo_predicates ?o = []" by (simp add: zero_list_options_def)
  from filters_predicates_parity [OF this _ surjective_pairing surjective_pairing, of "[]" strict_config]
  have "list_criteria (fst (build_query_plan [] (?o\<lparr>lo_filters := [], lo_predicates := ?ps\<rparr>) strict_config)) =
     list_criteria (fst (build_query_plan [] ?o strict_config))"
    unfolding n by simp
  then show ?thesis by (intro exI [of _ ?o] exI [of _ ?ps]) simp
qed

end
