(* ===== verification/Relation_Metadata.thy ===== *)
theory Relation_Metadata
  imports Go_Strings
begin

text \<open>
  Model metadata: \<open>query_config.go\<close> and \<open>relation_descriptor.go\<close>. From the fields of a model
  type (with their struct tags) the controller derives the queryable fields, a map from JSON
  names to columns, and the tree of relations a client may include; a relation descriptor of the
  router prunes that tree. Both are cached per type.
\<close>

section \<open>Reflected types\<close>

text \<open>
  What the code reads of \<open>reflect.Type\<close> and \<open>reflect.StructField\<close>; an absent tag is empty. A
  named struct type refers to its fields through the environment, so types may be cyclic.
\<close>

datatype go_type = TStruct string | TPointer go_type | TSlice go_type | TArray go_type | TOther string

record struct_field =
  sf_name :: string
  sf_exported :: bool
  sf_crud :: string
  sf_bun :: string
  sf_json :: string
  sf_type :: go_type

type_synonym type_env = "(string, struct_field list) gomap"

type_synonym field_map = "(string, string) gomap"

definition struct_fields :: "type_env \<Rightarrow> string \<Rightarrow> struct_field list" where
  "struct_fields env t = (case map_of env t of None \<Rightarrow> [] | Some fs \<Rightarrow> fs)"

fun indirect_type :: "go_type \<Rightarrow> go_type" where
  "indirect_type (TPointer t) = indirect_type t"
| "indirect_type t = t"

fun element_type :: "go_type \<Rightarrow> go_type" where
  "element_type (TPointer t) = element_type t"
| "element_type (TSlice t) = element_type t"
| "element_type (TArray t) = element_type t"
| "element_type t = t"

text \<open>
  A metadata node. Its \<open>children\<close> map sends a key to a position in the list of child nodes, since
  a field name and its JSON alias share one child node.
\<close>

datatype relation_metadata =
  RelationMetadata (relation_name: string) (meta_fields: field_map)
    (child_keys: "(string, nat) gomap") (child_nodes: "relation_metadata list")

definition child_meta :: "relation_metadata \<Rightarrow> string \<Rightarrow> relation_metadata option" where
  "child_meta m k =
     (case map_of (child_keys m) k of
        None \<Rightarrow> None
      | Some i \<Rightarrow> (if i < length (child_nodes m) then Some (child_nodes m ! i) else None))"

section \<open>Field maps\<close>

definition first_part :: "string \<Rightarrow> string" where
  "first_part tag = hd (split_on CHR '','' tag)"

text \<open>The JSON key and the column of a field; \<open>snake\<close> is the \<open>ToSnake\<close> of the strcase package.\<close>

definition field_column :: "(string \<Rightarrow> string) \<Rightarrow> struct_field \<Rightarrow> string" where
  "field_column snake f =
     (if sf_bun f \<noteq> [] \<and> first_part (sf_bun f) \<noteq> [] then first_part (sf_bun f) else snake (sf_name f))"

definition field_json_key :: "(string \<Rightarrow> string) \<Rightarrow> struct_field \<Rightarrow> string" where
  "field_json_key snake f =
     (if sf_json f \<noteq> [] \<and> first_part (sf_json f) \<noteq> [] then first_part (sf_json f) else snake (sf_name f))"

fun build_default_field_map :: "(string \<Rightarrow> string) \<Rightarrow> struct_field list \<Rightarrow> field_map \<Rightarrow> field_map" where
  "build_default_field_map snake [] fieldMap = fieldMap"
| "build_default_field_map snake (f # fs) fieldMap =
     (if \<not> sf_exported f \<or> sf_crud f = ''-'' then build_default_field_map snake fs fieldMap
      else build_default_field_map snake fs (put (field_json_key snake f) (field_column snake f) fieldMap))"

definition normalize_field_map :: "field_map \<Rightarrow> field_map" where
  "normalize_field_map m = filter (\<lambda>(k, v). k \<noteq> [] \<and> v \<noteq> []) m"

type_synonym field_map_provider = "go_type \<Rightarrow> field_map"

text \<open>\<open>newFieldMapProviderFromRepo\<close>; a repository that is no \<open>modelFieldsProvider\<close> is \<open>None\<close>.\<close>

definition new_field_map_provider_from_repo ::
  "(string \<Rightarrow> string) \<Rightarrow> string list option \<Rightarrow> go_type \<Rightarrow> field_map_provider option" where
  "new_field_map_provider_from_repo snake modelFields resourceType =
     (case modelFields of
        None \<Rightarrow> None
      | Some names \<Rightarrow>
          (let fieldMap = fold (\<lambda>n m. if snake n = [] then m else put (snake n) (snake n) m) names []
           in if names = [] \<or> fieldMap = [] then None
              else Some (\<lambda>t. if indirect_type t \<noteq> indirect_type resourceType then [] else fieldMap)))"

text \<open>The per-type caches.\<close>

record query_registry =
  fields_cache :: "(string, field_map) gomap"
  query_configs :: "(string, relation_metadata) gomap"

definition get_or_build_field_map ::
  "type_env \<Rightarrow> (string \<Rightarrow> string) \<Rightarrow> field_map_provider option \<Rightarrow> string \<Rightarrow> (string, field_map) gomap \<Rightarrow>
   field_map \<times> (string, field_map) gomap" where
  "get_or_build_field_map env snake provider t cache =
     (case map_of cache t of
        Some m \<Rightarrow> (m, cache)
      | None \<Rightarrow>
          (let base = build_default_field_map snake (struct_fields env t) [];
               fieldMap = (case provider of
                   None \<Rightarrow> base
                 | Some p \<Rightarrow> maps_copy base (normalize_field_map (p (TStruct t))))
           in (fieldMap, put t fieldMap cache)))"

section \<open>Building the metadata\<close>

definition set_relation_name :: "string \<Rightarrow> relation_metadata \<Rightarrow> relation_metadata" where
  "set_relation_name n m = RelationMetadata n (meta_fields m) (child_keys m) (child_nodes m)"

definition register_child :: "relation_metadata \<Rightarrow> struct_field \<Rightarrow> relation_metadata \<Rightarrow> relation_metadata" where
  "register_child parent f child =
     (let i = length (child_nodes parent);
          keys1 = put (to_lower (sf_name f)) i (child_keys parent);
          alias = first_part (sf_json f);
          keys2 = (if sf_json f \<noteq> [] \<and> alias \<noteq> [] \<and> alias \<noteq> ''-'' then put (to_lower alias) i keys1
                   else keys1)
      in RelationMetadata (relation_name parent) (meta_fields parent) keys2 (child_nodes parent @ [child]))"

definition is_relation_field :: "struct_field \<Rightarrow> bool" where
  "is_relation_field f \<longleftrightarrow>
     sf_exported f \<and> sf_crud f \<noteq> ''-'' \<and> sf_bun f \<noteq> [] \<and> contains_sub (sf_bun f) ''rel:''"

text \<open>
  \<open>buildRelationMetadata\<close> and its loop over the fields. The state is the set of visited types
  and the cache of field maps. The recursion follows the types, which may be cyclic, so it is
  written with fuel; \<open>None\<close> is running out of it.
\<close>

type_synonym build_state = "string list \<times> (string, field_map) gomap"

fun build_children ::
  "(go_type \<Rightarrow> build_state \<Rightarrow> (relation_metadata option \<times> build_state) option) \<Rightarrow>
   struct_field list \<Rightarrow> relation_metadata \<Rightarrow> build_state \<Rightarrow>
   (relation_metadata \<times> build_state) option" where
  "build_children build [] meta st = Some (meta, st)"
| "build_children build (f # fs) meta st =
     (if \<not> is_relation_field f then build_children build fs meta st
      else case build (element_type (sf_type f)) st of
             None \<Rightarrow> None
           | Some (None, st') \<Rightarrow> build_children build fs meta st'
           | Some (Some child, st') \<Rightarrow>
               build_children build fs
                 (register_child meta f (set_relation_name (sf_name f) child)) st')"

primrec build_relation_metadata ::
  "type_env \<Rightarrow> (string \<Rightarrow> string) \<Rightarrow> field_map_provider option \<Rightarrow> nat \<Rightarrow> go_type \<Rightarrow> build_state \<Rightarrow>
   (relation_metadata option \<times> build_state) option" where
  "build_relation_metadata env snake provider 0 = (\<lambda>typ st. None)"
| "build_relation_metadata env snake provider (Suc n) = (\<lambda>typ st.
     case indirect_type typ of
       TStruct t \<Rightarrow>
         (if t \<in> set (fst st) then Some (Some (RelationMetadata [] [] [] []), st)
          else case get_or_build_field_map env snake provider t (snd st) of (fieldMap, cache) \<Rightarrow>
            (case build_children (build_relation_metadata env snake provider n) (struct_fields env t)
                    (RelationMetadata [] fieldMap [] []) (t # fst st, cache) of
               None \<Rightarrow> None
             | Some (meta, st') \<Rightarrow> Some (Some meta, st')))
     | _ \<Rightarrow> Some (None, st))"

definition metadata_fuel :: "type_env \<Rightarrow> nat" where
  "metadata_fuel env = Suc (length env)"

section \<open>Pruning by the relation descriptor\<close>

text \<open>The router's descriptor, as far as the code reads it.\<close>

datatype relation_node = RelationNode (node_children: "(string \<times> relation_node) list")

record ('f) relation_descriptor =
  rd_includes :: "string list"
  rd_relations :: "(string \<times> 'f list) list"
  rd_tree :: "relation_node option"

definition descriptor_includes :: "'f relation_descriptor option \<Rightarrow> string \<Rightarrow> bool" where
  "descriptor_includes descriptor path =
     (case descriptor of
        None \<Rightarrow> False
      | Some d \<Rightarrow> list_ex (\<lambda>include. to_lower include = to_lower path) (rd_includes d))"

text \<open>The loop \<open>for key, child := range node.Children {allowed[strings.ToLower(key)] = child}\<close>.\<close>

fun lower_keys :: "(string \<times> 'a) list \<Rightarrow> (string, 'a) gomap \<Rightarrow> (string, 'a) gomap" where
  "lower_keys [] m = m"
| "lower_keys ((k, v) # kvs) m = lower_keys kvs (put (to_lower k) v m)"

lemma vals_lower_keys: "vals (lower_keys kvs m) \<subseteq> snd ` set kvs \<union> vals m"
proof (induction kvs m rule: lower_keys.induct)
  case (2 k v kvs m)
  then show ?case using vals_put_subset [of "to_lower k" v m] by auto
qed simp

lemma lower_keys_size:
  assumes "map_of (lower_keys cs []) k = Some c"
  shows "size c < Suc (size_list (size_prod (\<lambda>x. 0) size) cs)"
proof -
  from assms have "c \<in> vals (lower_keys cs [])" by (rule map_of_vals)
  with vals_lower_keys [of cs "[]"] obtain k' where "(k', c) \<in> set cs" by auto
  then show ?thesis by (induction cs) auto
qed

function prune_relation_node :: "relation_metadata \<Rightarrow> relation_node \<Rightarrow> relation_metadata" where
  "prune_relation_node (RelationMetadata n fieldMap ks nodes) (RelationNode cs) =
     (case fold (\<lambda>(key, i) (ks', nodes').
                   case map_of (lower_keys cs []) key of
                     None \<Rightarrow> (del key ks', nodes')
                   | Some childNode \<Rightarrow> (ks', nodes'[i := prune_relation_node (nodes' ! i) childNode]))
                ks (ks, nodes) of
        (ks', nodes') \<Rightarrow> RelationMetadata n fieldMap ks' nodes')"
  by pat_completeness auto
termination
  by (relation "measure (\<lambda>(m, node). size node)") (auto dest: lower_keys_size)

definition prune_relation_metadata ::
  "relation_metadata \<Rightarrow> 'f relation_descriptor \<Rightarrow> relation_metadata" where
  "prune_relation_metadata root descriptor =
     (case rd_tree descriptor of None \<Rightarrow> root | Some node \<Rightarrow> prune_relation_node root node)"

section \<open>The registry\<close>

text \<open>
  The build with the fuel that is always enough, and the two entry points. The descriptor of a
  type comes from the router (\<open>getRelationDescriptorForType\<close>).
\<close>

definition run_build ::
  "type_env \<Rightarrow> (string \<Rightarrow> string) \<Rightarrow> field_map_provider option \<Rightarrow> go_type \<Rightarrow> (string, field_map) gomap \<Rightarrow>
   relation_metadata option \<times> (string, field_map) gomap" where
  "run_build env snake provider typ cache =
     (case build_relation_metadata env snake provider (metadata_fuel env) typ ([], cache) of
        None \<Rightarrow> (None, cache)
      | Some (root, (visited, cache')) \<Rightarrow> (root, cache'))"

definition prune_by ::
  "'f relation_descriptor option \<Rightarrow> relation_metadata \<Rightarrow> relation_metadata" where
  "prune_by descriptor root =
     (case descriptor of None \<Rightarrow> root | Some d \<Rightarrow> prune_relation_metadata root d)"

definition register_query_config ::
  "type_env \<Rightarrow> (string \<Rightarrow> string) \<Rightarrow> 'f relation_descriptor option \<Rightarrow> go_type \<Rightarrow> field_map_provider option \<Rightarrow>
   query_registry \<Rightarrow> query_registry" where
  "register_query_config env snake descriptor typ provider r =
     (case indirect_type typ of
        TStruct t \<Rightarrow>
          (case run_build env snake provider (TStruct t) (fields_cache r) of
             (None, cache) \<Rightarrow> r\<lparr>fields_cache := cache\<rparr>
           | (Some root, cache) \<Rightarrow>
               r\<lparr>fields_cache := cache, query_configs := put t (prune_by descriptor root) (query_configs r)\<rparr>)
      | _ \<Rightarrow> r)"

definition get_relation_metadata_for_type ::
  "type_env \<Rightarrow> (string \<Rightarrow> string) \<Rightarrow> 'f relation_descriptor option \<Rightarrow> go_type \<Rightarrow> query_registry \<Rightarrow>
   relation_metadata option \<times> query_registry" where
  "get_relation_metadata_for_type env snake descriptor typ r =
     (case indirect_type typ of
        TStruct t \<Rightarrow>
          (case map_of (query_configs r) t of
             Some root \<Rightarrow> (Some root, r)
           | None \<Rightarrow>
               (case run_build env snake None (TStruct t) (fields_cache r) of
                  (None, cache) \<Rightarrow> (None, r\<lparr>fields_cache := cache\<rparr>)
                | (Some root, cache) \<Rightarrow>
                    (let root' = prune_by descriptor root
                     in (Some root',
                         r\<lparr>fields_cache := cache, query_configs := put t root' (query_configs r)\<rparr>))))
      | _ \<Rightarrow> (None, r))"

definition get_allowed_fields ::
  "type_env \<Rightarrow> (string \<Rightarrow> string) \<Rightarrow> 'f relation_descriptor option \<Rightarrow> go_type \<Rightarrow> query_registry \<Rightarrow>
   field_map \<times> query_registry" where
  "get_allowed_fields env snake descriptor typ r =
     (case get_relation_metadata_for_type env snake descriptor typ r of
        (None, r') \<Rightarrow> ([], r')
      | (Some meta, r') \<Rightarrow> (meta_fields meta, r'))"

section \<open>Termination\<close>

text \<open>Types left to visit: every nested build of a new type uses one of them up.\<close>

definition unvisited :: "type_env \<Rightarrow> build_state \<Rightarrow> nat" where
  "unvisited env st = card (keys env - set (fst st))"

lemma unvisited_mono: "set (fst st) \<subseteq> set (fst st') \<Longrightarrow> unvisited env st' \<le> unvisited env st"
  unfolding unvisited_def by (rule card_mono) auto

lemma unvisited_visit:
  assumes "t \<in> keys env" "t \<notin> set (fst st)"
  shows "unvisited env (t # fst st, c) < unvisited env st"
  unfolding unvisited_def using assms by (intro psubset_card_mono) auto

lemma struct_fields_unknown: "t \<notin> keys env \<Longrightarrow> struct_fields env t = []"
  by (auto simp: struct_fields_def map_of_eq_None_iff split: option.splits dest: map_of_keys)

text \<open>A builder that returns on a state with at most \<open>k\<close> types left, and only adds visited types.\<close>

definition returns_within :: "type_env \<Rightarrow> nat \<Rightarrow>
    (go_type \<Rightarrow> build_state \<Rightarrow> (relation_metadata option \<times> build_state) option) \<Rightarrow> bool" where
  "returns_within env k build \<longleftrightarrow>
     (\<forall>typ st. unvisited env st \<le> k \<longrightarrow>
        (\<exists>root st'. build typ st = Some (root, st') \<and> set (fst st) \<subseteq> set (fst st')))"

lemma build_children_returns:
  assumes "returns_within env k build" "unvisited env st \<le> k"
  shows "\<exists>meta' st'. build_children build fs meta st = Some (meta', st') \<and> set (fst st) \<subseteq> set (fst st')"
  using assms(2)
proof (induction fs arbitrary: meta st)
  case (Cons f fs)
  show ?case
  proof (cases "is_relation_field f")
    case True
    obtain root st' where b: "build (element_type (sf_type f)) st = Some (root, st')"
        "set (fst st) \<subseteq> set (fst st')"
      using assms(1) Cons.prems unfolding returns_within_def by blast
    with Cons.prems unvisited_mono [OF b(2), of env] have "unvisited env st' \<le> k" by simp
    from Cons.IH [OF this] b True show ?thesis
      by (cases root) (fastforce dest: subset_trans)+
  qed (use Cons in simp)
qed auto

lemma build_step_returns:
  assumes "\<And>j. k = Suc j \<Longrightarrow> returns_within env j (build_relation_metadata env snake provider n)"
  shows "returns_within env k (build_relation_metadata env snake provider (Suc n))"
  unfolding returns_within_def
proof (intro allI impI)
  fix ty and st :: build_state
  assume k: "unvisited env st \<le> k"
  let ?goal = "\<exists>root st'. build_relation_metadata env snake provider (Suc n) ty st = Some (root, st') \<and>
      set (fst st) \<subseteq> set (fst st')"
  show ?goal
  proof (cases "\<exists>t. indirect_type ty = TStruct t \<and> t \<notin> set (fst st)")
    case False
    then show ?thesis by (cases st) (auto split: go_type.splits)
  next
    case True
    then obtain t where t: "indirect_type ty = TStruct t" "t \<notin> set (fst st)" by blast
    obtain m c where m: "get_or_build_field_map env snake provider t (snd st) = (m, c)" by fastforce
    let ?children = "build_children (build_relation_metadata env snake provider n) (struct_fields env t)
        (RelationMetadata [] m [] []) (t # fst st, c)"
    have "\<exists>meta st'. ?children = Some (meta, st') \<and> set (t # fst st) \<subseteq> set (fst st')"
    proof (cases "t \<in> keys env")
      case True
      from unvisited_visit [OF True t(2), of c] k obtain j where
        "k = Suc j" "unvisited env (t # fst st, c) \<le> j" by (cases k) auto
      with assms build_children_returns [of env j] show ?thesis by fastforce
    qed (auto simp: struct_fields_unknown)
    with t m show ?thesis by fastforce
  qed
qed

lemma build_relation_metadata_returns:
  "returns_within env k (build_relation_metadata env snake provider (Suc k))"
  by (induction k) (blast intro: build_step_returns dest: Suc_neq_Zero, blast intro: build_step_returns dest: Suc_inject)

text \<open>
  C13 (termination). Building the metadata of a model returns however the types refer to each
  other, cycles included: the fuel given, one more than the number of types, is always enough.
\<close>

theorem metadata_build_returns:
  "\<exists>root visited cache'.
     build_relation_metadata env snake provider (metadata_fuel env) typ ([], cache) =
     Some (root, (visited, cache'))"
proof -
  have "unvisited env ([], cache) \<le> length env"
    unfolding unvisited_def by (simp add: card_length [THEN order_trans] order_trans [OF card_image_le])
  then show ?thesis
    using build_relation_metadata_returns [of env "length env" snake provider]
    unfolding returns_within_def metadata_fuel_def by fastforce
qed

section \<open>Keys\<close>

text \<open>All keys of a node's children are lower-case, and each refers to a child node.\<close>

fun wf_meta :: "relation_metadata \<Rightarrow> bool" where
  "wf_meta (RelationMetadata n m ks nodes) \<longleftrightarrow>
     list_all (\<lambda>(k, i). to_lower k = k \<and> i < length nodes) ks \<and> wf_map ks \<and> list_all wf_meta nodes"

lemma list_all_put:
  "list_all P m \<Longrightarrow> P (k, v) \<Longrightarrow> list_all P (put k v m)"
  unfolding put_def by (induction m) auto

lemma wf_register_child:
  assumes "wf_meta m" "wf_meta child"
  shows "wf_meta (register_child m f child)"
proof (cases m)
  case (RelationMetadata n fm ks nodes)
  let ?P = "\<lambda>(k, i). to_lower k = k \<and> i < Suc (length nodes)"
  have "list_all ?P ks" using assms(1) RelationMetadata by (auto simp: list_all_iff)
  then have "list_all ?P (put (to_lower (sf_name f)) (length nodes) ks)"
      "list_all ?P (put (to_lower a) (length nodes) (put (to_lower (sf_name f)) (length nodes) ks))" for a
    by (auto intro!: list_all_put)
  with assms RelationMetadata show ?thesis by (auto simp: register_child_def Let_def)
qed

lemma wf_set_relation_name [simp]: "wf_meta (set_relation_name n m) = wf_meta m"
  by (cases m) (simp add: set_relation_name_def)

lemma build_children_wf:
  assumes "\<And>t st r st'. build t st = Some (Some r, st') \<Longrightarrow> wf_meta r"
    and "build_children build fs meta st = Some (meta', st')" "wf_meta meta"
  shows "wf_meta meta'"
  using assms(2,3)
proof (induction fs arbitrary: meta st)
  case (Cons f fs)
  note child = assms(1) [of "element_type (sf_type f)" st]
  show ?case
  proof (cases "is_relation_field f")
    case True
    with Cons.prems obtain r st' where
      b: "build (element_type (sf_type f)) st = Some (r, st')"
      by (auto split: option.splits)
    show ?thesis
    proof (cases r)
      case (Some x)
      with b child have "wf_meta x" by blast
      with Cons.IH Cons.prems b True Some show ?thesis by (auto simp: wf_register_child)
    qed (use Cons b True in auto)
  qed (use Cons in auto)
qed simp

lemma build_relation_metadata_wf:
  "build_relation_metadata env snake provider n ty st = Some (Some r, st') \<Longrightarrow> wf_meta r"
proof (induction n arbitrary: ty st r st')
  case (Suc n)
  have children: "build_children (build_relation_metadata env snake provider n) fs m st1 = Some (r, st2) \<Longrightarrow>
      wf_meta m \<Longrightarrow> wf_meta r" for fs m st1 st2
    by (rule build_children_wf [OF Suc.IH]) auto
  show ?case
    using Suc.prems
    by (auto split: go_type.splits if_splits prod.splits option.splits dest!: children)
qed simp

section \<open>What pruning keeps\<close>

text \<open>The include paths a metadata tree resolves, and those a descriptor tree offers.\<close>

fun meta_accepts :: "relation_metadata \<Rightarrow> string list \<Rightarrow> bool" where
  "meta_accepts m [] = True"
| "meta_accepts m (seg # segs) =
     (case child_meta m (to_lower seg) of None \<Rightarrow> False | Some c \<Rightarrow> meta_accepts c segs)"

fun node_offers :: "relation_node \<Rightarrow> string list \<Rightarrow> bool" where
  "node_offers n [] = True"
| "node_offers n (seg # segs) =
     (case map_of (lower_keys (node_children n) []) (to_lower seg) of
        None \<Rightarrow> False | Some c \<Rightarrow> node_offers c segs)"

definition offered :: "relation_node \<Rightarrow> string list set" where
  "offered n = {p. node_offers n p}"

definition accepted :: "relation_metadata \<Rightarrow> string list set" where
  "accepted m = {p. meta_accepts m p}"

text \<open>The loop over the keys, with the keys already treated.\<close>

definition prune_step ::
  "(relation_metadata \<Rightarrow> relation_node \<Rightarrow> relation_metadata) \<Rightarrow> (string, relation_node) gomap \<Rightarrow>
   string \<times> nat \<Rightarrow> (string, nat) gomap \<times> relation_metadata list \<Rightarrow>
   (string, nat) gomap \<times> relation_metadata list" where
  "prune_step prune allowed e s =
     (case (e, s) of ((key, i), (ks, nodes)) \<Rightarrow>
        case map_of allowed key of
          None \<Rightarrow> (del key ks, nodes)
        | Some c \<Rightarrow> (ks, nodes[i := prune (nodes ! i) c]))"

definition pruned_to ::
  "(string, relation_node) gomap \<Rightarrow> (string, nat) gomap \<Rightarrow> relation_metadata list \<Rightarrow> (string \<times> nat) list \<Rightarrow>
   (string, nat) gomap \<times> relation_metadata list \<Rightarrow> bool" where
  "pruned_to allowed ks nodes treated s \<longleftrightarrow>
     (case s of (ks', nodes') \<Rightarrow>
        length nodes' = length nodes \<and>
        (\<forall>k. map_of ks' k = None \<or> map_of ks' k = map_of ks k) \<and>
        (\<forall>i < length nodes. accepted (nodes' ! i) \<subseteq> accepted (nodes ! i)) \<and>
        (\<forall>k i. (k, i) \<in> set treated \<longrightarrow> map_of allowed k = None \<longrightarrow> map_of ks' k = None) \<and>
        (\<forall>k i c. (k, i) \<in> set treated \<longrightarrow> i < length nodes \<longrightarrow> map_of allowed k = Some c \<longrightarrow>
           accepted (nodes' ! i) \<subseteq> offered c))"

lemma prune_step_pruned:
  assumes "pruned_to allowed ks nodes treated s"
    and sub: "\<And>c m. map_of allowed (fst e) = Some c \<Longrightarrow>
      accepted (prune m c) \<subseteq> accepted m \<inter> offered c"
  shows "pruned_to allowed ks nodes (e # treated) (prune_step prune allowed e s)"
proof -
  obtain key i ks' nodes' where e: "e = (key, i)" "s = (ks', nodes')" by fastforce
  show ?thesis
  proof (cases "map_of allowed key")
    case None
    then show ?thesis using assms(1) e by (simp add: pruned_to_def prune_step_def)
  next
    case (Some c)
    let ?n = "nodes'[i := prune (nodes' ! i) c]"
    have p: "accepted (prune (nodes' ! i) c) \<subseteq> accepted (nodes' ! i)"
        "accepted (prune (nodes' ! i) c) \<subseteq> offered c"
      using sub [of c "nodes' ! i"] Some e by auto
    then have shrink: "accepted (?n ! j) \<subseteq> accepted (nodes' ! j)" for j
      by (cases "i < length nodes'"; cases "j = i") (auto simp: list_update_beyond)
    have old: "length nodes' = length nodes" "\<And>j. j < length nodes \<Longrightarrow> accepted (nodes' ! j) \<subseteq> accepted (nodes ! j)"
        "\<And>k j d. (k, j) \<in> set treated \<Longrightarrow> j < length nodes \<Longrightarrow> map_of allowed k = Some d \<Longrightarrow>
          accepted (nodes' ! j) \<subseteq> offered d"
        "\<And>k j. (k, j) \<in> set treated \<Longrightarrow> map_of allowed k = None \<Longrightarrow> map_of ks' k = None"
        "\<And>k. map_of ks' k = None \<or> map_of ks' k = map_of ks k"
      using assms(1) e(2) by (simp_all add: pruned_to_def) blast
    have offer: "accepted (?n ! j) \<subseteq> offered d"
      if "(k, j) \<in> set (e # treated)" "j < length nodes" "map_of allowed k = Some d" for k j d
    proof (cases "(k, j) = e")
      case True
      then show ?thesis using e Some p(2) that(2,3) old(1) by auto
    next
      case False
      with that(1) have "(k, j) \<in> set treated" by simp
      with old(3) [OF this that(2,3)] shrink [of j] show ?thesis by blast
    qed
    have gone: "map_of ks' k = None" if "(k, j) \<in> set (e # treated)" "map_of allowed k = None" for k j
      using that old(4) [of k j] e(1) Some by auto
    have "prune_step prune allowed e s = (ks', ?n)"
      using e Some by (simp add: prune_step_def)
    moreover have "accepted (?n ! j) \<subseteq> accepted (nodes ! j)" if "j < length nodes" for j
      using shrink [of j] old(2) [OF that] by (rule subset_trans)
    ultimately show ?thesis
      unfolding pruned_to_def using old(1,5) offer gone by simp blast
  qed
qed

lemma prune_steps_pruned:
  assumes "\<And>e c m. e \<in> set es \<Longrightarrow> map_of allowed (fst e) = Some c \<Longrightarrow>
      accepted (prune m c) \<subseteq> accepted m \<inter> offered c"
    and "pruned_to allowed ks nodes treated s"
  shows "pruned_to allowed ks nodes (rev es @ treated) (fold (prune_step prune allowed) es s)"
  using assms
proof (induction es arbitrary: treated s)
  case (Cons e es)
  have "pruned_to allowed ks nodes (e # treated) (prune_step prune allowed e s)"
    by (rule prune_step_pruned [OF Cons.prems(2)]) (rule Cons.prems(1), simp_all)
  moreover have "accepted (prune m c) \<subseteq> accepted m \<inter> offered c"
    if "e' \<in> set es" "map_of allowed (fst e') = Some c" for e' c m
    by (rule Cons.prems(1)) (use that in simp_all)
  ultimately show ?case using Cons.IH [of "e # treated"] by simp
qed simp

lemma pruned_to_start: "pruned_to allowed ks nodes [] (ks, nodes)"
  by (simp add: pruned_to_def)

lemma prune_relation_node_step:
  "prune_relation_node (RelationMetadata n fm ks nodes) (RelationNode cs) =
     (case fold (prune_step prune_relation_node (lower_keys cs [])) ks (ks, nodes) of
        (ks', nodes') \<Rightarrow> RelationMetadata n fm ks' nodes')"
proof -
  have "prune_step prune_relation_node (lower_keys cs []) = (\<lambda>(key, i) (ks', nodes').
      case map_of (lower_keys cs []) key of
        None \<Rightarrow> (del key ks', nodes')
      | Some childNode \<Rightarrow> (ks', nodes'[i := prune_relation_node (nodes' ! i) childNode]))"
    by (auto simp: prune_step_def fun_eq_iff split: prod.splits option.splits)
  then show ?thesis by simp
qed

lemma prune_accepts: "accepted (prune_relation_node m node) \<subseteq> accepted m \<inter> offered node"
proof (induction m node rule: prune_relation_node.induct)
  case (1 n fm ks nodes cs)
  let ?allowed = "lower_keys cs []"
  have IH: "accepted (prune_relation_node m c) \<subseteq> accepted m \<inter> offered c"
    if "e \<in> set ks" "map_of ?allowed (fst e) = Some c" for e c m
    using 1 [OF that(1) surjective_pairing [symmetric] that(2), of "replicate (Suc (snd e)) m"]
    by (simp del: replicate_Suc)
  obtain ks' nodes' where f: "fold (prune_step prune_relation_node ?allowed) ks (ks, nodes) = (ks', nodes')"
    by fastforce
  have "pruned_to ?allowed ks nodes (rev ks @ []) (ks', nodes')"
    unfolding f [symmetric]
    by (rule prune_steps_pruned [OF _ pruned_to_start]) (rule IH)
  then have p: "length nodes' = length nodes" "\<And>j. j < length nodes \<Longrightarrow> accepted (nodes' ! j) \<subseteq> accepted (nodes ! j)"
      "\<And>k j d. (k, j) \<in> set ks \<Longrightarrow> j < length nodes \<Longrightarrow> map_of ?allowed k = Some d \<Longrightarrow>
        accepted (nodes' ! j) \<subseteq> offered d"
      "\<And>k j. (k, j) \<in> set ks \<Longrightarrow> map_of ?allowed k = None \<Longrightarrow> map_of ks' k = None"
      "\<And>k. map_of ks' k = None \<or> map_of ks' k = map_of ks k"
    by (simp_all add: pruned_to_def) blast
  have "meta_accepts (RelationMetadata n fm ks nodes) segs \<and> node_offers (RelationNode cs) segs"
    if "meta_accepts (RelationMetadata n fm ks' nodes') segs" for segs
  proof (cases segs)
    case (Cons seg rest)
    with that obtain i where i: "map_of ks' (to_lower seg) = Some i" "i < length nodes'" "meta_accepts (nodes' ! i) rest"
      by (auto simp: child_meta_def split: option.splits if_splits)
    then have k: "map_of ks (to_lower seg) = Some i" using p(5) [of "to_lower seg"] by auto
    then have "(to_lower seg, i) \<in> set ks" by (rule map_of_SomeD)
    with p(4) i(1) obtain d where d: "map_of ?allowed (to_lower seg) = Some d"
      by (cases "map_of ?allowed (to_lower seg)") auto
    have "rest \<in> accepted (nodes' ! i)" using i by (simp add: accepted_def)
    with p(1,2) i(2) p(3) [OF \<open>(to_lower seg, i) \<in> set ks\<close> _ d]
    have "rest \<in> accepted (nodes ! i)" "rest \<in> offered d" by auto
    with k i p(1) d Cons show ?thesis by (simp add: child_meta_def accepted_def offered_def)
  qed simp
  then show ?case
    unfolding prune_relation_node_step f by (auto simp: accepted_def offered_def)
qed

text \<open>
  Once a descriptor is known, a client can include exactly relations the descriptor
  offers: a path that the pruned metadata resolves is one the model has and one the descriptor's
  tree has, at every depth, also where a field and its JSON alias share a node.
\<close>

theorem pruned_metadata_offered:
  assumes "meta_accepts (prune_relation_node m node) segs"
  shows "meta_accepts m segs \<and> node_offers node segs"
  using assms prune_accepts [of m node] by (auto simp: accepted_def offered_def)

text \<open>
  A model of three types: an article with an author and an editor of the same type, each user
  with a profile; field names and tags as the code reads them.
\<close>

definition plain_field :: "string \<Rightarrow> struct_field" where
  "plain_field n = \<lparr>sf_name = n, sf_exported = True, sf_crud = [], sf_bun = [], sf_json = [], sf_type = TOther ''string''\<rparr>"

definition relation_field :: "string \<Rightarrow> string \<Rightarrow> string \<Rightarrow> struct_field" where
  "relation_field n json t = (plain_field n)\<lparr>sf_bun := ''rel:belongs-to'', sf_json := json, sf_type := TPointer (TStruct t)\<rparr>"

definition article_env :: type_env where
  "article_env =
     [(''Article'', [plain_field ''Title'', relation_field ''Author'' ''writer'' ''User'',
                    relation_field ''Editor'' [] ''User'']),
      (''User'', [plain_field ''Name'', relation_field ''Profile'' [] ''Profile'']),
      (''Profile'', [plain_field ''Bio''])]"

definition article_metadata :: "relation_metadata option" where
  "article_metadata = fst (run_build article_env to_lower None (TPointer (TStruct ''Article'')) [])"

lemma pruned_metadata_offered_witness:
  "\<exists>m. article_metadata = Some m \<and> meta_accepts m [''Author'', ''Profile''] \<and>
     node_offers (RelationNode [(''WRITER'', RelationNode [])]) [''Writer''] \<and>
     \<not> meta_accepts (prune_relation_node m (RelationNode [(''WRITER'', RelationNode [])])) [''Author'']"
proof -
  let ?n = "RelationNode [(''WRITER'', RelationNode [])]"
  have "article_metadata \<noteq> None" by code_simp
  then obtain m where m: "article_metadata = Some m" by blast
  have "meta_accepts (prune_relation_node (the article_metadata) ?n) [''Writer'']" by code_simp
  from pruned_metadata_offered [OF this] have "node_offers ?n [''Writer'']" by simp
  moreover have "meta_accepts (the article_metadata) [''Author'', ''Profile'']"
      "\<not> meta_accepts (prune_relation_node (the article_metadata) ?n) [''Author'']"
    by code_simp+
  ultimately show ?thesis unfolding m option.sel by blast
qed

text \<open>
  The set of visited types is not only the current path: of two relations of the
  same type only the first one gets the fields and relations of that type, the second one has
  none, so filters and nested includes on it are rejected.
\<close>

theorem second_relation_is_empty:
  "map_option (\<lambda>m. (map_option meta_fields (child_meta m ''author''),
                    map_option meta_fields (child_meta m ''editor''),
                    meta_accepts m [''author'', ''profile''], meta_accepts m [''editor'', ''profile'']))
     article_metadata =
   Some (Some [(''name'', ''name''), (''profile'', ''rel:belongs-to'')], Some [], True, False)"
  by code_simp

text \<open>
  A relation field is also a queryable field of its model, under its JSON key, and
  its column is the first part of the relation tag, which is no column of the table.
\<close>

theorem relation_tag_is_column:
  assumes "sf_exported f" "sf_crud f \<noteq> ''-''" "first_part (sf_bun f) = ''rel:belongs-to''"
    and "sf_bun f \<noteq> []"
  shows "map_of (build_default_field_map snake [f] []) (field_json_key snake f) = Some ''rel:belongs-to''"
  using assms by (simp add: field_column_def)

lemma relation_tag_is_column_witness:
  "map_of (build_default_field_map to_lower [relation_field ''Author'' ''writer'' ''User''] []) ''writer'' =
   Some ''rel:belongs-to''"
proof -
  have f: "first_part (sf_bun (relation_field ''Author'' ''writer'' ''User'')) = ''rel:belongs-to''"
      "field_json_key to_lower (relation_field ''Author'' ''writer'' ''User'') = ''writer''"
    by code_simp+
  show ?thesis
    using relation_tag_is_column [OF _ _ f(1), of to_lower] f(2)
    by (simp add: relation_field_def plain_field_def)
qed

section \<open>Relation names\<close>

text \<open>The children of a node have distinct relation names, the field names of the struct.\<close>

fun names_ok :: "relation_metadata \<Rightarrow> bool" where
  "names_ok (RelationMetadata n m ks nodes) \<longleftrightarrow>
     distinct (map relation_name nodes) \<and> list_all names_ok nodes"

definition distinct_fields :: "type_env \<Rightarrow> bool" where
  "distinct_fields env \<longleftrightarrow> list_all (\<lambda>(t, fs). distinct (map sf_name fs)) env"

lemma names_ok_child:
  assumes "names_ok m" "child_meta m k = Some c"
  shows "names_ok c"
  using assms by (cases m) (auto simp: child_meta_def list_all_length split: option.splits if_splits)

lemma names_ok_same_child:
  assumes "names_ok m" "child_meta m k = Some c" "child_meta m k' = Some c'"
    and "relation_name c = relation_name c'"
  shows "c = c'"
  using assms
  by (cases m) (fastforce simp: child_meta_def distinct_conv_nth split: option.splits if_splits)

lemma set_relation_name_sel [simp]:
  "relation_name (set_relation_name n m) = n" "names_ok (set_relation_name n m) = names_ok m"
  by (cases m, simp add: set_relation_name_def)+

lemma register_child_nodes [simp]:
  "child_nodes (register_child m f c) = child_nodes m @ [c]"
  by (simp add: register_child_def Let_def)

lemma names_ok_alt:
  "names_ok m \<longleftrightarrow> distinct (map relation_name (child_nodes m)) \<and> list_all names_ok (child_nodes m)"
  by (cases m) simp

lemma build_children_names:
  assumes "\<And>t st r st'. build t st = Some (Some r, st') \<Longrightarrow> names_ok r"
    and "build_children build fs meta st = Some (meta', st')" "names_ok meta"
    and "distinct (map sf_name fs)" "set (map sf_name fs) \<inter> relation_name ` set (child_nodes meta) = {}"
  shows "names_ok meta'"
  using assms(2-5)
proof (induction fs arbitrary: meta st)
  case (Cons f fs)
  note child = assms(1) [of "element_type (sf_type f)" st]
  show ?case
  proof (cases "is_relation_field f")
    case True
    with Cons.prems obtain r st' where b: "build (element_type (sf_type f)) st = Some (r, st')"
      by (auto split: option.splits)
    show ?thesis
    proof (cases r)
      case (Some x)
      with b child have x: "names_ok x" by blast
      let ?m = "register_child meta f (set_relation_name (sf_name f) x)"
      have "distinct (map relation_name (child_nodes meta)) \<and> list_all names_ok (child_nodes meta)"
        using Cons.prems(2) by (rule names_ok_alt [THEN iffD1])
      then have "names_ok ?m"
        using Cons.prems(4) x by (intro names_ok_alt [of ?m, THEN iffD2]) auto
      moreover have "set (map sf_name fs) \<inter> relation_name ` set (child_nodes ?m) = {}"
        using Cons.prems by auto
      ultimately show ?thesis using Cons.IH [of ?m st'] Cons.prems b True Some by simp
    qed (use Cons b True in auto)
  qed (use Cons in auto)
qed simp

lemma build_relation_metadata_names:
  assumes "distinct_fields env"
  shows "build_relation_metadata env snake provider n ty st = Some (Some r, st') \<Longrightarrow> names_ok r"
proof (induction n arbitrary: ty st r st')
  case (Suc n)
  have fields: "distinct (map sf_name (struct_fields env t))" for t
    using assms by (auto simp: struct_fields_def distinct_fields_def list_all_iff split: option.splits
        dest!: map_of_SomeD)
  have children: "build_children (build_relation_metadata env snake provider n) (struct_fields env t)
        (RelationMetadata [] m [] []) st1 = Some (r, st2) \<Longrightarrow> names_ok r" for t m st1 st2
    by (rule build_children_names [OF Suc.IH]) (auto simp: fields)
  show ?case
    using Suc.prems by (auto split: go_type.splits if_splits prod.splits option.splits dest!: children)
qed simp

lemma relation_name_prune [simp]: "relation_name (prune_relation_node m node) = relation_name m"
  by (cases m; cases node) (simp only: prune_relation_node_step split: prod.split, simp)

lemma prune_step_pair [simp]:
  "map_of allowed k = None \<Longrightarrow> prune_step prune allowed (k, i) (ks, nodes) = (del k ks, nodes)"
  "map_of allowed k = Some c \<Longrightarrow>
    prune_step prune allowed (k, i) (ks, nodes) = (ks, nodes[i := prune (nodes ! i) c])"
  by (simp_all add: prune_step_def)

lemma fold_prune_names:
  assumes "\<And>e c m. e \<in> set es \<Longrightarrow> map_of allowed (fst e) = Some c \<Longrightarrow> names_ok m \<Longrightarrow> names_ok (prune m c)"
    and "\<And>m c. relation_name (prune m c) = relation_name m"
    and "list_all names_ok nodes" "fold (prune_step prune allowed) es (ks, nodes) = (ks', nodes')"
  shows "list_all names_ok nodes' \<and> map relation_name nodes' = map relation_name nodes"
  using assms(1,3,4)
proof (induction es arbitrary: ks nodes)
  case (Cons e es)
  obtain k i where e: "e = (k, i)" by fastforce
  have later: "names_ok (prune m c)"
    if "e' \<in> set es" "map_of allowed (fst e') = Some c" "names_ok m" for e' c m
    by (rule Cons.prems(1)) (use that in simp_all)
  show ?case
  proof (cases "map_of allowed k")
    case None
    with e Cons.prems(3) have "fold (prune_step prune allowed) es (del k ks, nodes) = (ks', nodes')"
      by simp
    with Cons.IH [OF later Cons.prems(2)] show ?thesis by simp
  next
    case (Some c)
    let ?n = "nodes[i := prune (nodes ! i) c]"
    have f: "fold (prune_step prune allowed) es (ks, ?n) = (ks', nodes')"
      using e Some Cons.prems(3) by simp
    have n: "list_all names_ok ?n"
    proof (cases "i < length nodes")
      case True
      then have "names_ok (prune (nodes ! i) c)"
        using Cons.prems(1) [of e c "nodes ! i"] Cons.prems(2) e Some by (simp add: list_all_length)
      with True Cons.prems(2) show ?thesis by (simp add: list_all_length nth_list_update)
    qed (use Cons.prems(2) in \<open>simp add: list_update_beyond\<close>)
    have "map relation_name ?n = map relation_name nodes"
      by (cases "i < length nodes") (auto simp: map_update assms(2) list_update_beyond list_update_same_conv)
    with Cons.IH [OF later n f] show ?thesis by simp
  qed
qed simp

lemma names_ok_prune: "names_ok m \<Longrightarrow> names_ok (prune_relation_node m node)"
proof (induction m node rule: prune_relation_node.induct)
  case (1 n fm ks nodes cs)
  obtain ks' nodes' where f:
    "fold (prune_step prune_relation_node (lower_keys cs [])) ks (ks, nodes) = (ks', nodes')"
    by fastforce
  have IH: "names_ok m \<Longrightarrow> names_ok (prune_relation_node m c)"
    if "e \<in> set ks" "map_of (lower_keys cs []) (fst e) = Some c" for e c m
    using 1(1) [OF that(1) surjective_pairing [symmetric] that(2), of "replicate (Suc (snd e)) m"]
    by (simp del: replicate_Suc)
  have "list_all names_ok nodes' \<and> map relation_name nodes' = map relation_name nodes"
    by (rule fold_prune_names [OF IH relation_name_prune _ f]) (use 1(2) in auto)
  with 1(2) show ?case unfolding prune_relation_node_step f by simp
qed

lemma names_ok_prune_by: "names_ok m \<Longrightarrow> names_ok (prune_by d m)"
  by (auto simp: prune_by_def prune_relation_metadata_def names_ok_prune split: option.splits)

lemma run_build_names:
  "distinct_fields env \<Longrightarrow> run_build env snake provider ty cache = (Some root, cache') \<Longrightarrow> names_ok root"
  by (auto simp: run_build_def dest: build_relation_metadata_names split: option.splits)

end
