(* ===== verification/Relation_Includes.thy ===== *)
theory Relation_Includes
  imports Relation_Metadata Query_Criteria
begin

text \<open>
  Relation includes of the controller package: the include part of \<open>query.go\<close>, with the operator
  validation of \<open>query_validation.go\<close>. An \<open>include\<close> parameter (\<open>author.name__like=ada,tags\<close>)
  is parsed against the model's metadata into a tree of relations with filters; the tree gives
  the ORM relation calls, the include paths and the relation filters a response reports.
\<close>

section \<open>Validation errors\<close>

datatype query_validation_code = QueryValidationUnsupportedOperator | QueryValidationSearchColumnsRequired

record query_validation_error =
  qv_code :: query_validation_code
  qv_field :: string
  qv_operator :: string
  qv_search :: string

text \<open>\<open>convertQueryBunError\<close>: errors without a counterpart are passed on as they are.\<close>

datatype query_error = QueryValidation query_validation_error | QueryPlanError validation_error

definition convert_query_bun_error :: "validation_error \<Rightarrow> query_error" where
  "convert_query_bun_error e =
     (case ve_code e of
        ValidationUnsupportedOperator \<Rightarrow>
          QueryValidation \<lparr>qv_code = QueryValidationUnsupportedOperator, qv_field = ve_field e,
                           qv_operator = ve_operator e, qv_search = ve_search e\<rparr>
      | ValidationSearchColumnsRequired \<Rightarrow>
          QueryValidation \<lparr>qv_code = QueryValidationSearchColumnsRequired, qv_field = ve_field e,
                           qv_operator = [], qv_search = ve_search e\<rparr>
      | ValidationFieldNotAllowed \<Rightarrow> QueryPlanError e)"

definition include_config :: "op_tables \<Rightarrow> bool \<Rightarrow> config" where
  "include_config t strict =
     zero_config\<lparr>operator_map := crud_ops t, strict_validation := strict, fallback_unsupported := True\<rparr>"

definition parse_field_operator_with_validation ::
  "op_tables \<Rightarrow> string \<Rightarrow> bool \<Rightarrow> query_error + string \<times> operator" where
  "parse_field_operator_with_validation t param strict =
     (case (case cut_at ''__'' param of
              None \<Rightarrow> (trim_space param, ''eq'')
            | Some (f, token) \<Rightarrow> (trim_space f, trim_space token)) of
        (fld, token) \<Rightarrow>
          (case resolve_operator (bun_ops t) token fld (include_config t strict) of
             Inl e \<Rightarrow> Inl (convert_query_bun_error e)
           | Inr op \<Rightarrow> Inr (fld, op)))"

section \<open>The include tree\<close>

record relation_filter =
  rf_field :: string
  rf_operator :: string
  rf_value :: string
  rf_column :: string

datatype include_node =
  IncludeNode (node_name: string) (request_name: string) (node_filters: "relation_filter list")
    (node_nodes: "(string \<times> include_node) list")

datatype include_error =
    IncludeMetadataUnavailable
  | IncludeEmptySegment
  | IncludeFilterBeforeRelation
  | IncludeInvalidFilter
  | IncludeOperator query_error
  | IncludeUnsupportedField string string
  | IncludeUnknownRelation string

definition relation_column :: "relation_metadata \<Rightarrow> string \<Rightarrow> string" where
  "relation_column m fld = (case map_of (meta_fields m) fld of None \<Rightarrow> [] | Some c \<Rightarrow> c)"

text \<open>
  The loop of \<open>parseIncludePath\<close> after the first relation: the filters of the current relation
  and the node of the next one.
\<close>

fun parse_segments ::
  "op_tables \<Rightarrow> bool \<Rightarrow> relation_metadata \<Rightarrow> string \<Rightarrow> string list \<Rightarrow>
   include_error + relation_filter list \<times> include_node option" where
  "parse_segments t strict m request [] = Inr ([], None)"
| "parse_segments t strict m request (raw # segs) =
     (let seg = trim_space raw
      in if seg = [] then Inl IncludeEmptySegment
         else if contains_sub seg ''=''
         then (case cut_at ''='' seg of
                 None \<Rightarrow> Inl IncludeInvalidFilter
               | Some (fieldPart, val) \<Rightarrow>
                   (case parse_field_operator_with_validation t fieldPart strict of
                      Inl e \<Rightarrow> Inl (IncludeOperator e)
                    | Inr (fld, op) \<Rightarrow>
                        (if relation_column m fld = [] then Inl (IncludeUnsupportedField fld request)
                         else case parse_segments t strict m request segs of
                           Inl e \<Rightarrow> Inl e
                         | Inr (fs, child) \<Rightarrow>
                             Inr (\<lparr>rf_field = fld, rf_operator = op_sql op, rf_value = val,
                                   rf_column = relation_column m fld\<rparr> # fs, child))))
         else case child_meta m (to_lower seg) of
                None \<Rightarrow> Inl (IncludeUnknownRelation seg)
              | Some cm \<Rightarrow>
                  (case parse_segments t strict cm seg segs of
                     Inl e \<Rightarrow> Inl e
                   | Inr (fs, child) \<Rightarrow>
                       Inr ([], Some (IncludeNode (relation_name cm) seg fs
                                   (case child of None \<Rightarrow> [] | Some c \<Rightarrow> [(node_name c, c)])))))"

definition parse_include_path ::
  "op_tables \<Rightarrow> string \<Rightarrow> relation_metadata option \<Rightarrow> bool \<Rightarrow> include_error + include_node" where
  "parse_include_path t path meta strict =
     (case meta of
        None \<Rightarrow> Inl IncludeMetadataUnavailable
      | Some m \<Rightarrow>
          (let segs = split_on CHR ''.'' path; seg = trim_space (hd segs)
           in if seg = [] then Inl IncludeEmptySegment
              else if contains_sub seg ''='' then Inl IncludeFilterBeforeRelation
              else case child_meta m (to_lower seg) of
                     None \<Rightarrow> Inl (IncludeUnknownRelation seg)
                   | Some cm \<Rightarrow>
                       (case parse_segments t strict cm seg (tl segs) of
                          Inl e \<Rightarrow> Inl e
                        | Inr (fs, child) \<Rightarrow>
                            Inr (IncludeNode (relation_name cm) seg fs
                                   (case child of None \<Rightarrow> [] | Some c \<Rightarrow> [(node_name c, c)])))))"

text \<open>\<open>mergeIncludeNode\<close>: filters add up, children merge by relation name.\<close>

fun merge_include_node :: "include_node \<Rightarrow> include_node \<Rightarrow> include_node"
  and merge_children :: "(string \<times> include_node) list \<Rightarrow> (string \<times> include_node) list \<Rightarrow>
    (string \<times> include_node) list" where
  "merge_include_node into (IncludeNode n r fs cs) =
     IncludeNode (node_name into) (request_name into) (node_filters into @ fs)
       (merge_children (node_nodes into) cs)"
| "merge_children dst [] = dst"
| "merge_children dst ((name, child) # cs) =
     (case map_of dst name of
        Some existing \<Rightarrow> merge_children (put name (merge_include_node existing child) dst) cs
      | None \<Rightarrow> merge_children (put name child dst) cs)"

definition merge_include_trees :: "(string \<times> include_node) list \<Rightarrow> include_node \<Rightarrow> (string \<times> include_node) list" where
  "merge_include_trees dst node =
     (case map_of dst (node_name node) of
        Some existing \<Rightarrow> put (node_name node) (merge_include_node existing node) dst
      | None \<Rightarrow> put (node_name node) node dst)"

text \<open>The error carries the path it was found in.\<close>

fun build_include_loop ::
  "op_tables \<Rightarrow> relation_metadata option \<Rightarrow> bool \<Rightarrow> string list \<Rightarrow> (string \<times> include_node) list \<Rightarrow>
   (string \<times> include_error) + (string \<times> include_node) list" where
  "build_include_loop t meta strict [] tree = Inr tree"
| "build_include_loop t meta strict (raw # raws) tree =
     (let path = trim_space raw
      in if path = [] then build_include_loop t meta strict raws tree
         else case parse_include_path t path meta strict of
                Inl e \<Rightarrow> Inl (path, e)
              | Inr node \<Rightarrow> build_include_loop t meta strict raws (merge_include_trees tree node))"

definition build_include_tree ::
  "op_tables \<Rightarrow> string \<Rightarrow> relation_metadata option \<Rightarrow> bool \<Rightarrow>
   (string \<times> include_error) + (string \<times> include_node) list" where
  "build_include_tree t includeParam meta strict =
     (if trim_space includeParam = [] then Inr []
      else build_include_loop t meta strict (split_on CHR '','' includeParam) [])"

section \<open>What the tree gives\<close>

record response_filter =
  rsf_field :: string
  rsf_operator :: string
  rsf_value :: string

record relation_info =
  ri_name :: string
  ri_filters :: "response_filter list"

text \<open>\<open>sortedRelationKeys\<close> gives the children in the order of their names.\<close>

definition by_name :: "(string \<times> include_node) list \<Rightarrow> (string \<times> include_node) list" where
  "by_name cs = sort_key fst cs"

lemma set_by_name [simp]: "set (by_name cs) = set cs"
  by (simp add: by_name_def)

lemma by_name_size [termination_simp]:
  "(k, c) \<in> set cs \<Longrightarrow> size c < Suc (size_list (size_prod (\<lambda>x. 0) size) cs)"
  by (induction cs) auto

definition response_filters :: "relation_filter list \<Rightarrow> response_filter list" where
  "response_filters fs =
     map (\<lambda>f. \<lparr>rsf_field = rf_field f, rsf_operator = rf_operator f, rsf_value = rf_value f\<rparr>) fs"

fun collect_relation_details ::
  "string list \<Rightarrow> include_node \<Rightarrow> string list \<times> relation_info list" where
  "collect_relation_details path (IncludeNode n r fs cs) =
     (let currentPath = path @ [r];
          pathStr = join ''.'' currentPath;
          subs = map (\<lambda>(k, c). collect_relation_details currentPath c) (by_name cs)
      in (pathStr # concat (map fst subs),
          (if fs \<noteq> [] then [\<lparr>ri_name = pathStr, ri_filters = response_filters fs\<rparr>] else [])
            @ concat (map snd subs)))"

definition collect_include_details ::
  "(string \<times> include_node) list \<Rightarrow> string list \<times> relation_info list" where
  "collect_include_details nodes =
     (let subs = map (\<lambda>(k, c). collect_relation_details [] c) (by_name nodes)
      in (concat (map fst subs), concat (map snd subs)))"

definition apply_relation_filters :: "relation_filter list \<Rightarrow> criteria" where
  "apply_relation_filters fs =
     apply_criteria (map (\<lambda>f. q_where (where_text (if rf_column f = [] then rf_field f else rf_column f)
                                         (rf_operator f)) (Arg (rf_value f))) fs)"

fun include_relation :: "include_node \<Rightarrow> criteria" where
  "include_relation (IncludeNode n r fs cs) =
     q_relation n (\<lambda>rel. apply_criteria (map (\<lambda>(k, c). include_relation c) (by_name cs))
                        (apply_relation_filters fs rel))"

definition include_criteria :: "(string \<times> include_node) list \<Rightarrow> criteria list" where
  "include_criteria nodes = map (\<lambda>(k, c). include_relation c) (by_name nodes)"

section \<open>Reported relations\<close>

text \<open>\<open>mergeRelationInfos\<close>; the filters of the descriptor are its relations' (name, filters).\<close>

definition convert_router_relation_filters :: "response_filter list \<Rightarrow> response_filter list" where
  "convert_router_relation_filters fs =
     map (\<lambda>f. \<lparr>rsf_field = rsf_field f, rsf_operator = rsf_operator f, rsf_value = rsf_value f\<rparr>) fs"

definition filters_by_name :: "(string \<times> response_filter list) list \<Rightarrow> (string, response_filter list) gomap" where
  "filters_by_name infos = fold (\<lambda>(n, fs) m. if n = [] then m else put (to_lower n) fs m) infos []"

definition filters_of :: "(string, response_filter list) gomap \<Rightarrow> string \<Rightarrow> response_filter list" where
  "filters_of m k = (case map_of m k of None \<Rightarrow> [] | Some fs \<Rightarrow> fs)"

fun add_missing_relations ::
  "response_filter relation_descriptor \<Rightarrow> relation_info list \<Rightarrow> relation_info list \<Rightarrow> relation_info list" where
  "add_missing_relations d results [] = results"
| "add_missing_relations d results (info # infos) =
     (if ri_name info = [] \<or> ri_filters info = [] \<or> \<not> descriptor_includes (Some d) (ri_name info)
         \<or> list_ex (\<lambda>ex. equal_fold (ri_name ex) (ri_name info)) results
      then add_missing_relations d results infos
      else add_missing_relations d (results @ [info]) infos)"

definition merge_relation_infos ::
  "string list \<Rightarrow> relation_info list \<Rightarrow> response_filter relation_descriptor option \<Rightarrow> relation_info list" where
  "merge_relation_infos includePaths requestInfos descriptor =
     (case descriptor of
        None \<Rightarrow> requestInfos
      | Some d \<Rightarrow>
          (let requestMap = filters_by_name (map (\<lambda>i. (ri_name i, ri_filters i)) requestInfos);
               descriptorMap = filters_by_name
                 (map (\<lambda>(n, fs). (n, convert_router_relation_filters fs)) (rd_relations d));
               filtersFor = (\<lambda>path.
                  let fs = filters_of requestMap (to_lower path)
                  in if fs = [] then filters_of descriptorMap (to_lower path) else fs);
               results = map (\<lambda>path. \<lparr>ri_name = path, ri_filters = filtersFor path\<rparr>)
                 (filter (\<lambda>path. path \<noteq> [] \<and> descriptor_includes descriptor path \<and> filtersFor path \<noteq> [])
                    includePaths)
           in add_missing_relations d results requestInfos))"

text \<open>\<open>buildIncludeCriteriaForType\<close>, on the metadata and the descriptor of the model type.\<close>

definition build_include_criteria ::
  "op_tables \<Rightarrow> relation_metadata option \<Rightarrow> response_filter relation_descriptor option \<Rightarrow> string \<Rightarrow> bool \<Rightarrow>
   (string \<times> include_error) + criteria list \<times> string list \<times> relation_info list" where
  "build_include_criteria t meta descriptor include strict =
     (if trim_space include = [] then Inr ([], [], [])
      else case build_include_tree t include meta strict of
             Inl e \<Rightarrow> Inl e
           | Inr nodes \<Rightarrow>
               (if nodes = [] then Inr ([], [], [])
                else case collect_include_details nodes of (includePaths, infos) \<Rightarrow>
                  Inr (include_criteria nodes, includePaths,
                       merge_relation_infos includePaths infos descriptor)))"

section \<open>Includes stay within the metadata\<close>

text \<open>
  A call inside a relation is trusted when it filters on a column of the relation's metadata with
  a known operator, or includes one of its child relations with trusted calls.
\<close>

fun trusted_in :: "string set \<Rightarrow> relation_metadata \<Rightarrow> qcall \<Rightarrow> bool" where
  "trusted_in ops m (QWhere t a) =
     (\<exists>fld col op. map_of (meta_fields m) fld = Some col \<and> op \<in> ops \<and> t = where_text col op)"
| "trusted_in ops m (QRelation n cs) =
     (\<exists>k c. child_meta m k = Some c \<and> relation_name c = n \<and> list_all (trusted_in ops c) cs)"
| "trusted_in ops m _ = False"

abbreviation include_operators :: "op_tables \<Rightarrow> string set" where
  "include_operators t \<equiv> trusted_operators (bun_ops t) (include_config t False)"

definition filter_ok :: "string set \<Rightarrow> relation_metadata \<Rightarrow> relation_filter \<Rightarrow> bool" where
  "filter_ok ops m f \<longleftrightarrow>
     rf_column f \<noteq> [] \<and> map_of (meta_fields m) (rf_field f) = Some (rf_column f) \<and> rf_operator f \<in> ops"

fun conforms :: "string set \<Rightarrow> relation_metadata \<Rightarrow> include_node \<Rightarrow> bool" where
  "conforms ops m (IncludeNode n r fs cs) \<longleftrightarrow>
     (\<exists>c. child_meta m (to_lower r) = Some c \<and> relation_name c = n \<and> CHR ''.'' \<notin> set r \<and>
          list_all (filter_ok ops c) fs \<and> wf_map cs \<and>
          list_all (\<lambda>(k, ch). k = node_name ch \<and> conforms ops c ch) cs)"

definition conforming :: "string set \<Rightarrow> relation_metadata \<Rightarrow> (string \<times> include_node) list \<Rightarrow> bool" where
  "conforming ops m cs \<longleftrightarrow> wf_map cs \<and> list_all (\<lambda>(k, ch). k = node_name ch \<and> conforms ops m ch) cs"

lemma conforms_alt:
  "conforms ops m (IncludeNode n r fs cs) \<longleftrightarrow>
     (\<exists>c. child_meta m (to_lower r) = Some c \<and> relation_name c = n \<and> CHR ''.'' \<notin> set r \<and>
          list_all (filter_ok ops c) fs \<and> conforming ops c cs)"
  by (simp add: conforming_def)

lemma trusted_operators_strict:
  "trusted_operators (bun_ops t) (include_config t strict) = include_operators t"
  by (simp add: trusted_operators_def include_config_def)

lemma parse_field_operator_trusted:
  assumes "parse_field_operator_with_validation t param strict = Inr (fld, op)"
  shows "op_sql op \<in> include_operators t"
proof -
  from assms obtain token where "resolve_operator (bun_ops t) token fld (include_config t strict) = Inr op"
    by (auto simp: parse_field_operator_with_validation_def split: prod.splits sum.splits)
  from resolve_operator_trusted [OF this] show ?thesis
    using trusted_operators_strict [of t strict] by simp
qed

lemma relation_column_Some:
  "relation_column m fld \<noteq> [] \<Longrightarrow> map_of (meta_fields m) fld = Some (relation_column m fld)"
  by (auto simp: relation_column_def split: option.splits)

lemma parse_segments_conforms:
  assumes "parse_segments t strict m request segs = Inr (fs, child)"
    and "\<forall>seg \<in> set segs. CHR ''.'' \<notin> set seg"
  shows "list_all (filter_ok (include_operators t) m) fs \<and>
    (\<forall>c. child = Some c \<longrightarrow> conforms (include_operators t) m c)"
  using assms
proof (induction segs arbitrary: m request fs child)
  case (Cons raw segs)
  let ?seg = "trim_space raw"
  have nodot: "CHR ''.'' \<notin> set ?seg" "\<forall>seg \<in> set segs. CHR ''.'' \<notin> set seg"
    using Cons.prems(2) set_trim_space [of raw] by auto
  show ?case
  proof (cases "contains_sub ?seg ''=''")
    case True
    then obtain fp v where cut: "cut_at ''='' ?seg = Some (fp, v)" by (auto simp: contains_sub_def)
    with True Cons.prems(1) obtain fld op fs' where
      p: "parse_field_operator_with_validation t fp strict = Inr (fld, op)" "relation_column m fld \<noteq> []"
        "parse_segments t strict m request segs = Inr (fs', child)"
        "fs = \<lparr>rf_field = fld, rf_operator = op_sql op, rf_value = v, rf_column = relation_column m fld\<rparr> # fs'"
      by (auto simp: Let_def split: if_splits sum.splits)
    from Cons.IH [OF p(3) nodot(2)] show ?thesis
      using p parse_field_operator_trusted [OF p(1)] relation_column_Some [OF p(2)]
      by (simp add: filter_ok_def)
  next
    case False
    with Cons.prems(1) obtain cm fs' child' where
      c: "child_meta m (to_lower ?seg) = Some cm" "parse_segments t strict cm ?seg segs = Inr (fs', child')"
        "fs = []" "child = Some (IncludeNode (relation_name cm) ?seg fs'
            (case child' of None \<Rightarrow> [] | Some c \<Rightarrow> [(node_name c, c)]))"
      by (auto simp: Let_def split: if_splits sum.splits option.splits)
    from Cons.IH [OF c(2) nodot(2)] show ?thesis
      using c nodot(1) by (auto split: option.splits)
  qed
qed simp

lemma parse_include_path_conforms:
  assumes "parse_include_path t path (Some m) strict = Inr node"
  shows "conforms (include_operators t) m node"
proof -
  let ?segs = "split_on CHR ''.'' path"
  obtain raw segs where s: "?segs = raw # segs"
    by (cases ?segs) (auto simp: split_on_def)
  have nodot: "CHR ''.'' \<notin> set (trim_space raw)" "\<forall>seg \<in> set segs. CHR ''.'' \<notin> set seg"
    using split_on_free [of _ "CHR ''.''" path] set_trim_space [of raw] s by auto
  from assms s obtain cm fs child where
    c: "child_meta m (to_lower (trim_space raw)) = Some cm"
      "parse_segments t strict cm (trim_space raw) segs = Inr (fs, child)"
      "node = IncludeNode (relation_name cm) (trim_space raw) fs
          (case child of None \<Rightarrow> [] | Some c \<Rightarrow> [(node_name c, c)])"
    by (auto simp: parse_include_path_def Let_def split: if_splits sum.splits option.splits)
  from parse_segments_conforms [OF c(2) nodot(2)] show ?thesis
    using c nodot(1) by (auto split: option.splits)
qed

lemma conforming_put:
  assumes "conforming ops m cs" "conforms ops m node" "k = node_name node"
  shows "conforming ops m (put k node cs)"
  using assms list_all_put [of "\<lambda>(k, ch). k = node_name ch \<and> conforms ops m ch" cs k node]
  by (simp add: conforming_def)

lemma conforming_lookup:
  "conforming ops m cs \<Longrightarrow> map_of cs k = Some node \<Longrightarrow> conforms ops m node \<and> k = node_name node"
  by (auto simp: conforming_def list_all_iff dest!: map_of_SomeD)

lemma node_name_merge [simp]: "node_name (merge_include_node a b) = node_name a"
  by (cases b) simp

lemma merge_conforms:
  "names_ok m \<Longrightarrow> conforms ops m into \<Longrightarrow> conforms ops m other \<Longrightarrow> node_name into = node_name other \<Longrightarrow>
     conforms ops m (merge_include_node into other)"
  "names_ok m \<Longrightarrow> conforming ops m dst \<Longrightarrow> list_all (\<lambda>(k, ch). k = node_name ch \<and> conforms ops m ch) cs \<Longrightarrow>
     conforming ops m (merge_children dst cs)"
proof (induction into other and dst cs arbitrary: m and m rule: merge_include_node_merge_children.induct)
  case (1 into n r fs cs)
  obtain n0 r0 fs0 cs0 where into: "into = IncludeNode n0 r0 fs0 cs0" by (cases into)
  from 1 into obtain c0 where c0: "child_meta m (to_lower r0) = Some c0" "relation_name c0 = n0"
      "CHR ''.'' \<notin> set r0" "list_all (filter_ok ops c0) fs0" "conforming ops c0 cs0"
    unfolding into conforms_alt by auto
  from 1 obtain c where c: "child_meta m (to_lower r) = Some c" "relation_name c = n"
      "list_all (filter_ok ops c) fs" "conforming ops c cs"
    unfolding conforms_alt by auto
  have same: "c = c0"
    using 1 into names_ok_same_child [OF _ c(1) c0(1)] c(2) c0(2) by simp
  have "conforming ops c0 (merge_children cs0 cs)"
    using 1(1) [of c0] into names_ok_child [OF 1(2) c0(1)] c0(5) c(4) same
    by (simp add: conforming_def)
  then show ?case
    using c0 c(3) same unfolding into by (simp add: conforming_def)
next
  case (3 dst name child cs)
  show ?case
  proof (cases "map_of dst name")
    case None
    then show ?thesis using 3 conforming_put by simp
  next
    case (Some existing)
    have ex: "conforms ops m existing" "name = node_name existing"
      using conforming_lookup [OF "3.prems"(2) Some] by blast+
    have ch: "name = node_name child" "conforms ops m child"
        "list_all (\<lambda>(k, ch). k = node_name ch \<and> conforms ops m ch) cs"
      using "3.prems"(3) by simp_all
    have "conforms ops m (merge_include_node existing child)"
      by (rule "3.IH"(2) [OF Some "3.prems"(1) ex(1) ch(2)]) (use ex(2) ch(1) in simp)
    then have "conforming ops m (put name (merge_include_node existing child) dst)"
      using ex(2) by (intro conforming_put "3.prems"(2)) simp_all
    from "3.IH"(3) [OF Some "3.prems"(1) this ch(3)] show ?thesis using Some by simp
  qed
qed simp

lemma build_include_loop_conforms:
  "names_ok m \<Longrightarrow> build_include_loop t (Some m) strict raws tree = Inr tree' \<Longrightarrow>
   conforming (include_operators t) m tree \<Longrightarrow> conforming (include_operators t) m tree'"
proof (induction raws arbitrary: tree)
  case (Cons raw raws)
  show ?case
  proof (cases "trim_space raw = []")
    case False
    with Cons.prems(2) obtain node where n: "parse_include_path t (trim_space raw) (Some m) strict = Inr node"
        "build_include_loop t (Some m) strict raws (merge_include_trees tree node) = Inr tree'"
      by (auto simp: Let_def split: sum.splits)
    have c: "conforms (include_operators t) m node" using n(1) by (rule parse_include_path_conforms)
    have "conforming (include_operators t) m (merge_include_trees tree node)"
    proof (cases "map_of tree (node_name node)")
      case None
      then show ?thesis using Cons.prems(3) c by (simp add: merge_include_trees_def conforming_put)
    next
      case (Some existing)
      from conforming_lookup [OF Cons.prems(3) Some] show ?thesis
        using Cons.prems c Some merge_conforms(1) [OF Cons.prems(1), of _ existing node]
        by (simp add: merge_include_trees_def conforming_put)
    qed
    from Cons.IH [OF Cons.prems(1) n(2) this] show ?thesis .
  qed (use Cons in simp)
qed simp

lemma build_include_tree_conforms:
  assumes "names_ok m" "build_include_tree t include (Some m) strict = Inr tree"
  shows "conforming (include_operators t) m tree"
  using assms build_include_loop_conforms [OF assms(1), of t strict _ "[]" tree]
  by (auto simp: build_include_tree_def conforming_def split: if_splits)

lemma apply_relation_filters_trusted:
  assumes "list_all (filter_ok ops m) fs"
  shows "appends (trusted_in ops m) (apply_relation_filters fs)"
  unfolding apply_relation_filters_def
proof (rule safe_apply_criteria, unfold list_all_iff, rule ballI)
  fix f
  assume "f \<in> set (map (\<lambda>f. q_where (where_text (if rf_column f = [] then rf_field f else rf_column f)
      (rf_operator f)) (Arg (rf_value f))) fs)"
  then obtain flt where flt: "flt \<in> set fs"
      "f = q_where (where_text (if rf_column flt = [] then rf_field flt else rf_column flt)
        (rf_operator flt)) (Arg (rf_value flt))"
    by auto
  with assms have "filter_ok ops m flt" by (auto simp: list_all_iff)
  then show "appends (trusted_in ops m) f"
    unfolding flt(2) q_where_def by (intro safe_emit) (auto simp: filter_ok_def)
qed

lemma include_relation_trusted:
  "conforms ops m node \<Longrightarrow> appends (trusted_in ops m) (include_relation node)"
proof (induction node arbitrary: m rule: include_relation.induct)
  case (1 n r fs cs)
  from "1.prems" obtain c where c: "child_meta m (to_lower r) = Some c" "relation_name c = n"
      "list_all (filter_ok ops c) fs" "conforming ops c cs"
    unfolding conforms_alt by auto
  have "appends (trusted_in ops c) (include_relation ch)" if "(k, ch) \<in> set (by_name cs)" for k ch
    using 1(1) [OF that refl] c(4) that by (auto simp: conforming_def list_all_iff)
  then have "list_all (appends (trusted_in ops c)) (map (\<lambda>(k, c). include_relation c) (by_name cs))"
    by (auto simp: list_all_iff)
  then have "appends (trusted_in ops c) (\<lambda>rel. apply_criteria (map (\<lambda>(k, c). include_relation c) (by_name cs))
      (apply_relation_filters fs rel))"
    by (rule safe_comp [OF apply_relation_filters_trusted [OF c(3)] safe_apply_criteria])
  then show ?case
    unfolding include_relation.simps using c by (elim appends_relation) auto
qed

lemma include_criteria_trusted:
  "conforming ops m nodes \<Longrightarrow> list_all (appends (trusted_in ops m)) (include_criteria nodes)"
  by (auto simp: include_criteria_def conforming_def list_all_iff include_relation_trusted)

lemma build_include_criteria_appends:
  assumes "names_ok m"
    and "build_include_criteria t (Some m) descriptor include strict = Inr (cs, paths, infos)"
  shows "list_all (appends (trusted_in (include_operators t) m)) cs"
proof (cases "cs = []")
  case False
  with assms(2) obtain nodes where n: "build_include_tree t include (Some m) strict = Inr nodes"
      "cs = include_criteria nodes"
    by (auto simp: build_include_criteria_def split: if_splits sum.splits prod.splits)
  from include_criteria_trusted [OF build_include_tree_conforms [OF assms(1) n(1)]] show ?thesis
    unfolding n(2) .
qed simp

text \<open>
  Whatever an \<open>include\<close> parameter says, the criteria it gives only join relations of
  the model's metadata, at every depth, and only filter them on columns of the joined relation
  with known operators; the values of the request are bound arguments.
\<close>

theorem includes_emit_trusted_relations:
  assumes "names_ok m"
    and "build_include_criteria t (Some m) descriptor include strict = Inr (cs, paths, infos)"
  shows "\<exists>calls. apply_criteria cs q = q\<lparr>sq_calls := sq_calls q @ calls\<rparr> \<and>
     list_all (trusted_in (include_operators t) m) calls"
  using safe_apply_criteria [OF build_include_criteria_appends [OF assms]] by (simp add: appends_def)

section \<open>Include paths\<close>

text \<open>The paths of a tree as lists of segments, as \<open>collectRelationDetails\<close> visits them.\<close>

fun node_paths :: "include_node \<Rightarrow> string list list" where
  "node_paths (IncludeNode n r fs cs) =
     [r] # concat (map (\<lambda>(k, c). map (\<lambda>p. r # p) (node_paths c)) (by_name cs))"

definition tree_paths :: "(string \<times> include_node) list \<Rightarrow> string list list" where
  "tree_paths cs = concat (map (\<lambda>(k, c). node_paths c) (by_name cs))"

lemma collect_paths:
  "fst (collect_relation_details path node) = map (\<lambda>p. join ''.'' (path @ p)) (node_paths node)"
proof (induction node arbitrary: path rule: node_paths.induct)
  case (1 n r fs cs)
  have "map fst (map (\<lambda>(k, c). collect_relation_details (path @ [r]) c) (by_name cs)) =
      map (\<lambda>(k, c). map (\<lambda>p. join ''.'' (path @ r # p)) (node_paths c)) (by_name cs)"
    using 1 by (auto simp: case_prod_unfold)
  then have "map (\<lambda>x. fst (collect_relation_details (path @ [r]) (snd x))) (by_name cs) =
      map (\<lambda>x. map (\<lambda>p. join ''.'' (path @ r # p)) (node_paths (snd x))) (by_name cs)"
    by (simp add: case_prod_unfold comp_def)
  then show ?case by (simp add: Let_def map_concat comp_def case_prod_unfold del: map_eq_conv)
qed

lemma collect_include_paths:
  "fst (collect_include_details nodes) = map (join ''.'') (tree_paths nodes)"
  by (simp add: collect_include_details_def Let_def tree_paths_def map_concat comp_def
      case_prod_unfold collect_paths)

lemma node_paths_accepted:
  "conforms ops m node \<Longrightarrow> p \<in> set (node_paths node) \<Longrightarrow>
   meta_accepts m p \<and> p \<noteq> [] \<and> hd p = request_name node \<and> (\<forall>s \<in> set p. CHR ''.'' \<notin> set s)"
proof (induction node arbitrary: m p rule: node_paths.induct)
  case (1 n r fs cs)
  from "1.prems"(1) obtain c where c: "child_meta m (to_lower r) = Some c" "CHR ''.'' \<notin> set r"
      "conforming ops c cs"
    unfolding conforms_alt by auto
  from "1.prems"(2) consider "p = [r]"
    | k ch p' where "(k, ch) \<in> set (by_name cs)" "p' \<in> set (node_paths ch)" "p = r # p'"
    by auto
  then show ?case
  proof cases
    case 2
    then have "conforms ops c ch" using c(3) by (auto simp: conforming_def list_all_iff)
    from 1(1) [OF 2(1) refl this 2(2)] show ?thesis using 2(3) c by simp
  qed (use c in simp)
qed

text \<open>Siblings differ in their request names, also up to case.\<close>

lemma sibling_requests:
  assumes "conforming ops m cs" "(k, a) \<in> set cs" "(k', b) \<in> set cs"
    and "to_lower (request_name a) = to_lower (request_name b)"
  shows "(k, a) = (k', b)"
proof -
  have "conforms ops m a" "conforms ops m b" "k = node_name a" "k' = node_name b"
    using assms(1-3) by (auto simp: conforming_def list_all_iff)
  with assms(4) have "k = k'" by (cases a; cases b) auto
  moreover have "wf_map cs" using assms(1) by (simp add: conforming_def)
  then have "map_of cs k = Some a" "map_of cs k' = Some b" using assms(2,3) by simp_all
  ultimately show ?thesis by simp
qed

definition lower_path :: "string list \<Rightarrow> string list" where
  "lower_path p = map to_lower p"

lemma distinct_by_name: "wf_map cs \<Longrightarrow> distinct (by_name cs)"
  by (simp add: by_name_def distinct_map)

lemma distinct_concat_paths:
  assumes cs: "conforming ops m cs"
    and each: "\<And>k c. (k, c) \<in> set cs \<Longrightarrow> distinct (map lower_path (node_paths c))"
  shows "distinct (map lower_path (tree_paths cs))"
proof -
  have heads: "hd p = to_lower (request_name c)" "p \<noteq> []"
    if "(k, c) \<in> set cs" "p \<in> lower_path ` set (node_paths c)" for k c p
  proof -
    from that obtain p0 where p0: "p0 \<in> set (node_paths c)" "p = lower_path p0" by auto
    have "conforms ops m c" using cs that(1) by (auto simp: conforming_def list_all_iff)
    from node_paths_accepted [OF this p0(1)] show "hd p = to_lower (request_name c)" "p \<noteq> []"
      using p0(2) by (auto simp: lower_path_def hd_map)
  qed
  have "distinct (concat (map (\<lambda>(k, c). map lower_path (node_paths c)) ds))"
    if "distinct ds" "set ds \<subseteq> set cs" for ds
    using that
  proof (induction ds)
    case (Cons d ds)
    obtain k c where d: "d = (k, c)" by fastforce
    have "set (map lower_path (node_paths c)) \<inter>
        set (concat (map (\<lambda>(k, c). map lower_path (node_paths c)) ds)) = {}"
    proof (rule ccontr)
      assume "\<not> ?thesis"
      then obtain p k' c' where p: "p \<in> lower_path ` set (node_paths c)" "(k', c') \<in> set ds"
          "p \<in> lower_path ` set (node_paths c')"
        by auto
      have mem: "(k, c) \<in> set cs" "(k', c') \<in> set cs" using Cons.prems d p(2) by auto
      from heads(1) [OF mem(1) p(1)] heads(1) [OF mem(2) p(3)]
      have "(k, c) = (k', c')" using sibling_requests [OF cs mem] by simp
      with Cons.prems(1) d p(2) show False by simp
    qed
    with Cons d each [of k c] show ?case by auto
  qed simp
  from this [of "by_name cs"] show ?thesis
    using cs by (simp add: tree_paths_def map_concat comp_def case_prod_unfold conforming_def distinct_by_name)
qed

lemma node_paths_tree: "node_paths (IncludeNode n r fs cs) = [r] # map (\<lambda>p. r # p) (tree_paths cs)"
  by (simp add: tree_paths_def map_concat comp_def case_prod_unfold)

lemma node_paths_distinct:
  "conforms ops m node \<Longrightarrow> distinct (map lower_path (node_paths node))"
proof (induction node arbitrary: m rule: node_paths.induct)
  case (1 n r fs cs)
  from "1.prems" obtain c where c: "conforming ops c cs" unfolding conforms_alt by auto
  have "distinct (map lower_path (tree_paths cs))"
  proof (rule distinct_concat_paths [OF c])
    fix k ch
    assume m: "(k, ch) \<in> set cs"
    then have "conforms ops c ch" using c by (auto simp: conforming_def list_all_iff)
    then show "distinct (map lower_path (node_paths ch))" using 1(1) [of "(k, ch)" k ch] m by simp
  qed
  moreover have "[] \<notin> set (tree_paths cs)"
  proof
    assume "[] \<in> set (tree_paths cs)"
    then obtain k ch where m: "(k, ch) \<in> set cs" "[] \<in> set (node_paths ch)" by (auto simp: tree_paths_def)
    then have "conforms ops c ch" using c by (auto simp: conforming_def list_all_iff)
    from node_paths_accepted [OF this m(2)] show False by simp
  qed
  ultimately show ?case
    unfolding node_paths_tree by (auto simp: distinct_map inj_on_def lower_path_def)
qed

lemma tree_paths_distinct: "conforming ops m cs \<Longrightarrow> distinct (map lower_path (tree_paths cs))"
  by (rule distinct_concat_paths) (auto simp: conforming_def list_all_iff intro: node_paths_distinct)

lemma tree_paths_accepted:
  "conforming ops m cs \<Longrightarrow> p \<in> set (tree_paths cs) \<Longrightarrow>
   meta_accepts m p \<and> p \<noteq> [] \<and> (\<forall>s \<in> set p. CHR ''.'' \<notin> set s)"
  by (fastforce simp: tree_paths_def conforming_def list_all_iff dest: node_paths_accepted)

lemma lower_char_dot: "lower_char c = CHR ''.'' \<longleftrightarrow> c = CHR ''.''"
proof
  have dot: "of_char CHR ''.'' = (46 :: nat)" by simp
  assume c: "lower_char c = CHR ''.''"
  show "c = CHR ''.''"
  proof (cases "65 \<le> (of_char c :: nat) \<and> (of_char c :: nat) \<le> 90")
    case True
    with c have "char_of (of_char c + 32 :: nat) = CHR ''.''" by (simp add: lower_char_def Let_def)
    from arg_cong [OF this, of "of_char :: char \<Rightarrow> nat"] True dot show ?thesis by simp
  qed (use c in \<open>auto simp: lower_char_def Let_def\<close>)
next
  show "c = CHR ''.'' \<Longrightarrow> lower_char c = CHR ''.''" by (simp, code_simp)
qed

lemma lower_dot:
  assumes "CHR ''.'' \<notin> set s"
  shows "CHR ''.'' \<notin> set (to_lower s)"
proof
  assume "CHR ''.'' \<in> set (to_lower s)"
  then obtain c where c: "c \<in> set s" "lower_char c = CHR ''.''"
    unfolding to_lower_def set_map by (metis imageE)
  from c(2) have "c = CHR ''.''" by (rule lower_char_dot [THEN iffD1])
  with c(1) assms show False by simp
qed

lemma to_lower_append [simp]: "to_lower (a @ b) = to_lower a @ to_lower b"
  by (simp add: to_lower_def)

lemma to_lower_join: "to_lower (join ''.'' p) = join ''.'' (lower_path p)"
proof -
  have "lower_char CHR ''.'' = CHR ''.''" using lower_char_dot by simp
  then have "to_lower (CHR ''.'' # s) = CHR ''.'' # to_lower s" for s by (simp add: to_lower_def)
  then have j: "to_lower (x @ ''.'' @ s) = to_lower x @ ''.'' @ to_lower s" for x s by simp
  show ?thesis
  proof (induction p rule: induct_list012)
    case (3 x y zs)
    have "to_lower (join ''.'' (x # y # zs)) = to_lower x @ ''.'' @ to_lower (join ''.'' (y # zs))"
      by (simp only: join.simps j)
    also have "\<dots> = join ''.'' (lower_path (x # y # zs))"
      unfolding 3(2) by (simp add: lower_path_def)
    finally show ?case .
  qed (simp_all add: lower_path_def)
qed

lemma split_path:
  "p \<noteq> [] \<Longrightarrow> \<forall>s \<in> set p. CHR ''.'' \<notin> set s \<Longrightarrow> split_on CHR ''.'' (join ''.'' p) = p"
  by (intro split_on_join) auto

text \<open>
  The include paths a response reports are relations of the model, resolved
  segment by segment, and no path is reported twice, also not under another spelling.
\<close>

theorem include_paths_sound:
  assumes "names_ok m"
    and "build_include_criteria t (Some m) descriptor include strict = Inr (cs, paths, infos)"
  shows "distinct (map to_lower paths) \<and> (\<forall>p \<in> set paths. meta_accepts m (split_on CHR ''.'' p))"
proof (cases "paths = []")
  case False
  with assms(2) obtain nodes where n: "build_include_tree t include (Some m) strict = Inr nodes"
      "paths = map (join ''.'') (tree_paths nodes)"
    by (auto simp: build_include_criteria_def collect_include_paths [symmetric] split: if_splits sum.splits prod.splits)
  note c = build_include_tree_conforms [OF assms(1) n(1)]
  have dots: "split_on CHR ''.'' (join ''.'' p) = p" "split_on CHR ''.'' (join ''.'' (lower_path p)) = lower_path p"
    if "p \<in> set (tree_paths nodes)" for p
    using tree_paths_accepted [OF c that] by (auto intro!: split_path simp: lower_path_def lower_dot)
  have "inj_on (join ''.'') (set (map lower_path (tree_paths nodes)))"
    by (rule inj_on_inverseI [of _ "split_on CHR ''.''"]) (use dots(2) in auto)
  with tree_paths_distinct [OF c] have "distinct (map (join ''.'') (map lower_path (tree_paths nodes)))"
    by (simp only: distinct_map)
  then have "distinct (map to_lower paths)"
    by (simp add: n(2) comp_def to_lower_join)
  then show ?thesis
    using dots(1) tree_paths_accepted [OF c] n(2) by auto
qed simp

section \<open>Reported relations\<close>

lemma add_missing_keeps: "set results \<subseteq> set (add_missing_relations d results infos)"
  by (induction d results infos rule: add_missing_relations.induct) auto

lemma add_missing_from:
  "r \<in> set (add_missing_relations d results infos) \<Longrightarrow>
   r \<in> set results \<or> (ri_filters r \<noteq> [] \<and> descriptor_includes (Some d) (ri_name r))"
  by (induction d results infos rule: add_missing_relations.induct) (auto split: if_splits)

lemma add_missing_covers:
  assumes "info \<in> set infos" "ri_name info \<noteq> []" "ri_filters info \<noteq> []"
    and "descriptor_includes (Some d) (ri_name info)"
  shows "\<exists>r \<in> set (add_missing_relations d results infos).
    equal_fold (ri_name r) (ri_name info)"
  using assms
proof (induction d results infos rule: add_missing_relations.induct)
  case (2 d results i infos)
  show ?case
  proof (cases "info = i")
    case True
    show ?thesis
    proof (cases "list_ex (\<lambda>ex. equal_fold (ri_name ex) (ri_name i)) results")
      case True
      then obtain ex where "ex \<in> set results" "equal_fold (ri_name ex) (ri_name i)" by (auto simp: list_ex_iff)
      with \<open>info = i\<close> True add_missing_keeps [of results d infos] show ?thesis by auto
    next
      case False
      then have "add_missing_relations d results (i # infos) = add_missing_relations d (results @ [i]) infos"
        using \<open>info = i\<close> "2.prems"(2-4) by simp
      moreover have "i \<in> set (add_missing_relations d (results @ [i]) infos)"
        using add_missing_keeps [of "results @ [i]" d infos] by simp
      ultimately show ?thesis using \<open>info = i\<close> by (auto simp: equal_fold_def)
    qed
  next
    case False
    with 2 show ?thesis by auto
  qed
qed simp

text \<open>
  With a descriptor, every relation a response reports is one the descriptor offers
  and has filters; without one, exactly the relations of the request are reported.
\<close>

theorem reported_relations_offered:
  "(r \<in> set (merge_relation_infos paths infos (Some d)) \<longrightarrow>
      descriptor_includes (Some d) (ri_name r) \<and> ri_filters r \<noteq> []) \<and>
   merge_relation_infos paths infos None = infos"
  by (auto simp: merge_relation_infos_def Let_def dest!: add_missing_from split: if_splits)

definition author_descriptor :: "response_filter relation_descriptor" where
  "author_descriptor = \<lparr>rd_includes = [''Author''], rd_relations = [], rd_tree = None\<rparr>"

lemma reported_relations_offered_witness:
  "descriptor_includes (Some author_descriptor) ''author'' \<and>
   merge_relation_infos [''author'']
     [\<lparr>ri_name = ''author'', ri_filters = [\<lparr>rsf_field = ''name'', rsf_operator = ''='', rsf_value = ''x''\<rparr>]\<rparr>]
     (Some author_descriptor) =
     [\<lparr>ri_name = ''author'', ri_filters = [\<lparr>rsf_field = ''name'', rsf_operator = ''='', rsf_value = ''x''\<rparr>]\<rparr>]"
proof -
  let ?d = author_descriptor
  let ?i = "\<lparr>ri_name = ''author'', ri_filters = [\<lparr>rsf_field = ''name'', rsf_operator = ''='', rsf_value = ''x''\<rparr>]\<rparr>"
  have m: "merge_relation_infos [''author''] [?i] (Some ?d) = [?i]" by code_simp
  then have "?i \<in> set (merge_relation_infos [''author''] [?i] (Some ?d))" by simp
  from reported_relations_offered [of ?i "[''author'']" "[?i]" ?d, THEN conjunct1, rule_format, OF this]
  have "descriptor_includes (Some ?d) ''author''" by simp
  with m show ?thesis by blast
qed

text \<open>
  A path is cut at every dot before its filters are read, so a filter value with a dot
  is taken for a relation and the whole request is rejected.
\<close>

theorem dotted_filter_value_rejected:
  "build_include_tree initial_tables ''author.name=ada'' article_metadata False \<noteq>
     build_include_tree initial_tables ''author.name=a.da'' article_metadata False \<and>
   (\<exists>tree. build_include_tree initial_tables ''author.name=ada'' article_metadata False = Inr tree) \<and>
   build_include_tree initial_tables ''author.name=a.da'' article_metadata False =
     Inl (''author.name=a.da'', IncludeUnknownRelation ''da'')"
proof -
  have "\<not> isl (build_include_tree initial_tables ''author.name=ada'' article_metadata False)" by code_simp
  moreover have "build_include_tree initial_tables ''author.name=a.da'' article_metadata False =
     Inl (''author.name=a.da'', IncludeUnknownRelation ''da'')"
    by code_simp
  ultimately show ?thesis
    by (cases "build_include_tree initial_tables ''author.name=ada'' article_metadata False") auto
qed

text \<open>An include of two spellings of a relation, with filters that add up.\<close>

lemma article_names: "names_ok (the article_metadata)"
  by code_simp

lemma article_metadata_Some: "article_metadata = Some (the article_metadata)"
proof -
  have "article_metadata \<noteq> None" by code_simp
  then show ?thesis by simp
qed

definition sample_include :: string where
  "sample_include = ''writer.name__ilike=a,Author.profile''"

lemma includes_emit_trusted_relations_witness:
  "\<exists>calls. apply_criteria (fst (projr (build_include_criteria initial_tables article_metadata None sample_include True)))
       \<lparr>sq_dialect = None, sq_calls = []\<rparr> = \<lparr>sq_dialect = None, sq_calls = calls\<rparr> \<and> calls \<noteq> [] \<and>
     list_all (trusted_in (include_operators initial_tables) (the article_metadata)) calls"
proof -
  let ?m = "the article_metadata" and ?q = "\<lparr>sq_dialect = None, sq_calls = []\<rparr> :: select_query"
  note am = article_metadata_Some
  have ok: "\<not> isl (build_include_criteria initial_tables article_metadata None sample_include True)"
      "sq_calls (apply_criteria (fst (projr (build_include_criteria initial_tables article_metadata None sample_include True))) ?q) \<noteq> []"
    by code_simp+
  then obtain cs paths infos where
    b: "build_include_criteria initial_tables article_metadata None sample_include True = Inr (cs, paths, infos)"
    by (cases "build_include_criteria initial_tables article_metadata None sample_include True") auto
  from includes_emit_trusted_relations [OF article_names, of initial_tables None sample_include True cs paths infos ?q]
  obtain calls where "apply_criteria cs ?q = ?q\<lparr>sq_calls := sq_calls ?q @ calls\<rparr>"
      "list_all (trusted_in (include_operators initial_tables) ?m) calls"
    using b am by auto
  with b ok(2) show ?thesis by auto
qed

lemma include_paths_sound_witness:
  "fst (snd (projr (build_include_criteria initial_tables article_metadata None sample_include True))) =
     [''writer'', ''writer.profile''] \<and>
   meta_accepts (the article_metadata) [''writer'', ''profile'']"
proof -
  let ?m = "the article_metadata"
  note am = article_metadata_Some
  have ok: "\<not> isl (build_include_criteria initial_tables article_metadata None sample_include True)"
    and p: "fst (snd (projr (build_include_criteria initial_tables article_metadata None sample_include True))) =
     [''writer'', ''writer.profile'']"
    by code_simp+
  then obtain cs paths infos where
    b: "build_include_criteria initial_tables article_metadata None sample_include True = Inr (cs, paths, infos)"
    by (cases "build_include_criteria initial_tables article_metadata None sample_include True") auto
  have "meta_accepts ?m (split_on CHR ''.'' ''writer.profile'')"
    using include_paths_sound [OF article_names, of initial_tables None sample_include True cs paths infos] b am p
    by auto
  moreover have "split_on CHR ''.'' ''writer.profile'' = [''writer'', ''profile'']" by code_simp
  ultimately show ?thesis using p by simp
qed

end
