(* ===== verification/Query_Builder.thy ===== *)
theory Query_Builder
  imports Query_Plan Relation_Includes
begin

text \<open>
  The query builder of the controller package: \<open>query.go\<close>, \<open>query_typed.go\<close>, the query options
  and globals of \<open>options.go\<close>, and \<open>pagination.go\<close>. It turns a request (or typed options) into
  the criteria given to the repository and the filters a response reports.
\<close>

section \<open>Requests, options and package state\<close>

text \<open>
  The query side of a request, as the router's context answers it: \<open>Queries\<close>, \<open>Query\<close>,
  \<open>QueryInt\<close> with its default, and \<open>QueryValues\<close>.
\<close>

record http_query =
  hq_queries :: "(string, string) gomap"
  hq_query :: "string \<Rightarrow> string"
  hq_query_int :: "string \<Rightarrow> int \<Rightarrow> int"
  hq_query_values :: "string \<Rightarrow> string list"

record query_builder_config =
  qb_allowed_fields :: "(string, string) gomap"
  qb_search_columns :: "string list"
  qb_strict_validation :: "bool option"
  qb_strict_search_columns :: "bool option"

definition empty_builder_config :: query_builder_config where
  "empty_builder_config = \<lparr>qb_allowed_fields = [], qb_search_columns = [], qb_strict_validation = None,
     qb_strict_search_columns = None\<rparr>"

type_synonym query_builder_option = "query_builder_config \<Rightarrow> query_builder_config"

definition with_allowed_fields :: "(string, string) gomap \<Rightarrow> query_builder_option" where
  "with_allowed_fields fs cfg = (if fs = [] then cfg else cfg\<lparr>qb_allowed_fields := fs\<rparr>)"

definition with_strict_query_validation :: "bool \<Rightarrow> query_builder_option" where
  "with_strict_query_validation b cfg = cfg\<lparr>qb_strict_validation := Some b\<rparr>"

definition with_search_columns :: "string list \<Rightarrow> query_builder_option" where
  "with_search_columns cols cfg = cfg\<lparr>qb_search_columns := cols\<rparr>"

definition with_strict_search_columns :: "bool \<Rightarrow> query_builder_option" where
  "with_strict_search_columns b cfg = cfg\<lparr>qb_strict_search_columns := Some b\<rparr>"

text \<open>The loop over the options skips nil ones.\<close>

fun apply_options :: "('a \<Rightarrow> 'a) option list \<Rightarrow> 'a \<Rightarrow> 'a" where
  "apply_options [] cfg = cfg"
| "apply_options (None # opts) cfg = apply_options opts cfg"
| "apply_options (Some opt # opts) cfg = apply_options opts (opt cfg)"

text \<open>The package variables a build reads.\<close>

record crud_globals =
  cg_tables :: op_tables
  cg_strict :: bool
  cg_default_limit :: int
  cg_default_offset :: int

definition set_strict_query_validation :: "bool \<Rightarrow> crud_globals \<Rightarrow> crud_globals" where
  "set_strict_query_validation b g = g\<lparr>cg_strict := b\<rparr>"

definition strict_validation_enabled :: "crud_globals \<Rightarrow> query_builder_config \<Rightarrow> bool" where
  "strict_validation_enabled g cfg =
     (case qb_strict_validation cfg of Some b \<Rightarrow> b | None \<Rightarrow> cg_strict g)"

definition strict_search_columns_enabled :: "query_builder_config \<Rightarrow> bool" where
  "strict_search_columns_enabled cfg =
     (case qb_strict_search_columns cfg of Some b \<Rightarrow> b | None \<Rightarrow> False)"

text \<open>What the registries know of the model type.\<close>

record model_info =
  mi_allowed :: field_map
  mi_metadata :: "relation_metadata option"
  mi_descriptor :: "response_filter relation_descriptor option"

section \<open>Building\<close>

definition query_bun_config :: "crud_globals \<Rightarrow> model_info \<Rightarrow> query_builder_config \<Rightarrow> config" where
  "query_bun_config g model cfg =
     \<lparr>allowed_fields = (if qb_allowed_fields cfg = [] then mi_allowed model else qb_allowed_fields cfg),
      search_columns = qb_search_columns cfg, operator_map = crud_ops (cg_tables g),
      strict_validation = strict_validation_enabled g cfg,
      strict_search_columns = strict_search_columns_enabled cfg, strict_fields = False,
      fallback_unsupported = True, default_limit = cg_default_limit g,
      default_offset = cg_default_offset g\<rparr>"

definition normalize_include_params :: "http_query \<Rightarrow> string" where
  "normalize_include_params hq =
     (let vs = hq_query_values hq ''include'';
          single = trim_space (hq_query hq ''include'');
          all = (if vs = [] \<and> single \<noteq> [] then [single] else vs)
      in join '','' (filter (\<lambda>v. v \<noteq> []) (map trim_space (concat (map (split_on CHR '','') all)))))"

definition is_reserved_query_param :: "string \<Rightarrow> bool" where
  "is_reserved_query_param p \<longleftrightarrow>
     p \<in> {''limit'', ''offset'', ''order'', ''select'', ''include'', ''_search''}"

definition query_bun_options_from_context :: "crud_globals \<Rightarrow> http_query \<Rightarrow> list_options" where
  "query_bun_options_from_context g hq =
     (let include = normalize_include_params hq;
          raw = trim_space (hq_query hq ''select'')
      in zero_list_options
           \<lparr>lo_limit := hq_query_int hq ''limit'' (cg_default_limit g), lo_limit_set := True,
            lo_offset := hq_query_int hq ''offset'' (cg_default_offset g), lo_offset_set := True,
            lo_order := hq_query hq ''order'', lo_search := hq_query hq ''_search'',
            lo_filters := map (\<lambda>(p, v). (p, AString v))
              (filter (\<lambda>(p, v). \<not> is_reserved_query_param p) (hq_queries hq)),
            lo_select := (if raw \<noteq> [] then [raw] else []),
            lo_include := (if include \<noteq> [] then [include] else [])\<rparr>)"

record filters =
  fl_operation :: string
  fl_limit :: int
  fl_offset :: int
  fl_page :: int
  fl_search :: string
  fl_adjusted :: bool
  fl_count :: int
  fl_order :: "order list"
  fl_fields :: "string list"
  fl_include :: "string list"
  fl_relations :: "relation_info list"

definition filters_from_query_bun_plan :: "plan \<Rightarrow> string \<Rightarrow> filters" where
  "filters_from_query_bun_plan p op =
     (let md = plan_metadata p
      in \<lparr>fl_operation = op, fl_limit = md_limit md, fl_offset = md_offset md, fl_page = 0,
          fl_search = md_search md, fl_adjusted = False, fl_count = 0, fl_order = md_order md,
          fl_fields = md_fields md, fl_include = md_include md, fl_relations = []\<rparr>)"

definition adapt_query_bun_criteria :: "criteria list \<Rightarrow> criteria list" where
  "adapt_query_bun_criteria cs = map (\<lambda>fn q. fn q) cs"

datatype build_error = BuildQueryError query_error | BuildIncludeError string include_error

definition op_list :: string where "op_list = ''list''"

text \<open>What \<open>buildQueryCriteria\<close> and \<open>BuildListCriteriaFromOptions\<close> do after planning.\<close>

definition finish_criteria ::
  "crud_globals \<Rightarrow> model_info \<Rightarrow> query_builder_config \<Rightarrow> string \<Rightarrow> plan \<times> validation_error option \<Rightarrow>
   build_error + criteria list \<times> filters" where
  "finish_criteria g model cfg op planned =
     (case planned of
        (p, Some e) \<Rightarrow> Inl (BuildQueryError (convert_query_bun_error e))
      | (p, None) \<Rightarrow>
          (let fs = filters_from_query_bun_plan p op;
               cs = (if op \<noteq> op_list then adapt_query_bun_criteria (read_criteria p)
                     else adapt_query_bun_criteria (list_criteria p))
           in case build_include_criteria (cg_tables g) (mi_metadata model) (mi_descriptor model)
                     (join '','' (fl_include fs)) (strict_validation_enabled g cfg) of
                Inl (path, e) \<Rightarrow> Inl (BuildIncludeError path e)
              | Inr (ics, paths, relations) \<Rightarrow>
                  (if paths \<noteq> []
                   then Inr (cs @ ics, fs\<lparr>fl_include := paths, fl_relations := relations\<rparr>)
                   else Inr (cs, fs))))"

definition build_query_criteria ::
  "crud_globals \<Rightarrow> model_info \<Rightarrow> http_query \<Rightarrow> string \<Rightarrow> query_builder_config \<Rightarrow>
   build_error + criteria list \<times> filters" where
  "build_query_criteria g model hq op cfg =
     finish_criteria g model cfg op
       (build_query_plan (bun_ops (cg_tables g)) (query_bun_options_from_context g hq)
          (query_bun_config g model cfg))"

definition build_query_criteria_with ::
  "crud_globals \<Rightarrow> model_info \<Rightarrow> http_query \<Rightarrow> string \<Rightarrow> query_builder_option option list \<Rightarrow>
   build_error + criteria list \<times> filters" where
  "build_query_criteria_with g model hq op opts =
     build_query_criteria g model hq op (apply_options opts empty_builder_config)"

section \<open>Typed options\<close>

record list_query_predicate =
  lqp_field :: string
  lqp_operator :: string
  lqp_values :: "string list"

record list_query_options =
  lq_page :: int
  lq_per_page :: int
  lq_limit :: int
  lq_offset :: int
  lq_sort_by :: string
  lq_sort_desc :: bool
  lq_order :: string
  lq_search :: string
  lq_filters :: "(string, go_any) gomap"
  lq_predicates :: "list_query_predicate list"
  lq_select :: "string list"
  lq_include :: "string list"

definition to_query_bun_list_options :: "list_query_options \<Rightarrow> list_options" where
  "to_query_bun_list_options o' =
     \<lparr>lo_page = lq_page o', lo_per_page = lq_per_page o', lo_limit = lq_limit o', lo_limit_set = False,
      lo_offset = lq_offset o', lo_offset_set = False, lo_sort_by = lq_sort_by o',
      lo_sort_desc = lq_sort_desc o', lo_order = lq_order o', lo_search = lq_search o',
      lo_filters = lq_filters o',
      lo_predicates = map (\<lambda>p. \<lparr>pr_field = lqp_field p, pr_operator = lqp_operator p,
                               pr_values = lqp_values p, pr_raw_key = [], pr_raw_value = ANil\<rparr>)
                        (lq_predicates o'),
      lo_select = lq_select o', lo_include = lq_include o'\<rparr>"

definition build_list_criteria_from_options ::
  "crud_globals \<Rightarrow> model_info \<Rightarrow> list_query_options \<Rightarrow> query_builder_option option list \<Rightarrow>
   build_error + criteria list \<times> filters" where
  "build_list_criteria_from_options g model o' opts =
     (let cfg = apply_options opts empty_builder_config
      in finish_criteria g model cfg op_list
           (build_query_plan (bun_ops (cg_tables g)) (to_query_bun_list_options o')
              (query_bun_config g model cfg)))"

section \<open>Pagination of a result\<close>

definition pagination_criteria :: "int \<Rightarrow> int \<Rightarrow> criteria" where
  "pagination_criteria limit offset q = emit (QOffset offset) (emit (QLimit limit) q)"

text \<open>\<open>normalizePagination\<close>, on the filters and the number of records there are.\<close>

definition normalize_pagination :: "filters \<Rightarrow> int \<Rightarrow> filters \<times> bool" where
  "normalize_pagination f count =
     (let f1 = (if fl_offset f < 0 then f\<lparr>fl_offset := 0\<rparr> else f);
          adj1 = fl_offset f < 0
      in if count \<le> 0
         then (let adj = (adj1 \<or> fl_offset f1 \<noteq> 0)
               in (f1\<lparr>fl_offset := 0, fl_page := 1, fl_adjusted := adj\<rparr>, adj))
         else (let limit = fl_limit f1;
                   far = fl_offset f1 \<ge> count;
                   offset = (if \<not> far then fl_offset f1
                     else if limit > 0
                     then (let maxPage = max (go_quot (wrap64 (wrap64 (count + limit) - 1)) limit) 1
                           in wrap64 (wrap64 (maxPage - 1) * limit))
                     else 0);
                   adj = (adj1 \<or> far)
               in (f1\<lparr>fl_offset := offset,
                      fl_page := (if limit > 0 then wrap64 (go_quot offset limit + 1) else 1),
                      fl_adjusted := adj\<rparr>, adj)))"

lemma wrap64_shift: "wrap64 (wrap64 x - 1) = wrap64 (x - 1)"
  unfolding wrap64_def by (simp add: mod_simps algebra_simps)

lemma last_page_no_overflow:
  assumes "0 < count" "0 < limit" "count + limit - 1 \<le> int_max"
  shows "go_quot (wrap64 (wrap64 (count + limit) - 1)) limit = (count - 1) div limit + 1"
proof -
  have r: "in_int64 (count + limit - 1)" using assms by (simp add: in_int64_def int_min_def)
  then have "go_quot (wrap64 (wrap64 (count + limit) - 1)) limit = (count + limit - 1) div limit"
    using assms by (simp add: wrap64_shift go_quot_nonneg)
  also have "\<dots> = (count - 1 + 1 * limit) div limit" by (simp add: algebra_simps)
  also have "\<dots> = (count - 1) div limit + 1" using assms(2) by (subst div_mult_self1) auto
  finally show ?thesis .
qed

lemma last_page_overflow:
  assumes "0 < count" "0 < limit" "in_int64 count" "in_int64 limit" "int_max < count + limit - 1"
  shows "go_quot (wrap64 (wrap64 (count + limit) - 1)) limit \<le> 0"
proof -
  let ?y = "count + limit - 1 - 18446744073709551616"
  have "(count + limit - 1 + 9223372036854775808) mod 18446744073709551616 =
      (?y + 9223372036854775808 + 1 * 18446744073709551616) mod 18446744073709551616"
    by simp
  then have "wrap64 (count + limit - 1) = wrap64 ?y"
    unfolding wrap64_def by (subst (asm) mod_mult_self1) simp
  moreover have "in_int64 ?y" "?y < 0"
    using assms by (auto simp: in_int64_def int_min_def int_max_def)
  ultimately show ?thesis using assms(2) by (simp add: wrap64_shift go_quot_neg_le_0)
qed

definition last_page_offset :: "int \<Rightarrow> int \<Rightarrow> int" where
  "last_page_offset count limit =
     (let maxPage = max (go_quot (wrap64 (wrap64 (count + limit) - 1)) limit) 1
      in wrap64 (wrap64 (maxPage - 1) * limit))"

lemma page_start:
  fixes count limit :: int
  assumes "0 < count" "0 < limit"
  shows "0 \<le> (count - 1) div limit" "(count - 1) div limit * limit \<le> count - 1"
    "(count - 1) div limit \<le> (count - 1) div limit * limit"
proof -
  show d: "0 \<le> (count - 1) div limit" using assms by (simp add: pos_imp_zdiv_nonneg_iff)
  have "(count - 1) div limit * limit + (count - 1) mod limit = count - 1" by simp
  moreover have "0 \<le> (count - 1) mod limit" using assms(2) by simp
  ultimately show "(count - 1) div limit * limit \<le> count - 1" by linarith
  show "(count - 1) div limit \<le> (count - 1) div limit * limit"
    using mult_left_mono [of 1 limit "(count - 1) div limit"] d assms(2) by simp
qed

lemma last_page_offset_cases:
  assumes "0 < count" "0 < limit" "in_int64 count" "in_int64 limit"
  shows "last_page_offset count limit =
    (if count + limit - 1 \<le> int_max then (count - 1) div limit * limit else 0)"
proof (cases "count + limit - 1 \<le> int_max")
  case True
  let ?d = "(count - 1) div limit"
  note d = page_start [OF assms(1,2)]
  then have "in_int64 ?d" "in_int64 (?d * limit)" using assms(3) by (auto simp: in_int64_def int_min_def)
  moreover have "max (?d + 1) 1 = ?d + 1" using d(1) by simp
  ultimately show ?thesis
    using True unfolding last_page_offset_def Let_def last_page_no_overflow [OF assms(1,2) True] by simp
next
  case False
  then have "max (go_quot (wrap64 (wrap64 (count + limit) - 1)) limit) 1 = 1"
    using last_page_overflow [OF assms] by simp
  then show ?thesis using False by (simp add: last_page_offset_def wrap64_def)
qed

lemma last_page_offset_range:
  assumes "0 < count" "0 < limit" "in_int64 count" "in_int64 limit"
  shows "0 \<le> last_page_offset count limit \<and> last_page_offset count limit < count"
proof -
  have "(count - 1) div limit * limit \<le> count - 1" "0 \<le> (count - 1) div limit * limit"
    using page_start [OF assms(1,2)] by simp_all
  then show ?thesis using last_page_offset_cases [OF assms] assms(1) by simp
qed

lemma normalize_pagination_offset:
  "fl_offset (fst (normalize_pagination f count)) =
     (let o' = max (fl_offset f) 0
      in if count \<le> 0 then 0 else if o' < count then o'
         else if fl_limit f > 0 then last_page_offset count (fl_limit f) else 0)"
  by (simp add: normalize_pagination_def Let_def last_page_offset_def max_def)

text \<open>
  C14 (bounds). After normalisation the offset of a non-empty result is one of its records, for
  every 64-bit offset, limit and count, also where the page arithmetic wraps; an offset inside
  the result is kept, and one behind the end goes to the start of the last page.
\<close>

theorem normalized_offset_in_result:
  assumes "0 < count" "in_int64 count" "in_int64 (fl_limit f)" "in_int64 (fl_offset f)"
  shows "0 \<le> fl_offset (fst (normalize_pagination f count)) \<and>
    fl_offset (fst (normalize_pagination f count)) < count \<and>
    (0 \<le> fl_offset f \<and> fl_offset f < count \<longrightarrow>
       fl_offset (fst (normalize_pagination f count)) = fl_offset f \<and> \<not> snd (normalize_pagination f count)) \<and>
    (count \<le> fl_offset f \<and> 0 < fl_limit f \<and> count + fl_limit f - 1 \<le> int_max \<longrightarrow>
       fl_offset (fst (normalize_pagination f count)) = (count - 1) div fl_limit f * fl_limit f)"
proof -
  have "\<not> snd (normalize_pagination f count)" if "0 \<le> fl_offset f" "fl_offset f < count"
    using that by (simp add: normalize_pagination_def Let_def)
  then show ?thesis
    using assms last_page_offset_range [OF assms(1) _ assms(2,3)]
      last_page_offset_cases [OF assms(1) _ assms(2,3)]
    by (simp add: normalize_pagination_offset Let_def max_def)
qed

definition sample_filters :: filters where
  "sample_filters = \<lparr>fl_operation = op_list, fl_limit = 10, fl_offset = 95, fl_page = 0, fl_search = [],
     fl_adjusted = False, fl_count = 0, fl_order = [], fl_fields = [], fl_include = [], fl_relations = []\<rparr>"

lemma normalized_offset_in_result_witness:
  "fl_offset (fst (normalize_pagination sample_filters 42)) = 40"
  using normalized_offset_in_result [of 42 sample_filters]
  by (simp add: sample_filters_def in_int64_def int_min_def int_max_def)

lemma normalize_pagination_result:
  "normalize_pagination f count = (f', adj) \<Longrightarrow>
   fl_adjusted f' = adj \<and> fl_limit f' = fl_limit f \<and>
   fl_page f' = (if count \<le> 0 \<or> fl_limit f \<le> 0 then 1
                 else wrap64 (go_quot (fl_offset f') (fl_limit f) + 1))"
  by (auto simp: normalize_pagination_def Let_def split: if_splits)

text \<open>
  Normalising twice changes nothing more: the normalised filters are not adjusted
  again and keep their offset and page.
\<close>

theorem normalize_pagination_stable:
  assumes "in_int64 count" "in_int64 (fl_limit f)"
    and "normalize_pagination f count = (f', adj)"
  shows "normalize_pagination f' count = (f'\<lparr>fl_adjusted := False\<rparr>, False)"
proof (cases "count \<le> 0")
  case True
  with assms(3) have "fl_offset f' = 0" "fl_page f' = 1" by (auto simp: normalize_pagination_def Let_def)
  with True show ?thesis by (simp add: normalize_pagination_def Let_def)
next
  case False
  from assms(3) have o': "fl_offset f' = fl_offset (fst (normalize_pagination f count))" by simp
  have "0 \<le> fl_offset f' \<and> fl_offset f' < count"
    unfolding o' normalize_pagination_offset
    using False last_page_offset_range [OF _ _ assms(1,2)] by (auto simp: Let_def max_def)
  moreover note normalize_pagination_result [OF assms(3)]
  ultimately show ?thesis
    using False by (auto simp: normalize_pagination_def Let_def split: if_splits)
qed

lemma normalize_pagination_stable_witness:
  "snd (normalize_pagination (fst (normalize_pagination sample_filters 42)) 42) = False"
  using normalize_pagination_stable [of 42 sample_filters, OF _ _ surjective_pairing]
  by (simp add: sample_filters_def in_int64_def int_min_def int_max_def)

section \<open>What a request can make the repository do\<close>

lemma build_include_loop_none:
  "build_include_loop t None strict raws tree = Inr tree' \<Longrightarrow> tree' = tree"
  by (induction raws arbitrary: tree) (auto simp: parse_include_path_def Let_def split: if_splits)

lemma build_include_criteria_none:
  "build_include_criteria t None d include strict = Inr (cs, paths, infos) \<Longrightarrow> cs = []"
  by (auto simp: build_include_criteria_def build_include_tree_def dest!: build_include_loop_none
      split: if_splits sum.splits prod.splits)

definition allowed_call :: "crud_globals \<Rightarrow> model_info \<Rightarrow> query_builder_config \<Rightarrow> qcall \<Rightarrow> bool" where
  "allowed_call g model cfg c \<longleftrightarrow>
     (let bc = query_bun_config g model cfg
      in trusted_call (trusted_columns bc) (trusted_operators (bun_ops (cg_tables g)) bc) c \<or>
         (\<exists>m. mi_metadata model = Some m \<and> trusted_in (include_operators (cg_tables g)) m c))"

lemma include_criteria_allowed:
  assumes "\<forall>m. mi_metadata model = Some m \<longrightarrow> names_ok m"
    and "build_include_criteria (cg_tables g) (mi_metadata model) d include strict = Inr (cs, paths, infos)"
  shows "list_all (appends (allowed_call g model cfg)) cs"
proof (cases "mi_metadata model")
  case None
  with assms(2) show ?thesis by (auto dest: build_include_criteria_none)
next
  case (Some m)
  with assms have "list_all (appends (trusted_in (include_operators (cg_tables g)) m)) cs"
    using build_include_criteria_appends [of m "cg_tables g"] by simp
  then show ?thesis
    by (rule list.pred_mono_strong) (auto elim!: appends_mono [rotated] simp: allowed_call_def Let_def Some)
qed

lemma plan_criteria_allowed:
  "list_all (appends (allowed_call g model cfg))
     (list_criteria (fst (build_query_plan (bun_ops (cg_tables g)) opts (query_bun_config g model cfg))))"
proof -
  let ?bc = "query_bun_config g model cfg"
  have "safe_criteria (bun_ops (cg_tables g)) ?bc
      (list_criteria (fst (build_query_plan (bun_ops (cg_tables g)) opts ?bc)))"
    by (rule plan_groups_safe) (rule surjective_pairing)
  then show ?thesis
    by (rule list.pred_mono_strong) (auto elim!: appends_mono [rotated] simp: allowed_call_def Let_def)
qed

lemma adapt_id [simp]: "adapt_query_bun_criteria cs = cs"
  by (simp add: adapt_query_bun_criteria_def)

lemma set_read_criteria: "set (read_criteria p) \<subseteq> set (list_criteria p)"
  by (auto simp: read_criteria_def list_criteria_def)

lemma finish_criteria_allowed:
  assumes "\<forall>m. mi_metadata model = Some m \<longrightarrow> names_ok m"
    and "finish_criteria g model cfg op
           (build_query_plan (bun_ops (cg_tables g)) opts (query_bun_config g model cfg)) = Inr (cs, fs)"
  shows "list_all (appends (allowed_call g model cfg)) cs"
proof -
  obtain p err where p: "build_query_plan (bun_ops (cg_tables g)) opts (query_bun_config g model cfg) = (p, err)"
    by fastforce
  have l: "list_all (appends (allowed_call g model cfg)) (list_criteria p)"
    using plan_criteria_allowed [of g model cfg opts] p by simp
  have r: "list_all (appends (allowed_call g model cfg)) (read_criteria p)"
    using l set_read_criteria [of p] by (auto simp: list_all_iff)
  show ?thesis
    using assms(2) l r p
    by (auto simp: finish_criteria_def Let_def dest: include_criteria_allowed [OF assms(1)]
        split: option.splits sum.splits prod.splits if_splits)
qed

text \<open>
  C11 (safety). Every call a request makes on the query builder is trusted: filters, ordering,
  search and projection use configured columns and operators only, and joins follow the
  relations of the model. This is so for every operation and whatever the parameters say.
\<close>

theorem request_emits_trusted_calls:
  assumes "\<forall>m. mi_metadata model = Some m \<longrightarrow> names_ok m"
    and "build_query_criteria g model hq op cfg = Inr (cs, fs)"
  shows "\<exists>calls. apply_criteria cs q = q\<lparr>sq_calls := sq_calls q @ calls\<rparr> \<and>
     list_all (allowed_call g model cfg) calls"
  using safe_apply_criteria [OF finish_criteria_allowed [OF assms(1) assms(2) [unfolded build_query_criteria_def]]]
  by (simp add: appends_def)

text \<open>
  A single-record operation uses the projection and the includes of a request
  only: filters, search, ordering and pagination of the request have no influence on it.
\<close>

theorem read_ignores_list_parameters:
  assumes "op \<noteq> op_list"
    and "hq_query hq' ''select'' = hq_query hq ''select''"
    and "normalize_include_params hq' = normalize_include_params hq"
    and "build_query_criteria g model hq op cfg = Inr (cs, fs)"
    and "build_query_criteria g model hq' op cfg = Inr (cs', fs')"
  shows "cs' = cs \<and> fl_include fs' = fl_include fs \<and> fl_fields fs' = fl_fields fs"
proof -
  let ?d = "bun_ops (cg_tables g)" and ?bc = "query_bun_config g model cfg"
  let ?o = "query_bun_options_from_context g hq" and ?o' = "query_bun_options_from_context g hq'"
  have same: "lo_select ?o' = lo_select ?o" "lo_include ?o' = lo_include ?o"
    using assms(2,3) by (simp_all add: query_bun_options_from_context_def Let_def)
  have keeps: "lo_select (fst (normalize_search_options o')) = lo_select o' \<and>
      lo_include (fst (normalize_search_options o')) = lo_include o'" for o'
    by (simp add: normalize_search_options_def Let_def case_prod_beta)
  have planned: "plan_select p = fst (build_select_criteria (lo_select o') (normalize_config ?bc)) \<and>
      md_fields (plan_metadata p) = snd (build_select_criteria (lo_select o') (normalize_config ?bc)) \<and>
      md_include (plan_metadata p) = map inc_path (normalize_includes (lo_include o'))"
    if "build_query_plan ?d o' ?bc = (p, None)" for p o'
    using that keeps [of o']
    by (auto simp: build_query_plan_def Let_def empty_plan_def split: prod.splits if_splits)
  obtain p where p: "build_query_plan ?d ?o ?bc = (p, None)"
    using assms(4) by (cases "build_query_plan ?d ?o ?bc")
      (auto simp: build_query_criteria_def finish_criteria_def split: option.splits)
  obtain p' where p': "build_query_plan ?d ?o' ?bc = (p', None)"
    using assms(5) by (cases "build_query_plan ?d ?o' ?bc")
      (auto simp: build_query_criteria_def finish_criteria_def split: option.splits)
  show ?thesis
    using assms(1,4,5) planned [OF p] planned [OF p'] p p' same
    by (auto simp: build_query_criteria_def finish_criteria_def Let_def read_criteria_def
        filters_from_query_bun_plan_def split: sum.splits prod.splits if_splits)
qed

text \<open>The typed options that ask for what a list request asks for.\<close>

definition typed_request :: "crud_globals \<Rightarrow> http_query \<Rightarrow> list_query_options" where
  "typed_request g hq =
     (let o' = query_bun_options_from_context g hq
      in \<lparr>lq_page = 0, lq_per_page = 0, lq_limit = lo_limit o', lq_offset = lo_offset o',
          lq_sort_by = [], lq_sort_desc = False, lq_order = lo_order o', lq_search = lo_search o',
          lq_filters = lo_filters o', lq_predicates = [], lq_select = lo_select o',
          lq_include = lo_include o'\<rparr>)"

lemma finish_criteria_agree:
  assumes "snd x = snd y" "list_criteria (fst x) = list_criteria (fst y)"
    and "plan_metadata (fst x) = plan_metadata (fst y)"
  shows "finish_criteria g model cfg op_list x = finish_criteria g model cfg op_list y"
  using assms by (cases x; cases y)
    (simp add: finish_criteria_def filters_from_query_bun_plan_def Let_def split: option.split)

text \<open>
  Typed list options and the HTTP request with the same limit (a positive one),
  offset, order, search, filters, projection and includes give the same criteria and the same
  reported filters, or the same error.
\<close>

theorem typed_http_parity:
  assumes "0 < hq_query_int hq ''limit'' (cg_default_limit g)"
  shows "build_list_criteria_from_options g model (typed_request g hq) opts =
    build_query_criteria_with g model hq op_list opts"
proof -
  let ?cfg = "apply_options opts empty_builder_config"
  let ?bc = "query_bun_config g model ?cfg" and ?d = "bun_ops (cg_tables g)"
  let ?h = "query_bun_options_from_context g hq"
  let ?t = "to_query_bun_list_options (typed_request g hq)"
  have t: "?t = ?h\<lparr>lo_limit_set := False, lo_offset_set := False\<rparr>"
    by (simp add: to_query_bun_list_options_def typed_request_def query_bun_options_from_context_def
        zero_list_options_def Let_def)
  define h where "h = fst (normalize_search_options ?h)"
  have limits: "lo_limit h = hq_query_int hq ''limit'' (cg_default_limit g)" "lo_limit_set h" "lo_offset_set h"
    by (simp_all add: h_def normalize_search_options_def Let_def case_prod_beta query_bun_options_from_context_def)
  have n: "fst (normalize_search_options ?t) = h\<lparr>lo_limit_set := False, lo_offset_set := False\<rparr>"
    unfolding t h_def by (simp add: normalize_search_options_def Let_def case_prod_beta)
  have pag: "build_pagination_criteria (h\<lparr>lo_limit_set := False, lo_offset_set := False\<rparr>) c =
      build_pagination_criteria h c" for c
    using assms limits by (simp add: build_pagination_criteria_def normalize_pagination_options_def Let_def)
  have ord: "normalize_order (h\<lparr>lo_limit_set := False, lo_offset_set := False\<rparr>) = normalize_order h"
    by (simp add: normalize_order_def Let_def)
  have preds: "normalize_predicates (h\<lparr>lo_limit_set := False, lo_offset_set := False\<rparr>) = normalize_predicates h"
    by (simp add: normalize_predicates_def normalize_predicates_with_unsupported_def)
  have "finish_criteria g model ?cfg op_list (build_query_plan ?d ?t ?bc) =
      finish_criteria g model ?cfg op_list (build_query_plan ?d ?h ?bc)"
    using plans_agree [OF h_def [symmetric] n pag ord preds, of ?d]
    by (intro finish_criteria_agree) simp_all
  then show ?thesis
    by (simp add: build_list_criteria_from_options_def build_query_criteria_with_def build_query_criteria_def Let_def)
qed

text \<open>A request, package state and model for the examples.\<close>

definition lookup_or :: "string \<Rightarrow> (string, string) gomap \<Rightarrow> string \<Rightarrow> string" where
  "lookup_or d m k = (case map_of m k of None \<Rightarrow> d | Some v \<Rightarrow> v)"

definition sample_globals :: crud_globals where
  "sample_globals = \<lparr>cg_tables = initial_tables, cg_strict = False, cg_default_limit = 25, cg_default_offset = 0\<rparr>"

definition sample_query :: "(string, string) gomap \<Rightarrow> http_query" where
  "sample_query m = \<lparr>hq_queries = m, hq_query = lookup_or [] m, hq_query_int = (\<lambda>k d. d), hq_query_values = (\<lambda>k. [])\<rparr>"

definition sample_request :: http_query where
  "sample_request = sample_query [(''title__ilike'', ''go%''), (''order'', ''title desc''), (''include'', ''author'')]"

definition article_model :: model_info where
  "article_model = \<lparr>mi_allowed = [(''title'', ''title'')], mi_metadata = article_metadata, mi_descriptor = None\<rparr>"

lemma article_model_names: "\<forall>m. mi_metadata article_model = Some m \<longrightarrow> names_ok m"
proof (intro allI impI)
  fix m
  assume "mi_metadata article_model = Some m"
  then have "article_metadata = Some m" by (simp add: article_model_def)
  from arg_cong [OF this, of the] article_names show "names_ok m" by (simp only: option.sel)
qed

lemma typed_http_parity_witness:
  "build_list_criteria_from_options sample_globals article_model (typed_request sample_globals sample_request) [] =
   build_query_criteria_with sample_globals article_model sample_request op_list []"
  by (rule typed_http_parity)
    (simp add: sample_request_def sample_query_def sample_globals_def)

lemma sample_build:
  "\<exists>cs fs. build_query_criteria sample_globals article_model sample_request op_list empty_builder_config = Inr (cs, fs) \<and>
    sq_calls (apply_criteria cs \<lparr>sq_dialect = None, sq_calls = []\<rparr>) =
      [QLimit 25, QOffset 0, QOrderExpr ''title DESC'', QWhere ''title ILIKE ?'' (Arg ''go%''), QRelation ''Author'' []]"
proof -
  let ?b = "build_query_criteria sample_globals article_model sample_request op_list empty_builder_config"
  have "\<not> isl ?b" "sq_calls (apply_criteria (fst (projr ?b)) \<lparr>sq_dialect = None, sq_calls = []\<rparr>) =
      [QLimit 25, QOffset 0, QOrderExpr ''title DESC'', QWhere ''title ILIKE ?'' (Arg ''go%''), QRelation ''Author'' []]"
    by code_simp+
  then show ?thesis by (cases ?b) auto
qed

lemma request_emits_trusted_calls_witness:
  "list_all (allowed_call sample_globals article_model empty_builder_config)
     [QLimit 25, QOffset 0, QOrderExpr ''title DESC'', QWhere ''title ILIKE ?'' (Arg ''go%''), QRelation ''Author'' []]"
proof -
  obtain cs fs where b: "build_query_criteria sample_globals article_model sample_request op_list empty_builder_config = Inr (cs, fs)"
      "sq_calls (apply_criteria cs \<lparr>sq_dialect = None, sq_calls = []\<rparr>) =
        [QLimit 25, QOffset 0, QOrderExpr ''title DESC'', QWhere ''title ILIKE ?'' (Arg ''go%''), QRelation ''Author'' []]"
    using sample_build by blast
  from request_emits_trusted_calls [OF article_model_names b(1), of "\<lparr>sq_dialect = None, sq_calls = []\<rparr>"] b(2)
  show ?thesis by auto
qed

lemma read_ignores_list_parameters_witness:
  "map_sum (\<lambda>e. e) (\<lambda>(cs, fs). length cs)
     (build_query_criteria sample_globals article_model sample_request ''read'' empty_builder_config) = Inr 1 \<and>
   (\<exists>cs fs fs'. build_query_criteria sample_globals article_model sample_request ''read'' empty_builder_config = Inr (cs, fs) \<and>
      build_query_criteria sample_globals article_model (sample_query [(''include'', ''author'')]) ''read''
        empty_builder_config = Inr (cs, fs'))"
proof -
  let ?b = "build_query_criteria sample_globals article_model sample_request ''read'' empty_builder_config"
  let ?h' = "sample_query [(''include'', ''author'')]"
  let ?b' = "build_query_criteria sample_globals article_model ?h' ''read'' empty_builder_config"
  have ok: "\<not> isl ?b" "\<not> isl ?b'" "length (fst (projr ?b)) = 1" by code_simp+
  obtain cs fs where b: "?b = Inr (cs, fs)" using ok(1) by (cases ?b) auto
  obtain cs' fs' where b': "?b' = Inr (cs', fs')" using ok(2) by (cases ?b') auto
  have op: "''read'' \<noteq> op_list" by (simp add: op_list_def)
  have same: "hq_query ?h' ''select'' = hq_query sample_request ''select''"
      "normalize_include_params ?h' = normalize_include_params sample_request"
    by code_simp+
  from read_ignores_list_parameters [OF op same b b'] show ?thesis using b b' ok(3) by simp
qed

end
