(* ===== verification/Scope_Guard.thy ===== *)
theory Scope_Guard
  imports Query_Criteria
begin

text \<open>
  Who acts and on which rows: \<open>scope_guard.go\<close>, \<open>request_context.go\<close> and the guard part of
  \<open>controller.go\<close>. A guard resolves the actor and the scope filter of a request; both are kept
  in the request's user context, and the scope becomes criteria of every repository call.
\<close>

section \<open>Actors and scopes\<close>

record actor_context =
  ac_actor_id :: string
  ac_subject :: string
  ac_role :: string
  ac_resource_roles :: "(string, string) gomap"
  ac_tenant_id :: string
  ac_organization_id :: string
  ac_metadata :: "(string, go_any) gomap"
  ac_impersonator_id :: string
  ac_impersonated :: bool

definition zero_actor :: actor_context where
  "zero_actor = \<lparr>ac_actor_id = [], ac_subject = [], ac_role = [], ac_resource_roles = [],
     ac_tenant_id = [], ac_organization_id = [], ac_metadata = [], ac_impersonator_id = [],
     ac_impersonated = False\<rparr>"

text \<open>\<open>Clone\<close> copies the maps, so the copy is equal; it differs only in what it shares.\<close>

definition clone_actor :: "actor_context \<Rightarrow> actor_context" where
  "clone_actor a = a\<lparr>ac_resource_roles := ac_resource_roles a, ac_metadata := ac_metadata a\<rparr>"

definition actor_is_zero :: "actor_context \<Rightarrow> bool" where
  "actor_is_zero a \<longleftrightarrow>
     ac_actor_id a = [] \<and> ac_subject a = [] \<and> ac_role a = [] \<and> ac_tenant_id a = [] \<and>
     ac_organization_id a = []"

record scope_column_filter =
  scf_column :: string
  scf_operator :: string
  scf_values :: "string list"

record scope_filter =
  sf_column_filters :: "scope_column_filter list"
  sf_bypass :: bool
  sf_labels :: "(string, string) gomap"
  sf_raw :: "(string, go_any) gomap"

definition zero_scope :: scope_filter where
  "zero_scope = \<lparr>sf_column_filters = [], sf_bypass = False, sf_labels = [], sf_raw = []\<rparr>"

definition add_column_filter :: "string \<Rightarrow> string \<Rightarrow> string list \<Rightarrow> scope_filter \<Rightarrow> scope_filter" where
  "add_column_filter column op vs s =
     (let col = trim_space column; kept = filter (\<lambda>v. trim_space v \<noteq> []) vs
      in if col = [] \<or> vs = [] \<or> kept = [] then s
         else s\<lparr>sf_column_filters := sf_column_filters s @
                  [\<lparr>scf_column = col, scf_operator = trim_space op, scf_values = kept\<rparr>]\<rparr>)"

definition scope_has_filters :: "scope_filter \<Rightarrow> bool" where
  "scope_has_filters s \<longleftrightarrow> sf_column_filters s \<noteq> []"

definition clone_scope :: "scope_filter \<Rightarrow> scope_filter" where
  "clone_scope s = s\<lparr>sf_column_filters := sf_column_filters s, sf_labels := sf_labels s, sf_raw := sf_raw s\<rparr>"

text \<open>One iteration of \<open>selectCriteria\<close>: the criterion of a column filter, if it gives one.\<close>

definition filter_criterion :: "scope_column_filter \<Rightarrow> qcall option" where
  "filter_criterion f =
     (if scf_column f = [] \<or> scf_values f = [] then None
      else let op = to_upper (trim_space (scf_operator f))
           in if op = ''NOT IN'' then Some (QSelectColumnNotIn (scf_column f) (scf_values f))
              else if op = ''IN'' \<or> length (scf_values f) > 1
              then Some (QSelectColumnIn (scf_column f) (scf_values f))
              else if hd (scf_values f) = [] then None
              else Some (QSelectBy (scf_column f) (if op = [] then ''='' else op) (hd (scf_values f))))"

definition scope_select_criteria :: "scope_filter \<Rightarrow> criteria list" where
  "scope_select_criteria s =
     (if sf_bypass s \<or> sf_column_filters s = [] then []
      else map emit (List.map_filter filter_criterion (sf_column_filters s)))"

text \<open>\<open>applyScopeCriteria\<close>: the scope comes after the criteria of the request.\<close>

definition apply_scope_criteria :: "criteria list \<Rightarrow> scope_filter \<Rightarrow> criteria list" where
  "apply_scope_criteria cs s =
     (let additional = scope_select_criteria s
      in if additional = [] then cs
         else if cs = [] then additional else cs @ additional)"

section \<open>The request context\<close>

record hook_metadata =
  hm_operation :: string
  hm_resource :: string
  hm_route_name :: string
  hm_method :: string
  hm_path :: string

text \<open>
  The values the package keeps in a standard context, by key; \<open>'e\<close> stands for the emitters,
  which are kept and handed back only. A nil context is \<open>None\<close>.
\<close>

record 'e user_context =
  uc_actor :: "actor_context option"
  uc_request_id :: "string option"
  uc_correlation_id :: "string option"
  uc_scope :: "scope_filter option"
  uc_hook_metadata :: "hook_metadata option"
  uc_activity :: "'e option"
  uc_notification :: "'e option"

definition background :: "'e user_context" where
  "background = \<lparr>uc_actor = None, uc_request_id = None, uc_correlation_id = None, uc_scope = None,
     uc_hook_metadata = None, uc_activity = None, uc_notification = None\<rparr>"

definition context_with_actor :: "actor_context \<Rightarrow> 'e user_context option \<Rightarrow> 'e user_context option" where
  "context_with_actor a ctx =
     (if actor_is_zero a then ctx else map_option (\<lambda>c. c\<lparr>uc_actor := Some (clone_actor a)\<rparr>) ctx)"

definition actor_from_context :: "'e user_context option \<Rightarrow> actor_context" where
  "actor_from_context ctx =
     (case ctx of None \<Rightarrow> zero_actor
      | Some c \<Rightarrow> (case uc_actor c of Some a \<Rightarrow> a | None \<Rightarrow> zero_actor))"

definition context_with_request_id :: "string \<Rightarrow> 'e user_context option \<Rightarrow> 'e user_context option" where
  "context_with_request_id i ctx =
     (if trim_space i = [] then ctx else map_option (\<lambda>c. c\<lparr>uc_request_id := Some (trim_space i)\<rparr>) ctx)"

definition request_id_from_context :: "'e user_context option \<Rightarrow> string" where
  "request_id_from_context ctx =
     (case ctx of None \<Rightarrow> []
      | Some c \<Rightarrow> (case uc_request_id c of Some i \<Rightarrow> trim_space i | None \<Rightarrow> []))"

definition context_with_correlation_id :: "string \<Rightarrow> 'e user_context option \<Rightarrow> 'e user_context option" where
  "context_with_correlation_id i ctx =
     (if trim_space i = [] then ctx else map_option (\<lambda>c. c\<lparr>uc_correlation_id := Some (trim_space i)\<rparr>) ctx)"

definition correlation_id_from_context :: "'e user_context option \<Rightarrow> string" where
  "correlation_id_from_context ctx =
     (case ctx of None \<Rightarrow> []
      | Some c \<Rightarrow> (case uc_correlation_id c of Some i \<Rightarrow> trim_space i | None \<Rightarrow> []))"

definition context_with_scope :: "scope_filter \<Rightarrow> 'e user_context option \<Rightarrow> 'e user_context option" where
  "context_with_scope s ctx = map_option (\<lambda>c. c\<lparr>uc_scope := Some (clone_scope s)\<rparr>) ctx"

definition scope_from_context :: "'e user_context option \<Rightarrow> scope_filter" where
  "scope_from_context ctx =
     (case ctx of None \<Rightarrow> zero_scope
      | Some c \<Rightarrow> (case uc_scope c of Some s \<Rightarrow> s | None \<Rightarrow> zero_scope))"

definition context_with_hook_metadata :: "hook_metadata \<Rightarrow> 'e user_context option \<Rightarrow> 'e user_context option" where
  "context_with_hook_metadata m ctx = map_option (\<lambda>c. c\<lparr>uc_hook_metadata := Some m\<rparr>) ctx"

definition hook_metadata_from_context :: "'e user_context option \<Rightarrow> hook_metadata" where
  "hook_metadata_from_context ctx =
     (case ctx of None \<Rightarrow> \<lparr>hm_operation = [], hm_resource = [], hm_route_name = [], hm_method = [], hm_path = []\<rparr>
      | Some c \<Rightarrow> (case uc_hook_metadata c of Some m \<Rightarrow> m
          | None \<Rightarrow> \<lparr>hm_operation = [], hm_resource = [], hm_route_name = [], hm_method = [], hm_path = []\<rparr>))"

definition context_with_activity_emitter :: "'e option \<Rightarrow> 'e user_context option \<Rightarrow> 'e user_context option" where
  "context_with_activity_emitter e ctx =
     (if e = None then ctx else map_option (\<lambda>c. c\<lparr>uc_activity := e\<rparr>) ctx)"

definition activity_emitter_from_context :: "'e user_context option \<Rightarrow> 'e option" where
  "activity_emitter_from_context ctx = (case ctx of None \<Rightarrow> None | Some c \<Rightarrow> uc_activity c)"

definition context_with_notification_emitter :: "'e option \<Rightarrow> 'e user_context option \<Rightarrow> 'e user_context option" where
  "context_with_notification_emitter e ctx =
     (if e = None then ctx else map_option (\<lambda>c. c\<lparr>uc_notification := e\<rparr>) ctx)"

definition notification_emitter_from_context :: "'e user_context option \<Rightarrow> 'e option" where
  "notification_emitter_from_context ctx = (case ctx of None \<Rightarrow> None | Some c \<Rightarrow> uc_notification c)"

text \<open>
  The state of a request the package changes: its user context, when the context can be set, and
  the headers it can read.
\<close>

record 'e request =
  rq_user :: "'e user_context option"
  rq_settable :: bool
  rq_headers :: "(string \<Rightarrow> string) option"

definition set_user_context :: "'e user_context option \<Rightarrow> 'e request \<Rightarrow> 'e request" where
  "set_user_context ctx r = (if rq_settable r \<and> ctx \<noteq> None then r\<lparr>rq_user := ctx\<rparr> else r)"

definition attach_actor_to_request_context :: "actor_context \<Rightarrow> 'e request \<Rightarrow> 'e request" where
  "attach_actor_to_request_context a r =
     (if actor_is_zero a then r else set_user_context (context_with_actor a (rq_user r)) r)"

definition scope_is_blank :: "scope_filter \<Rightarrow> bool" where
  "scope_is_blank s \<longleftrightarrow> \<not> scope_has_filters s \<and> \<not> sf_bypass s \<and> sf_labels s = [] \<and> sf_raw s = []"

definition attach_scope_to_request_context :: "scope_filter \<Rightarrow> 'e request \<Rightarrow> 'e request" where
  "attach_scope_to_request_context s r =
     (if scope_is_blank s then r else set_user_context (context_with_scope s (rq_user r)) r)"

definition attach_identifiers_to_request_context :: "string \<Rightarrow> string \<Rightarrow> 'e request \<Rightarrow> 'e request" where
  "attach_identifiers_to_request_context requestID correlationID r =
     (let base = rq_user r;
          base1 = (if requestID \<noteq> [] then context_with_request_id requestID base else base);
          base2 = (if correlationID \<noteq> [] then context_with_correlation_id correlationID base1 else base1)
      in set_user_context base2 r)"

definition first_header :: "string \<Rightarrow> string \<Rightarrow> 'e request \<Rightarrow> string" where
  "first_header h1 h2 r =
     (case rq_headers r of
        None \<Rightarrow> []
      | Some header \<Rightarrow> (if trim_space (header h1) \<noteq> [] then trim_space (header h1) else trim_space (header h2)))"

definition resolve_request_id :: "'e request \<Rightarrow> string" where
  "resolve_request_id r =
     (let i = request_id_from_context (rq_user r)
      in if i \<noteq> [] then i else first_header ''X-Request-ID'' ''Request-ID'' r)"

definition resolve_correlation_id :: "'e request \<Rightarrow> string" where
  "resolve_correlation_id r =
     (let i = correlation_id_from_context (rq_user r)
      in if i \<noteq> [] then i else first_header ''X-Correlation-ID'' ''Correlation-ID'' r)"

section \<open>The guard\<close>

record guard_request_context =
  gm_actor :: actor_context
  gm_scope :: scope_filter
  gm_request_id :: string
  gm_correlation_id :: string

text \<open>A guard is supplied by the application; it may change the request it is given.\<close>

type_synonym ('err, 'e) scope_guard =
  "'e request \<Rightarrow> string \<Rightarrow> 'e request \<times> ('err + actor_context \<times> scope_filter)"

text \<open>\<open>resolveGuardContext\<close>, from the point where the guard has answered.\<close>

definition finish_guard_context ::
  "actor_context \<Rightarrow> scope_filter \<Rightarrow> 'e request \<Rightarrow> 'e request \<times> guard_request_context" where
  "finish_guard_context actor scope r =
     (let requestID = resolve_request_id r;
          correlationID = resolve_correlation_id r;
          r1 = attach_identifiers_to_request_context requestID correlationID r
      in (r1, \<lparr>gm_actor = (if actor_is_zero actor then actor_from_context (rq_user r1) else actor),
               gm_scope = (if scope_is_blank scope then scope_from_context (rq_user r1) else scope),
               gm_request_id = requestID, gm_correlation_id = correlationID\<rparr>))"

definition resolve_guard_context ::
  "('err, 'e) scope_guard option \<Rightarrow> 'e request \<Rightarrow> string \<Rightarrow> 'e request \<times> ('err + guard_request_context)" where
  "resolve_guard_context guard r0 op =
     (let actor0 = actor_from_context (rq_user r0);
          scope0 = scope_from_context (rq_user r0)
      in case guard of
           Some g \<Rightarrow>
             (case g r0 op of
                (r, Inl e) \<Rightarrow> (r, Inl e)
              | (r, Inr (actor, scope)) \<Rightarrow>
                  (let (actor1, r1) = (if actor_is_zero actor then (actor0, r)
                         else (clone_actor actor, attach_actor_to_request_context (clone_actor actor) r));
                       scope1 = clone_scope scope;
                       r2 = attach_scope_to_request_context scope1 r1;
                       (r3, meta) = finish_guard_context actor1 scope1 r2
                   in (r3, Inr meta)))
         | None \<Rightarrow>
             (let r1 = (if actor_is_zero actor0 then r0 else attach_actor_to_request_context actor0 r0);
                  r2 = (if scope_has_filters scope0 \<or> sf_bypass scope0
                        then attach_scope_to_request_context scope0 r1 else r1);
                  (r3, meta) = finish_guard_context actor0 scope0 r2
              in (r3, Inr meta)))"

text \<open>The context a hook receives (\<open>hookUserContext\<close>).\<close>

definition hook_user_context :: "'e request \<Rightarrow> guard_request_context \<Rightarrow> 'e user_context option" where
  "hook_user_context r meta =
     (let base = (case rq_user r of None \<Rightarrow> Some background | Some c \<Rightarrow> Some c)
      in context_with_correlation_id (gm_correlation_id meta)
           (context_with_request_id (gm_request_id meta)
              (context_with_scope (gm_scope meta) (context_with_actor (gm_actor meta) base))))"

section \<open>Keys of a context\<close>

text \<open>
  The interface of a context key: what is stored on a context is what is read back, and storing
  on a nil context does nothing. Attaching to a request then makes the value readable from it.
\<close>

locale context_key =
  fixes store :: "'v \<Rightarrow> 'e user_context option \<Rightarrow> 'e user_context option"
    and fetch :: "'e user_context option \<Rightarrow> 'v"
    and valid :: "'v \<Rightarrow> bool"
  assumes fetch_store: "valid v \<Longrightarrow> fetch (store v (Some c)) = v"
    and store_some: "store v (Some c) \<noteq> None"
    and store_nil: "store v None = None"
begin

lemma store_none_iff: "store v ctx = None \<longleftrightarrow> ctx = None"
  using store_some store_nil by (cases ctx) auto

lemma attached:
  assumes "valid v" "rq_settable r" "rq_user r \<noteq> None"
  shows "fetch (rq_user (set_user_context (store v (rq_user r)) r)) = v"
proof -
  obtain c where c: "rq_user r = Some c" using assms(3) by blast
  with assms show ?thesis by (simp add: set_user_context_def store_none_iff fetch_store)
qed

end

lemma clone_actor_id [simp]: "clone_actor a = a"
  by (simp add: clone_actor_def)

lemma clone_scope_id [simp]: "clone_scope s = s"
  by (simp add: clone_scope_def)

interpretation actor_key: context_key context_with_actor actor_from_context "\<lambda>a. \<not> actor_is_zero a"
  by unfold_locales (simp_all add: context_with_actor_def actor_from_context_def)

interpretation scope_key: context_key context_with_scope scope_from_context "\<lambda>s. True"
  by unfold_locales (simp_all add: context_with_scope_def scope_from_context_def)

interpretation request_id_key: context_key context_with_request_id request_id_from_context
    "\<lambda>i. is_trimmed i \<and> i \<noteq> []"
  by unfold_locales (auto simp: context_with_request_id_def request_id_from_context_def)

interpretation correlation_key: context_key context_with_correlation_id correlation_id_from_context
    "\<lambda>i. is_trimmed i \<and> i \<noteq> []"
  by unfold_locales (auto simp: context_with_correlation_id_def correlation_id_from_context_def)

lemma set_user_context_settable [simp]: "rq_settable (set_user_context ctx r) = rq_settable r"
  by (simp add: set_user_context_def)

lemma set_user_context_nil: "rq_user r \<noteq> None \<Longrightarrow> rq_user (set_user_context ctx r) \<noteq> None"
  by (auto simp: set_user_context_def)

lemma attach_settable [simp]:
  "rq_settable (attach_actor_to_request_context a r) = rq_settable r"
  "rq_settable (attach_scope_to_request_context s r) = rq_settable r"
  by (simp_all add: attach_actor_to_request_context_def attach_scope_to_request_context_def)

lemma attach_nil:
  "rq_user r \<noteq> None \<Longrightarrow> rq_user (attach_actor_to_request_context a r) \<noteq> None"
  "rq_user r \<noteq> None \<Longrightarrow> rq_user (attach_scope_to_request_context s r) \<noteq> None"
  by (auto simp: attach_actor_to_request_context_def attach_scope_to_request_context_def
      set_user_context_def)

text \<open>Attaching one key keeps the others.\<close>

lemma attach_scope_keeps_actor:
  "actor_from_context (rq_user (attach_scope_to_request_context s r)) = actor_from_context (rq_user r)"
  by (auto simp: attach_scope_to_request_context_def set_user_context_def context_with_scope_def
      actor_from_context_def split: option.splits)

lemma attach_identifiers_keeps:
  "actor_from_context (rq_user (attach_identifiers_to_request_context i c r)) = actor_from_context (rq_user r)"
  "scope_from_context (rq_user (attach_identifiers_to_request_context i c r)) = scope_from_context (rq_user r)"
  by (auto simp: attach_identifiers_to_request_context_def set_user_context_def Let_def
      context_with_request_id_def context_with_correlation_id_def
      actor_from_context_def scope_from_context_def split: option.splits)

section \<open>What a guard guarantees\<close>

text \<open>
  The guard is authoritative: when it returns a scope, the operation runs with
  exactly this scope, and so does everything that reads it from the request later; a zero actor
  of the guard keeps the actor the request already had.
\<close>

theorem guard_scope_is_authoritative:
  assumes "g r op = (r', Inr (actor, scope))" "\<not> scope_is_blank scope"
    and "rq_settable r'" "rq_user r' \<noteq> None"
    and "resolve_guard_context (Some g) r op = (r'', res)"
  shows "\<exists>meta. res = Inr meta \<and> gm_scope meta = scope \<and> scope_from_context (rq_user r'') = scope \<and>
    (\<not> actor_is_zero actor \<longrightarrow> gm_actor meta = actor \<and> actor_from_context (rq_user r'') = actor)"
proof -
  let ?r1 = "if actor_is_zero actor then r' else attach_actor_to_request_context actor r'"
  let ?r2 = "attach_scope_to_request_context scope ?r1"
  have u: "rq_settable ?r1" "rq_user ?r1 \<noteq> None" using assms(3,4) attach_nil(1) [OF assms(4)] by simp_all
  have s: "scope_from_context (rq_user ?r2) = scope"
    using scope_key.attached [OF TrueI u] assms(2) by (simp add: attach_scope_to_request_context_def)
  have a: "actor_from_context (rq_user ?r2) = actor" if "\<not> actor_is_zero actor"
    using actor_key.attached [OF that assms(3,4)] that
    by (simp add: attach_scope_keeps_actor attach_actor_to_request_context_def)
  have res: "r'' = attach_identifiers_to_request_context (resolve_request_id ?r2) (resolve_correlation_id ?r2) ?r2"
      "res = Inr (snd (finish_guard_context (if actor_is_zero actor then actor_from_context (rq_user r) else actor)
        scope ?r2))"
    using assms(1,5) by (auto simp: resolve_guard_context_def finish_guard_context_def Let_def split: if_splits)
  show ?thesis
    unfolding res using s a assms(2) by (simp add: finish_guard_context_def attach_identifiers_keeps Let_def)
qed

text \<open>
  When the guard rejects a request, no scope is resolved and the error is passed on.
\<close>

theorem guard_error_stops:
  "g r op = (r', Inl e) \<Longrightarrow> resolve_guard_context (Some g) r op = (r', Inl e)"
  by (simp add: resolve_guard_context_def Let_def)

section \<open>What a scope enforces\<close>

lemma apply_emit_list:
  "apply_criteria (map emit cs) q = q\<lparr>sq_calls := sq_calls q @ cs\<rparr>"
  by (induction cs arbitrary: q) (simp_all add: emit_def)

lemma apply_criteria_append: "apply_criteria (fs @ gs) q = apply_criteria gs (apply_criteria fs q)"
  by (induction fs q rule: apply_criteria.induct) simp_all

lemma apply_scope_criteria_append: "apply_scope_criteria cs s = cs @ scope_select_criteria s"
  by (simp add: apply_scope_criteria_def Let_def)

text \<open>A scope as \<open>AddColumnFilter\<close> builds it: trimmed columns and values that are not blank.\<close>

definition wf_column_filter :: "scope_column_filter \<Rightarrow> bool" where
  "wf_column_filter f \<longleftrightarrow>
     scf_column f \<noteq> [] \<and> is_trimmed (scf_column f) \<and> scf_values f \<noteq> [] \<and>
     list_all (\<lambda>v. trim_space v \<noteq> []) (scf_values f)"

definition wf_scope :: "scope_filter \<Rightarrow> bool" where
  "wf_scope s \<longleftrightarrow> list_all wf_column_filter (sf_column_filters s)"

lemma wf_add_column_filter: "wf_scope s \<Longrightarrow> wf_scope (add_column_filter c op vs s)"
  by (auto simp: wf_scope_def add_column_filter_def wf_column_filter_def Let_def list_all_iff)

lemma wf_zero_scope: "wf_scope zero_scope"
  by (simp add: wf_scope_def zero_scope_def)

lemma wf_filter_criterion: "wf_column_filter f \<Longrightarrow> filter_criterion f \<noteq> None"
  by (cases "scf_values f") (auto simp: wf_column_filter_def filter_criterion_def Let_def)

definition criterion_column :: "qcall \<Rightarrow> string" where
  "criterion_column c =
     (case c of QSelectBy col op v \<Rightarrow> col | QSelectColumnIn col vs \<Rightarrow> col | QSelectColumnNotIn col vs \<Rightarrow> col
      | _ \<Rightarrow> [])"

lemma filter_criterion_column: "filter_criterion f = Some c \<Longrightarrow> criterion_column c = scf_column f"
  by (auto simp: filter_criterion_def criterion_column_def Let_def split: if_splits)

text \<open>
  A scope built with \<open>AddColumnFilter\<close> and not bypassed is enforced completely: the
  repository query is the one of the request followed by one restriction per column filter, on
  that column and in that order.
\<close>

theorem scope_is_enforced:
  assumes "wf_scope s" "\<not> sf_bypass s"
  shows "\<exists>calls. apply_criteria (apply_scope_criteria cs s) q =
      (apply_criteria cs q)\<lparr>sq_calls := sq_calls (apply_criteria cs q) @ calls\<rparr> \<and>
    map criterion_column calls = map scf_column (sf_column_filters s)"
proof -
  let ?calls = "List.map_filter filter_criterion (sf_column_filters s)"
  have "scope_select_criteria s = map emit ?calls"
    using assms(2) by (simp add: scope_select_criteria_def List.map_filter_simps)
  then have "apply_criteria (apply_scope_criteria cs s) q =
      (apply_criteria cs q)\<lparr>sq_calls := sq_calls (apply_criteria cs q) @ ?calls\<rparr>"
    by (simp add: apply_scope_criteria_append apply_criteria_append apply_emit_list)
  moreover have "map criterion_column (List.map_filter filter_criterion fs) = map scf_column fs"
    if "list_all wf_column_filter fs" for fs
    using that
  proof (induction fs)
    case (Cons f fs)
    then obtain c where "filter_criterion f = Some c" using wf_filter_criterion [of f] by auto
    with Cons show ?case by (simp add: List.map_filter_simps filter_criterion_column)
  qed (simp add: List.map_filter_simps)
  ultimately show ?thesis using assms(1) by (auto simp: wf_scope_def)
qed

definition tenant_scope :: scope_filter where
  "tenant_scope = add_column_filter ''tenant_id'' [] [''t1''] zero_scope"

lemma scope_is_enforced_witness:
  "\<exists>calls. apply_criteria (apply_scope_criteria [] tenant_scope) \<lparr>sq_dialect = None, sq_calls = []\<rparr> =
     \<lparr>sq_dialect = None, sq_calls = calls\<rparr> \<and> map criterion_column calls = [''tenant_id'']"
proof -
  have "wf_scope tenant_scope" unfolding tenant_scope_def by (intro wf_add_column_filter wf_zero_scope)
  moreover have "\<not> sf_bypass tenant_scope" "map scf_column (sf_column_filters tenant_scope) = [''tenant_id'']"
    by code_simp+
  ultimately show ?thesis
    using scope_is_enforced [of tenant_scope "[]" "\<lparr>sq_dialect = None, sq_calls = []\<rparr>"] by simp
qed

text \<open>
  A restriction with a blank value is not enforced at all: neither
  \<open>AddColumnFilter\<close> nor the conversion of a filter set directly gives a criterion for it, so a
  guard that restricts to a blank tenant leaves the query unrestricted.
\<close>

theorem blank_scope_value_is_dropped:
  "scope_select_criteria (add_column_filter column op [[]] zero_scope) = [] \<and>
   scope_select_criteria (zero_scope\<lparr>sf_column_filters := [\<lparr>scf_column = column, scf_operator = [], scf_values = [[]]\<rparr>]\<rparr>) = []"
  by (simp add: scope_select_criteria_def add_column_filter_def zero_scope_def filter_criterion_def
      List.map_filter_simps Let_def to_upper_def)

definition guarded_request :: "unit request" where
  "guarded_request = \<lparr>rq_user = Some background, rq_settable = True, rq_headers = None\<rparr>"

definition tenant_guard :: "(string, unit) scope_guard" where
  "tenant_guard r op = (r, Inr (zero_actor, tenant_scope))"

lemma guard_scope_is_authoritative_witness:
  "scope_from_context (rq_user (fst (resolve_guard_context (Some tenant_guard) guarded_request ''list''))) = tenant_scope"
proof -
  have g: "tenant_guard guarded_request ''list'' = (guarded_request, Inr (zero_actor, tenant_scope))"
    by (simp add: tenant_guard_def)
  have nb: "\<not> scope_is_blank tenant_scope" by code_simp
  have ctx: "rq_settable guarded_request" "rq_user guarded_request \<noteq> None" by (simp_all add: guarded_request_def)
  from guard_scope_is_authoritative [where g = tenant_guard and r = guarded_request and op = "''list''",
      OF g nb ctx surjective_pairing] show ?thesis by auto
qed

lemma guard_error_stops_witness:
  "resolve_guard_context (Some (\<lambda>r op. (r, Inl ''denied''))) guarded_request ''list'' =
     (guarded_request, Inl ''denied'')"
  by (rule guard_error_stops) simp

end
