(* ===== verification/Field_Policy.thy ===== *)
theory Field_Policy
  imports Query_Builder Scope_Guard
begin

text \<open>
  Field policies: \<open>field_policy.go\<close> and the policy part of \<open>controller.go\<close>. A policy of the
  application, resolved against the queryable fields of the model, restricts the fields a request
  may query, the fields a response shows, masks values, and adds a row filter.
\<close>

section \<open>Policies\<close>

text \<open>A mask maps a field's value to its replacement; nil zeroes the field. A nil function is \<open>None\<close>.\<close>

type_synonym 'v field_mask = "'v \<Rightarrow> 'v option"

record 'v field_policy =
  fp_name :: string
  fp_allow :: "string list"
  fp_deny :: "string list"
  fp_mask :: "(string, 'v field_mask option) gomap"
  fp_row_filter :: scope_filter
  fp_labels :: "(string, string) gomap"

record field_policy_audit =
  fa_policy :: string
  fa_resource :: string
  fa_operation :: string
  fa_allowed :: "string list"
  fa_denied :: "string list"
  fa_masked :: "string list"
  fa_row_filter :: "scope_column_filter list"
  fa_labels :: "(string, string) gomap"

record 'v resolved_field_policy =
  rp_allowed_override :: field_map
  rp_allow_set :: "string list"
  rp_deny_set :: "string list"
  rp_maskers :: "(string, 'v field_mask) gomap"
  rp_row_filter :: scope_filter
  rp_audit :: field_policy_audit

definition zero_audit :: field_policy_audit where
  "zero_audit = \<lparr>fa_policy = [], fa_resource = [], fa_operation = [], fa_allowed = [], fa_denied = [],
     fa_masked = [], fa_row_filter = [], fa_labels = []\<rparr>"

definition zero_resolved_policy :: "'v resolved_field_policy" where
  "zero_resolved_policy = \<lparr>rp_allowed_override = [], rp_allow_set = [], rp_deny_set = [], rp_maskers = [],
     rp_row_filter = zero_scope, rp_audit = zero_audit\<rparr>"

definition normalize_policy_field :: "string \<Rightarrow> string" where
  "normalize_policy_field f = trim_space (to_lower f)"

text \<open>A set of keys is a list; a set that would be empty is nil.\<close>

definition normalize_policy_list :: "string list \<Rightarrow> (string, string) gomap \<Rightarrow> string list" where
  "normalize_policy_list raws reverse =
     filter (\<lambda>key. key \<noteq> [] \<and> map_of reverse key \<noteq> None) (map normalize_policy_field raws)"

definition normalize_policy_mask ::
  "(string, 'v field_mask option) gomap \<Rightarrow> (string, string) gomap \<Rightarrow> (string, 'v field_mask) gomap" where
  "normalize_policy_mask masks reverse =
     fold (\<lambda>(raw, fn) result.
       case fn of
         None \<Rightarrow> result
       | Some f \<Rightarrow>
           (let key = normalize_policy_field raw
            in if key = [] then result
               else case map_of reverse key of
                      None \<Rightarrow> result
                    | Some canonical \<Rightarrow> put canonical f result)) masks []"

definition reverse_fields :: "field_map \<Rightarrow> (string, string) gomap" where
  "reverse_fields base = fold (\<lambda>(f, c) m. put (normalize_policy_field f) f m) base []"

text \<open>What the loop over the base fields decides for a field: denied, hidden, or allowed.\<close>

definition field_denied :: "string list \<Rightarrow> string list \<Rightarrow> string \<Rightarrow> bool" where
  "field_denied allowSet denySet f \<longleftrightarrow>
     (allowSet = [] \<or> normalize_policy_field f \<in> set allowSet) \<and> normalize_policy_field f \<in> set denySet"

definition field_allowed :: "string list \<Rightarrow> string list \<Rightarrow> string \<Rightarrow> bool" where
  "field_allowed allowSet denySet f \<longleftrightarrow>
     (allowSet = [] \<or> normalize_policy_field f \<in> set allowSet) \<and>
     \<not> (denySet \<noteq> [] \<and> normalize_policy_field f \<in> set denySet)"

definition build_resolved_field_policy ::
  "'v field_policy \<Rightarrow> field_map \<Rightarrow> string \<Rightarrow> string \<Rightarrow> 'v resolved_field_policy" where
  "build_resolved_field_policy policy base resource op =
     (let reverse = reverse_fields base;
          allowSet = normalize_policy_list (fp_allow policy) reverse;
          denySet = normalize_policy_list (fp_deny policy) reverse;
          appliedAllowed = filter (\<lambda>(f, c). field_allowed allowSet denySet f) base;
          appliedDenied = filter (\<lambda>(f, c). field_denied allowSet denySet f) base;
          maskers = normalize_policy_mask (fp_mask policy) reverse;
          rowFilter = (clone_scope (fp_row_filter policy))\<lparr>sf_bypass := False\<rparr>
      in \<lparr>rp_allowed_override = (if allowSet \<noteq> [] \<or> denySet \<noteq> [] then appliedAllowed else []),
          rp_allow_set = allowSet, rp_deny_set = denySet, rp_maskers = maskers,
          rp_row_filter = rowFilter,
          rp_audit = \<lparr>fa_policy = fp_name policy, fa_resource = resource, fa_operation = op,
                      fa_allowed = sort_strings (map fst appliedAllowed),
                      fa_denied = sort_strings (map fst appliedDenied),
                      fa_masked = sort_strings (map fst maskers),
                      fa_row_filter = sf_column_filters rowFilter, fa_labels = fp_labels policy\<rparr>\<rparr>)"

definition policy_is_zero :: "'v resolved_field_policy \<Rightarrow> bool" where
  "policy_is_zero r \<longleftrightarrow>
     rp_allowed_override r = [] \<and> rp_allow_set r = [] \<and> rp_deny_set r = [] \<and> rp_maskers r = [] \<and>
     \<not> scope_has_filters (rp_row_filter r) \<and> fa_masked (rp_audit r) = [] \<and> fa_policy (rp_audit r) = []"

definition policy_allowed_fields :: "'v resolved_field_policy \<Rightarrow> field_map \<Rightarrow> field_map" where
  "policy_allowed_fields r base = (if rp_allowed_override r = [] then base else rp_allowed_override r)"

definition allows_field :: "'v resolved_field_policy \<Rightarrow> string \<Rightarrow> bool" where
  "allows_field r f =
     (if rp_allow_set r \<noteq> [] then normalize_policy_field f \<in> set (rp_allow_set r)
      else if rp_deny_set r \<noteq> [] then normalize_policy_field f \<notin> set (rp_deny_set r)
      else True)"

definition mask_for :: "'v resolved_field_policy \<Rightarrow> string \<Rightarrow> 'v field_mask option" where
  "mask_for r f = map_of (rp_maskers r) (normalize_policy_field f)"

section \<open>On queries\<close>

definition policy_query_options :: "'v resolved_field_policy \<Rightarrow> query_builder_option option list" where
  "policy_query_options r =
     (if rp_allowed_override r = [] then [] else [Some (with_allowed_fields (rp_allowed_override r))])"

definition apply_field_policy_criteria :: "criteria list \<Rightarrow> 'v resolved_field_policy \<Rightarrow> criteria list" where
  "apply_field_policy_criteria cs r = apply_scope_criteria cs (rp_row_filter r)"

section \<open>On records\<close>

text \<open>
  A struct value, field by field: the reflected field, its value, the zero value of its type, and
  the conversion of a mask's result to its type (\<open>None\<close> when neither assignable nor convertible).
  A record is a nil or non-nil pointer to a struct, a struct passed by value, or another value.
\<close>

record 'v cell =
  cell_field :: struct_field
  cell_value :: 'v
  cell_zero :: 'v
  cell_convert :: "'v \<Rightarrow> 'v option"

datatype 'v model_record = RNil | RPointer "'v cell list" | RStruct "'v cell list" | ROther

definition json_field_name :: "(string \<Rightarrow> string) \<Rightarrow> struct_field \<Rightarrow> string" where
  "json_field_name snake f =
     (if sf_json f \<noteq> [] \<and> first_part (sf_json f) \<noteq> [] \<and> first_part (sf_json f) \<noteq> ''-''
      then first_part (sf_json f) else snake (sf_name f))"

definition apply_mask_value :: "'v field_mask \<Rightarrow> 'v cell \<Rightarrow> 'v cell" where
  "apply_mask_value fn c =
     (case fn (cell_value c) of
        None \<Rightarrow> c\<lparr>cell_value := cell_zero c\<rparr>
      | Some masked \<Rightarrow>
          (case cell_convert c masked of None \<Rightarrow> c | Some v \<Rightarrow> c\<lparr>cell_value := v\<rparr>))"

definition apply_field_policy_cell ::
  "(string \<Rightarrow> string) \<Rightarrow> 'v resolved_field_policy \<Rightarrow> 'v cell \<Rightarrow> 'v cell" where
  "apply_field_policy_cell snake r c =
     (if \<not> sf_exported (cell_field c) \<or> sf_crud (cell_field c) = ''-'' then c
      else let name = json_field_name snake (cell_field c)
           in if \<not> allows_field r name then c\<lparr>cell_value := cell_zero c\<rparr>
              else case mask_for r name of None \<Rightarrow> c | Some fn \<Rightarrow> apply_mask_value fn c)"

definition apply_field_policy_struct ::
  "(string \<Rightarrow> string) \<Rightarrow> 'v resolved_field_policy \<Rightarrow> 'v cell list \<Rightarrow> 'v cell list" where
  "apply_field_policy_struct snake r cells = map (apply_field_policy_cell snake r) cells"

text \<open>
  \<open>applyFieldPolicyValue\<close>: the fields of a struct can be set through a pointer or when the struct
  itself is addressable, as an element of a slice is; those of a struct passed by value cannot.
\<close>

definition apply_field_policy_value ::
  "(string \<Rightarrow> string) \<Rightarrow> 'v resolved_field_policy \<Rightarrow> bool \<Rightarrow> 'v model_record \<Rightarrow> 'v model_record" where
  "apply_field_policy_value snake r addressable v =
     (case v of
        RPointer cells \<Rightarrow> RPointer (apply_field_policy_struct snake r cells)
      | RStruct cells \<Rightarrow> (if addressable then RStruct (apply_field_policy_struct snake r cells) else v)
      | _ \<Rightarrow> v)"

definition apply_field_policy_to_record ::
  "(string \<Rightarrow> string) \<Rightarrow> 'v model_record \<Rightarrow> 'v resolved_field_policy \<Rightarrow> 'v model_record" where
  "apply_field_policy_to_record snake rec r =
     (if policy_is_zero r \<or> rec = RNil then rec else apply_field_policy_value snake r False rec)"

definition apply_field_policy_to_slice ::
  "(string \<Rightarrow> string) \<Rightarrow> 'v model_record list \<Rightarrow> 'v resolved_field_policy \<Rightarrow> 'v model_record list" where
  "apply_field_policy_to_slice snake recs r =
     (if policy_is_zero r \<or> recs = [] then recs else map (apply_field_policy_value snake r True) recs)"

section \<open>Facts\<close>

lemma normalize_policy_field_idem [simp]:
  "normalize_policy_field (normalize_policy_field f) = normalize_policy_field f"
  by (simp add: normalize_policy_field_def trim_space_to_lower)

lemma reverse_fields_keys: "keys (reverse_fields base) = normalize_policy_field ` keys base"
proof -
  have "keys (fold (\<lambda>(f, c) m. put (normalize_policy_field f) f m) base m0) =
      normalize_policy_field ` keys base \<union> keys m0" for m0 :: "(string, string) gomap"
  proof (induction base arbitrary: m0)
    case (Cons e base)
    then show ?case by (cases e) simp
  qed simp
  from this [of "[]"] show ?thesis by (simp add: reverse_fields_def)
qed

lemma reverse_fields_Some:
  "map_of (reverse_fields base) k = Some f \<Longrightarrow> f \<in> keys base \<and> normalize_policy_field f = k"
proof -
  have "map_of (fold (\<lambda>(f, c) m. put (normalize_policy_field f) f m) base m0) k = Some f \<Longrightarrow>
      (f \<in> keys base \<and> normalize_policy_field f = k) \<or> map_of m0 k = Some f" for m0 :: "(string, string) gomap"
    by (induction base arbitrary: m0) (fastforce split: if_splits)+
  from this [of "[]"] show "map_of (reverse_fields base) k = Some f \<Longrightarrow> f \<in> keys base \<and> normalize_policy_field f = k"
    by (simp add: reverse_fields_def)
qed

lemma reverse_fields_known: "map_of (reverse_fields base) k \<noteq> None \<longleftrightarrow> k \<in> normalize_policy_field ` keys base"
  using reverse_fields_keys [of base] by (simp add: map_of_eq_None_iff)

lemma policy_set:
  "set (normalize_policy_list raws (reverse_fields base)) =
     {k \<in> normalize_policy_field ` set raws. k \<noteq> [] \<and> k \<in> normalize_policy_field ` keys base}"
  unfolding normalize_policy_list_def using reverse_fields_known [of base] by auto

lemma field_allowed_alt:
  "field_allowed allowSet denySet f \<longleftrightarrow>
     (allowSet = [] \<or> normalize_policy_field f \<in> set allowSet) \<and> normalize_policy_field f \<notin> set denySet"
  by (auto simp: field_allowed_def)

section \<open>What a policy guarantees\<close>

text \<open>
  On a response, a policy clears every field it does not allow: a visible struct
  field whose JSON name is not allowed gets the zero value of its type, the fields of unexported
  or excluded struct fields are left alone, and no field is added, removed or reordered.
\<close>

theorem policy_clears_hidden_fields:
  assumes "\<not> policy_is_zero r" "c \<in> set cells" "sf_exported (cell_field c)" "sf_crud (cell_field c) \<noteq> ''-''"
    and "\<not> allows_field r (json_field_name snake (cell_field c))"
  shows "\<exists>out. apply_field_policy_to_record snake (RPointer cells) r = RPointer out \<and>
    map cell_field out = map cell_field cells \<and> c\<lparr>cell_value := cell_zero c\<rparr> \<in> set out"
proof -
  let ?out = "map (apply_field_policy_cell snake r) cells"
  have "cell_field (apply_field_policy_cell snake r d) = cell_field d" for d
    by (simp add: apply_field_policy_cell_def apply_mask_value_def Let_def split: option.split)
  moreover have "apply_field_policy_cell snake r c = c\<lparr>cell_value := cell_zero c\<rparr>"
    using assms(3-5) by (simp add: apply_field_policy_cell_def Let_def)
  then have "c\<lparr>cell_value := cell_zero c\<rparr> \<in> set ?out" using assms(2) by force
  ultimately show ?thesis
    using assms(1) by (simp add: apply_field_policy_to_record_def apply_field_policy_value_def
        apply_field_policy_struct_def comp_def)
qed

text \<open>
  What a policy lets a request query: exactly the base fields that its allow list
  names (all, when it names none) and its deny list does not, each with its own column.
\<close>

theorem policy_override_exact:
  assumes "normalize_policy_list (fp_allow policy) (reverse_fields base) \<noteq> [] \<or>
      normalize_policy_list (fp_deny policy) (reverse_fields base) \<noteq> []"
    and "(f, c) \<in> set base" "normalize_policy_field f \<noteq> []"
  shows "(f, c) \<in> set (rp_allowed_override (build_resolved_field_policy policy base resource op)) \<longleftrightarrow>
    (normalize_policy_list (fp_allow policy) (reverse_fields base) = [] \<or>
       normalize_policy_field f \<in> normalize_policy_field ` set (fp_allow policy)) \<and>
    normalize_policy_field f \<notin> normalize_policy_field ` set (fp_deny policy)"
proof -
  have k: "normalize_policy_field f \<in> normalize_policy_field ` keys base" using assms(2) by force
  have "normalize_policy_field f \<in> set (normalize_policy_list raws (reverse_fields base)) \<longleftrightarrow>
      normalize_policy_field f \<in> normalize_policy_field ` set raws" for raws
    unfolding policy_set using assms(3) k by simp
  then show ?thesis
    using assms(1,2) by (simp add: build_resolved_field_policy_def Let_def field_allowed_alt)
qed

lemma resolved_override:
  "(f, c) \<in> set (rp_allowed_override (build_resolved_field_policy policy base resource op)) \<Longrightarrow> (f, c) \<in> set base"
  by (auto simp: build_resolved_field_policy_def Let_def split: if_splits)

text \<open>
  Under a policy that leaves at least one field, a request is limited to the fields of
  the policy: the columns its query can use are those of the override, whose fields are fields of
  the model, and the row filter of the policy is added without any bypass.
\<close>

theorem policy_limits_queries:
  assumes "rp_allowed_override (build_resolved_field_policy policy base resource op) \<noteq> []"
  shows "allowed_fields (query_bun_config g model (apply_options
           (policy_query_options (build_resolved_field_policy policy base resource op)) empty_builder_config)) =
         rp_allowed_override (build_resolved_field_policy policy base resource op) \<and>
     set (rp_allowed_override (build_resolved_field_policy policy base resource op)) \<subseteq> set base \<and>
     apply_field_policy_criteria cs (build_resolved_field_policy policy base resource op) =
       cs @ scope_select_criteria ((fp_row_filter policy)\<lparr>sf_bypass := False\<rparr>)"
proof -
  let ?r = "build_resolved_field_policy policy base resource op"
  have "rp_row_filter ?r = (fp_row_filter policy)\<lparr>sf_bypass := False\<rparr>"
    by (simp add: build_resolved_field_policy_def Let_def)
  moreover have "set (rp_allowed_override ?r) \<subseteq> set base" using resolved_override [of _ _ policy base resource op] by auto
  ultimately show ?thesis
    using assms by (simp add: query_bun_config_def policy_query_options_def with_allowed_fields_def
        empty_builder_config_def apply_field_policy_criteria_def apply_scope_criteria_append)
qed

text \<open>
  Queries and responses agree on a policy that has no field both allowed and
  denied: a base field can be queried exactly when responses show it.
\<close>

theorem policy_query_response_agree:
  assumes "r = build_resolved_field_policy policy base resource op"
    and "rp_allow_set r = [] \<or> set (rp_allow_set r) \<inter> set (rp_deny_set r) = {}"
    and "rp_allow_set r \<noteq> [] \<or> rp_deny_set r \<noteq> []" "(f, c) \<in> set base"
  shows "(f, c) \<in> set (rp_allowed_override r) \<longleftrightarrow> allows_field r f"
  using assms(2-4) unfolding assms(1)
  by (auto simp: build_resolved_field_policy_def Let_def field_allowed_def allows_field_def)

section \<open>Where a policy is weaker than it reads\<close>

definition user_fields :: field_map where
  "user_fields = [(''name'', ''name''), (''email'', ''email''), (''userEmail'', ''user_email'')]"

definition plain_policy :: "string field_policy" where
  "plain_policy = \<lparr>fp_name = ''p'', fp_allow = [], fp_deny = [], fp_mask = [], fp_row_filter = zero_scope, fp_labels = []\<rparr>"

definition text_cell :: "string \<Rightarrow> string \<Rightarrow> string cell" where
  "text_cell n v = \<lparr>cell_field = plain_field n, cell_value = v, cell_zero = [], cell_convert = Some\<rparr>"

lemma policy_override_exact_witness:
  "(''name'', ''name'') \<in> set (rp_allowed_override (build_resolved_field_policy
      (plain_policy\<lparr>fp_deny := [''EMAIL'']\<rparr>) user_fields ''user'' ''list''))"
proof -
  let ?p = "plain_policy\<lparr>fp_deny := [''EMAIL'']\<rparr>"
  have "normalize_policy_list (fp_deny ?p) (reverse_fields user_fields) \<noteq> []" by code_simp
  then have d: "normalize_policy_list (fp_allow ?p) (reverse_fields user_fields) \<noteq> [] \<or>
      normalize_policy_list (fp_deny ?p) (reverse_fields user_fields) \<noteq> []" by blast
  have b: "(''name'', ''name'') \<in> set user_fields" "normalize_policy_field ''name'' \<noteq> []"
      "normalize_policy_list (fp_allow ?p) (reverse_fields user_fields) = []"
      "normalize_policy_field ''name'' \<notin> normalize_policy_field ` set (fp_deny ?p)"
    by code_simp+
  from policy_override_exact [OF d b(1,2), of "''user''" "''list''"] b(3,4) show ?thesis by simp
qed

lemma policy_limits_queries_witness:
  "allowed_fields (query_bun_config sample_globals article_model (apply_options
     (policy_query_options (build_resolved_field_policy (plain_policy\<lparr>fp_allow := [''Name'']\<rparr>) user_fields ''user'' ''list''))
     empty_builder_config)) = [(''name'', ''name'')]"
proof -
  have o': "rp_allowed_override (build_resolved_field_policy (plain_policy\<lparr>fp_allow := [''Name'']\<rparr>) user_fields ''user'' ''list'') =
      [(''name'', ''name'')]"
    by code_simp
  then have "rp_allowed_override (build_resolved_field_policy (plain_policy\<lparr>fp_allow := [''Name'']\<rparr>) user_fields ''user'' ''list'') \<noteq> []"
    by simp
  from policy_limits_queries [OF this, of sample_globals article_model "[]"] o' show ?thesis by simp
qed

lemma policy_query_response_agree_witness:
  "\<not> allows_field (build_resolved_field_policy (plain_policy\<lparr>fp_deny := [''Email'']\<rparr>) user_fields ''user'' ''list'') ''email''"
proof -
  let ?r = "build_resolved_field_policy (plain_policy\<lparr>fp_deny := [''Email'']\<rparr>) user_fields ''user'' ''list''"
  have "rp_allow_set ?r = []" "rp_deny_set ?r \<noteq> []" "(''email'', ''email'') \<in> set user_fields"
      "(''email'', ''email'') \<notin> set (rp_allowed_override ?r)"
    by code_simp+
  with policy_query_response_agree [OF refl, of "plain_policy\<lparr>fp_deny := [''Email'']\<rparr>" user_fields "''user''" "''list''"
      "''email''" "''email''"] show ?thesis by simp
qed

lemma policy_clears_hidden_fields_witness:
  "\<exists>out. apply_field_policy_to_record to_lower (RPointer [text_cell ''Name'' ''Ada'', text_cell ''Email'' ''a@b''])
     (build_resolved_field_policy (plain_policy\<lparr>fp_deny := [''email'']\<rparr>) user_fields ''user'' ''list'') =
   RPointer out \<and> text_cell ''Email'' [] \<in> set out"
proof -
  let ?r = "build_resolved_field_policy (plain_policy\<lparr>fp_deny := [''email'']\<rparr>) user_fields ''user'' ''list''"
  let ?cells = "[text_cell ''Name'' ''Ada'', text_cell ''Email'' ''a@b'']"
  have n: "\<not> policy_is_zero ?r" "\<not> allows_field ?r (json_field_name to_lower (plain_field ''Email''))"
    by code_simp+
  have c: "text_cell ''Email'' ''a@b'' \<in> set ?cells" "sf_exported (cell_field (text_cell ''Email'' ''a@b''))"
      "sf_crud (cell_field (text_cell ''Email'' ''a@b'')) \<noteq> ''-''"
      "\<not> allows_field ?r (json_field_name to_lower (cell_field (text_cell ''Email'' ''a@b'')))"
      "(text_cell ''Email'' ''a@b'')\<lparr>cell_value := cell_zero (text_cell ''Email'' ''a@b'')\<rparr> = text_cell ''Email'' []"
    using n(2) by (simp_all add: text_cell_def plain_field_def)
  from policy_clears_hidden_fields [OF n(1) c(1-4)] show ?thesis unfolding c(5) by blast
qed

text \<open>
  A policy that leaves no field at all restricts nothing: its override is empty, an
  empty override is taken for no override, and every field of the model can be queried.
\<close>

theorem deny_all_restricts_no_query:
  assumes "\<And>f. f \<in> keys base \<Longrightarrow> f \<in> set (fp_deny policy)" "\<And>f. f \<in> keys base \<Longrightarrow> normalize_policy_field f \<noteq> []"
    and "base \<noteq> []"
  shows "rp_allowed_override (build_resolved_field_policy policy base resource op) = [] \<and>
    policy_query_options (build_resolved_field_policy policy base resource op) = [] \<and>
    policy_allowed_fields (build_resolved_field_policy policy base resource op) base = base"
proof -
  let ?deny = "normalize_policy_list (fp_deny policy) (reverse_fields base)"
  have d: "normalize_policy_field f \<in> set ?deny" if "f \<in> keys base" for f
    unfolding policy_set using assms(1,2) [OF that] that by simp
  have "\<not> field_allowed allowSet ?deny f" if "f \<in> keys base" for allowSet f
    using d [OF that] by (auto simp: field_allowed_def)
  then have "rp_allowed_override (build_resolved_field_policy policy base resource op) = []"
    by (force simp: build_resolved_field_policy_def Let_def filter_empty_conv)
  then show ?thesis by (simp add: policy_query_options_def policy_allowed_fields_def)
qed

lemma deny_all_restricts_no_query_witness:
  "policy_query_options (build_resolved_field_policy
     (plain_policy\<lparr>fp_deny := [''name'', ''email'', ''userEmail'']\<rparr>) user_fields ''user'' ''list'') = []"
proof -
  let ?p = "plain_policy\<lparr>fp_deny := [''name'', ''email'', ''userEmail'']\<rparr>"
  have k: "keys user_fields = {''name'', ''email'', ''userEmail''}" by (auto simp: user_fields_def)
  have n: "normalize_policy_field ''name'' \<noteq> []" "normalize_policy_field ''email'' \<noteq> []"
      "normalize_policy_field ''userEmail'' \<noteq> []" by code_simp+
  have "f \<in> set (fp_deny ?p)" "normalize_policy_field f \<noteq> []" if "f \<in> keys user_fields" for f
    using that n unfolding k by auto
  from deny_all_restricts_no_query [of user_fields ?p "''user''" "''list''", OF this] show ?thesis
    by (simp add: user_fields_def)
qed

text \<open>
  A field that is both allowed and denied is removed from the queryable fields but
  stays in responses, and a mask for a field with an upper-case letter in its JSON name is found
  by no lookup.
\<close>

theorem denied_field_still_shown:
  "(let r = build_resolved_field_policy (plain_policy\<lparr>fp_allow := [''name'', ''email''], fp_deny := [''email'']\<rparr>)
              user_fields ''user'' ''list''
    in map fst (rp_allowed_override r) = [''name''] \<and> allows_field r ''email'') \<and>
   (let r = build_resolved_field_policy (plain_policy\<lparr>fp_mask := [(''userEmail'', Some (\<lambda>v. None))]\<rparr>)
              user_fields ''user'' ''list''
    in map fst (rp_maskers r) = [''userEmail''] \<and> \<not> policy_is_zero r \<and>
       map_option (\<lambda>f. f ''x'') (mask_for r ''userEmail'') = None)"
  by code_simp

text \<open>
  A policy has no effect on a single record passed by value: only pointer records
  and elements of a list are changed.
\<close>

theorem struct_record_not_restricted:
  "apply_field_policy_to_record snake (RStruct cells) r = RStruct cells \<and>
   (\<not> policy_is_zero r \<longrightarrow>
      apply_field_policy_to_slice snake [RStruct cells] r = [RStruct (apply_field_policy_struct snake r cells)])"
  by (simp add: apply_field_policy_to_record_def apply_field_policy_to_slice_def apply_field_policy_value_def)

lemma struct_record_not_restricted_witness:
  "apply_field_policy_to_slice to_lower [RStruct [text_cell ''Email'' ''a@b'']]
     (build_resolved_field_policy (plain_policy\<lparr>fp_deny := [''email'']\<rparr>) user_fields ''user'' ''list'') =
   [RStruct (apply_field_policy_struct to_lower
     (build_resolved_field_policy (plain_policy\<lparr>fp_deny := [''email'']\<rparr>) user_fields ''user'' ''list'')
     [text_cell ''Email'' ''a@b''])]"
proof -
  have "\<not> policy_is_zero (build_resolved_field_policy (plain_policy\<lparr>fp_deny := [''email'']\<rparr>) user_fields ''user'' ''list'')"
    by code_simp
  with struct_record_not_restricted show ?thesis by blast
qed

end
