(* ===== verification/Activity.thy ===== *)
theory Activity
  imports Scope_Guard "HOL-Library.Monad_Syntax"
begin

text \<open>
  Activity events and notifications: \<open>pkg/activity\<close>, \<open>notification.go\<close> and the event builder of
  \<open>controller.go\<close>. Hooks and notification senders are code of the application: handles
  whose behaviour is a parameter, with effects on a state the model does not look into.
\<close>

section \<open>Events\<close>

datatype meta_value =
    MString string
  | MInt int
  | MStrings "string list"
  | MLabels "(string, string) gomap"
  | MRaw "(string, go_any) gomap"

record activity_event =
  ae_verb :: string
  ae_actor_id :: string
  ae_user_id :: string
  ae_tenant_id :: string
  ae_object_type :: string
  ae_object_id :: string
  ae_channel :: string
  ae_definition_code :: string
  ae_recipients :: "string list"
  ae_metadata :: "(string, meta_value) gomap"
  ae_occurred_at :: "nat option"

definition zero_event :: activity_event where
  "zero_event = \<lparr>ae_verb = [], ae_actor_id = [], ae_user_id = [], ae_tenant_id = [], ae_object_type = [],
     ae_object_id = [], ae_channel = [], ae_definition_code = [], ae_recipients = [], ae_metadata = [],
     ae_occurred_at = None\<rparr>"

text \<open>\<open>NormalizeEvent\<close>; the clock gives the time of an event that has none.\<close>

definition normalize_event :: "nat \<Rightarrow> activity_event \<Rightarrow> activity_event" where
  "normalize_event now e =
     e\<lparr>ae_verb := trim_space (ae_verb e), ae_actor_id := trim_space (ae_actor_id e),
       ae_user_id := trim_space (ae_user_id e), ae_tenant_id := trim_space (ae_tenant_id e),
       ae_object_type := trim_space (ae_object_type e), ae_object_id := trim_space (ae_object_id e),
       ae_channel := trim_space (ae_channel e), ae_definition_code := trim_space (ae_definition_code e),
       ae_occurred_at := (case ae_occurred_at e of None \<Rightarrow> Some now | Some t \<Rightarrow> Some t)\<rparr>"

definition complete_event :: "activity_event \<Rightarrow> bool" where
  "complete_event e \<longleftrightarrow> ae_verb e \<noteq> [] \<and> ae_object_type e \<noteq> [] \<and> ae_object_id e \<noteq> []"

section \<open>Emitters\<close>

text \<open>
  A hook is a handle \<open>'h\<close> (\<open>None\<close>: a nil hook), its behaviour an effect that may fail. The errors
  of \<open>Notify\<close> are joined: the list of them, empty when there was none.
\<close>

type_synonym ('h, 'e, 's, 'err) hook_behaviour =
  "'h \<Rightarrow> 'e user_context \<Rightarrow> activity_event \<Rightarrow> ('s, 'err option) state"

fun notify_each ::
  "('h, 'e, 's, 'err) hook_behaviour \<Rightarrow> 'e user_context \<Rightarrow> activity_event \<Rightarrow> 'h option list \<Rightarrow>
   ('s, 'err list) state" where
  "notify_each run ctx e [] = State_Monad.return []"
| "notify_each run ctx e (None # hs) = notify_each run ctx e hs"
| "notify_each run ctx e (Some h # hs) = do {
     err \<leftarrow> run h ctx e;
     errs \<leftarrow> notify_each run ctx e hs;
     State_Monad.return (case err of None \<Rightarrow> errs | Some x \<Rightarrow> x # errs)
   }"

definition notify ::
  "('h, 'e, 's, 'err) hook_behaviour \<Rightarrow> nat \<Rightarrow> 'e user_context option \<Rightarrow> activity_event \<Rightarrow>
   'h option list \<Rightarrow> ('s, 'err list) state" where
  "notify run now ctx event hs =
     (if hs = [] then State_Monad.return []
      else let e = normalize_event now event
           in if \<not> complete_event e then State_Monad.return []
              else notify_each run (case ctx of None \<Rightarrow> background | Some c \<Rightarrow> c) e hs)"

record activity_config =
  acfg_enabled :: bool
  acfg_channel :: string

record 'h emitter =
  em_hooks :: "'h option list"
  em_enabled :: bool
  em_channel :: string

definition clone_hooks :: "'h option list \<Rightarrow> 'h option list" where
  "clone_hooks hs = filter (\<lambda>h. h \<noteq> None) hs"

definition new_emitter :: "'h option list \<Rightarrow> activity_config \<Rightarrow> 'h emitter" where
  "new_emitter hs cfg =
     (let channel = trim_space (acfg_channel cfg);
          normalized = clone_hooks hs
      in \<lparr>em_hooks = normalized, em_enabled = (acfg_enabled cfg \<and> normalized \<noteq> []),
          em_channel = (if channel = [] then ''crud'' else channel)\<rparr>)"

definition emitter_enabled :: "'h emitter option \<Rightarrow> bool" where
  "emitter_enabled e =
     (case e of None \<Rightarrow> False | Some em \<Rightarrow> em_enabled em \<and> em_hooks em \<noteq> [])"

definition emit_event ::
  "('h, 'e, 's, 'err) hook_behaviour \<Rightarrow> nat \<Rightarrow> 'h emitter option \<Rightarrow> 'e user_context option \<Rightarrow>
   activity_event \<Rightarrow> ('s, 'err list) state" where
  "emit_event run now emitter ctx event =
     (case emitter of
        None \<Rightarrow> State_Monad.return []
      | Some em \<Rightarrow>
          (if \<not> emitter_enabled emitter then State_Monad.return []
           else notify run now ctx
                  (if trim_space (ae_channel event) = [] \<and> em_channel em \<noteq> []
                   then event\<lparr>ae_channel := em_channel em\<rparr> else event)
                  (em_hooks em)))"

section \<open>The events of an operation\<close>

definition op_create :: string where "op_create = ''create''"
definition op_create_batch :: string where "op_create_batch = ''create:batch''"
definition op_read :: string where "op_read = ''read''"
definition op_update :: string where "op_update = ''update''"
definition op_update_batch :: string where "op_update_batch = ''update:batch''"
definition op_delete :: string where "op_delete = ''delete''"
definition op_delete_batch :: string where "op_delete_batch = ''delete:batch''"

definition verb_action :: "string \<Rightarrow> string" where
  "verb_action op =
     (if op = op_create \<or> op = op_create_batch then ''create''
      else if op = op_update \<or> op = op_update_batch then ''update''
      else if op = op_delete \<or> op = op_delete_batch then ''delete''
      else op)"

definition activity_verb :: "string \<Rightarrow> string \<Rightarrow> bool \<Rightarrow> bool \<Rightarrow> string" where
  "activity_verb resource op batch failed =
     join ''.'' [''crud'', resource,
       verb_action op @ (if batch then ''.batch'' else []) @ (if failed then ''.failed'' else [])]"

text \<open>The context of a hook, without the request itself, which is part of the state.\<close>

record 'e hook_context =
  hc_metadata :: hook_metadata
  hc_actor :: actor_context
  hc_scope :: scope_filter
  hc_request_id :: string
  hc_correlation_id :: string
  hc_activity :: "'e option"
  hc_notification :: "'e option"

text \<open>The identifier of a record: the repository's handlers and the record's \<open>id\<close> field.\<close>

record 'r record_handlers =
  rh_is_nil :: "'r \<Rightarrow> bool"
  rh_get_id :: "('r \<Rightarrow> string) option"
  rh_get_identifier_value :: "('r \<Rightarrow> string) option"
  rh_json_field :: "'r \<Rightarrow> string \<Rightarrow> string option"

definition handler_text :: "('r \<Rightarrow> string) option \<Rightarrow> 'r \<Rightarrow> string" where
  "handler_text h r = (case h of None \<Rightarrow> [] | Some f \<Rightarrow> trim_space (f r))"

definition record_id :: "'r record_handlers \<Rightarrow> 'r \<Rightarrow> string" where
  "record_id h r =
     (if rh_is_nil h r then []
      else if handler_text (rh_get_id h) r \<noteq> [] then handler_text (rh_get_id h) r
      else if handler_text (rh_get_identifier_value h) r \<noteq> [] then handler_text (rh_get_identifier_value h) r
      else case rh_json_field h r ''id'' of Some i \<Rightarrow> i | None \<Rightarrow> [])"

definition fallback_object_id :: "'e hook_context \<Rightarrow> string \<Rightarrow> string" where
  "fallback_object_id hctx current =
     (if current \<noteq> [] then current
      else if hm_resource (hc_metadata hctx) \<noteq> [] then hm_resource (hc_metadata hctx)
      else if hm_route_name (hc_metadata hctx) \<noteq> [] then hm_route_name (hc_metadata hctx)
      else ''unknown'')"

definition clone_activity_metadata ::
  "(string, meta_value) gomap \<Rightarrow> nat \<Rightarrow> nat \<Rightarrow> string list \<Rightarrow> (string, meta_value) gomap" where
  "clone_activity_metadata base batchSize batchIndex ids =
     (if batchSize > 0
      then (let m = put ''batch_index'' (MInt (int batchIndex)) (put ''batch_size'' (MInt (int batchSize)) base)
            in if ids \<noteq> [] then put ''batch_ids'' (MStrings ids) m else m)
      else base)"

definition activity_metadata :: "'e hook_context \<Rightarrow> string option \<Rightarrow> (string, meta_value) gomap" where
  "activity_metadata hctx err =
     (let md = hc_metadata hctx; a = hc_actor hctx; s = hc_scope hctx
      in [(''route_name'', MString (hm_route_name md)), (''route_path'', MString (hm_path md)),
          (''method'', MString (hm_method md)), (''request_id'', MString (hc_request_id hctx)),
          (''correlation_id'', MString (hc_correlation_id hctx)),
          (''actor_subject'', MString (ac_subject a)), (''actor_role'', MString (ac_role a)),
          (''actor_tenant_id'', MString (ac_tenant_id a)),
          (''actor_org_id'', MString (ac_organization_id a))]
         @ (if sf_labels s \<noteq> [] then [(''scope_labels'', MLabels (sf_labels s))] else [])
         @ (if sf_raw s \<noteq> [] then [(''scope_raw'', MRaw (sf_raw s))] else [])
         @ (case err of None \<Rightarrow> [] | Some msg \<Rightarrow> [(''error'', MString msg)]))"

definition is_batch :: "string \<Rightarrow> nat \<Rightarrow> bool" where
  "is_batch op n \<longleftrightarrow> n > 1 \<or> op = op_create_batch \<or> op = op_update_batch \<or> op = op_delete_batch"

definition build_activity_events ::
  "'r record_handlers \<Rightarrow> string \<Rightarrow> 'e hook_context \<Rightarrow> string \<Rightarrow> 'r list \<Rightarrow> string option \<Rightarrow>
   activity_event list" where
  "build_activity_events h resource hctx op records err =
     (let verb = activity_verb resource op (is_batch op (length records)) (err \<noteq> None);
          baseMeta = activity_metadata hctx err;
          ids = filter (\<lambda>i. i \<noteq> []) (map (record_id h) records);
          event = (\<lambda>objectID meta. zero_event\<lparr>ae_verb := verb, ae_actor_id := ac_actor_id (hc_actor hctx),
                     ae_user_id := ac_actor_id (hc_actor hctx), ae_tenant_id := ac_tenant_id (hc_actor hctx),
                     ae_object_type := resource, ae_object_id := objectID, ae_metadata := meta\<rparr>)
      in if records = [] then [event (fallback_object_id hctx []) (clone_activity_metadata baseMeta 0 0 ids)]
         else map (\<lambda>(i, r). event (fallback_object_id hctx (record_id h r))
                       (clone_activity_metadata baseMeta (length records) i ids))
                (enumerate 0 records))"

section \<open>Notifications\<close>

datatype activity_phase = PhaseBefore | PhaseAfter | PhaseError

record 'r notification_event =
  ne_operation :: string
  ne_phase :: activity_phase
  ne_resource :: string
  ne_route_name :: string
  ne_method :: string
  ne_path :: string
  ne_actor :: actor_context
  ne_scope :: scope_filter
  ne_request_id :: string
  ne_correlation_id :: string
  ne_records :: "'r list"
  ne_channel :: string
  ne_template :: string
  ne_recipients :: "string list"
  ne_metadata :: "(string, meta_value) gomap"

type_synonym 'r notification_option = "'r notification_event \<Rightarrow> 'r notification_event"

definition with_notification_channel :: "string \<Rightarrow> 'r notification_option" where
  "with_notification_channel channel e = e\<lparr>ne_channel := trim_space channel\<rparr>"

definition with_notification_template :: "string \<Rightarrow> 'r notification_option" where
  "with_notification_template t e = e\<lparr>ne_template := trim_space t\<rparr>"

definition with_notification_recipients :: "string list \<Rightarrow> 'r notification_option" where
  "with_notification_recipients rs e =
     (let filtered = filter (\<lambda>r. r \<noteq> []) (map trim_space rs)
      in if filtered = [] then e else e\<lparr>ne_recipients := ne_recipients e @ filtered\<rparr>)"

definition with_notification_metadata :: "(string, meta_value) gomap \<Rightarrow> 'r notification_option" where
  "with_notification_metadata m e =
     (if m = [] then e else e\<lparr>ne_metadata := maps_copy (ne_metadata e) m\<rparr>)"

definition new_notification_event_from_hook ::
  "'e hook_context \<Rightarrow> activity_phase \<Rightarrow> 'r notification_event" where
  "new_notification_event_from_hook hctx phase =
     (let md = hc_metadata hctx
      in \<lparr>ne_operation = hm_operation md, ne_phase = phase, ne_resource = hm_resource md,
          ne_route_name = hm_route_name md, ne_method = hm_method md, ne_path = hm_path md,
          ne_actor = clone_actor (hc_actor hctx), ne_scope = clone_scope (hc_scope hctx),
          ne_request_id = hc_request_id hctx, ne_correlation_id = hc_correlation_id hctx,
          ne_records = [], ne_channel = [], ne_template = [], ne_recipients = [], ne_metadata = []\<rparr>)"

text \<open>\<open>hookUserContext\<close> of a hook context whose request has the given user context.\<close>

definition hook_context_user :: "'e user_context option \<Rightarrow> 'e hook_context \<Rightarrow> 'e user_context option" where
  "hook_context_user base hctx =
     (let b = (case base of None \<Rightarrow> Some background | Some c \<Rightarrow> Some c)
      in context_with_correlation_id (hc_correlation_id hctx)
           (context_with_request_id (hc_request_id hctx)
              (context_with_scope (hc_scope hctx) (context_with_actor (hc_actor hctx) b))))"

text \<open>Sending: the behaviour of a notification emitter is a parameter.\<close>

type_synonym ('e, 'r, 's, 'err) send_behaviour =
  "'e \<Rightarrow> 'e user_context option \<Rightarrow> 'r notification_event \<Rightarrow> ('s, 'err option) state"

definition send_notification_batch ::
  "('e, 'r, 's, 'err) send_behaviour \<Rightarrow> 'e user_context option \<Rightarrow> 'e hook_context \<Rightarrow> activity_phase \<Rightarrow>
   'r list \<Rightarrow> 'r notification_option list \<Rightarrow> ('s, 'err option) state" where
  "send_notification_batch send base hctx phase records opts =
     (case hc_notification hctx of
        None \<Rightarrow> State_Monad.return None
      | Some n \<Rightarrow>
          (if records = [] then State_Monad.return None
           else send n (hook_context_user base hctx)
                  (fold (\<lambda>opt e. opt e) opts
                     ((new_notification_event_from_hook hctx phase)\<lparr>ne_records := records\<rparr>))))"

definition send_notification ::
  "('e, 'r, 's, 'err) send_behaviour \<Rightarrow> 'r record_handlers \<Rightarrow> 'e user_context option \<Rightarrow> 'e hook_context \<Rightarrow>
   activity_phase \<Rightarrow> 'r \<Rightarrow> 'r notification_option list \<Rightarrow> ('s, 'err option) state" where
  "send_notification send h base hctx phase rec opts =
     (if rh_is_nil h rec then State_Monad.return None
      else send_notification_batch send base hctx phase [rec] opts)"

section \<open>Facts\<close>

lemma run_bind [simp]: "run_state (State_Monad.bind m f) s = (case run_state m s of (a, s') \<Rightarrow> run_state (f a) s')"
  by (simp add: State_Monad.bind_def case_prod_beta)

lemma run_return [simp]: "run_state (State_Monad.return a) s = (a, s)"
  by (simp add: State_Monad.return_def)

text \<open>The hooks a delivery reaches: the behaviour that also logs each call.\<close>

definition logged ::
  "('h, 'e, 's, 'err) hook_behaviour \<Rightarrow> ('h, 'e, ('h \<times> activity_event) list \<times> 's, 'err) hook_behaviour" where
  "logged run h ctx e = State (\<lambda>(log, s). case run_state (run h ctx e) s of
     (err, s') \<Rightarrow> (err, (log @ [(h, e)], s')))"

lemma notify_each_log:
  "\<exists>errs s'. run_state (notify_each (logged run) ctx e hs) (log, s) =
     (errs, (log @ map (\<lambda>h. (h, e)) (List.map_filter (\<lambda>h. h) hs), s'))"
proof (induction hs arbitrary: log s)
  case Nil
  then show ?case by (simp add: List.map_filter_simps)
next
  case (Cons h hs)
  show ?case
  proof (cases h)
    case None
    with Cons show ?thesis by (simp add: List.map_filter_simps)
  next
    case (Some k)
    obtain err s1 where "run_state (run k ctx e) s = (err, s1)" by fastforce
    then have "run_state (logged run k ctx e) (log, s) = (err, (log @ [(k, e)], s1))"
      by (simp add: logged_def)
    moreover from Cons obtain errs s2 where
      "run_state (notify_each (logged run) ctx e hs) (log @ [(k, e)], s1) =
         (errs, (log @ [(k, e)] @ map (\<lambda>h. (h, e)) (List.map_filter (\<lambda>h. h) hs), s2))"
      by (metis append_assoc)
    ultimately show ?thesis using Some by (simp add: List.map_filter_simps)
  qed
qed

lemma notify_each_append:
  "run_state (notify_each run ctx e (hs @ ks)) s =
     (case run_state (notify_each run ctx e hs) s of (errs, s') \<Rightarrow>
        (case run_state (notify_each run ctx e ks) s' of (errs', s'') \<Rightarrow> (errs @ errs', s'')))"
proof (induction hs arbitrary: s)
  case (Cons h hs)
  then show ?case by (cases h) (auto split: prod.splits option.splits)
qed simp

lemma map_filter_clone [simp]: "List.map_filter (\<lambda>h. h) (clone_hooks hs) = List.map_filter (\<lambda>h. h) hs"
  by (induction hs) (auto simp: clone_hooks_def List.map_filter_simps split: option.splits)

lemma clone_hooks_empty [simp]: "clone_hooks hs = [] \<longleftrightarrow> List.map_filter (\<lambda>h. h) hs = []"
  by (induction hs) (auto simp: clone_hooks_def List.map_filter_simps split: option.splits)

lemma complete_channel [simp]: "complete_event (e\<lparr>ae_channel := c\<rparr>) = complete_event e"
  by (simp add: complete_event_def)

lemma normalize_channel: "complete_event (normalize_event now (e\<lparr>ae_channel := c\<rparr>)) = complete_event (normalize_event now e)"
  by (simp add: complete_event_def normalize_event_def)

text \<open>What the hooks of an enabled emitter are given.\<close>

definition delivered :: "nat \<Rightarrow> 'h emitter \<Rightarrow> activity_event \<Rightarrow> activity_event" where
  "delivered now em event = normalize_event now
     (if trim_space (ae_channel event) = [] \<and> em_channel em \<noteq> [] then event\<lparr>ae_channel := em_channel em\<rparr> else event)"

lemma delivered_complete: "complete_event (delivered now em event) = complete_event (normalize_event now event)"
  by (simp add: delivered_def normalize_channel)

lemma delivered_fields [simp]:
  "ae_occurred_at (delivered now em event) \<noteq> None"
  "ae_verb (delivered now em event) = trim_space (ae_verb event)"
  "ae_object_id (delivered now em event) = trim_space (ae_object_id event)"
  by (simp_all add: delivered_def normalize_event_def split: option.splits)

lemma delivered_channel:
  "ae_channel (delivered now (new_emitter hs cfg) event) \<noteq> []"
proof -
  have "trim_space ''crud'' = ''crud''" by code_simp
  then show ?thesis by (auto simp: delivered_def normalize_event_def new_emitter_def Let_def)
qed

lemma emit_event_log:
  "\<exists>errs s'. run_state (emit_event (logged run) now (Some (new_emitter hs cfg)) ctx event) (log, s) =
     (errs, (log @ (if acfg_enabled cfg \<and> complete_event (normalize_event now event)
                    then map (\<lambda>h. (h, delivered now (new_emitter hs cfg) event)) (List.map_filter (\<lambda>h. h) hs)
                    else []), s'))"
proof -
  let ?em = "new_emitter hs cfg"
  let ?d = "delivered now ?em event"
  let ?c = "case ctx of None \<Rightarrow> background | Some c \<Rightarrow> c"
  have hooks: "em_hooks ?em = clone_hooks hs"
    by (simp add: new_emitter_def Let_def)
  show ?thesis
  proof (cases "acfg_enabled cfg \<and> List.map_filter (\<lambda>h. h) hs \<noteq> []")
    case False
    then have "\<not> emitter_enabled (Some ?em)"
      by (auto simp: emitter_enabled_def new_emitter_def Let_def)
    with False show ?thesis by (auto simp: emit_event_def)
  next
    case True
    then have "emit_event (logged run) now (Some ?em) ctx event =
        (if complete_event ?d then notify_each (logged run) ?c ?d (clone_hooks hs) else State_Monad.return [])"
      by (simp add: emit_event_def emitter_enabled_def notify_def new_emitter_def Let_def delivered_def)
    then show ?thesis
      using True notify_each_log [of run ?c ?d "clone_hooks hs" log s]
      by (simp add: delivered_complete)
  qed
qed

text \<open>
  An emitter made by \<open>NewEmitter\<close> and enabled hands a complete event to every
  hook that is not nil, once each and in order, whatever each hook returns; every hook sees the
  same event, complete, with a channel and a time.
\<close>

theorem activity_reaches_every_hook:
  assumes "acfg_enabled cfg" and "complete_event (normalize_event now event)"
  shows "\<exists>log s' e. snd (run_state (emit_event (logged run) now (Some (new_emitter hs cfg)) ctx event) ([], s)) = (log, s') \<and>
      log = map (\<lambda>h. (h, e)) (List.map_filter (\<lambda>h. h) hs) \<and>
      complete_event e \<and> ae_channel e \<noteq> [] \<and> ae_occurred_at e \<noteq> None \<and>
      ae_verb e = trim_space (ae_verb event) \<and> ae_object_id e = trim_space (ae_object_id event)"
proof -
  obtain errs s' where "run_state (emit_event (logged run) now (Some (new_emitter hs cfg)) ctx event) ([], s) =
      (errs, (map (\<lambda>h. (h, delivered now (new_emitter hs cfg) event)) (List.map_filter (\<lambda>h. h) hs), s'))"
    using emit_event_log [of run now hs cfg ctx event "[]" s] assms by auto
  then show ?thesis
    using assms delivered_complete [of now "new_emitter hs cfg" event] delivered_channel [of now hs cfg event]
    by (intro exI [of _ "map _ _"] exI [of _ s'] exI [of _ "delivered now (new_emitter hs cfg) event"]) simp
qed

theorem activity_reaches_every_hook_witness:
  "\<exists>log s' e. snd (run_state (emit_event (logged (\<lambda>(h :: nat) c ev. State (\<lambda>s. (Some h, s)))) 7
        (Some (new_emitter [Some 1, None, Some 2] \<lparr>acfg_enabled = True, acfg_channel = []\<rparr>)) None
        (zero_event\<lparr>ae_verb := ''create'', ae_object_type := ''user'', ae_object_id := ''u1''\<rparr>)) ([], ())) = (log, s') \<and>
      log = map (\<lambda>h. (h, e)) [1, 2] \<and>
      complete_event e \<and> ae_channel e \<noteq> [] \<and> ae_occurred_at e \<noteq> None \<and> ae_verb e = ''create'' \<and> ae_object_id e = ''u1''"
proof -
  have c: "complete_event (normalize_event 7
      (zero_event\<lparr>ae_verb := ''create'', ae_object_type := ''user'', ae_object_id := ''u1''\<rparr>))"
    by code_simp
  have t: "trim_space ''create'' = ''create''" "trim_space ''u1'' = ''u1''" by code_simp+
  show ?thesis
    using activity_reaches_every_hook [of "\<lparr>acfg_enabled = True, acfg_channel = []\<rparr>", OF _ c,
        of "\<lambda>(h :: nat) c ev. State (\<lambda>s. (Some h, s))" "[Some 1, None, Some 2]" None "()"]
    by (simp add: List.map_filter_simps t zero_event_def)
qed

lemma build_activity_events_length [simp]:
  "length (build_activity_events h resource hctx op records err) = max 1 (length records)"
  by (cases records) (simp_all add: build_activity_events_def Let_def)

lemma build_activity_events_nth:
  assumes "i < length records"
  shows "ae_object_id (build_activity_events h resource hctx op records err ! i) =
    fallback_object_id hctx (record_id h (records ! i))"
  using assms by (cases records) (simp_all add: build_activity_events_def Let_def nth_enumerate_eq del: enumerate_simps)

lemma fallback_object_id_nonempty [simp]: "fallback_object_id hctx i \<noteq> []"
  by (simp add: fallback_object_id_def)

lemma build_activity_events_complete:
  assumes "e \<in> set (build_activity_events h resource hctx op records err)"
  shows "ae_object_id e \<noteq> []" "ae_object_type e = resource"
    "ae_verb e = activity_verb resource op (is_batch op (length records)) (err \<noteq> None)"
  using assms by (auto simp: build_activity_events_def Let_def zero_event_def split: if_splits)

text \<open>
  The controller reports an operation with one event per record, in the order of
  the records, and with a single event when there is none; each event names an object: the
  identifier of its record where it has one.
\<close>

theorem activity_event_per_record:
  "length (build_activity_events h resource hctx op records err) = max 1 (length records) \<and>
   (\<forall>e \<in> set (build_activity_events h resource hctx op records err).
      ae_object_id e \<noteq> [] \<and> ae_object_type e = resource \<and>
      ae_verb e = activity_verb resource op (is_batch op (length records)) (err \<noteq> None)) \<and>
   (\<forall>i < length records. record_id h (records ! i) \<noteq> [] \<longrightarrow>
      ae_object_id (build_activity_events h resource hctx op records err ! i) = record_id h (records ! i))"
  using build_activity_events_complete [of _ h resource hctx op records err]
  by (auto simp: build_activity_events_nth fallback_object_id_def simp del: fallback_object_id_nonempty)

theorem activity_event_per_record_witness:
  "let h = \<lparr>rh_is_nil = (\<lambda>r. r = []), rh_get_id = Some (\<lambda>r. r), rh_get_identifier_value = None,
             rh_json_field = (\<lambda>r k. None)\<rparr>;
       hctx = \<lparr>hc_metadata = \<lparr>hm_operation = op_delete_batch, hm_resource = ''user'', hm_route_name = [], hm_method = [],
             hm_path = []\<rparr>, hc_actor = zero_actor, hc_scope = zero_scope, hc_request_id = [], hc_correlation_id = [],
             hc_activity = None, hc_notification = (None :: nat option)\<rparr>;
       es = build_activity_events h ''user'' hctx op_delete_batch [''a'', [], ''b''] None
   in length es = 3 \<and> ae_object_id (es ! 0) = ''a'' \<and> (\<forall>e \<in> set es. ae_object_id e \<noteq> [])"
proof -
  have t: "trim_space ''a'' = ''a''" by code_simp
  show ?thesis
    using activity_event_per_record [of "\<lparr>rh_is_nil = (\<lambda>r. r = []), rh_get_id = Some (\<lambda>r. r),
        rh_get_identifier_value = None, rh_json_field = (\<lambda>r k. None)\<rparr>" "''user''"
      "\<lparr>hc_metadata = \<lparr>hm_operation = op_delete_batch, hm_resource = ''user'', hm_route_name = [], hm_method = [],
         hm_path = []\<rparr>, hc_actor = zero_actor, hc_scope = zero_scope, hc_request_id = [], hc_correlation_id = [],
         hc_activity = None, hc_notification = (None :: nat option)\<rparr>" op_delete_batch "[''a'', [], ''b'']" None]
    by (auto simp: Let_def record_id_def handler_text_def t)
qed

end
