(* ===== verification/Services.thy ===== *)
theory Services
  imports Field_Policy Activity
begin

text \<open>
  Services: \<open>service.go\<close> and \<open>service_adapters.go\<close>. A service is a record of its eight operations,
  each an effect on the world of a request; a Go result \<open>(T, error)\<close> is the pair of both. The
  repository and the functions of the application are parameters with the same kind of effects.
\<close>

section \<open>The world of a request\<close>

text \<open>
  A record is a handle \<open>'r\<close>, the pointer or the variable that holds it; the heap gives what it
  refers to, so that hooks and handlers can change a record in place. \<open>'w\<close> is the rest of the
  world, the database included, which only the parameters look into.
\<close>

record ('e, 'r, 'v, 'w) world =
  wd_request :: "'e request"
  wd_heap :: "'r \<Rightarrow> 'v model_record"
  wd_env :: 'w

definition user_context_of :: "('e, 'r, 'v, 'w) world \<Rightarrow> 'e user_context option" where
  "user_context_of s = rq_user (wd_request s)"

section \<open>Services\<close>

text \<open>An error of the application, or the package's \<open>UnsupportedOperationError\<close> with its operation.\<close>

datatype 'err service_error = Failed 'err | UnsupportedOperation string

type_synonym ('s, 'r, 'err) one_result = "('s, 'r \<times> 'err service_error option) state"
type_synonym ('s, 'r, 'err) many_result = "('s, 'r list \<times> 'err service_error option) state"
type_synonym ('s, 'r, 'err) page_result = "('s, 'r list \<times> int \<times> 'err service_error option) state"
type_synonym ('s, 'err) no_result = "('s, 'err service_error option) state"

record ('s, 'r, 'err) service =
  sv_create :: "'r \<Rightarrow> ('s, 'r, 'err) one_result"
  sv_create_batch :: "'r list \<Rightarrow> ('s, 'r, 'err) many_result"
  sv_update :: "'r \<Rightarrow> ('s, 'r, 'err) one_result"
  sv_update_batch :: "'r list \<Rightarrow> ('s, 'r, 'err) many_result"
  sv_delete :: "'r \<Rightarrow> ('s, 'err) no_result"
  sv_delete_batch :: "'r list \<Rightarrow> ('s, 'err) no_result"
  sv_index :: "criteria list \<Rightarrow> ('s, 'r, 'err) page_result"
  sv_show :: "string \<Rightarrow> criteria list \<Rightarrow> ('s, 'r, 'err) one_result"

record ('s, 'r, 'err) read_service =
  rs_index :: "criteria list \<Rightarrow> ('s, 'r, 'err) page_result"
  rs_show :: "string \<Rightarrow> criteria list \<Rightarrow> ('s, 'r, 'err) one_result"

record ('s, 'r, 'err) write_service =
  ws_create :: "'r \<Rightarrow> ('s, 'r, 'err) one_result"
  ws_create_batch :: "'r list \<Rightarrow> ('s, 'r, 'err) many_result"
  ws_update :: "'r \<Rightarrow> ('s, 'r, 'err) one_result"
  ws_update_batch :: "'r list \<Rightarrow> ('s, 'r, 'err) many_result"
  ws_delete :: "'r \<Rightarrow> ('s, 'err) no_result"
  ws_delete_batch :: "'r list \<Rightarrow> ('s, 'err) no_result"

record ('s, 'r, 'err) service_funcs =
  sf_create :: "('r \<Rightarrow> ('s, 'r, 'err) one_result) option"
  sf_create_batch :: "('r list \<Rightarrow> ('s, 'r, 'err) many_result) option"
  sf_update :: "('r \<Rightarrow> ('s, 'r, 'err) one_result) option"
  sf_update_batch :: "('r list \<Rightarrow> ('s, 'r, 'err) many_result) option"
  sf_delete :: "('r \<Rightarrow> ('s, 'err) no_result) option"
  sf_delete_batch :: "('r list \<Rightarrow> ('s, 'err) no_result) option"
  sf_index :: "(criteria list \<Rightarrow> ('s, 'r, 'err) page_result) option"
  sf_show :: "(string \<Rightarrow> criteria list \<Rightarrow> ('s, 'r, 'err) one_result) option"

definition override :: "'f option \<Rightarrow> 'f \<Rightarrow> 'f" where
  "override f d = (case f of Some g \<Rightarrow> g | None \<Rightarrow> d)"

definition compose_service ::
  "('s, 'r, 'err) service \<Rightarrow> ('s, 'r, 'err) service_funcs \<Rightarrow> ('s, 'r, 'err) service" where
  "compose_service defaults funcs =
     \<lparr>sv_create = (\<lambda>r. override (sf_create funcs) (sv_create defaults) r),
      sv_create_batch = (\<lambda>rs. override (sf_create_batch funcs) (sv_create_batch defaults) rs),
      sv_update = (\<lambda>r. override (sf_update funcs) (sv_update defaults) r),
      sv_update_batch = (\<lambda>rs. override (sf_update_batch funcs) (sv_update_batch defaults) rs),
      sv_delete = (\<lambda>r. override (sf_delete funcs) (sv_delete defaults) r),
      sv_delete_batch = (\<lambda>rs. override (sf_delete_batch funcs) (sv_delete_batch defaults) rs),
      sv_index = (\<lambda>cs. override (sf_index funcs) (sv_index defaults) cs),
      sv_show = (\<lambda>i cs. override (sf_show funcs) (sv_show defaults) i cs)\<rparr>"

definition command_service_from_funcs ::
  "('s, 'r, 'err) service_funcs \<Rightarrow> ('s, 'r, 'err) service \<Rightarrow> ('s, 'r, 'err) service" where
  "command_service_from_funcs overrides defaults = compose_service defaults overrides"

section \<open>The repository\<close>

datatype batch_criterion = ReturnOrderByID

text \<open>The repository of the application, as far as the services call it.\<close>

record ('uc, 's, 'r, 'err) repository =
  repo_create :: "'uc \<Rightarrow> 'r \<Rightarrow> ('s, 'r, 'err) one_result"
  repo_create_many :: "'uc \<Rightarrow> 'r list \<Rightarrow> batch_criterion list \<Rightarrow> ('s, 'r, 'err) many_result"
  repo_update :: "'uc \<Rightarrow> 'r \<Rightarrow> ('s, 'r, 'err) one_result"
  repo_update_many :: "'uc \<Rightarrow> 'r list \<Rightarrow> batch_criterion list \<Rightarrow> ('s, 'r, 'err) many_result"
  repo_delete :: "'uc \<Rightarrow> 'r \<Rightarrow> ('s, 'err) no_result"
  repo_delete_by_ids :: "'uc \<Rightarrow> string list \<Rightarrow> ('s, 'err) no_result"
  repo_list :: "'uc \<Rightarrow> criteria list \<Rightarrow> ('s, 'r, 'err) page_result"
  repo_get_by_id :: "'uc \<Rightarrow> string \<Rightarrow> criteria list \<Rightarrow> ('s, 'r, 'err) one_result"
  repo_get_id :: "'r \<Rightarrow> ('s, string) state"

fun collect_ids :: "('r \<Rightarrow> ('s, string) state) \<Rightarrow> 'r list \<Rightarrow> ('s, string list) state" where
  "collect_ids get_id [] = State_Monad.return []"
| "collect_ids get_id (r # rs) = do {
     i \<leftarrow> get_id r;
     is \<leftarrow> collect_ids get_id rs;
     State_Monad.return (i # is)
   }"

type_synonym ('e, 'r, 'v, 'w, 'err) world_service = "(('e, 'r, 'v, 'w) world, 'r, 'err) service"

type_synonym ('e, 'r, 'v, 'w, 'err) world_repository =
  "('e user_context option, ('e, 'r, 'v, 'w) world, 'r, 'err) repository"

definition the_user_context :: "(('e, 'r, 'v, 'w) world, 'e user_context option) state" where
  "the_user_context = State (\<lambda>s. (user_context_of s, s))"

definition repository_service ::
  "('e, 'r, 'v, 'w, 'err) world_repository \<Rightarrow> batch_criterion list \<Rightarrow> batch_criterion list \<Rightarrow>
   ('e, 'r, 'v, 'w, 'err) world_service" where
  "repository_service repo insertCriteria updateCriteria =
     \<lparr>sv_create = (\<lambda>r. do { uc \<leftarrow> the_user_context; repo_create repo uc r }),
      sv_create_batch = (\<lambda>rs. do { uc \<leftarrow> the_user_context; repo_create_many repo uc rs insertCriteria }),
      sv_update = (\<lambda>r. do { uc \<leftarrow> the_user_context; repo_update repo uc r }),
      sv_update_batch = (\<lambda>rs. do { uc \<leftarrow> the_user_context; repo_update_many repo uc rs updateCriteria }),
      sv_delete = (\<lambda>r. do { uc \<leftarrow> the_user_context; repo_delete repo uc r }),
      sv_delete_batch = (\<lambda>rs. do {
        is \<leftarrow> collect_ids (repo_get_id repo) rs;
        if is = [] then State_Monad.return None
        else do { uc \<leftarrow> the_user_context; repo_delete_by_ids repo uc is }
      }),
      sv_index = (\<lambda>cs. do { uc \<leftarrow> the_user_context; repo_list repo uc cs }),
      sv_show = (\<lambda>i cs. do { uc \<leftarrow> the_user_context; repo_get_by_id repo uc i cs })\<rparr>"

definition new_service_from_funcs ::
  "('e, 'r, 'v, 'w, 'err) world_repository \<Rightarrow> (('e, 'r, 'v, 'w) world, 'r, 'err) service_funcs \<Rightarrow>
   ('e, 'r, 'v, 'w, 'err) world_service" where
  "new_service_from_funcs repo funcs = compose_service (repository_service repo [] []) funcs"

section \<open>Adapters\<close>

text \<open>\<open>zero\<close> is the zero value of the record type; a nil service is \<open>None\<close>.\<close>

definition read_only_service ::
  "'r \<Rightarrow> ('s, 'r, 'err) read_service option \<Rightarrow> ('s, 'r, 'err) service option" where
  "read_only_service zero svc =
     (case svc of
        None \<Rightarrow> None
      | Some rd \<Rightarrow> Some
          \<lparr>sv_create = (\<lambda>r. State_Monad.return (zero, Some (UnsupportedOperation op_create))),
           sv_create_batch = (\<lambda>rs. State_Monad.return ([], Some (UnsupportedOperation op_create_batch))),
           sv_update = (\<lambda>r. State_Monad.return (zero, Some (UnsupportedOperation op_update))),
           sv_update_batch = (\<lambda>rs. State_Monad.return ([], Some (UnsupportedOperation op_update_batch))),
           sv_delete = (\<lambda>r. State_Monad.return (Some (UnsupportedOperation op_delete))),
           sv_delete_batch = (\<lambda>rs. State_Monad.return (Some (UnsupportedOperation op_delete_batch))),
           sv_index = rs_index rd,
           sv_show = rs_show rd\<rparr>)"

definition write_only_service ::
  "'r \<Rightarrow> ('s, 'r, 'err) write_service option \<Rightarrow> ('s, 'r, 'err) service option list \<Rightarrow>
   ('s, 'r, 'err) service option" where
  "write_only_service zero svc fallback =
     (case svc of
        None \<Rightarrow> None
      | Some wr \<Rightarrow>
          (let readFallback = (case fallback of [] \<Rightarrow> None | f # _ \<Rightarrow> f)
           in Some
             \<lparr>sv_create = ws_create wr, sv_create_batch = ws_create_batch wr,
              sv_update = ws_update wr, sv_update_batch = ws_update_batch wr,
              sv_delete = ws_delete wr, sv_delete_batch = ws_delete_batch wr,
              sv_index = (\<lambda>cs. case readFallback of
                 None \<Rightarrow> State_Monad.return ([], 0, Some (UnsupportedOperation op_list))
               | Some f \<Rightarrow> sv_index f cs),
              sv_show = (\<lambda>i cs. case readFallback of
                 None \<Rightarrow> State_Monad.return (zero, Some (UnsupportedOperation op_read))
               | Some f \<Rightarrow> sv_show f i cs)\<rparr>))"

section \<open>Facts\<close>

lemma run_the_user_context [simp]: "run_state the_user_context s = (user_context_of s, s)"
  by (simp add: the_user_context_def)

section \<open>The contract of a layer\<close>

text \<open>
  What the layers around a service promise for an operation. Before the call, a layer either
  refuses with a result that is an error, or goes on with an argument related to its own and with
  what it does after the call; what it does is decided without the inner service. After the call,
  an error is handed back untouched and nothing more happens, and the value of a result is kept.
\<close>

type_synonym ('s, 'x, 'y) before_call = "'x \<Rightarrow> 's \<Rightarrow> ('y + 'x \<times> ('y \<Rightarrow> 's \<Rightarrow> 'y \<times> 's)) \<times> 's"

definition transparent :: "('y \<Rightarrow> 'err option) \<Rightarrow> ('y \<Rightarrow> 'v) \<Rightarrow> ('y \<Rightarrow> 's \<Rightarrow> 'y \<times> 's) \<Rightarrow> bool" where
  "transparent err val after \<longleftrightarrow>
     (\<forall>y s. val (fst (after y s)) = val y \<and> (err y \<noteq> None \<longrightarrow> after y s = (y, s)))"

definition well_behaved ::
  "('x \<Rightarrow> 'x \<Rightarrow> bool) \<Rightarrow> ('y \<Rightarrow> 'err option) \<Rightarrow> ('y \<Rightarrow> 'v) \<Rightarrow> ('s, 'x, 'y) before_call \<Rightarrow> bool" where
  "well_behaved rel err val before \<longleftrightarrow>
     (\<forall>x s. case fst (before x s) of
        Inl y \<Rightarrow> err y \<noteq> None
      | Inr (x', after) \<Rightarrow> rel x x' \<and> transparent err val after)"

definition call_between ::
  "('s, 'x, 'y) before_call \<Rightarrow> ('x \<Rightarrow> ('s, 'y) state) \<Rightarrow> 'x \<Rightarrow> 's \<Rightarrow> 'y \<times> 's" where
  "call_between before inner x s =
     (case before x s of
        (Inl y, s1) \<Rightarrow> (y, s1)
      | (Inr (x', after), s1) \<Rightarrow> (case run_state (inner x') s1 of (y, s2) \<Rightarrow> after y s2))"

definition wraps_op ::
  "('x \<Rightarrow> 'x \<Rightarrow> bool) \<Rightarrow> ('y \<Rightarrow> 'err option) \<Rightarrow> ('y \<Rightarrow> 'v) \<Rightarrow> ('p \<Rightarrow> 'x \<Rightarrow> ('s, 'y) state) \<Rightarrow>
   ('p \<Rightarrow> 'x \<Rightarrow> ('s, 'y) state) \<Rightarrow> bool" where
  "wraps_op rel err val outer inner \<longleftrightarrow>
     (\<exists>before. well_behaved rel err val before \<and>
        (\<forall>p x s. run_state (outer p x) s = call_between before (inner p) x s))"

lemma transparent_return [simp, intro]: "transparent err val Pair"
  by (simp add: transparent_def)

lemma transparent_comp:
  assumes "transparent err val a" "transparent err val b"
  shows "transparent err val (\<lambda>y s. case a y s of (y', s') \<Rightarrow> b y' s')"
  using assms by (simp add: transparent_def case_prod_beta)

lemma wraps_opI:
  assumes "well_behaved rel err val before"
    and "\<And>p x s. run_state (outer p x) s = call_between before (inner p) x s"
  shows "wraps_op rel err val outer inner"
  using assms unfolding wraps_op_def by blast

lemma wraps_op_refl:
  assumes "\<And>x. rel x x"
  shows "wraps_op rel err val f f"
  by (rule wraps_opI [of _ _ _ "\<lambda>x s. (Inr (x, Pair), s)"])
    (auto simp: well_behaved_def call_between_def assms split: prod.splits)

lemma wraps_op_trans:
  assumes "wraps_op rel1 err val outer middle" "wraps_op rel2 err val middle inner"
    and trans: "\<And>x y z. rel1 x y \<Longrightarrow> rel2 y z \<Longrightarrow> rel x z"
  shows "wraps_op rel err val outer inner"
proof -
  from assms(1) obtain b1 where b1: "well_behaved rel1 err val b1"
      "\<And>p x s. run_state (outer p x) s = call_between b1 (middle p) x s"
    unfolding wraps_op_def by blast
  from assms(2) obtain b2 where b2: "well_behaved rel2 err val b2"
      "\<And>p x s. run_state (middle p x) s = call_between b2 (inner p) x s"
    unfolding wraps_op_def by blast
  define b where "b x s = (case b1 x s of
      (Inl y, s1) \<Rightarrow> (Inl y, s1)
    | (Inr (x1, a1), s1) \<Rightarrow> (case b2 x1 s1 of
        (Inl y, s2) \<Rightarrow> (Inl y, s2)
      | (Inr (x2, a2), s2) \<Rightarrow> (Inr (x2, \<lambda>y s. case a2 y s of (y', s') \<Rightarrow> a1 y' s'), s2)))" for x s
  have good: "case fst (b x s) of Inl y \<Rightarrow> err y \<noteq> None
      | Inr (x', after) \<Rightarrow> rel x x' \<and> transparent err val after" for x s
    using b1(1) [unfolded well_behaved_def, rule_format, of x s]
      b2(1) [unfolded well_behaved_def, rule_format, of "fst (projr (fst (b1 x s)))" "snd (b1 x s)"]
    by (cases "b1 x s"; cases "fst (b1 x s)")
      (auto simp: b_def intro: trans transparent_comp split: prod.splits sum.splits)
  have "run_state (outer p x) s = call_between b (inner p) x s" for p x s
    using b1(1) [unfolded well_behaved_def, rule_format, of x s]
      b2(1) [unfolded well_behaved_def, rule_format, of "fst (projr (fst (b1 x s)))" "snd (b1 x s)"]
    by (cases "b1 x s"; cases "fst (b1 x s)")
      (auto simp: b_def b1(2) b2(2) call_between_def transparent_def split: prod.splits sum.splits)
  with good show ?thesis by (intro wraps_opI [of _ _ _ b]) (simp_all add: well_behaved_def)
qed

lemma wraps_op_trans_same:
  assumes "wraps_op rel err val outer middle" "wraps_op rel err val middle inner"
    and "\<And>x y z. rel x y \<Longrightarrow> rel y z \<Longrightarrow> rel x z"
  shows "wraps_op rel err val outer inner"
  using assms by (rule wraps_op_trans)

lemma wraps_op_app:
  "wraps_op rel err val outer inner \<Longrightarrow> wraps_op rel err val (\<lambda>q. outer (f q)) (\<lambda>q. inner (f q))"
  unfolding wraps_op_def by blast

lemma wraps_op_success:
  assumes "wraps_op rel err val outer inner" "run_state (outer p x) s = (y, s')" "err y = None"
  shows "\<exists>x' y' s1 s2. rel x x' \<and> run_state (inner p x') s1 = (y', s2) \<and> err y' = None \<and> val y' = val y"
proof -
  obtain before where b: "well_behaved rel err val before"
      "\<And>p x s. run_state (outer p x) s = call_between before (inner p) x s"
    using assms(1) unfolding wraps_op_def by blast
  obtain dec s1 where d: "before x s = (dec, s1)" by fastforce
  have o: "call_between before (inner p) x s = (y, s')" using b(2) assms(2) by metis
  with b(1) [unfolded well_behaved_def, rule_format, of x s] assms(3) d
  obtain x' after where dec: "dec = Inr (x', after)" "rel x x'" "transparent err val after"
    by (auto simp: call_between_def split: sum.splits)
  obtain y' s2 where i: "run_state (inner p x') s1 = (y', s2)" by fastforce
  with o d dec(1) have a: "after y' s2 = (y, s')" by (simp add: call_between_def)
  from dec(3) have t: "val (fst (after y' s2)) = val y'" "err y' \<noteq> None \<Longrightarrow> after y' s2 = (y', s2)"
    by (simp_all add: transparent_def)
  have "err y' = None" using a t(2) assms(3) by (cases "err y'") auto
  moreover have "val y' = val y" using a t(1) by simp
  ultimately show ?thesis using i dec(2) by blast
qed

text \<open>Reads may get more criteria on the way in, behind those they are given.\<close>

definition more_criteria :: "criteria list \<Rightarrow> criteria list \<Rightarrow> bool" where
  "more_criteria cs cs' \<longleftrightarrow> take (length cs) cs' = cs"

definition page_error :: "'r list \<times> int \<times> 'err service_error option \<Rightarrow> 'err service_error option" where
  "page_error y = snd (snd y)"

definition page_value :: "'r list \<times> int \<times> 'err service_error option \<Rightarrow> 'r list \<times> int" where
  "page_value y = (fst y, fst (snd y))"

definition show_of :: "('s, 'r, 'err) service \<Rightarrow> string \<times> criteria list \<Rightarrow> ('s, 'r, 'err) one_result" where
  "show_of svc = (\<lambda>(i, cs). sv_show svc i cs)"

definition more_show_criteria :: "string \<times> criteria list \<Rightarrow> string \<times> criteria list \<Rightarrow> bool" where
  "more_show_criteria x x' \<longleftrightarrow> fst x' = fst x \<and> more_criteria (snd x) (snd x')"

lemma more_criteria_append [simp, intro]: "more_criteria cs (cs @ ds)"
  by (simp add: more_criteria_def)

lemma more_criteria_refl [simp, intro]: "more_criteria cs cs"
  by (simp add: more_criteria_def)

lemma more_criteria_iff: "more_criteria cs cs' \<longleftrightarrow> (\<exists>ds. cs' = cs @ ds)"
  unfolding more_criteria_def by (metis append_eq_conv_conj append_take_drop_id)

lemma more_criteria_trans: "more_criteria a b \<Longrightarrow> more_criteria b c \<Longrightarrow> more_criteria a c"
  by (auto simp: more_criteria_iff)

lemma more_show_criteria_trans: "more_show_criteria a b \<Longrightarrow> more_show_criteria b c \<Longrightarrow> more_show_criteria a c"
  by (auto simp: more_show_criteria_def intro: more_criteria_trans)

locale service_layer =
  fixes outer :: "'p \<Rightarrow> ('s, 'r, 'err) service"
    and inner :: "'p \<Rightarrow> ('s, 'r, 'err) service"
  assumes create: "wraps_op (=) snd fst (\<lambda>p. sv_create (outer p)) (\<lambda>p. sv_create (inner p))"
    and create_batch: "wraps_op (=) snd fst (\<lambda>p. sv_create_batch (outer p)) (\<lambda>p. sv_create_batch (inner p))"
    and update: "wraps_op (=) snd fst (\<lambda>p. sv_update (outer p)) (\<lambda>p. sv_update (inner p))"
    and update_batch: "wraps_op (=) snd fst (\<lambda>p. sv_update_batch (outer p)) (\<lambda>p. sv_update_batch (inner p))"
    and delete: "wraps_op (=) id (\<lambda>y. ()) (\<lambda>p. sv_delete (outer p)) (\<lambda>p. sv_delete (inner p))"
    and delete_batch: "wraps_op (=) id (\<lambda>y. ()) (\<lambda>p. sv_delete_batch (outer p)) (\<lambda>p. sv_delete_batch (inner p))"
    and index: "wraps_op more_criteria page_error page_value (\<lambda>p. sv_index (outer p)) (\<lambda>p. sv_index (inner p))"
    and show_one: "wraps_op more_show_criteria snd fst (\<lambda>p. show_of (outer p)) (\<lambda>p. show_of (inner p))"
begin

lemma create_success:
  assumes "run_state (sv_create (outer p) r) s = ((res, None), s')"
  shows "\<exists>s1 s2. run_state (sv_create (inner p) r) s1 = ((res, None), s2)"
  using wraps_op_success [OF create assms] by auto

lemma update_success:
  assumes "run_state (sv_update (outer p) r) s = ((res, None), s')"
  shows "\<exists>s1 s2. run_state (sv_update (inner p) r) s1 = ((res, None), s2)"
  using wraps_op_success [OF update assms] by auto

lemma delete_success:
  assumes "run_state (sv_delete (outer p) r) s = (None, s')"
  shows "\<exists>s1 s2. run_state (sv_delete (inner p) r) s1 = (None, s2)"
  using wraps_op_success [OF delete assms] by auto

lemma index_success:
  assumes "run_state (sv_index (outer p) cs) s = ((res, n, None), s')"
  shows "\<exists>ds s1 s2. run_state (sv_index (inner p) (cs @ ds)) s1 = ((res, n, None), s2)"
  using wraps_op_success [OF index assms]
  by (auto simp: page_error_def page_value_def more_criteria_iff)

end

lemma service_layer_refl: "service_layer f f"
  by unfold_locales (auto intro!: wraps_op_refl simp: more_show_criteria_def)

lemma service_layer_trans:
  assumes "service_layer a b" "service_layer b c"
  shows "service_layer a c"
  using assms unfolding service_layer_def
  by (auto elim!: wraps_op_trans_same intro: more_criteria_trans more_show_criteria_trans)

lemma service_layer_app: "service_layer a b \<Longrightarrow> service_layer (\<lambda>q. a (f q)) (\<lambda>q. b (f q))"
  unfolding service_layer_def by (auto dest: wraps_op_app [where f = f])

end
