(* ===== verification/Service_Layers.thy ===== *)
theory Service_Layers
  imports Services
begin

text \<open>
  The layers of \<open>service_factory.go\<close>: virtual fields, validation, hooks, scope guard, field policy
  and activity around the repository service, and \<open>NewService\<close>, which stacks them.
\<close>

section \<open>Hook contexts\<close>

definition empty_hook_metadata :: hook_metadata where
  "empty_hook_metadata = \<lparr>hm_operation = [], hm_resource = [], hm_route_name = [], hm_method = [], hm_path = []\<rparr>"

definition prefer_text :: "string \<Rightarrow> string \<Rightarrow> string" where
  "prefer_text ov base = (if ov \<noteq> [] then ov else base)"

definition merge_hook_metadata :: "hook_metadata \<Rightarrow> hook_metadata \<Rightarrow> hook_metadata" where
  "merge_hook_metadata base ov =
     \<lparr>hm_operation = prefer_text (hm_operation ov) (hm_operation base),
      hm_resource = prefer_text (hm_resource ov) (hm_resource base),
      hm_route_name = prefer_text (hm_route_name ov) (hm_route_name base),
      hm_method = prefer_text (hm_method ov) (hm_method base),
      hm_path = prefer_text (hm_path ov) (hm_path base)\<rparr>"

definition hook_context_for :: "'e user_context option \<Rightarrow> string \<Rightarrow> 'e hook_context" where
  "hook_context_for user op =
     (let uc = (case user of None \<Rightarrow> Some background | Some c \<Rightarrow> Some c)
      in \<lparr>hc_metadata = merge_hook_metadata (empty_hook_metadata\<lparr>hm_operation := op\<rparr>) (hook_metadata_from_context uc),
          hc_actor = actor_from_context uc,
          hc_scope = scope_from_context uc,
          hc_request_id = request_id_from_context uc,
          hc_correlation_id = correlation_id_from_context uc,
          hc_activity = activity_emitter_from_context uc,
          hc_notification = notification_emitter_from_context uc\<rparr>)"

section \<open>Virtual fields\<close>

text \<open>The processor of virtual fields, an interface of the package with several implementations.\<close>

record ('s, 'e, 'r, 'err) virtual_processor =
  vp_before_save :: "'e hook_context \<Rightarrow> 'r \<Rightarrow> ('s, 'err) no_result"
  vp_after_load :: "'e hook_context \<Rightarrow> 'r \<Rightarrow> ('s, 'err) no_result"
  vp_after_load_batch :: "'e hook_context \<Rightarrow> 'r list \<Rightarrow> ('s, 'err) no_result"

definition the_hook_context :: "string \<Rightarrow> (('e, 'r, 'v, 'w) world, 'e hook_context) state" where
  "the_hook_context op = State (\<lambda>s. (hook_context_for (user_context_of s) op, s))"

text \<open>A check of each record in turn, up to the first that fails.\<close>

fun check_each :: "('r \<Rightarrow> ('s, 'err) no_result) \<Rightarrow> 'r list \<Rightarrow> ('s, 'err) no_result" where
  "check_each check [] = State_Monad.return None"
| "check_each check (r # rs) = do {
     err \<leftarrow> check r;
     (case err of Some e \<Rightarrow> State_Monad.return (Some e) | None \<Rightarrow> check_each check rs)
   }"

definition virtual_save ::
  "(('e, 'r, 'v, 'w) world, 'e, 'r, 'err) virtual_processor \<Rightarrow> string \<Rightarrow>
   ('r \<Rightarrow> (('e, 'r, 'v, 'w) world, 'r, 'err) one_result) \<Rightarrow> 'r \<Rightarrow> (('e, 'r, 'v, 'w) world, 'r, 'err) one_result" where
  "virtual_save handler op next r = do {
     hctx \<leftarrow> the_hook_context op;
     err \<leftarrow> vp_before_save handler hctx r;
     (case err of
        Some e \<Rightarrow> State_Monad.return (r, Some e)
      | None \<Rightarrow> do {
          (res, err) \<leftarrow> next r;
          (case err of
             Some e \<Rightarrow> State_Monad.return (res, Some e)
           | None \<Rightarrow> do { _ \<leftarrow> vp_after_load handler hctx res; State_Monad.return (res, None) })
        })
   }"

definition virtual_save_batch ::
  "(('e, 'r, 'v, 'w) world, 'e, 'r, 'err) virtual_processor \<Rightarrow> string \<Rightarrow>
   ('r list \<Rightarrow> (('e, 'r, 'v, 'w) world, 'r, 'err) many_result) \<Rightarrow> 'r list \<Rightarrow>
   (('e, 'r, 'v, 'w) world, 'r, 'err) many_result" where
  "virtual_save_batch handler op next rs = do {
     hctx \<leftarrow> the_hook_context op;
     err \<leftarrow> check_each (vp_before_save handler hctx) rs;
     (case err of
        Some e \<Rightarrow> State_Monad.return ([], Some e)
      | None \<Rightarrow> do {
          (res, err) \<leftarrow> next rs;
          (case err of
             Some e \<Rightarrow> State_Monad.return (res, Some e)
           | None \<Rightarrow> do { _ \<leftarrow> vp_after_load_batch handler hctx res; State_Monad.return (res, None) })
        })
   }"

definition virtual_field_service ::
  "(('e, 'r, 'v, 'w) world, 'e, 'r, 'err) virtual_processor \<Rightarrow> ('e, 'r, 'v, 'w, 'err) world_service \<Rightarrow>
   ('e, 'r, 'v, 'w, 'err) world_service" where
  "virtual_field_service handler next =
     \<lparr>sv_create = virtual_save handler op_create (sv_create next),
      sv_create_batch = virtual_save_batch handler op_create_batch (sv_create_batch next),
      sv_update = virtual_save handler op_update (sv_update next),
      sv_update_batch = virtual_save_batch handler op_update_batch (sv_update_batch next),
      sv_delete = sv_delete next,
      sv_delete_batch = sv_delete_batch next,
      sv_index = (\<lambda>cs. do {
        hctx \<leftarrow> the_hook_context op_list;
        (res, count, err) \<leftarrow> sv_index next cs;
        (case err of
           Some e \<Rightarrow> State_Monad.return (res, count, Some e)
         | None \<Rightarrow> do { _ \<leftarrow> vp_after_load_batch handler hctx res; State_Monad.return (res, count, None) })
      }),
      sv_show = (\<lambda>i cs. do {
        hctx \<leftarrow> the_hook_context op_read;
        (res, err) \<leftarrow> sv_show next i cs;
        (case err of
           Some e \<Rightarrow> State_Monad.return (res, Some e)
         | None \<Rightarrow> do { _ \<leftarrow> vp_after_load handler hctx res; State_Monad.return (res, None) })
      })\<rparr>"

section \<open>Validation\<close>

definition validated ::
  "('r \<Rightarrow> ('s, 'err) no_result) \<Rightarrow> ('r \<Rightarrow> ('s, 'r, 'err) one_result) \<Rightarrow> 'r \<Rightarrow> ('s, 'r, 'err) one_result" where
  "validated validate next r = do {
     err \<leftarrow> validate r;
     (case err of Some e \<Rightarrow> State_Monad.return (r, Some e) | None \<Rightarrow> next r)
   }"

definition validated_batch ::
  "('r \<Rightarrow> ('s, 'err) no_result) \<Rightarrow> ('r list \<Rightarrow> ('s, 'r, 'err) many_result) \<Rightarrow> 'r list \<Rightarrow>
   ('s, 'r, 'err) many_result" where
  "validated_batch validate next rs = do {
     err \<leftarrow> check_each validate rs;
     (case err of Some e \<Rightarrow> State_Monad.return ([], Some e) | None \<Rightarrow> next rs)
   }"

definition validation_service ::
  "('r \<Rightarrow> ('s, 'err) no_result) \<Rightarrow> ('s, 'r, 'err) service \<Rightarrow> ('s, 'r, 'err) service" where
  "validation_service validate next =
     \<lparr>sv_create = validated validate (sv_create next),
      sv_create_batch = validated_batch validate (sv_create_batch next),
      sv_update = validated validate (sv_update next),
      sv_update_batch = validated_batch validate (sv_update_batch next),
      sv_delete = sv_delete next,
      sv_delete_batch = sv_delete_batch next,
      sv_index = sv_index next,
      sv_show = sv_show next\<rparr>"

section \<open>Hooks\<close>

text \<open>A hook on a record, or on the records of a batch; a nil hook is \<open>None\<close>.\<close>

type_synonym ('s, 'e, 'x, 'err) lifecycle_hook = "'e hook_context \<Rightarrow> 'x \<Rightarrow> ('s, 'err) no_result"

record ('s, 'e, 'r, 'err) lifecycle_hooks =
  lh_before_create :: "('s, 'e, 'r, 'err) lifecycle_hook option list"
  lh_after_create :: "('s, 'e, 'r, 'err) lifecycle_hook option list"
  lh_before_create_batch :: "('s, 'e, 'r list, 'err) lifecycle_hook option list"
  lh_after_create_batch :: "('s, 'e, 'r list, 'err) lifecycle_hook option list"
  lh_before_update :: "('s, 'e, 'r, 'err) lifecycle_hook option list"
  lh_after_update :: "('s, 'e, 'r, 'err) lifecycle_hook option list"
  lh_before_update_batch :: "('s, 'e, 'r list, 'err) lifecycle_hook option list"
  lh_after_update_batch :: "('s, 'e, 'r list, 'err) lifecycle_hook option list"
  lh_after_read :: "('s, 'e, 'r, 'err) lifecycle_hook option list"
  lh_after_list :: "('s, 'e, 'r list, 'err) lifecycle_hook option list"
  lh_before_delete :: "('s, 'e, 'r, 'err) lifecycle_hook option list"
  lh_after_delete :: "('s, 'e, 'r, 'err) lifecycle_hook option list"
  lh_before_delete_batch :: "('s, 'e, 'r list, 'err) lifecycle_hook option list"
  lh_after_delete_batch :: "('s, 'e, 'r list, 'err) lifecycle_hook option list"

definition hooks_empty :: "('s, 'e, 'r, 'err) lifecycle_hooks \<Rightarrow> bool" where
  "hooks_empty h \<longleftrightarrow>
     lh_before_create h = [] \<and> lh_after_create h = [] \<and> lh_before_create_batch h = [] \<and>
     lh_after_create_batch h = [] \<and> lh_before_update h = [] \<and> lh_after_update h = [] \<and>
     lh_before_update_batch h = [] \<and> lh_after_update_batch h = [] \<and> lh_after_read h = [] \<and>
     lh_after_list h = [] \<and> lh_before_delete h = [] \<and> lh_after_delete h = [] \<and>
     lh_before_delete_batch h = [] \<and> lh_after_delete_batch h = []"

fun run_hook_funcs ::
  "'e hook_context \<Rightarrow> ('s, 'e, 'x, 'err) lifecycle_hook option list \<Rightarrow> 'x \<Rightarrow> ('s, 'err) no_result" where
  "run_hook_funcs ctx [] x = State_Monad.return None"
| "run_hook_funcs ctx (None # hs) x = run_hook_funcs ctx hs x"
| "run_hook_funcs ctx (Some h # hs) x = do {
     err \<leftarrow> h ctx x;
     (case err of Some e \<Rightarrow> State_Monad.return (Some e) | None \<Rightarrow> run_hook_funcs ctx hs x)
   }"

definition run_batch_hook_funcs ::
  "'e hook_context \<Rightarrow> ('s, 'e, 'r list, 'err) lifecycle_hook option list \<Rightarrow> 'r list \<Rightarrow> ('s, 'err) no_result" where
  "run_batch_hook_funcs ctx hs rs = run_hook_funcs ctx hs rs"

text \<open>A write between its hooks; \<open>reject\<close> is what a failing hook before it returns.\<close>

definition hooked_write ::
  "string \<Rightarrow> (('e, 'r, 'v, 'w) world, 'e, 'x, 'err) lifecycle_hook option list \<Rightarrow>
   (('e, 'r, 'v, 'w) world, 'e, 'x, 'err) lifecycle_hook option list \<Rightarrow> ('x \<Rightarrow> 'x) \<Rightarrow>
   ('x \<Rightarrow> (('e, 'r, 'v, 'w) world, 'x \<times> 'err service_error option) state) \<Rightarrow> 'x \<Rightarrow>
   (('e, 'r, 'v, 'w) world, 'x \<times> 'err service_error option) state" where
  "hooked_write op before after reject next x = do {
     meta \<leftarrow> the_hook_context op;
     err \<leftarrow> run_hook_funcs meta before x;
     (case err of
        Some e \<Rightarrow> State_Monad.return (reject x, Some e)
      | None \<Rightarrow> do {
          (res, err) \<leftarrow> next x;
          (case err of
             Some e \<Rightarrow> State_Monad.return (res, Some e)
           | None \<Rightarrow> do { err \<leftarrow> run_hook_funcs meta after res; State_Monad.return (res, err) })
        })
   }"

definition hooked_delete ::
  "string \<Rightarrow> (('e, 'r, 'v, 'w) world, 'e, 'x, 'err) lifecycle_hook option list \<Rightarrow>
   (('e, 'r, 'v, 'w) world, 'e, 'x, 'err) lifecycle_hook option list \<Rightarrow>
   ('x \<Rightarrow> (('e, 'r, 'v, 'w) world, 'err) no_result) \<Rightarrow> 'x \<Rightarrow> (('e, 'r, 'v, 'w) world, 'err) no_result" where
  "hooked_delete op before after next x = do {
     meta \<leftarrow> the_hook_context op;
     err \<leftarrow> run_hook_funcs meta before x;
     (case err of
        Some e \<Rightarrow> State_Monad.return (Some e)
      | None \<Rightarrow> do {
          err \<leftarrow> next x;
          (case err of Some e \<Rightarrow> State_Monad.return (Some e) | None \<Rightarrow> run_hook_funcs meta after x)
        })
   }"

definition hooks_service ::
  "(('e, 'r, 'v, 'w) world, 'e, 'r, 'err) lifecycle_hooks \<Rightarrow> ('e, 'r, 'v, 'w, 'err) world_service \<Rightarrow>
   ('e, 'r, 'v, 'w, 'err) world_service" where
  "hooks_service h next =
     \<lparr>sv_create = hooked_write op_create (lh_before_create h) (lh_after_create h) (\<lambda>r. r) (sv_create next),
      sv_create_batch = hooked_write op_create_batch (lh_before_create_batch h) (lh_after_create_batch h)
        (\<lambda>rs. []) (sv_create_batch next),
      sv_update = hooked_write op_update (lh_before_update h) (lh_after_update h) (\<lambda>r. r) (sv_update next),
      sv_update_batch = hooked_write op_update_batch (lh_before_update_batch h) (lh_after_update_batch h)
        (\<lambda>rs. []) (sv_update_batch next),
      sv_delete = hooked_delete op_delete (lh_before_delete h) (lh_after_delete h) (sv_delete next),
      sv_delete_batch = hooked_delete op_delete_batch (lh_before_delete_batch h) (lh_after_delete_batch h)
        (sv_delete_batch next),
      sv_index = (\<lambda>cs. do {
        (res, count, err) \<leftarrow> sv_index next cs;
        (case err of
           Some e \<Rightarrow> State_Monad.return (res, count, Some e)
         | None \<Rightarrow> do {
             meta \<leftarrow> the_hook_context op_list;
             err \<leftarrow> run_batch_hook_funcs meta (lh_after_list h) res;
             State_Monad.return (res, count, err)
           })
      }),
      sv_show = (\<lambda>i cs. do {
        (res, err) \<leftarrow> sv_show next i cs;
        (case err of
           Some e \<Rightarrow> State_Monad.return (res, Some e)
         | None \<Rightarrow> do {
             meta \<leftarrow> the_hook_context op_read;
             err \<leftarrow> run_hook_funcs meta (lh_after_read h) res;
             State_Monad.return (res, err)
           })
      })\<rparr>"

section \<open>The layers keep the contract\<close>

lemma run_the_hook_context [simp]:
  "run_state (the_hook_context op) s = (hook_context_for (user_context_of s) op, s)"
  by (simp add: the_hook_context_def)

text \<open>What virtual fields do once the inner call has returned.\<close>

definition loaded :: "('y \<Rightarrow> 'err option) \<Rightarrow> ('y \<Rightarrow> ('s, 'z) state) \<Rightarrow> 'y \<Rightarrow> 's \<Rightarrow> 'y \<times> 's" where
  "loaded err load y s = (case err y of Some e \<Rightarrow> (y, s) | None \<Rightarrow> (y, snd (run_state (load y) s)))"

lemma transparent_loaded [simp, intro]: "transparent err val (loaded err load)"
  by (auto simp: transparent_def loaded_def split: option.splits)

lemma wraps_virtual_save:
  "wraps_op (=) snd fst (\<lambda>p. virtual_save h op (f p)) f"
proof (rule wraps_opI)
  let ?before = "\<lambda>r s. let hctx = hook_context_for (user_context_of s) op in
     case run_state (vp_before_save h hctx r) s of
       (Some e, s1) \<Rightarrow> (Inl (r, Some e), s1)
     | (None, s1) \<Rightarrow> (Inr (r, loaded snd (\<lambda>y. vp_after_load h hctx (fst y))), s1)"
  show "well_behaved (=) snd fst ?before"
    by (auto simp: well_behaved_def Let_def split: prod.splits option.splits)
  show "run_state (virtual_save h op (f p) x) s = call_between ?before (f p) x s" for p x s
    by (auto simp: virtual_save_def call_between_def loaded_def split: prod.splits option.splits)
qed

lemma wraps_virtual_save_batch:
  "wraps_op (=) snd fst (\<lambda>p. virtual_save_batch h op (f p)) f"
proof (rule wraps_opI)
  let ?before = "\<lambda>rs s. let hctx = hook_context_for (user_context_of s) op in
     case run_state (check_each (vp_before_save h hctx) rs) s of
       (Some e, s1) \<Rightarrow> (Inl ([], Some e), s1)
     | (None, s1) \<Rightarrow> (Inr (rs, loaded snd (\<lambda>y. vp_after_load_batch h hctx (fst y))), s1)"
  show "well_behaved (=) snd fst ?before"
    by (auto simp: well_behaved_def Let_def split: prod.splits option.splits)
  show "run_state (virtual_save_batch h op (f p) x) s = call_between ?before (f p) x s" for p x s
    by (auto simp: virtual_save_batch_def call_between_def loaded_def split: prod.splits option.splits)
qed

lemma wraps_virtual_index:
  "wraps_op more_criteria page_error page_value (\<lambda>p. sv_index (virtual_field_service h p)) sv_index"
proof (rule wraps_opI)
  let ?before = "\<lambda>cs s. (Inr (cs, loaded page_error
      (\<lambda>y. vp_after_load_batch h (hook_context_for (user_context_of s) op_list) (fst y))), s)"
  show "well_behaved more_criteria page_error page_value ?before"
    by (auto simp: well_behaved_def)
  show "run_state (sv_index (virtual_field_service h p) x) s = call_between ?before (sv_index p) x s" for p x s
    by (auto simp: virtual_field_service_def call_between_def loaded_def page_error_def split: prod.splits option.splits)
qed

lemma wraps_virtual_show:
  "wraps_op more_show_criteria snd fst (\<lambda>p. show_of (virtual_field_service h p)) show_of"
proof (rule wraps_opI)
  let ?before = "\<lambda>x s. (Inr (x, loaded snd
      (\<lambda>y. vp_after_load h (hook_context_for (user_context_of s) op_read) (fst y))), s)"
  show "well_behaved more_show_criteria snd fst ?before"
    by (auto simp: well_behaved_def more_show_criteria_def)
  show "run_state (show_of (virtual_field_service h p) x) s = call_between ?before (show_of p) x s" for p x s
    by (auto simp: virtual_field_service_def show_of_def call_between_def loaded_def
        split: prod.splits option.splits)
qed

lemma more_show_criteria_refl [simp, intro]: "more_show_criteria x x"
  by (simp add: more_show_criteria_def)

interpretation virtual_layer: service_layer "virtual_field_service h" "\<lambda>svc. svc"
  for h :: "(('e, 'r, 'v, 'w) world, 'e, 'r, 'err) virtual_processor"
  by unfold_locales
    (simp_all add: wraps_virtual_index wraps_virtual_show,
     simp_all add: virtual_field_service_def wraps_virtual_save wraps_virtual_save_batch wraps_op_refl)

lemma wraps_validated: "wraps_op (=) snd fst (\<lambda>p. validated v (f p)) f"
proof (rule wraps_opI)
  let ?before = "\<lambda>r s. case run_state (v r) s of
       (Some e, s1) \<Rightarrow> (Inl (r, Some e), s1) | (None, s1) \<Rightarrow> (Inr (r, Pair), s1)"
  show "well_behaved (=) snd fst ?before"
    by (auto simp: well_behaved_def split: prod.splits option.splits)
  show "run_state (validated v (f p) x) s = call_between ?before (f p) x s" for p x s
    by (auto simp: validated_def call_between_def split: prod.splits option.splits)
qed

lemma wraps_validated_batch: "wraps_op (=) snd fst (\<lambda>p. validated_batch v (f p)) f"
proof (rule wraps_opI)
  let ?before = "\<lambda>rs s. case run_state (check_each v rs) s of
       (Some e, s1) \<Rightarrow> (Inl ([], Some e), s1) | (None, s1) \<Rightarrow> (Inr (rs, Pair), s1)"
  show "well_behaved (=) snd fst ?before"
    by (auto simp: well_behaved_def split: prod.splits option.splits)
  show "run_state (validated_batch v (f p) x) s = call_between ?before (f p) x s" for p x s
    by (auto simp: validated_batch_def call_between_def split: prod.splits option.splits)
qed

interpretation validation_layer: service_layer "validation_service v" "\<lambda>svc. svc"
  for v :: "'r \<Rightarrow> ('s, 'err) no_result"
  by unfold_locales
    (simp_all add: validation_service_def show_of_def wraps_validated wraps_validated_batch wraps_op_refl)

text \<open>What the hooks after a call make of its result: an error of a hook replaces none.\<close>

definition hooked :: "('y \<Rightarrow> 'err option) \<Rightarrow> ('err option \<Rightarrow> 'y \<Rightarrow> 'y) \<Rightarrow> ('y \<Rightarrow> ('s, 'err option) state) \<Rightarrow> 'y \<Rightarrow> 's \<Rightarrow> 'y \<times> 's" where
  "hooked err set_err run y s =
     (case err y of Some e \<Rightarrow> (y, s) | None \<Rightarrow> (case run_state (run y) s of (e, s') \<Rightarrow> (set_err e y, s')))"

lemma transparent_hooked [intro]:
  assumes "\<And>e y. val (set_err e y) = val y"
  shows "transparent err val (hooked err set_err run)"
  using assms by (auto simp: transparent_def hooked_def split: option.splits prod.splits)

lemma wraps_hooked_write:
  "wraps_op (=) snd fst (\<lambda>p. hooked_write op before after reject (f p)) f"
proof (rule wraps_opI)
  let ?before = "\<lambda>x s. let meta = hook_context_for (user_context_of s) op in
     case run_state (run_hook_funcs meta before x) s of
       (Some e, s1) \<Rightarrow> (Inl (reject x, Some e), s1)
     | (None, s1) \<Rightarrow> (Inr (x, hooked snd (\<lambda>e y. (fst y, e)) (\<lambda>y. run_hook_funcs meta after (fst y))), s1)"
  show "well_behaved (=) snd fst ?before"
    by (auto simp: well_behaved_def Let_def split: prod.splits option.splits)
  show "run_state (hooked_write op before after reject (f p) x) s = call_between ?before (f p) x s" for p x s
    by (auto simp: hooked_write_def call_between_def hooked_def split: prod.splits option.splits)
qed

lemma wraps_hooked_delete:
  "wraps_op (=) id (\<lambda>y. ()) (\<lambda>p. hooked_delete op before after (f p)) f"
proof (rule wraps_opI)
  let ?before = "\<lambda>x s. let meta = hook_context_for (user_context_of s) op in
     case run_state (run_hook_funcs meta before x) s of
       (Some e, s1) \<Rightarrow> (Inl (Some e), s1)
     | (None, s1) \<Rightarrow> (Inr (x, hooked id (\<lambda>e y. e) (\<lambda>y. run_hook_funcs meta after x)), s1)"
  show "well_behaved (=) id (\<lambda>y. ()) ?before"
    by (auto simp: well_behaved_def Let_def split: prod.splits option.splits)
  show "run_state (hooked_delete op before after (f p) x) s = call_between ?before (f p) x s" for p x s
    by (auto simp: hooked_delete_def call_between_def hooked_def split: prod.splits option.splits)
qed

lemma wraps_hooks_index:
  "wraps_op more_criteria page_error page_value (\<lambda>p. sv_index (hooks_service h p)) sv_index"
proof (rule wraps_opI)
  let ?before = "\<lambda>cs s. (Inr (cs, hooked page_error (\<lambda>e y. (fst y, fst (snd y), e))
      (\<lambda>y. do { meta \<leftarrow> the_hook_context op_list; run_batch_hook_funcs meta (lh_after_list h) (fst y) })), s)"
  show "well_behaved more_criteria page_error page_value ?before"
    by (auto simp: well_behaved_def page_value_def)
  show "run_state (sv_index (hooks_service h p) x) s = call_between ?before (sv_index p) x s" for p x s
    by (auto simp: hooks_service_def call_between_def hooked_def page_error_def split: prod.splits option.splits)
qed

lemma wraps_hooks_show:
  "wraps_op more_show_criteria snd fst (\<lambda>p. show_of (hooks_service h p)) show_of"
proof (rule wraps_opI)
  let ?before = "\<lambda>x s. (Inr (x, hooked snd (\<lambda>e y. (fst y, e))
      (\<lambda>y. do { meta \<leftarrow> the_hook_context op_read; run_hook_funcs meta (lh_after_read h) (fst y) })), s)"
  show "well_behaved more_show_criteria snd fst ?before"
    by (auto simp: well_behaved_def)
  show "run_state (show_of (hooks_service h p) x) s = call_between ?before (show_of p) x s" for p x s
    by (auto simp: hooks_service_def show_of_def call_between_def hooked_def split: prod.splits option.splits)
qed

interpretation hooks_layer: service_layer "hooks_service h" "\<lambda>svc. svc"
  for h :: "(('e, 'r, 'v, 'w) world, 'e, 'r, 'err) lifecycle_hooks"
  by unfold_locales
    (simp_all add: wraps_hooks_index wraps_hooks_show,
     simp_all add: hooks_service_def wraps_hooked_write wraps_hooked_delete)

end
