(* ===== verification/Service_Stack.thy ===== *)
theory Service_Stack
  imports Service_Layers
begin

text \<open>
  The outer layers of \<open>service_factory.go\<close>, scope guard, field policy and activity, and
  \<open>NewService\<close>, which stacks all layers around the repository service.
\<close>

section \<open>Scope guard\<close>

type_synonym ('e, 'r, 'v, 'w, 'err) state_guard =
  "string \<Rightarrow> (('e, 'r, 'v, 'w) world, 'err service_error + actor_context \<times> scope_filter) state"

definition update_request :: "('e request \<Rightarrow> 'e request) \<Rightarrow> (('e, 'r, 'v, 'w) world, unit) state" where
  "update_request f = State (\<lambda>s. ((), s\<lparr>wd_request := f (wd_request s)\<rparr>))"

definition resolve_guard ::
  "('e, 'r, 'v, 'w, 'err) state_guard \<Rightarrow> string \<Rightarrow> (('e, 'r, 'v, 'w) world, 'err) no_result" where
  "resolve_guard guard op = do {
     answer \<leftarrow> guard op;
     (case answer of
        Inl e \<Rightarrow> State_Monad.return (Some e)
      | Inr (actor, scope) \<Rightarrow> do {
          _ \<leftarrow> update_request (attach_actor_to_request_context actor);
          _ \<leftarrow> update_request (attach_scope_to_request_context scope);
          _ \<leftarrow> update_request (\<lambda>r. attach_identifiers_to_request_context (resolve_request_id r) (resolve_correlation_id r) r);
          State_Monad.return None
        })
   }"

text \<open>A write under the guard; \<open>reject\<close> is what a refused write returns besides the error.\<close>

definition guarded_write ::
  "('e, 'r, 'v, 'w, 'err) state_guard \<Rightarrow> string \<Rightarrow> ('x \<Rightarrow> 'y) \<Rightarrow>
   ('x \<Rightarrow> (('e, 'r, 'v, 'w) world, 'y \<times> 'err service_error option) state) \<Rightarrow> 'x \<Rightarrow>
   (('e, 'r, 'v, 'w) world, 'y \<times> 'err service_error option) state" where
  "guarded_write guard op reject next x = do {
     err \<leftarrow> resolve_guard guard op;
     (case err of Some e \<Rightarrow> State_Monad.return (reject x, Some e) | None \<Rightarrow> next x)
   }"

definition guarded_delete ::
  "('e, 'r, 'v, 'w, 'err) state_guard \<Rightarrow> string \<Rightarrow> ('x \<Rightarrow> (('e, 'r, 'v, 'w) world, 'err) no_result) \<Rightarrow> 'x \<Rightarrow>
   (('e, 'r, 'v, 'w) world, 'err) no_result" where
  "guarded_delete guard op next x = do {
     err \<leftarrow> resolve_guard guard op;
     (case err of Some e \<Rightarrow> State_Monad.return (Some e) | None \<Rightarrow> next x)
   }"

definition scope_guard_service ::
  "'r \<Rightarrow> ('e, 'r, 'v, 'w, 'err) state_guard \<Rightarrow> ('e, 'r, 'v, 'w, 'err) world_service \<Rightarrow>
   ('e, 'r, 'v, 'w, 'err) world_service" where
  "scope_guard_service zero guard next =
     \<lparr>sv_create = guarded_write guard op_create (\<lambda>r. r) (sv_create next),
      sv_create_batch = guarded_write guard op_create_batch (\<lambda>rs. []) (sv_create_batch next),
      sv_update = guarded_write guard op_update (\<lambda>r. r) (sv_update next),
      sv_update_batch = guarded_write guard op_update_batch (\<lambda>rs. []) (sv_update_batch next),
      sv_delete = guarded_delete guard op_delete (sv_delete next),
      sv_delete_batch = guarded_delete guard op_delete_batch (sv_delete_batch next),
      sv_index = (\<lambda>cs. do {
        err \<leftarrow> resolve_guard guard op_list;
        (case err of
           Some e \<Rightarrow> State_Monad.return ([], 0, Some e)
         | None \<Rightarrow> do {
             uc \<leftarrow> the_user_context;
             sv_index next (cs @ scope_select_criteria (scope_from_context uc))
           })
      }),
      sv_show = (\<lambda>i cs. do {
        err \<leftarrow> resolve_guard guard op_read;
        (case err of
           Some e \<Rightarrow> State_Monad.return (zero, Some e)
         | None \<Rightarrow> do {
             uc \<leftarrow> the_user_context;
             sv_show next i (cs @ scope_select_criteria (scope_from_context uc))
           })
      })\<rparr>"

section \<open>Field policy\<close>

record policy_request =
  pq_operation :: string
  pq_actor :: actor_context
  pq_scope :: scope_filter
  pq_resource :: string

type_synonym ('e, 'r, 'v, 'w, 'err) policy_provider =
  "policy_request \<Rightarrow> (('e, 'r, 'v, 'w) world, 'err service_error + 'v field_policy) state"

text \<open>
  What the field policy layer knows of the model: its resource name (\<open>GetResourceName\<close> of the
  type, when none is configured), its queryable fields, and the name conversion of strcase.
\<close>

record policy_model =
  pm_resource_name :: string
  pm_type_resource :: string
  pm_fields :: field_map
  pm_snake :: "string \<Rightarrow> string"

definition resolve_policy ::
  "('e, 'r, 'v, 'w, 'err) policy_provider option \<Rightarrow> policy_model \<Rightarrow> string \<Rightarrow>
   (('e, 'r, 'v, 'w) world, 'err service_error + 'v resolved_field_policy) state" where
  "resolve_policy provider model op =
     (case provider of
        None \<Rightarrow> State_Monad.return (Inr zero_resolved_policy)
      | Some p \<Rightarrow>
          (let resource = (if pm_resource_name model = [] then pm_type_resource model else pm_resource_name model)
           in do {
             uc \<leftarrow> the_user_context;
             answer \<leftarrow> p \<lparr>pq_operation = op, pq_actor = actor_from_context uc, pq_scope = scope_from_context uc,
                         pq_resource = resource\<rparr>;
             State_Monad.return (case answer of
                Inl e \<Rightarrow> Inl e
              | Inr policy \<Rightarrow> Inr (build_resolved_field_policy policy (pm_fields model) resource op))
           }))"

definition policy_criteria :: "criteria list \<Rightarrow> 'v resolved_field_policy \<Rightarrow> criteria list" where
  "policy_criteria cs decision =
     (if policy_is_zero decision then cs else cs @ scope_select_criteria (rp_row_filter decision))"

text \<open>Masking in place: the record a handle refers to changes.\<close>

definition update_heap ::
  "(('r \<Rightarrow> 'v model_record) \<Rightarrow> 'r \<Rightarrow> 'v model_record) \<Rightarrow> (('e, 'r, 'v, 'w) world, unit) state" where
  "update_heap f = State (\<lambda>s. ((), s\<lparr>wd_heap := f (wd_heap s)\<rparr>))"

definition mask_record ::
  "(string \<Rightarrow> string) \<Rightarrow> 'v resolved_field_policy \<Rightarrow> 'r \<Rightarrow> (('e, 'r, 'v, 'w) world, unit) state" where
  "mask_record snake decision r =
     update_heap (\<lambda>h. h(r := apply_field_policy_to_record snake (h r) decision))"

definition mask_slice ::
  "(string \<Rightarrow> string) \<Rightarrow> 'v resolved_field_policy \<Rightarrow> 'r list \<Rightarrow> (('e, 'r, 'v, 'w) world, unit) state" where
  "mask_slice snake decision rs =
     update_heap (\<lambda>h. if policy_is_zero decision \<or> rs = [] then h
       else fold (\<lambda>r h. h(r := apply_field_policy_value snake decision True (h r))) rs h)"

definition field_policy_service ::
  "'r \<Rightarrow> ('e, 'r, 'v, 'w, 'err) policy_provider option \<Rightarrow> policy_model \<Rightarrow> ('e, 'r, 'v, 'w, 'err) world_service \<Rightarrow>
   ('e, 'r, 'v, 'w, 'err) world_service" where
  "field_policy_service zero provider model next =
     \<lparr>sv_create = sv_create next, sv_create_batch = sv_create_batch next,
      sv_update = sv_update next, sv_update_batch = sv_update_batch next,
      sv_delete = sv_delete next, sv_delete_batch = sv_delete_batch next,
      sv_index = (\<lambda>cs. do {
        answer \<leftarrow> resolve_policy provider model op_list;
        (case answer of
           Inl e \<Rightarrow> State_Monad.return ([], 0, Some e)
         | Inr decision \<Rightarrow> do {
             (res, count, err) \<leftarrow> sv_index next (policy_criteria cs decision);
             (case err of
                Some e \<Rightarrow> State_Monad.return (res, count, Some e)
              | None \<Rightarrow> do { _ \<leftarrow> mask_slice (pm_snake model) decision res; State_Monad.return (res, count, None) })
           })
      }),
      sv_show = (\<lambda>i cs. do {
        answer \<leftarrow> resolve_policy provider model op_read;
        (case answer of
           Inl e \<Rightarrow> State_Monad.return (zero, Some e)
         | Inr decision \<Rightarrow> do {
             (res, err) \<leftarrow> sv_show next i (policy_criteria cs decision);
             (case err of
                Some e \<Rightarrow> State_Monad.return (res, Some e)
              | None \<Rightarrow> do { _ \<leftarrow> mask_record (pm_snake model) decision res; State_Monad.return (res, None) })
           })
      })\<rparr>"

section \<open>Activity\<close>

text \<open>
  The effects the activity layer relies on: the hooks and the notification emitter of the
  application, the clock, the name of the model type and the text of a field value.
\<close>

record ('e, 'r, 'v, 'w, 'h, 'err) activity_runtime =
  ar_hook :: "('h, 'e, ('e, 'r, 'v, 'w) world, 'err) hook_behaviour"
  ar_send :: "('e, 'r, ('e, 'r, 'v, 'w) world, 'err) send_behaviour"
  ar_now :: nat
  ar_type_name :: string
  ar_sprint :: "'v \<Rightarrow> string"

text \<open>\<open>extractObjectInfo\<close>, for records that are structs or pointers to structs.\<close>

definition extract_object_info :: "string \<Rightarrow> ('v \<Rightarrow> string) \<Rightarrow> 'v model_record \<Rightarrow> string \<times> string" where
  "extract_object_info type_name sprint rec =
     (case rec of
        RNil \<Rightarrow> (''*'' @ type_name, [])
      | ROther \<Rightarrow> (type_name, [])
      | RPointer cells \<Rightarrow> (type_name, case find (\<lambda>c. sf_name (cell_field c) = ''ID'') cells of
            None \<Rightarrow> [] | Some c \<Rightarrow> sprint (cell_value c))
      | RStruct cells \<Rightarrow> (type_name, case find (\<lambda>c. sf_name (cell_field c) = ''ID'') cells of
            None \<Rightarrow> [] | Some c \<Rightarrow> sprint (cell_value c)))"

fun emit_each ::
  "('e, 'r, 'v, 'w, 'h, 'err) activity_runtime \<Rightarrow> 'h emitter option \<Rightarrow> string \<Rightarrow> 'r list \<Rightarrow>
   (('e, 'r, 'v, 'w) world, unit) state" where
  "emit_each rt em op [] = State_Monad.return ()"
| "emit_each rt em op (r # rs) = do {
     s \<leftarrow> State_Monad.get;
     _ \<leftarrow> (case extract_object_info (ar_type_name rt) (ar_sprint rt) (wd_heap s r) of (objType, objID) \<Rightarrow>
            emit_event (ar_hook rt) (ar_now rt) em (user_context_of s)
              (zero_event\<lparr>ae_verb := op, ae_object_type := objType, ae_object_id := objID\<rparr>));
     emit_each rt em op rs
   }"

definition activity_emit ::
  "('e, 'r, 'v, 'w, 'h, 'err) activity_runtime \<Rightarrow> 'h emitter option \<Rightarrow> 'e option \<Rightarrow> string \<Rightarrow> 'r list \<Rightarrow>
   'err service_error option \<Rightarrow> (('e, 'r, 'v, 'w) world, unit) state" where
  "activity_emit rt em notifier op rs err =
     (case err of
        Some e \<Rightarrow> State_Monad.return ()
      | None \<Rightarrow> do {
          _ \<leftarrow> (if emitter_enabled em then emit_each rt em op rs else State_Monad.return ());
          (if notifier \<noteq> None \<and> rs \<noteq> []
           then do {
             hctx \<leftarrow> the_hook_context op;
             uc \<leftarrow> the_user_context;
             _ \<leftarrow> send_notification_batch (ar_send rt) uc hctx PhaseAfter rs [];
             State_Monad.return ()
           }
           else State_Monad.return ())
        })"

definition reported ::
  "('e, 'r, 'v, 'w, 'h, 'err) activity_runtime \<Rightarrow> 'h emitter option \<Rightarrow> 'e option \<Rightarrow> string \<Rightarrow>
   ('y \<Rightarrow> 'r list) \<Rightarrow> ('x \<Rightarrow> (('e, 'r, 'v, 'w) world, 'y \<times> 'err service_error option) state) \<Rightarrow> 'x \<Rightarrow>
   (('e, 'r, 'v, 'w) world, 'y \<times> 'err service_error option) state" where
  "reported rt em notifier op records next x = do {
     (res, err) \<leftarrow> next x;
     _ \<leftarrow> activity_emit rt em notifier op (records res) err;
     State_Monad.return (res, err)
   }"

definition reported_delete ::
  "('e, 'r, 'v, 'w, 'h, 'err) activity_runtime \<Rightarrow> 'h emitter option \<Rightarrow> 'e option \<Rightarrow> string \<Rightarrow>
   ('x \<Rightarrow> 'r list) \<Rightarrow> ('x \<Rightarrow> (('e, 'r, 'v, 'w) world, 'err) no_result) \<Rightarrow> 'x \<Rightarrow>
   (('e, 'r, 'v, 'w) world, 'err) no_result" where
  "reported_delete rt em notifier op records next x = do {
     err \<leftarrow> next x;
     _ \<leftarrow> activity_emit rt em notifier op (records x) err;
     State_Monad.return err
   }"

definition activity_service ::
  "('e, 'r, 'v, 'w, 'h, 'err) activity_runtime \<Rightarrow> 'h emitter option \<Rightarrow> 'e option \<Rightarrow>
   ('e, 'r, 'v, 'w, 'err) world_service \<Rightarrow> ('e, 'r, 'v, 'w, 'err) world_service" where
  "activity_service rt em notifier next =
     \<lparr>sv_create = reported rt em notifier op_create (\<lambda>r. [r]) (sv_create next),
      sv_create_batch = reported rt em notifier op_create_batch (\<lambda>rs. rs) (sv_create_batch next),
      sv_update = reported rt em notifier op_update (\<lambda>r. [r]) (sv_update next),
      sv_update_batch = reported rt em notifier op_update_batch (\<lambda>rs. rs) (sv_update_batch next),
      sv_delete = reported_delete rt em notifier op_delete (\<lambda>r. [r]) (sv_delete next),
      sv_delete_batch = reported_delete rt em notifier op_delete_batch (\<lambda>rs. rs) (sv_delete_batch next),
      sv_index = sv_index next,
      sv_show = sv_show next\<rparr>"

section \<open>\<open>NewService\<close>\<close>

record ('e, 'r, 'v, 'w, 'h, 'err) service_config =
  sc_repository :: "('e, 'r, 'v, 'w, 'err) world_repository"
  sc_hooks :: "(('e, 'r, 'v, 'w) world, 'e, 'r, 'err) lifecycle_hooks"
  sc_scope_guard :: "('e, 'r, 'v, 'w, 'err) state_guard option"
  sc_field_policy :: "('e, 'r, 'v, 'w, 'err) policy_provider option"
  sc_virtual_fields :: "(('e, 'r, 'v, 'w) world, 'e, 'r, 'err) virtual_processor option"
  sc_validator :: "('r \<Rightarrow> (('e, 'r, 'v, 'w) world, 'err) no_result) option"
  sc_activity_hooks :: "'h option list"
  sc_activity_config :: activity_config
  sc_notification_emitter :: "'e option"
  sc_resource_name :: string
  sc_type_resource :: string
  sc_batch_return_order_by_id :: bool

text \<open>
  The model type's part of the program: the zero record, the queryable fields and the name
  conversion (\<open>pm_resource_name\<close> and \<open>pm_type_resource\<close> come from the configuration).
\<close>

definition new_service ::
  "('e, 'r, 'v, 'w, 'h, 'err) activity_runtime \<Rightarrow> 'r \<Rightarrow> field_map \<Rightarrow> (string \<Rightarrow> string) \<Rightarrow>
   ('e, 'r, 'v, 'w, 'h, 'err) service_config \<Rightarrow> ('e, 'r, 'v, 'w, 'err) world_service" where
  "new_service rt zero fieldMap snake cfg =
     (let order = (if sc_batch_return_order_by_id cfg then [ReturnOrderByID] else []);
          svc0 = repository_service (sc_repository cfg) order order;
          svc1 = (case sc_virtual_fields cfg of None \<Rightarrow> svc0 | Some h \<Rightarrow> virtual_field_service h svc0);
          svc2 = (case sc_validator cfg of None \<Rightarrow> svc1 | Some v \<Rightarrow> validation_service v svc1);
          svc3 = (if hooks_empty (sc_hooks cfg) then svc2 else hooks_service (sc_hooks cfg) svc2);
          svc4 = (case sc_scope_guard cfg of None \<Rightarrow> svc3 | Some g \<Rightarrow> scope_guard_service zero g svc3);
          svc5 = (case sc_field_policy cfg of None \<Rightarrow> svc4
             | Some p \<Rightarrow> field_policy_service zero (Some p)
                 \<lparr>pm_resource_name = sc_resource_name cfg, pm_type_resource = sc_type_resource cfg,
                  pm_fields = fieldMap, pm_snake = snake\<rparr> svc4);
          em = Some (new_emitter (sc_activity_hooks cfg) (sc_activity_config cfg))
      in if emitter_enabled em \<or> sc_notification_emitter cfg \<noteq> None
         then activity_service rt em (sc_notification_emitter cfg) svc5
         else svc5)"

section \<open>The layers keep the contract\<close>

lemma wraps_guarded_write: "wraps_op (=) snd fst (\<lambda>p. guarded_write g op reject (f p)) f"
proof (rule wraps_opI)
  let ?before = "\<lambda>x s. case run_state (resolve_guard g op) s of
       (Some e, s1) \<Rightarrow> (Inl (reject x, Some e), s1) | (None, s1) \<Rightarrow> (Inr (x, Pair), s1)"
  show "well_behaved (=) snd fst ?before"
    by (auto simp: well_behaved_def split: prod.splits option.splits)
  show "run_state (guarded_write g op reject (f p) x) s = call_between ?before (f p) x s" for p x s
    by (auto simp: guarded_write_def call_between_def split: prod.splits option.splits)
qed

lemma wraps_guarded_delete: "wraps_op (=) id (\<lambda>y. ()) (\<lambda>p. guarded_delete g op (f p)) f"
proof (rule wraps_opI)
  let ?before = "\<lambda>x s. case run_state (resolve_guard g op) s of
       (Some e, s1) \<Rightarrow> (Inl (Some e), s1) | (None, s1) \<Rightarrow> (Inr (x, Pair), s1)"
  show "well_behaved (=) id (\<lambda>y. ()) ?before"
    by (auto simp: well_behaved_def split: prod.splits option.splits)
  show "run_state (guarded_delete g op (f p) x) s = call_between ?before (f p) x s" for p x s
    by (auto simp: guarded_delete_def call_between_def split: prod.splits option.splits)
qed

text \<open>The criteria the guard adds to a read, from the context it leaves.\<close>

definition scoped :: "criteria list \<Rightarrow> ('e, 'r, 'v, 'w) world \<Rightarrow> criteria list" where
  "scoped cs s = cs @ scope_select_criteria (scope_from_context (user_context_of s))"

lemma wraps_guard_index:
  "wraps_op more_criteria page_error page_value (\<lambda>p. sv_index (scope_guard_service zero g p)) sv_index"
proof (rule wraps_opI)
  let ?before = "\<lambda>cs s. case run_state (resolve_guard g op_list) s of
       (Some e, s1) \<Rightarrow> (Inl ([], 0, Some e), s1) | (None, s1) \<Rightarrow> (Inr (scoped cs s1, Pair), s1)"
  show "well_behaved more_criteria page_error page_value ?before"
    by (auto simp: well_behaved_def page_error_def scoped_def split: prod.splits option.splits)
  show "run_state (sv_index (scope_guard_service zero g p) x) s = call_between ?before (sv_index p) x s" for p x s
    by (auto simp: scope_guard_service_def call_between_def scoped_def split: prod.splits option.splits)
qed

lemma wraps_guard_show:
  "wraps_op more_show_criteria snd fst (\<lambda>p. show_of (scope_guard_service zero g p)) show_of"
proof (rule wraps_opI)
  let ?before = "\<lambda>x s. case run_state (resolve_guard g op_read) s of
       (Some e, s1) \<Rightarrow> (Inl (zero, Some e), s1) | (None, s1) \<Rightarrow> (Inr ((fst x, scoped (snd x) s1), Pair), s1)"
  show "well_behaved more_show_criteria snd fst ?before"
    by (auto simp: well_behaved_def more_show_criteria_def scoped_def split: prod.splits option.splits)
  show "run_state (show_of (scope_guard_service zero g p) x) s = call_between ?before (show_of p) x s" for p x s
    by (auto simp: scope_guard_service_def show_of_def call_between_def scoped_def split: prod.splits option.splits)
qed

interpretation guard_layer: service_layer "scope_guard_service zero g" "\<lambda>svc. svc"
  for zero :: 'r and g :: "('e, 'r, 'v, 'w, 'err) state_guard"
  by unfold_locales
    (simp_all add: wraps_guard_index wraps_guard_show,
     simp_all add: scope_guard_service_def wraps_guarded_write wraps_guarded_delete)

lemma more_policy_criteria [simp, intro]: "more_criteria cs (policy_criteria cs d)"
  by (simp add: policy_criteria_def)

lemma wraps_policy_index:
  "wraps_op more_criteria page_error page_value (\<lambda>p. sv_index (field_policy_service zero pr model p)) sv_index"
proof (rule wraps_opI)
  let ?before = "\<lambda>cs s. case run_state (resolve_policy pr model op_list) s of
       (Inl e, s1) \<Rightarrow> (Inl ([], 0, Some e), s1)
     | (Inr d, s1) \<Rightarrow> (Inr (policy_criteria cs d, loaded page_error (\<lambda>y. mask_slice (pm_snake model) d (fst y))), s1)"
  show "well_behaved more_criteria page_error page_value ?before"
    by (auto simp: well_behaved_def page_error_def split: prod.splits sum.splits)
  show "run_state (sv_index (field_policy_service zero pr model p) x) s = call_between ?before (sv_index p) x s" for p x s
    by (auto simp: field_policy_service_def call_between_def loaded_def page_error_def
        split: prod.splits option.splits sum.splits)
qed

lemma wraps_policy_show:
  "wraps_op more_show_criteria snd fst (\<lambda>p. show_of (field_policy_service zero pr model p)) show_of"
proof (rule wraps_opI)
  let ?before = "\<lambda>x s. case run_state (resolve_policy pr model op_read) s of
       (Inl e, s1) \<Rightarrow> (Inl (zero, Some e), s1)
     | (Inr d, s1) \<Rightarrow> (Inr ((fst x, policy_criteria (snd x) d), loaded snd (\<lambda>y. mask_record (pm_snake model) d (fst y))), s1)"
  show "well_behaved more_show_criteria snd fst ?before"
    by (auto simp: well_behaved_def more_show_criteria_def split: prod.splits sum.splits)
  show "run_state (show_of (field_policy_service zero pr model p) x) s = call_between ?before (show_of p) x s" for p x s
    by (auto simp: field_policy_service_def show_of_def call_between_def loaded_def
        split: prod.splits option.splits sum.splits)
qed

interpretation policy_layer: service_layer "field_policy_service zero pr model" "\<lambda>svc. svc"
  for zero :: 'r and pr :: "('e, 'r, 'v, 'w, 'err) policy_provider option" and model :: policy_model
  by unfold_locales
    (simp_all add: wraps_policy_index wraps_policy_show,
     simp_all add: field_policy_service_def wraps_op_refl)

lemma activity_emit_error [simp]: "activity_emit rt em nt op rs (Some e) = State_Monad.return ()"
  by (simp add: activity_emit_def)

lemma wraps_reported: "wraps_op (=) snd fst (\<lambda>p. reported rt em nt op recs (f p)) f"
proof (rule wraps_opI)
  let ?before = "\<lambda>x s. (Inr (x, loaded snd (\<lambda>y. activity_emit rt em nt op (recs (fst y)) None)), s)"
  show "well_behaved (=) snd fst ?before"
    by (auto simp: well_behaved_def)
  show "run_state (reported rt em nt op recs (f p) x) s = call_between ?before (f p) x s" for p x s
    by (auto simp: reported_def call_between_def loaded_def split: prod.splits option.splits)
qed

lemma wraps_reported_delete:
  "wraps_op (=) id (\<lambda>y. ()) (\<lambda>p. reported_delete rt em nt op recs (f p)) f"
proof (rule wraps_opI)
  let ?before = "\<lambda>x s. (Inr (x, loaded id (\<lambda>y. activity_emit rt em nt op (recs x) None)), s)"
  show "well_behaved (=) id (\<lambda>y. ()) ?before"
    by (auto simp: well_behaved_def)
  show "run_state (reported_delete rt em nt op recs (f p) x) s = call_between ?before (f p) x s" for p x s
    by (auto simp: reported_delete_def call_between_def loaded_def split: prod.splits option.splits)
qed

interpretation activity_layer: service_layer "activity_service rt em nt" "\<lambda>svc. svc"
  for rt :: "('e, 'r, 'v, 'w, 'h, 'err) activity_runtime" and em :: "'h emitter option" and nt :: "'e option"
  by unfold_locales
    (simp_all add: activity_service_def show_of_def wraps_reported wraps_reported_delete wraps_op_refl)

section \<open>\<open>NewService\<close> keeps the contract\<close>

text \<open>The stack of a configuration around any inner service.\<close>

definition service_stack ::
  "('e, 'r, 'v, 'w, 'h, 'err) activity_runtime \<Rightarrow> 'r \<Rightarrow> field_map \<Rightarrow> (string \<Rightarrow> string) \<Rightarrow>
   ('e, 'r, 'v, 'w, 'h, 'err) service_config \<Rightarrow> ('e, 'r, 'v, 'w, 'err) world_service \<Rightarrow>
   ('e, 'r, 'v, 'w, 'err) world_service" where
  "service_stack rt zero fieldMap snake cfg =
     (let em = Some (new_emitter (sc_activity_hooks cfg) (sc_activity_config cfg))
      in (if emitter_enabled em \<or> sc_notification_emitter cfg \<noteq> None
          then activity_service rt em (sc_notification_emitter cfg) else id))
     \<circ> (case sc_field_policy cfg of None \<Rightarrow> id
        | Some p \<Rightarrow> field_policy_service zero (Some p)
            \<lparr>pm_resource_name = sc_resource_name cfg, pm_type_resource = sc_type_resource cfg,
             pm_fields = fieldMap, pm_snake = snake\<rparr>)
     \<circ> (case sc_scope_guard cfg of None \<Rightarrow> id | Some g \<Rightarrow> scope_guard_service zero g)
     \<circ> (if hooks_empty (sc_hooks cfg) then id else hooks_service (sc_hooks cfg))
     \<circ> (case sc_validator cfg of None \<Rightarrow> id | Some v \<Rightarrow> validation_service v)
     \<circ> (case sc_virtual_fields cfg of None \<Rightarrow> id | Some h \<Rightarrow> virtual_field_service h)"

definition base_service ::
  "('e, 'r, 'v, 'w, 'h, 'err) service_config \<Rightarrow> ('e, 'r, 'v, 'w, 'err) world_service" where
  "base_service cfg =
     (let order = (if sc_batch_return_order_by_id cfg then [ReturnOrderByID] else [])
      in repository_service (sc_repository cfg) order order)"

lemma new_service_stack: "new_service rt zero fm snake cfg = service_stack rt zero fm snake cfg (base_service cfg)"
  by (auto simp: new_service_def service_stack_def base_service_def Let_def comp_def split: option.splits)

lemma service_layer_id [simp]: "service_layer (\<lambda>p. id p) (\<lambda>p. p)"
  by (simp add: service_layer_refl)

lemma service_layer_comp:
  assumes "service_layer f (\<lambda>svc. svc)" "service_layer g (\<lambda>svc. svc)"
  shows "service_layer (f \<circ> g) (\<lambda>svc. svc)"
  using service_layer_trans [OF service_layer_app [OF assms(1), of g] assms(2)] by (simp add: comp_def)

lemma service_layer_id' [simp]: "service_layer id (\<lambda>svc. svc)"
  using service_layer_refl [of id] by (simp add: id_def)

interpretation stack: service_layer "service_stack rt zero fm snake cfg" "\<lambda>svc. svc"
  for rt :: "('e, 'r, 'v, 'w, 'h, 'err) activity_runtime" and zero :: 'r and fm :: field_map
    and snake :: "string \<Rightarrow> string" and cfg :: "('e, 'r, 'v, 'w, 'h, 'err) service_config"
  unfolding service_stack_def Let_def
  by (intro service_layer_comp)
    (auto intro: activity_layer.service_layer_axioms policy_layer.service_layer_axioms
       guard_layer.service_layer_axioms hooks_layer.service_layer_axioms
       validation_layer.service_layer_axioms virtual_layer.service_layer_axioms split: option.split)

lemma service_stack_repository [simp]:
  "service_stack rt zero fm snake (cfg\<lparr>sc_repository := repo\<rparr>) = service_stack rt zero fm snake cfg"
  by (simp add: service_stack_def Let_def cong: if_cong option.case_cong)

definition with_repository ::
  "('e, 'r, 'v, 'w, 'h, 'err) service_config \<Rightarrow> ('e, 'r, 'v, 'w, 'err) world_repository \<Rightarrow>
   ('e, 'r, 'v, 'w, 'h, 'err) service_config" where
  "with_repository cfg repo = cfg\<lparr>sc_repository := repo\<rparr>"

interpretation built: service_layer
    "\<lambda>repo. new_service rt zero fm snake (with_repository cfg repo)" "\<lambda>repo. base_service (with_repository cfg repo)"
  for rt :: "('e, 'r, 'v, 'w, 'h, 'err) activity_runtime" and zero :: 'r and fm :: field_map
    and snake :: "string \<Rightarrow> string" and cfg :: "('e, 'r, 'v, 'w, 'h, 'err) service_config"
  using service_layer_app [OF stack.service_layer_axioms, of rt zero fm snake cfg "\<lambda>repo. base_service (with_repository cfg repo)"]
  by (simp add: new_service_stack with_repository_def)

end
