(* ===== verification/Virtual_Fields.thy ===== *)
theory Virtual_Fields
  imports Query_Criteria Relation_Metadata
begin

text \<open>
  Virtual fields: \<open>virtual_fields.go\<close>, the tag part of \<open>virtual_fields_openapi.go\<close>,
  \<open>virtual_query.go\<close> and \<open>virtual_field_map_provider.go\<close>. A struct field tagged
  \<open>crud:"virtual:Source"\<close> has no column: it lives under its JSON name in a map field of the
  struct, into which it is moved before a save and from which it is set after a load.
\<close>

section \<open>Definitions from the tags\<close>

record virtual_def =
  vd_field_name :: string
  vd_json_name :: string
  vd_source :: string
  vd_type :: go_type
  vd_index :: nat
  vd_allow_zero :: bool
  vd_merge :: string

definition virtual_prefix :: string where "virtual_prefix = ''virtual:''"

definition get_json_field_name :: "struct_field \<Rightarrow> string" where
  "get_json_field_name f =
     (if sf_json f = [] \<or> sf_json f = ''-'' then sf_name f else first_part (sf_json f))"

text \<open>The options after the source field; the last \<open>merge:\<close> option counts.\<close>

fun virtual_options :: "string \<Rightarrow> string list \<Rightarrow> virtual_def \<Rightarrow> virtual_def" where
  "virtual_options allowZeroTag [] d = d"
| "virtual_options allowZeroTag (raw # opts) d =
     (let opt = trim_space raw
      in if opt = [] then virtual_options allowZeroTag opts d
         else if opt = allowZeroTag then virtual_options allowZeroTag opts (d\<lparr>vd_allow_zero := True\<rparr>)
         else case cut_at '':'' opt of
                None \<Rightarrow> virtual_options allowZeroTag opts d
              | Some (key, val) \<Rightarrow>
                  virtual_options allowZeroTag opts
                    (if key = ''merge'' then d\<lparr>vd_merge := to_lower (trim_space val)\<rparr> else d))"

definition build_virtual_field_def :: "struct_field \<Rightarrow> nat \<Rightarrow> string \<Rightarrow> string \<Rightarrow> virtual_def option" where
  "build_virtual_field_def f index crudTag allowZeroTag =
     (let jsonName = get_json_field_name f;
          tagValue = (if prefix virtual_prefix crudTag then drop (length virtual_prefix) crudTag else crudTag);
          parts = split_on CHR '','' tagValue
      in if jsonName = [] \<or> jsonName = ''-'' then None
         else if parts = [] \<or> trim_space (hd parts) = [] then None
         else Some (virtual_options allowZeroTag (tl parts)
                \<lparr>vd_field_name = sf_name f, vd_json_name = jsonName, vd_source = trim_space (hd parts),
                 vd_type = sf_type f, vd_index = index, vd_allow_zero = False, vd_merge = []\<rparr>))"

text \<open>Whether a type is a map with string keys is a question to \<open>reflect\<close>.\<close>

definition has_string_map_field :: "(go_type \<Rightarrow> bool) \<Rightarrow> struct_field list \<Rightarrow> string \<Rightarrow> bool" where
  "has_string_map_field is_string_map fs name =
     (case find (\<lambda>f. sf_name f = name) fs of
        None \<Rightarrow> False
      | Some f \<Rightarrow> is_string_map (case sf_type f of TPointer t \<Rightarrow> t | t \<Rightarrow> t))"

definition extract_virtual_field_defs ::
  "type_env \<Rightarrow> (go_type \<Rightarrow> bool) \<Rightarrow> go_type \<Rightarrow> string \<Rightarrow> virtual_def list" where
  "extract_virtual_field_defs env is_string_map modelType allowZeroTag =
     (case (case modelType of TPointer t \<Rightarrow> t | t \<Rightarrow> t) of
        TStruct t \<Rightarrow>
          (let fs = struct_fields env t
           in List.map_filter (\<lambda>(i, f).
                if \<not> prefix virtual_prefix (sf_crud f) then None
                else case build_virtual_field_def f i (sf_crud f) allowZeroTag of
                       None \<Rightarrow> None
                     | Some d \<Rightarrow> (if has_string_map_field is_string_map fs (vd_source d) then Some d else None))
                (enumerate 0 fs))
      | _ \<Rightarrow> [])"

record virtual_config =
  vc_preserve :: "bool option"
  vc_copy_metadata :: bool
  vc_clear :: "bool option"
  vc_allow_zero_tag :: string
  vc_dialect :: string

definition normalize_virtual_config :: "virtual_config \<Rightarrow> virtual_config" where
  "normalize_virtual_config cfg =
     cfg\<lparr>vc_allow_zero_tag := (if vc_allow_zero_tag cfg = [] then ''allow_zero'' else vc_allow_zero_tag cfg),
         vc_preserve := (case vc_preserve cfg of None \<Rightarrow> Some True | Some b \<Rightarrow> Some b),
         vc_clear := (case vc_clear cfg of None \<Rightarrow> Some True | Some b \<Rightarrow> Some b),
         vc_dialect := (if vc_dialect cfg = [] then ''postgres'' else vc_dialect cfg)\<rparr>"

section \<open>Records with virtual fields\<close>

text \<open>
  A struct field is a pointer (nil or not) or a value. Of its type the code uses the zero value,
  whether a value is zero, and \<open>setFieldValue\<close>'s conversion of a value of the map (assignment,
  conversion, or a detour through JSON). A nil \<open>any\<close> in the map is \<open>None\<close>.
\<close>

datatype 'v field_value = FieldPointer "'v option" | FieldDirect 'v

record ('v, 'err) model_field =
  mf_value :: "'v field_value"
  mf_zero :: 'v
  mf_is_zero :: "'v \<Rightarrow> bool"
  mf_convert :: "'v \<Rightarrow> 'err + 'v"

text \<open>
  A source field: a map (nil is \<open>None\<close>), a pointer to a map, or a field of another kind
  (with whether it is nil).
\<close>

datatype 'v source_field =
    SourceMap "(string, 'v option) gomap option"
  | SourcePointer "(string, 'v option) gomap option option"
  | SourceOther bool

text \<open>\<open>vr_addressable\<close>: the struct is reached through a pointer, so its fields can be set.\<close>

record ('v, 'err) virtual_record =
  vr_fields :: "('v, 'err) model_field list"
  vr_sources :: "(string, 'v source_field) gomap"
  vr_addressable :: bool

datatype 'err virtual_error =
    MissingSource string string
  | SourceNotMap string string
  | SetFieldFailed string 'err
  | VirtualPanic

definition should_skip_field :: "('v, 'err) model_field \<Rightarrow> bool \<Rightarrow> bool" where
  "should_skip_field f allowZero =
     (case mf_value f of
        FieldPointer None \<Rightarrow> True
      | FieldPointer (Some v) \<Rightarrow> False
      | FieldDirect v \<Rightarrow> \<not> allowZero \<and> mf_is_zero f v)"

definition extract_value :: "('v, 'err) model_field \<Rightarrow> 'v" where
  "extract_value f = (case mf_value f of FieldPointer (Some v) \<Rightarrow> v | FieldDirect v \<Rightarrow> v | FieldPointer None \<Rightarrow> mf_zero f)"

definition zero_field :: "('v, 'err) model_field \<Rightarrow> ('v, 'err) model_field" where
  "zero_field f = f\<lparr>mf_value := (case mf_value f of FieldPointer p \<Rightarrow> FieldPointer None | FieldDirect v \<Rightarrow> FieldDirect (mf_zero f))\<rparr>"

definition set_field_value :: "('v, 'err) model_field \<Rightarrow> 'v option \<Rightarrow> 'err + ('v, 'err) model_field" where
  "set_field_value f val =
     (case val of
        None \<Rightarrow> Inr (zero_field f)
      | Some v \<Rightarrow>
          (case mf_convert f v of
             Inl e \<Rightarrow> Inl e
           | Inr w \<Rightarrow> Inr (f\<lparr>mf_value := (case mf_value f of FieldPointer p \<Rightarrow> FieldPointer (Some w)
                                          | FieldDirect x \<Rightarrow> FieldDirect w)\<rparr>)))"

text \<open>
  One round of \<open>BeforeSave\<close>. The code panics where it makes a map of a pointer type, sets an
  entry through a pointer, or sets a field of a struct it cannot address.
\<close>

definition before_save_field ::
  "bool \<Rightarrow> virtual_def \<Rightarrow> ('v, 'err) virtual_record \<Rightarrow> 'err virtual_error option \<times> ('v, 'err) virtual_record" where
  "before_save_field clear d r =
     (let f = vr_fields r ! vd_index d
      in if \<not> vd_index d < length (vr_fields r) then (Some VirtualPanic, r)
         else if should_skip_field f (vd_allow_zero d) then (None, r)
         else case map_of (vr_sources r) (vd_source d) of
                None \<Rightarrow> (Some (MissingSource (vd_field_name d) (vd_source d)), r)
              | Some (SourceOther nil) \<Rightarrow> (Some (SourceNotMap (vd_field_name d) (vd_source d)), r)
              | Some (SourcePointer p) \<Rightarrow> (Some VirtualPanic, r)
              | Some (SourceMap m) \<Rightarrow>
                  (if m = None \<and> \<not> vr_addressable r then (Some VirtualPanic, r)
                   else let entries = (case m of None \<Rightarrow> [] | Some es \<Rightarrow> es);
                            r1 = r\<lparr>vr_sources := put (vd_source d)
                                   (SourceMap (Some (put (vd_json_name d) (Some (extract_value f)) entries))) (vr_sources r)\<rparr>
                        in if \<not> clear then (None, r1)
                           else if \<not> vr_addressable r then (Some VirtualPanic, r1)
                           else (None, r1\<lparr>vr_fields := (vr_fields r1)[vd_index d := zero_field f]\<rparr>)))"

fun before_save_loop ::
  "bool \<Rightarrow> virtual_def list \<Rightarrow> ('v, 'err) virtual_record \<Rightarrow> 'err virtual_error option \<times> ('v, 'err) virtual_record" where
  "before_save_loop clear [] r = (None, r)"
| "before_save_loop clear (d # ds) r =
     (case before_save_field clear d r of
        (Some e, r1) \<Rightarrow> (Some e, r1)
      | (None, r1) \<Rightarrow> before_save_loop clear ds r1)"

definition before_save ::
  "virtual_config \<Rightarrow> virtual_def list \<Rightarrow> ('v, 'err) virtual_record \<Rightarrow>
   'err virtual_error option \<times> ('v, 'err) virtual_record" where
  "before_save cfg ds r = before_save_loop (vc_clear cfg = Some True) ds r"

text \<open>
  One round of \<open>applyAfterLoad\<close>, on a record that can be set. A copied map is equal to the
  original, so \<open>CopyMetadata\<close> only changes what is shared.
\<close>

definition load_from ::
  "bool \<Rightarrow> virtual_def \<Rightarrow> (string, 'v option) gomap \<Rightarrow> ((string, 'v option) gomap \<Rightarrow> 'v source_field) \<Rightarrow>
   ('v, 'err) virtual_record \<Rightarrow> 'err virtual_error option \<times> ('v, 'err) virtual_record" where
  "load_from preserve d entries source r =
     (case map_of entries (vd_json_name d) of
        None \<Rightarrow> (None, r)
      | Some val \<Rightarrow>
          (if \<not> vd_index d < length (vr_fields r) then (Some VirtualPanic, r)
           else case set_field_value (vr_fields r ! vd_index d) val of
             Inl e \<Rightarrow> (Some (SetFieldFailed (vd_field_name d) e), r)
           | Inr f \<Rightarrow>
               (let r1 = r\<lparr>vr_fields := (vr_fields r)[vd_index d := f]\<rparr>
                in (None, if preserve then r1
                     else r1\<lparr>vr_sources := put (vd_source d) (source (del (vd_json_name d) entries)) (vr_sources r1)\<rparr>))))"

definition after_load_field ::
  "bool \<Rightarrow> virtual_def \<Rightarrow> ('v, 'err) virtual_record \<Rightarrow> 'err virtual_error option \<times> ('v, 'err) virtual_record" where
  "after_load_field preserve d r =
     (case map_of (vr_sources r) (vd_source d) of
        None \<Rightarrow> (None, r)
      | Some (SourceOther nil) \<Rightarrow>
          (if nil then (None, r) else (Some (SourceNotMap (vd_field_name d) (vd_source d)), r))
      | Some (SourceMap None) \<Rightarrow> (None, r)
      | Some (SourceMap (Some entries)) \<Rightarrow> load_from preserve d entries (\<lambda>m. SourceMap (Some m)) r
      | Some (SourcePointer None) \<Rightarrow> (None, r)
      | Some (SourcePointer (Some None)) \<Rightarrow> (None, r)
      | Some (SourcePointer (Some (Some entries))) \<Rightarrow>
          load_from preserve d entries (\<lambda>m. SourcePointer (Some (Some m))) r)"

fun after_load_loop ::
  "bool \<Rightarrow> virtual_def list \<Rightarrow> ('v, 'err) virtual_record \<Rightarrow> 'err virtual_error option \<times> ('v, 'err) virtual_record" where
  "after_load_loop preserve [] r = (None, r)"
| "after_load_loop preserve (d # ds) r =
     (case after_load_field preserve d r of
        (Some e, r1) \<Rightarrow> (Some e, r1)
      | (None, r1) \<Rightarrow> after_load_loop preserve ds r1)"

definition after_load ::
  "virtual_config \<Rightarrow> virtual_def list \<Rightarrow> ('v, 'err) virtual_record \<Rightarrow>
   'err virtual_error option \<times> ('v, 'err) virtual_record" where
  "after_load cfg ds r = after_load_loop (vc_preserve cfg \<noteq> Some False) ds r"

text \<open>
  A record passed by value is loaded into a copy, which shares its maps unless they are copied:
  \<open>AfterLoad\<close> drops the copy, \<open>AfterLoadBatch\<close> stores it when there was no error.
\<close>

definition shared_maps ::
  "virtual_config \<Rightarrow> ('v, 'err) virtual_record \<Rightarrow> ('v, 'err) virtual_record \<Rightarrow> ('v, 'err) virtual_record" where
  "shared_maps cfg r r1 = (if vc_copy_metadata cfg then r else r\<lparr>vr_sources := vr_sources r1\<rparr>)"

definition process_after_load ::
  "virtual_config \<Rightarrow> virtual_def list \<Rightarrow> ('v, 'err) virtual_record \<Rightarrow>
   'err virtual_error option \<times> ('v, 'err) virtual_record" where
  "process_after_load cfg ds r =
     (case after_load cfg ds r of
        (None, r1) \<Rightarrow> (None, r1)
      | (Some e, r1) \<Rightarrow> (Some e, if vr_addressable r then r1 else shared_maps cfg r r1))"

definition after_load_model ::
  "virtual_config \<Rightarrow> virtual_def list \<Rightarrow> ('v, 'err) virtual_record \<Rightarrow>
   'err virtual_error option \<times> ('v, 'err) virtual_record" where
  "after_load_model cfg ds r =
     (case process_after_load cfg ds r of
        (e, r1) \<Rightarrow> (e, if vr_addressable r then r1 else shared_maps cfg r r1))"

fun after_load_batch ::
  "virtual_config \<Rightarrow> virtual_def list \<Rightarrow> ('v, 'err) virtual_record list \<Rightarrow>
   'err virtual_error option \<times> ('v, 'err) virtual_record list" where
  "after_load_batch cfg ds [] = (None, [])"
| "after_load_batch cfg ds (r # rs) =
     (case process_after_load cfg ds r of
        (Some e, r1) \<Rightarrow> (Some e, r1 # rs)
      | (None, r1) \<Rightarrow> (case after_load_batch cfg ds rs of (e, rs1) \<Rightarrow> (e, r1 # rs1)))"

section \<open>Virtual fields in queries\<close>

definition build_virtual_field_map_expressions :: "virtual_def list \<Rightarrow> virtual_config \<Rightarrow> field_map" where
  "build_virtual_field_map_expressions ds cfg =
     (let dialect = (if vc_dialect cfg = [] then ''postgres'' else vc_dialect cfg)
      in fold (\<lambda>d m. put (vd_json_name d) (virtual_field_expr dialect (vd_source d) (vd_json_name d) False) m) ds [])"

definition new_virtual_field_map_provider ::
  "type_env \<Rightarrow> (go_type \<Rightarrow> bool) \<Rightarrow> virtual_config \<Rightarrow> field_map_provider option \<Rightarrow> field_map_provider" where
  "new_virtual_field_map_provider env is_string_map cfg0 base = (\<lambda>t.
     let cfg = normalize_virtual_config cfg0;
         out = (case base of None \<Rightarrow> [] | Some p \<Rightarrow> maps_copy [] (p t))
     in fold (\<lambda>d m. put (vd_json_name d) (virtual_field_expr (vc_dialect cfg) (vd_source d) (vd_json_name d) False) m)
          (extract_virtual_field_defs env is_string_map t (vc_allow_zero_tag cfg)) out)"

definition wrap_field_map_provider_with_virtuals ::
  "field_map_provider option \<Rightarrow> virtual_def list \<Rightarrow> virtual_config \<Rightarrow> field_map_provider option" where
  "wrap_field_map_provider_with_virtuals base ds cfg =
     (if ds = [] then base
      else Some (\<lambda>t. maps_copy (maps_copy [] (case base of None \<Rightarrow> [] | Some p \<Rightarrow> p t))
                      (build_virtual_field_map_expressions ds cfg)))"

section \<open>What a save stores\<close>

text \<open>The entry of a virtual field, for sources that are maps.\<close>

definition stored :: "('v, 'err) virtual_record \<Rightarrow> virtual_def \<Rightarrow> 'v option option" where
  "stored r d =
     (case map_of (vr_sources r) (vd_source d) of
        Some (SourceMap (Some m)) \<Rightarrow> map_of m (vd_json_name d)
      | _ \<Rightarrow> None)"

text \<open>
  A record its handler fits: it can be set, the sources are maps, the virtual fields are distinct
  fields with distinct entries.
\<close>

definition map_source :: "('v, 'err) virtual_record \<Rightarrow> virtual_def \<Rightarrow> bool" where
  "map_source r d \<longleftrightarrow> (\<exists>m. map_of (vr_sources r) (vd_source d) = Some (SourceMap m))"

definition fits :: "virtual_def list \<Rightarrow> ('v, 'err) virtual_record \<Rightarrow> bool" where
  "fits ds r \<longleftrightarrow>
     vr_addressable r \<and> (\<forall>d \<in> set ds. vd_index d < length (vr_fields r) \<and> map_source r d)"

definition separate :: "virtual_def list \<Rightarrow> bool" where
  "separate ds \<longleftrightarrow> distinct (map vd_index ds) \<and> distinct (map (\<lambda>d. (vd_source d, vd_json_name d)) ds)"

abbreviation save_skips :: "('v, 'err) virtual_record \<Rightarrow> virtual_def \<Rightarrow> bool" where
  "save_skips r d \<equiv> should_skip_field (vr_fields r ! vd_index d) (vd_allow_zero d)"

lemma save_field_skip: "vd_index d < length (vr_fields r) \<Longrightarrow> save_skips r d \<Longrightarrow> before_save_field clear d r = (None, r)"
  by (simp add: before_save_field_def Let_def)

lemma save_field_store:
  assumes "vd_index d < length (vr_fields r)" "\<not> save_skips r d" "map_source r d" "vr_addressable r"
  obtains r' where "before_save_field clear d r = (None, r')" "vr_addressable r'"
    "length (vr_fields r') = length (vr_fields r)"
    "\<And>i. i \<noteq> vd_index d \<Longrightarrow> vr_fields r' ! i = vr_fields r ! i"
    "vr_fields r' ! vd_index d = (if clear then zero_field (vr_fields r ! vd_index d) else vr_fields r ! vd_index d)"
    "stored r' d = Some (Some (extract_value (vr_fields r ! vd_index d)))"
    "\<And>e. (vd_source e, vd_json_name e) \<noteq> (vd_source d, vd_json_name d) \<Longrightarrow> stored r' e = stored r e"
    "\<And>e. map_source r' e = map_source r e"
proof -
  obtain m where m: "map_of (vr_sources r) (vd_source d) = Some (SourceMap m)"
    using assms(3) by (auto simp: map_source_def)
  let ?es = "case m of None \<Rightarrow> [] | Some es \<Rightarrow> es"
  let ?f = "vr_fields r ! vd_index d"
  let ?r1 = "r\<lparr>vr_sources := put (vd_source d) (SourceMap (Some (put (vd_json_name d) (Some (extract_value ?f)) ?es))) (vr_sources r)\<rparr>"
  let ?r2 = "if clear then ?r1\<lparr>vr_fields := (vr_fields r)[vd_index d := zero_field ?f]\<rparr> else ?r1"
  have "before_save_field clear d r = (None, ?r2)"
    using assms m by (simp add: before_save_field_def Let_def)
  moreover have "stored ?r2 e = stored r e"
    if "(vd_source e, vd_json_name e) \<noteq> (vd_source d, vd_json_name d)" for e
    using that m by (auto simp: stored_def split: option.split)
  moreover have "stored ?r2 d = Some (Some (extract_value ?f))"
    by (simp add: stored_def)
  moreover have "map_source ?r2 e = map_source r e" for e
    using m by (auto simp: map_source_def)
  ultimately show ?thesis using assms(1,4) by (intro that [of ?r2]) auto
qed

text \<open>What a whole save leaves behind.\<close>

definition saved ::
  "bool \<Rightarrow> virtual_def list \<Rightarrow> ('v, 'err) virtual_record \<Rightarrow> ('v, 'err) virtual_record \<Rightarrow> bool" where
  "saved clear ds r r' \<longleftrightarrow>
     vr_addressable r' \<and> length (vr_fields r') = length (vr_fields r) \<and>
     (\<forall>e. map_source r' e = map_source r e) \<and>
     (\<forall>i. i \<notin> vd_index ` set ds \<longrightarrow> vr_fields r' ! i = vr_fields r ! i) \<and>
     (\<forall>e. (vd_source e, vd_json_name e) \<notin> (\<lambda>d. (vd_source d, vd_json_name d)) ` set ds \<longrightarrow> stored r' e = stored r e) \<and>
     (\<forall>d \<in> set ds.
        (save_skips r d \<longrightarrow> vr_fields r' ! vd_index d = vr_fields r ! vd_index d \<and> stored r' d = stored r d) \<and>
        (\<not> save_skips r d \<longrightarrow>
           vr_fields r' ! vd_index d = (if clear then zero_field (vr_fields r ! vd_index d) else vr_fields r ! vd_index d) \<and>
           stored r' d = Some (Some (extract_value (vr_fields r ! vd_index d)))))"

lemma before_save_saved:
  assumes "fits ds r" "separate ds"
  shows "\<exists>r'. before_save_loop clear ds r = (None, r') \<and> saved clear ds r r'"
  using assms
proof (induction ds arbitrary: r)
  case Nil
  then show ?case by (simp add: saved_def fits_def)
next
  case (Cons d ds)
  note sep = Cons.prems(2) [unfolded separate_def]
  then have sep': "separate ds" by (simp add: separate_def)
  from Cons.prems(1) have d: "vd_index d < length (vr_fields r)" "map_source r d" "vr_addressable r"
    by (simp_all add: fits_def)
  show ?case
  proof (cases "save_skips r d")
    case True
    have "fits ds r" using Cons.prems(1) by (simp add: fits_def)
    with Cons.IH sep' obtain r' where "before_save_loop clear ds r = (None, r')" "saved clear ds r r'" by blast
    with True d(1) sep show ?thesis
      by (intro exI [of _ r']) (auto simp: save_field_skip saved_def image_iff)
  next
    case False
    from save_field_store [OF d(1) False d(2,3), of clear] obtain r1 where
      r1: "before_save_field clear d r = (None, r1)" "vr_addressable r1" "length (vr_fields r1) = length (vr_fields r)"
        "\<And>i. i \<noteq> vd_index d \<Longrightarrow> vr_fields r1 ! i = vr_fields r ! i"
        "vr_fields r1 ! vd_index d = (if clear then zero_field (vr_fields r ! vd_index d) else vr_fields r ! vd_index d)"
        "stored r1 d = Some (Some (extract_value (vr_fields r ! vd_index d)))"
        "\<And>e. (vd_source e, vd_json_name e) \<noteq> (vd_source d, vd_json_name d) \<Longrightarrow> stored r1 e = stored r e"
        "\<And>e. map_source r1 e = map_source r e"
      by metis
    have "fits ds r1" using Cons.prems(1) r1(2,3,8) by (simp add: fits_def)
    with Cons.IH sep' obtain r' where r': "before_save_loop clear ds r1 = (None, r')" "saved clear ds r1 r'" by blast
    have same: "vr_fields r1 ! vd_index e = vr_fields r ! vd_index e" "stored r1 e = stored r e" if "e \<in> set ds" for e
      using that sep r1(4,7) by (auto simp: image_iff)
    have "saved clear (d # ds) r r'"
      using r'(2) r1(2-8) same sep False unfolding saved_def by (auto simp: image_iff)
    with r1(1) r'(1) show ?thesis by auto
  qed
qed

section \<open>What a load sets\<close>

lemma load_field_none: "map_source r d \<Longrightarrow> stored r d = None \<Longrightarrow> after_load_field preserve d r = (None, r)"
  by (auto simp: after_load_field_def map_source_def stored_def load_from_def split: option.splits)

lemma load_field_set:
  assumes "map_source r d" "vd_index d < length (vr_fields r)" "stored r d = Some v"
    and "set_field_value (vr_fields r ! vd_index d) v = Inr f"
  obtains r' where "after_load_field preserve d r = (None, r')" "vr_addressable r' = vr_addressable r"
    "vr_fields r' = (vr_fields r)[vd_index d := f]"
    "\<And>e. (vd_source e, vd_json_name e) \<noteq> (vd_source d, vd_json_name d) \<Longrightarrow> stored r' e = stored r e"
    "\<And>e. map_source r' e = map_source r e"
proof -
  obtain es where es: "map_of (vr_sources r) (vd_source d) = Some (SourceMap (Some es))"
      "map_of es (vd_json_name d) = Some v"
    using assms(1,3) by (auto simp: map_source_def stored_def split: option.splits)
  let ?r1 = "r\<lparr>vr_fields := (vr_fields r)[vd_index d := f]\<rparr>"
  let ?r' = "if preserve then ?r1
    else ?r1\<lparr>vr_sources := put (vd_source d) (SourceMap (Some (del (vd_json_name d) es))) (vr_sources r)\<rparr>"
  have "after_load_field preserve d r = (None, ?r')"
    using es assms(2,4) by (simp add: after_load_field_def load_from_def Let_def)
  moreover have "stored ?r' e = stored r e"
    if "(vd_source e, vd_json_name e) \<noteq> (vd_source d, vd_json_name d)" for e
    using that es by (auto simp: stored_def split: option.split)
  moreover have "map_source ?r' e = map_source r e" for e
    using es by (auto simp: map_source_def)
  ultimately show ?thesis by (intro that [of ?r']) auto
qed

text \<open>The fields that a load gives to the virtual fields \<open>ds\<close> of \<open>r\<close>.\<close>

definition gives :: "('v, 'err) virtual_record \<Rightarrow> virtual_def \<Rightarrow> ('v, 'err) model_field \<Rightarrow> bool" where
  "gives r d f \<longleftrightarrow>
     (case stored r d of
        None \<Rightarrow> f = vr_fields r ! vd_index d
      | Some v \<Rightarrow> set_field_value (vr_fields r ! vd_index d) v = Inr f)"

lemma after_load_sets:
  assumes "fits ds r" "separate ds" "\<And>d. d \<in> set ds \<Longrightarrow> gives r d (g d)"
  shows "\<exists>r'. after_load_loop preserve ds r = (None, r') \<and> length (vr_fields r') = length (vr_fields r) \<and>
    (\<forall>i. i \<notin> vd_index ` set ds \<longrightarrow> vr_fields r' ! i = vr_fields r ! i) \<and>
    (\<forall>d \<in> set ds. vr_fields r' ! vd_index d = g d)"
  using assms
proof (induction ds arbitrary: r)
  case (Cons d ds)
  note sep = Cons.prems(2) [unfolded separate_def]
  then have sep': "separate ds" by (simp add: separate_def)
  from Cons.prems(1) have d: "map_source r d" "vd_index d < length (vr_fields r)" "fits ds r"
    by (simp_all add: fits_def)
  have gd: "gives r d (g d)" by (rule Cons.prems(3)) simp
  obtain r1 where r1: "after_load_field preserve d r = (None, r1)" "vr_addressable r1 = vr_addressable r"
      "vr_fields r1 = (vr_fields r)[vd_index d := g d]"
      "\<And>e. (vd_source e, vd_json_name e) \<noteq> (vd_source d, vd_json_name d) \<Longrightarrow> stored r1 e = stored r e"
      "\<And>e. map_source r1 e = map_source r e"
  proof (cases "stored r d")
    case None
    with gd have "(vr_fields r)[vd_index d := g d] = vr_fields r" by (simp add: gives_def)
    with load_field_none [OF d(1) None, of preserve] show ?thesis by (intro that [of r]) simp_all
  next
    case (Some v)
    with gd have "set_field_value (vr_fields r ! vd_index d) v = Inr (g d)" by (simp add: gives_def)
    from load_field_set [OF d(1,2) Some this, of preserve] that show ?thesis by metis
  qed
  have "fits ds r1" using d(3) r1(2,3,5) by (simp add: fits_def)
  moreover have "gives r1 e (g e)" if "e \<in> set ds" for e
  proof -
    have "stored r1 e = stored r e" "vr_fields r1 ! vd_index e = vr_fields r ! vd_index e"
      using that sep r1(3,4) by (auto simp: image_iff)
    moreover have "gives r e (g e)" by (rule Cons.prems(3)) (simp add: that)
    ultimately show ?thesis by (simp add: gives_def split: option.splits)
  qed
  ultimately obtain r' where "after_load_loop preserve ds r1 = (None, r')"
      "length (vr_fields r') = length (vr_fields r1)"
      "\<And>i. i \<notin> vd_index ` set ds \<Longrightarrow> vr_fields r' ! i = vr_fields r1 ! i"
      "\<And>d. d \<in> set ds \<Longrightarrow> vr_fields r' ! vd_index d = g d"
    using Cons.IH [of r1] sep' by blast
  with r1(1,3) d(2) sep show ?case by (intro exI [of _ r']) auto
qed simp

lemma set_back:
  assumes "\<not> should_skip_field f az" "mf_convert f (extract_value f) = Inr (extract_value f)"
  shows "set_field_value f (Some (extract_value f)) = Inr f"
    and "set_field_value (zero_field f) (Some (extract_value f)) = Inr f"
  using assms
  by (auto simp: set_field_value_def zero_field_def extract_value_def should_skip_field_def
      split: field_value.splits option.splits)

text \<open>
  C15 (roundtrip). Saving a record and loading what was saved gives back every field: the virtual
  fields survive in their maps, whatever options the handler has, for any number of virtual fields
  over shared source maps, provided a skipped field (nil, or zero without \<open>allow_zero\<close>) has no
  older entry in its map and each type takes its own values back.
\<close>

theorem virtual_fields_roundtrip:
  assumes "fits ds r" "separate ds"
    and "\<And>d. d \<in> set ds \<Longrightarrow> save_skips r d \<Longrightarrow> stored r d = None"
    and "\<And>d f. d \<in> set ds \<Longrightarrow> f = vr_fields r ! vd_index d \<Longrightarrow> mf_convert f (extract_value f) = Inr (extract_value f)"
  shows "\<exists>r1 r2. before_save cfg ds r = (None, r1) \<and> after_load cfg ds r1 = (None, r2) \<and> vr_fields r2 = vr_fields r"
proof -
  let ?c = "vc_clear cfg = Some True"
  let ?g = "\<lambda>d. vr_fields r ! vd_index d"
  obtain r1 where r1: "before_save_loop ?c ds r = (None, r1)" "saved ?c ds r r1"
    using before_save_saved [OF assms(1,2)] by blast
  have s: "vr_addressable r1" "length (vr_fields r1) = length (vr_fields r)" "\<And>e. map_source r1 e = map_source r e"
      "\<And>i. i \<notin> vd_index ` set ds \<Longrightarrow> vr_fields r1 ! i = vr_fields r ! i"
      "\<And>d. d \<in> set ds \<Longrightarrow> save_skips r d \<Longrightarrow> vr_fields r1 ! vd_index d = ?g d \<and> stored r1 d = stored r d"
      "\<And>d. d \<in> set ds \<Longrightarrow> \<not> save_skips r d \<Longrightarrow> vr_fields r1 ! vd_index d = (if ?c then zero_field (?g d) else ?g d) \<and>
         stored r1 d = Some (Some (extract_value (?g d)))"
    using r1(2) unfolding saved_def by blast+
  have "fits ds r1" using assms(1) s(1-3) by (simp add: fits_def)
  moreover have "gives r1 d (?g d)" if "d \<in> set ds" for d
    using s(5,6) [OF that] assms(3) [OF that] set_back [OF _ assms(4) [OF that refl]]
    by (cases "save_skips r d") (auto simp: gives_def)
  ultimately obtain r2 where r2: "after_load_loop (vc_preserve cfg \<noteq> Some False) ds r1 = (None, r2)"
      "length (vr_fields r2) = length (vr_fields r1)"
      "\<And>i. i \<notin> vd_index ` set ds \<Longrightarrow> vr_fields r2 ! i = vr_fields r1 ! i"
      "\<And>d. d \<in> set ds \<Longrightarrow> vr_fields r2 ! vd_index d = ?g d"
    using after_load_sets [OF _ assms(2), of r1 ?g] by blast
  have "vr_fields r2 ! i = vr_fields r ! i" for i
    using r2(3,4) s(4) by (cases "i \<in> vd_index ` set ds") auto
  with r2(1,2) r1(1) s(2) show ?thesis
    by (intro exI [of _ r1] exI [of _ r2]) (simp add: before_save_def after_load_def list_eq_iff_nth_eq)
qed

text \<open>
  Emptying a virtual field does not empty it in the database: a save skips the zero
  value, so the old entry stays in the map and the next load brings the old value back.
\<close>

theorem emptied_field_comes_back:
  assumes "fits [d] r" "save_skips r d" "stored r d = Some (Some v)"
    and "mf_convert (vr_fields r ! vd_index d) v = Inr w"
  shows "\<exists>r2. before_save cfg [d] r = (None, r) \<and> after_load cfg [d] r = (None, r2) \<and>
    extract_value (vr_fields r2 ! vd_index d) = w"
proof -
  have d: "map_source r d" "vd_index d < length (vr_fields r)" using assms(1) by (simp_all add: fits_def)
  obtain f where f: "set_field_value (vr_fields r ! vd_index d) (Some v) = Inr f" "extract_value f = w"
    using assms(4) by (auto simp: set_field_value_def extract_value_def split: field_value.splits)
  from load_field_set [OF d assms(3) f(1), of "vc_preserve cfg \<noteq> Some False"] obtain r2 where
    "after_load_field (vc_preserve cfg \<noteq> Some False) d r = (None, r2)" "vr_fields r2 = (vr_fields r)[vd_index d := f]"
    by metis
  with d f(2) save_field_skip [OF d(2) assms(2)] show ?thesis
    by (simp add: before_save_def after_load_def)
qed

section \<open>Examples\<close>

definition author_def :: virtual_def where
  "author_def = \<lparr>vd_field_name = ''Author'', vd_json_name = ''author'', vd_source = ''Metadata'',
     vd_type = TPointer (TOther ''string''), vd_index = 0, vd_allow_zero = False, vd_merge = []\<rparr>"

definition active_def :: virtual_def where
  "active_def = \<lparr>vd_field_name = ''Active'', vd_json_name = ''active'', vd_source = ''Metadata'',
     vd_type = TOther ''string'', vd_index = 1, vd_allow_zero = True, vd_merge = []\<rparr>"

definition text_field :: "string field_value \<Rightarrow> (string, unit) model_field" where
  "text_field v = \<lparr>mf_value = v, mf_zero = [], mf_is_zero = (\<lambda>s. s = []), mf_convert = Inr\<rparr>"

definition book :: "(string, unit) virtual_record" where
  "book = \<lparr>vr_fields = [text_field (FieldPointer (Some ''Ada'')), text_field (FieldDirect [])],
     vr_sources = [(''Metadata'', SourceMap None)], vr_addressable = True\<rparr>"

definition default_virtual_config :: virtual_config where
  "default_virtual_config = normalize_virtual_config
     \<lparr>vc_preserve = None, vc_copy_metadata = False, vc_clear = None, vc_allow_zero_tag = [], vc_dialect = []\<rparr>"

lemma virtual_fields_roundtrip_witness:
  "\<exists>r1 r2. before_save default_virtual_config [author_def, active_def] book = (None, r1) \<and>
     map_of (vr_sources r1) ''Metadata'' = Some (SourceMap (Some [(''author'', Some ''Ada''), (''active'', Some [])])) \<and>
     after_load default_virtual_config [author_def, active_def] r1 = (None, r2) \<and> vr_fields r2 = vr_fields book"
proof -
  have f: "fits [author_def, active_def] book" "separate [author_def, active_def]"
    by (simp_all add: fits_def separate_def map_source_def author_def_def active_def_def book_def)
  have "\<exists>r1 r2. before_save default_virtual_config [author_def, active_def] book = (None, r1) \<and>
      after_load default_virtual_config [author_def, active_def] r1 = (None, r2) \<and> vr_fields r2 = vr_fields book"
    by (rule virtual_fields_roundtrip [OF f])
      (auto simp: author_def_def active_def_def book_def text_field_def should_skip_field_def stored_def extract_value_def)
  moreover have "map_of (vr_sources (snd (before_save default_virtual_config [author_def, active_def] book))) ''Metadata'' =
      Some (SourceMap (Some [(''author'', Some ''Ada''), (''active'', Some [])]))"
    by (simp add: author_def_def active_def_def book_def text_field_def should_skip_field_def extract_value_def
        before_save_def before_save_field_def default_virtual_config_def normalize_virtual_config_def Let_def put_def)
  ultimately show ?thesis by (metis snd_conv)
qed

lemma emptied_field_comes_back_witness:
  "\<exists>r2. after_load default_virtual_config [author_def]
      (book\<lparr>vr_fields := [text_field (FieldPointer None)], vr_sources := [(''Metadata'', SourceMap (Some [(''author'', Some ''Ada'')]))]\<rparr>) =
      (None, r2) \<and> extract_value (vr_fields r2 ! 0) = ''Ada''"
proof -
  let ?r = "book\<lparr>vr_fields := [text_field (FieldPointer None)], vr_sources := [(''Metadata'', SourceMap (Some [(''author'', Some ''Ada'')]))]\<rparr>"
  have "fits [author_def] ?r" "save_skips ?r author_def" "stored ?r author_def = Some (Some ''Ada'')"
      "mf_convert (vr_fields ?r ! vd_index author_def) ''Ada'' = Inr ''Ada''" "vd_index author_def = 0"
    by (simp_all add: fits_def map_source_def author_def_def book_def text_field_def should_skip_field_def stored_def)
  from emptied_field_comes_back [OF this(1-4), of default_virtual_config] this(5) show ?thesis by auto
qed

end
