(* ===== verification/Virtual_Merge.thy ===== *)
theory Virtual_Merge
  imports Virtual_Fields
begin

text \<open>
  Merging the maps behind virtual fields on an update: \<open>merge_virtual.go\<close> and the merge policy of
  \<open>controller.go\<close>. The values are those a \<open>map[string]any\<close> gets from JSON.
\<close>

section \<open>Values\<close>

datatype 'a json = JNull | JScalar 'a | JArray "'a json list" | JObject "(string \<times> 'a json) list"

type_synonym 'a json_map = "(string, 'a json) gomap"

record merge_policy =
  mp_put_replace :: bool
  mp_patch_merge :: bool
  mp_delete_with_null :: bool
  mp_field_strategy :: "(string, string) gomap"

definition default_merge_policy :: merge_policy where
  "default_merge_policy = \<lparr>mp_put_replace = True, mp_patch_merge = True, mp_delete_with_null = True,
     mp_field_strategy = []\<rparr>"

section \<open>Deep merge\<close>

text \<open>
  The value \<open>deepMergeValue\<close> gives for a key: a value, the invalid value (which deletes the key),
  or a panic: \<open>dst.IsNil()\<close> is called on whatever the destination holds, and \<open>reflect\<close> panics when
  that is a string, a number or a boolean. An absent destination is \<open>None\<close>.
\<close>

datatype 'x merged = MergePanic | Merged 'x

definition is_scalar :: "'a json \<Rightarrow> bool" where
  "is_scalar v = (case v of JScalar a \<Rightarrow> True | _ \<Rightarrow> False)"

fun deep_merge_value :: "'a json option \<Rightarrow> 'a json \<Rightarrow> bool \<Rightarrow> 'a json option merged"
  and deep_merge_entries :: "'a json_map \<Rightarrow> (string \<times> 'a json) list \<Rightarrow> bool \<Rightarrow> 'a json_map merged" where
  "deep_merge_value dst JNull del_null = Merged (if del_null then None else Some JNull)"
| "deep_merge_value dst (JScalar a) del_null =
     (case dst of Some (JScalar b) \<Rightarrow> MergePanic | _ \<Rightarrow> Merged (Some (JScalar a)))"
| "deep_merge_value dst (JArray xs) del_null =
     (case dst of Some (JScalar b) \<Rightarrow> MergePanic | _ \<Rightarrow> Merged (Some (JArray xs)))"
| "deep_merge_value dst (JObject src) del_null =
     (case dst of
        Some (JScalar b) \<Rightarrow> MergePanic
      | Some (JObject out) \<Rightarrow>
          (case deep_merge_entries out src del_null of
             MergePanic \<Rightarrow> MergePanic
           | Merged m \<Rightarrow> Merged (Some (JObject m)))
      | _ \<Rightarrow> Merged (Some (JObject src)))"
| "deep_merge_entries out [] del_null = Merged out"
| "deep_merge_entries out ((k, v) # es) del_null =
     (if v = JNull \<and> del_null then deep_merge_entries (del k out) es del_null
      else case deep_merge_value (map_of out k) v del_null of
             MergePanic \<Rightarrow> MergePanic
           | Merged None \<Rightarrow> deep_merge_entries (del k out) es del_null
           | Merged (Some w) \<Rightarrow> deep_merge_entries (put k w out) es del_null)"

fun shallow_merge_entries :: "'a json_map \<Rightarrow> (string \<times> 'a json) list \<Rightarrow> bool \<Rightarrow> 'a json_map" where
  "shallow_merge_entries out [] del_null = out"
| "shallow_merge_entries out ((k, v) # es) del_null =
     (if v = JNull \<and> del_null then shallow_merge_entries (del k out) es del_null
      else shallow_merge_entries (put k v out) es del_null)"

text \<open>\<open>mergeMap\<close>: every strategy other than \<open>shallow\<close> merges deeply; nil maps are \<open>None\<close>.\<close>

definition merge_map ::
  "'a json_map option \<Rightarrow> 'a json_map option \<Rightarrow> string \<Rightarrow> bool \<Rightarrow> 'a json_map option merged" where
  "merge_map current incoming strategy del_null =
     (case current of
        None \<Rightarrow> Merged incoming
      | Some cur \<Rightarrow>
          (case incoming of
             None \<Rightarrow> Merged (Some cur)
           | Some inc \<Rightarrow>
               (if strategy = ''shallow'' then Merged (Some (shallow_merge_entries cur inc del_null))
                else case deep_merge_entries cur inc del_null of
                       MergePanic \<Rightarrow> MergePanic
                     | Merged m \<Rightarrow> Merged (Some m))))"

section \<open>Merging the sources of a record\<close>

text \<open>
  The fields of a record by name; a name that is no field is absent. A source field is a map or a
  pointer to one; a field of another kind has no entries to merge.
\<close>

datatype 'a json_source =
    MapSource "'a json_map option"
  | PointerSource "'a json_map option option"
  | OtherSource

fun source_is_nil :: "'a json_source \<Rightarrow> bool" where
  "source_is_nil (MapSource m) = (m = None)"
| "source_is_nil (PointerSource p) = (p = None)"
| "source_is_nil OtherSource = False"

text \<open>\<open>mergeMap\<close> of two fields of the same type: making a map of a pointer type panics.\<close>

fun merge_source :: "'a json_source \<Rightarrow> 'a json_source \<Rightarrow> string \<Rightarrow> bool \<Rightarrow> 'a json_source merged" where
  "merge_source (MapSource cur) (MapSource inc) strategy del_null =
     (case merge_map cur inc strategy del_null of MergePanic \<Rightarrow> MergePanic | Merged m \<Rightarrow> Merged (MapSource m))"
| "merge_source (PointerSource None) inc strategy del_null = Merged inc"
| "merge_source (PointerSource (Some cur)) (PointerSource None) strategy del_null = Merged (PointerSource (Some cur))"
| "merge_source cur inc strategy del_null = MergePanic"

definition merge_strategy :: "virtual_def \<Rightarrow> merge_policy \<Rightarrow> string" where
  "merge_strategy d policy =
     (let own = vd_merge d;
          named = (if own = [] then (case map_of (mp_field_strategy policy) (vd_source d) of Some v \<Rightarrow> v | None \<Rightarrow> [])
                   else own)
      in if named = [] then ''deep'' else named)"

fun merge_sources ::
  "(string, 'a json_source) gomap \<Rightarrow> (string, 'a json_source) gomap \<Rightarrow> virtual_def list \<Rightarrow> merge_policy \<Rightarrow>
   (string, 'a json_source) gomap merged" where
  "merge_sources current incoming [] policy = Merged incoming"
| "merge_sources current incoming (d # ds) policy =
     (case (map_of current (vd_source d), map_of incoming (vd_source d)) of
        (Some cur, Some inc) \<Rightarrow>
          (if source_is_nil cur \<and> source_is_nil inc then merge_sources current incoming ds policy
           else case merge_source cur inc (merge_strategy d policy) (mp_delete_with_null policy) of
                  MergePanic \<Rightarrow> MergePanic
                | Merged m \<Rightarrow> merge_sources current (put (vd_source d) m incoming) ds policy)
      | _ \<Rightarrow> merge_sources current incoming ds policy)"

section \<open>JSON merge patch\<close>


text \<open>
  Where the code follows the RFC: a patch over existing entries never meets a scalar, and an
  object that is new to the target has no nulls to strip and no repeated keys.
\<close>

fun null_free :: "'a json \<Rightarrow> bool" where
  "null_free JNull = False"
| "null_free (JScalar a) = True"
| "null_free (JArray xs) = True"
| "null_free (JObject es) = (distinct (map fst es) \<and> list_all (\<lambda>(k, v). null_free v) es)"

fun patchable :: "'a json option \<Rightarrow> 'a json \<Rightarrow> bool"
  and patchable_entries :: "'a json_map \<Rightarrow> (string \<times> 'a json) list \<Rightarrow> bool" where
  "patchable dst JNull = True"
| "patchable dst (JScalar a) = (case dst of Some (JScalar b) \<Rightarrow> False | _ \<Rightarrow> True)"
| "patchable dst (JArray xs) = (case dst of Some (JScalar b) \<Rightarrow> False | _ \<Rightarrow> True)"
| "patchable dst (JObject src) =
     (case dst of
        Some (JScalar b) \<Rightarrow> False
      | Some (JObject out) \<Rightarrow> patchable_entries out src
      | _ \<Rightarrow> null_free (JObject src))"
| "patchable_entries out [] = True"
| "patchable_entries out ((k, v) # es) =
     (patchable (map_of out k) v \<and> patchable_entries out es \<and> k \<notin> keys es)"




lemma patchable_entries_cong:
  "(\<And>k. k \<in> keys es \<Longrightarrow> map_of m k = map_of m' k) \<Longrightarrow> patchable_entries m es = patchable_entries m' es"
proof (induction es)
  case (Cons e es)
  then show ?case by (cases e) auto
qed simp

lemma patchable_entries_other [simp]:
  "k \<notin> keys es \<Longrightarrow> patchable_entries (put k w m) es = patchable_entries m es"
  "k \<notin> keys es \<Longrightarrow> patchable_entries (del k m) es = patchable_entries m es"
  by (subst patchable_entries_cong [of es _ m]; auto)+




lemma deep_merge_entries_panic:
  assumes "(k, v) \<in> set es" "v \<noteq> JNull" "map_of out k = Some (JScalar b)" "distinct (map fst es)"
  shows "deep_merge_entries out es del_null = MergePanic"
  using assms
proof (induction es arbitrary: out)
  case (Cons e es)
  obtain k' v' where e: "e = (k', v')" by fastforce
  show ?case
  proof (cases "k' = k")
    case True
    with Cons.prems(1,4) e have "v' = v" by force
    then have "deep_merge_value (map_of out k') v' del_null = MergePanic"
      using Cons.prems(2,3) True by (cases v) auto
    with e \<open>v' = v\<close> Cons.prems(2) show ?thesis by simp
  next
    case False
    with Cons.prems(1) e have i: "(k, v) \<in> set es" by simp
    have later: "deep_merge_entries m es del_null = MergePanic" if "map_of m k = Some (JScalar b)" for m
      by (rule Cons.IH [OF i Cons.prems(2) that]) (use Cons.prems(4) in simp)
    have "deep_merge_entries (del k' out) es del_null = MergePanic"
      "\<And>w. deep_merge_entries (put k' w out) es del_null = MergePanic"
      by (rule later, use False Cons.prems(3) in simp)+
    with e show ?thesis by (auto split: merged.split option.split)
  qed
qed simp

text \<open>
  Deep merging over a stored scalar panics: when an update carries any value other than
  null for a key whose stored value is a string, a number or a boolean, \<open>mergeMap\<close> calls \<open>IsNil\<close> on
  that value. This includes an update that carries the stored value itself, which the merge of the
  record with the existing one puts there.
\<close>

theorem scalar_entry_panics:
  assumes "map_of current k = Some (JScalar b)" "(k, v) \<in> set incoming" "v \<noteq> JNull"
    and "distinct (map fst incoming)" "strategy \<noteq> ''shallow''"
  shows "merge_map (Some current) (Some incoming) strategy del_null = MergePanic"
  using deep_merge_entries_panic [OF assms(2,3,1,4)] assms(5) by (simp add: merge_map_def)

lemma scalar_entry_panics_witness:
  "merge_map (Some [(''author'', JScalar ''Ada'')]) (Some [(''author'', JScalar ''Ada'')]) ''deep'' True = MergePanic"
  by (rule scalar_entry_panics [where k = "''author''" and b = "''Ada''" and v = "JScalar ''Ada''"]) simp_all


end
