(* ===== verification/Controller.thy ===== *)
theory Controller
  imports Service_Stack Virtual_Merge Query_Builder
begin

text \<open>
  The controller: the handlers of \<open>controller.go\<close> and the typed operations of
  \<open>controller_ops.go\<close>. A handler runs in the world of its request and answers with the call it
  makes on the response handler; what that call writes is modelled in \<open>Responses\<close>.
\<close>

section \<open>Requests and results\<close>

text \<open>The request itself, which no handler changes: its query, its \<open>id\<close> parameter and its body.\<close>

record http_request =
  hr_query :: http_query
  hr_id :: string
  hr_body :: string

text \<open>An error as the controller reports it: as it is, or wrapped as not found or invalid.\<close>

datatype 'err crud_error =
    PlainError "'err service_error"
  | QueryError build_error
  | NotFoundError "'err service_error"
  | ValidationFailure "'err service_error"

record option_item =
  oi_value :: string
  oi_label :: string

text \<open>The last call of a handler, or the panic it ends in.\<close>

datatype ('r, 'err) reply =
    OnError "'err crud_error" string
  | OnData 'r string "filters option"
  | OnEmpty string
  | OnList "'r list" string filters
  | OnOptions "option_item list"
  | OnPanic

section \<open>The controller\<close>

text \<open>
  The fields of \<open>Controller\<close> the handlers use, and what they call outside the package: the
  repository's handlers (\<open>ct_set_id\<close>, \<open>ct_get_id\<close>, \<open>ct_identifier\<close>; \<open>ct_new_record\<close> makes a
  record, by \<open>NewRecord\<close> or as a new variable), deserializers, \<open>uuid.Parse\<close>, the JSON decoding of
  identifiers, \<open>mergo.Merge\<close> (its destination and source, giving the changed destination), and the
  text of errors and values. \<open>ct_source\<close> reads a field as a virtual source and
  \<open>ct_of_source\<close> writes one. \<open>ct_type_name\<close> is the name of the model type, absent for a nil type.
\<close>

record ('e, 'r, 'v, 'w, 'h, 'err, 'a) controller =
  ct_resource :: string
  ct_type_name :: "string option"
  ct_guard :: "('err, 'e) scope_guard option"
  ct_policy :: "('e, 'r, 'v, 'w, 'err) policy_provider option"
  ct_context_factory :: "(http_request \<times> 'e request \<Rightarrow> (http_request \<times> 'e request) option) option"
  ct_activity :: "'e option"
  ct_notification :: "'e option"
  ct_service :: "('e, 'r, 'v, 'w, 'err) world_service"
  ct_read_service :: "('e, 'r, 'v, 'w, 'err) world_service option"
  ct_write_service :: "('e, 'r, 'v, 'w, 'err) world_service option"
  ct_route_methods :: "(string, string) gomap"
  ct_route_paths :: "(string, string) gomap"
  ct_route_names :: "(string, string) gomap"
  ct_virtual_defs :: "virtual_def list"
  ct_merge_policy :: merge_policy
  ct_globals :: crud_globals
  ct_model :: model_info
  ct_snake :: "string \<Rightarrow> string"
  ct_label_field :: string
  ct_zero :: 'r
  ct_zero_struct :: "'v cell list"
  ct_emitter_of :: "'e \<Rightarrow> 'h emitter"
  ct_runtime :: "('e, 'r, 'v, 'w, 'h, 'err) activity_runtime"
  ct_deserialize :: "string \<Rightarrow> http_request \<Rightarrow> (('e, 'r, 'v, 'w) world, 'r \<times> 'err option) state"
  ct_deserialize_many :: "string \<Rightarrow> http_request \<Rightarrow> (('e, 'r, 'v, 'w) world, 'r list \<times> 'err option) state"
  ct_set_id :: "('r \<Rightarrow> string \<Rightarrow> (('e, 'r, 'v, 'w) world, unit) state) option"
  ct_get_id :: "('v model_record \<Rightarrow> string) option"
  ct_identifier :: "('v model_record \<Rightarrow> string) option"
  ct_new_record :: "(('e, 'r, 'v, 'w) world, 'r) state"
  ct_parse_id :: "string \<Rightarrow> 'err + string"
  ct_decode_ids :: "string \<Rightarrow> 'err + string list"
  ct_mergo :: "'v model_record \<Rightarrow> 'v model_record \<Rightarrow> 'v model_record \<times> 'err option"
  ct_errorf :: "string \<Rightarrow> 'err"
  ct_error_text :: "'err service_error \<Rightarrow> string"
  ct_value_text :: "'v \<Rightarrow> string option"
  ct_source :: "'v \<Rightarrow> 'a json_source"
  ct_of_source :: "'a json_source \<Rightarrow> 'v"

definition resolved_read_service ::
  "('e, 'r, 'v, 'w, 'h, 'err, 'a) controller \<Rightarrow> ('e, 'r, 'v, 'w, 'err) world_service" where
  "resolved_read_service c = (case ct_read_service c of Some svc \<Rightarrow> svc | None \<Rightarrow> ct_service c)"

definition resolved_write_service ::
  "('e, 'r, 'v, 'w, 'h, 'err, 'a) controller \<Rightarrow> ('e, 'r, 'v, 'w, 'err) world_service" where
  "resolved_write_service c = (case ct_write_service c of Some svc \<Rightarrow> svc | None \<Rightarrow> ct_service c)"

section \<open>Hook contexts\<close>

definition operation_default_methods :: "(string, string) gomap" where
  "operation_default_methods =
     [(op_create, ''POST''), (op_create_batch, ''POST''), (op_read, ''GET''), (op_list, ''GET''),
      (op_update, ''PUT''), (op_update_batch, ''PUT''), (op_delete, ''DELETE''), (op_delete_batch, ''DELETE'')]"

definition method_for_operation :: "('e, 'r, 'v, 'w, 'h, 'err, 'a) controller \<Rightarrow> string \<Rightarrow> string" where
  "method_for_operation c op =
     (case map_of (ct_route_methods c) op of
        Some (m # ms) \<Rightarrow> m # ms
      | _ \<Rightarrow> (case map_of operation_default_methods op of Some m \<Rightarrow> m | None \<Rightarrow> []))"

definition route_name_for_operation :: "('e, 'r, 'v, 'w, 'h, 'err, 'a) controller \<Rightarrow> string \<Rightarrow> string" where
  "route_name_for_operation c op =
     (case map_of (ct_route_names c) op of
        Some (n # ns) \<Rightarrow> n # ns
      | _ \<Rightarrow> (if ct_resource c \<noteq> [] then ct_resource c @ '':'' @ op else op))"

definition controller_hook_metadata :: "('e, 'r, 'v, 'w, 'h, 'err, 'a) controller \<Rightarrow> string \<Rightarrow> hook_metadata" where
  "controller_hook_metadata c op =
     \<lparr>hm_operation = op, hm_resource = ct_resource c, hm_route_name = route_name_for_operation c op,
      hm_method = method_for_operation c op,
      hm_path = (case map_of (ct_route_paths c) op of Some p \<Rightarrow> p | None \<Rightarrow> [])\<rparr>"

definition new_hook_context ::
  "('e, 'r, 'v, 'w, 'h, 'err, 'a) controller \<Rightarrow> string \<Rightarrow> guard_request_context \<Rightarrow> 'e hook_context" where
  "new_hook_context c op meta =
     \<lparr>hc_metadata = controller_hook_metadata c op, hc_actor = clone_actor (gm_actor meta),
      hc_scope = clone_scope (gm_scope meta), hc_request_id = gm_request_id meta,
      hc_correlation_id = gm_correlation_id meta, hc_activity = ct_activity c,
      hc_notification = ct_notification c\<rparr>"

definition attach_hook_context ::
  "('e, 'r, 'v, 'w, 'h, 'err, 'a) controller \<Rightarrow> string \<Rightarrow> (('e, 'r, 'v, 'w) world, unit) state" where
  "attach_hook_context c op =
     update_request (\<lambda>r. set_user_context
       (context_with_notification_emitter (ct_notification c)
          (context_with_activity_emitter (ct_activity c)
             (context_with_hook_metadata (controller_hook_metadata c op) (rq_user r)))) r)"

section \<open>The beginning of every operation\<close>

definition apply_context_factory ::
  "('e, 'r, 'v, 'w, 'h, 'err, 'a) controller \<Rightarrow> http_request \<Rightarrow> (('e, 'r, 'v, 'w) world, http_request) state" where
  "apply_context_factory c hr = State (\<lambda>s.
     (case ct_context_factory c of
        None \<Rightarrow> (hr, s)
      | Some factory \<Rightarrow>
          (case factory (hr, wd_request s) of
             None \<Rightarrow> (hr, s)
           | Some (hr', r') \<Rightarrow> (hr', s\<lparr>wd_request := r'\<rparr>))))"

definition guard_context ::
  "('e, 'r, 'v, 'w, 'h, 'err, 'a) controller \<Rightarrow> string \<Rightarrow>
   (('e, 'r, 'v, 'w) world, 'err + guard_request_context) state" where
  "guard_context c op = State (\<lambda>s.
     (case resolve_guard_context (ct_guard c) (wd_request s) op of
        (r, answer) \<Rightarrow> (answer, s\<lparr>wd_request := r\<rparr>)))"

definition resolve_field_policy ::
  "('e, 'r, 'v, 'w, 'h, 'err, 'a) controller \<Rightarrow> string \<Rightarrow> guard_request_context \<Rightarrow>
   (('e, 'r, 'v, 'w) world, 'err service_error + 'v resolved_field_policy) state" where
  "resolve_field_policy c op meta =
     (case ct_policy c of
        None \<Rightarrow> State_Monad.return (Inr zero_resolved_policy)
      | Some provider \<Rightarrow> do {
          answer \<leftarrow> provider \<lparr>pq_operation = op, pq_actor = clone_actor (gm_actor meta),
            pq_scope = clone_scope (gm_scope meta), pq_resource = ct_resource c\<rparr>;
          State_Monad.return (case answer of
             Inl e \<Rightarrow> Inl e
           | Inr policy \<Rightarrow>
               Inr (build_resolved_field_policy policy (mi_allowed (ct_model c)) (ct_resource c) op))
        })"

text \<open>
  Context factory, guard, field policy and hook context, which every operation resolves in this
  order before anything else; \<open>fail\<close> is how the operation reports an error of these.
\<close>

definition opened ::
  "('e, 'r, 'v, 'w, 'h, 'err, 'a) controller \<Rightarrow> string \<Rightarrow> http_request \<Rightarrow> ('err crud_error \<Rightarrow> 'y) \<Rightarrow>
   (http_request \<Rightarrow> guard_request_context \<Rightarrow> 'v resolved_field_policy \<Rightarrow> (('e, 'r, 'v, 'w) world, 'y) state) \<Rightarrow>
   (('e, 'r, 'v, 'w) world, 'y) state" where
  "opened c op hr fail body = do {
     hr' \<leftarrow> apply_context_factory c hr;
     answer \<leftarrow> guard_context c op;
     (case answer of
        Inl e \<Rightarrow> State_Monad.return (fail (PlainError (Failed e)))
      | Inr meta \<Rightarrow> do {
          answer \<leftarrow> resolve_field_policy c op meta;
          (case answer of
             Inl e \<Rightarrow> State_Monad.return (fail (PlainError e))
           | Inr policy \<Rightarrow> do {
               _ \<leftarrow> attach_hook_context c op;
               body hr' meta policy
             })
        })
   }"

text \<open>The criteria of an operation: those of the request, the scope and the row filter.\<close>

definition restricted_criteria ::
  "criteria list \<Rightarrow> guard_request_context \<Rightarrow> 'v resolved_field_policy \<Rightarrow> criteria list" where
  "restricted_criteria cs meta policy =
     apply_field_policy_criteria (apply_scope_criteria cs (gm_scope meta)) policy"

section \<open>Activity\<close>

definition json_field_as_string ::
  "(string \<Rightarrow> string) \<Rightarrow> ('v \<Rightarrow> string option) \<Rightarrow> 'v model_record \<Rightarrow> string \<Rightarrow> string option" where
  "json_field_as_string snake text rec target =
     (let look = (\<lambda>cells.
            case find (\<lambda>x. sf_exported (cell_field x) \<and> json_field_name snake (cell_field x) = target) cells of
              None \<Rightarrow> None
            | Some x \<Rightarrow> map_option trim_space (text (cell_value x)))
      in if target = [] then None
         else case rec of RPointer cells \<Rightarrow> look cells | RStruct cells \<Rightarrow> look cells | _ \<Rightarrow> None)"

text \<open>The handlers of a record, at the time they are called.\<close>

definition handlers_at ::
  "('e, 'r, 'v, 'w, 'h, 'err, 'a) controller \<Rightarrow> ('r \<Rightarrow> 'v model_record) \<Rightarrow> 'r record_handlers" where
  "handlers_at c heap =
     \<lparr>rh_is_nil = (\<lambda>r. case heap r of RNil \<Rightarrow> True | _ \<Rightarrow> False),
      rh_get_id = map_option (\<lambda>f r. f (heap r)) (ct_get_id c),
      rh_get_identifier_value = map_option (\<lambda>f r. f (heap r)) (ct_identifier c),
      rh_json_field = (\<lambda>r. json_field_as_string (ct_snake c) (ct_value_text c) (heap r))\<rparr>"

definition resource_name :: "('e, 'r, 'v, 'w, 'h, 'err, 'a) controller \<Rightarrow> string" where
  "resource_name c =
     (if ct_resource c \<noteq> [] then ct_resource c
      else case ct_type_name c of Some n \<Rightarrow> to_lower n | None \<Rightarrow> ''resource'')"

fun emit_events ::
  "('e, 'r, 'v, 'w, 'h, 'err, 'a) controller \<Rightarrow> 'h emitter \<Rightarrow> 'e hook_context \<Rightarrow> activity_event list \<Rightarrow>
   (('e, 'r, 'v, 'w) world, unit) state" where
  "emit_events c em hctx [] = State_Monad.return ()"
| "emit_events c em hctx (e # es) = do {
     uc \<leftarrow> the_user_context;
     _ \<leftarrow> emit_event (ar_hook (ct_runtime c)) (ar_now (ct_runtime c)) (Some em) (hook_context_user uc hctx) e;
     emit_events c em hctx es
   }"

definition emit_activity_events ::
  "('e, 'r, 'v, 'w, 'h, 'err, 'a) controller \<Rightarrow> string \<Rightarrow> guard_request_context \<Rightarrow> 'r list \<Rightarrow>
   'err service_error option \<Rightarrow> (('e, 'r, 'v, 'w) world, unit) state" where
  "emit_activity_events c op meta rs err =
     (case ct_activity c of
        None \<Rightarrow> State_Monad.return ()
      | Some handle \<Rightarrow>
          (if \<not> emitter_enabled (Some (ct_emitter_of c handle)) then State_Monad.return ()
           else do {
             s \<leftarrow> State_Monad.get;
             (let hctx = new_hook_context c op meta
              in emit_events c (ct_emitter_of c handle) hctx
                   (build_activity_events (handlers_at c (wd_heap s)) (resource_name c) hctx op rs
                      (map_option (ct_error_text c) err)))
           }))"

text \<open>The end of an operation that failed after it was opened: report, then answer.\<close>

definition failed_with ::
  "('e, 'r, 'v, 'w, 'h, 'err, 'a) controller \<Rightarrow> string \<Rightarrow> guard_request_context \<Rightarrow> 'r list \<Rightarrow>
   'err service_error \<Rightarrow> 'y \<Rightarrow> (('e, 'r, 'v, 'w) world, 'y) state" where
  "failed_with c op meta rs e y = do {
     _ \<leftarrow> emit_activity_events c op meta rs (Some e);
     State_Monad.return y
   }"

section \<open>Merging an update with the stored record\<close>

text \<open>
  \<open>mergeRecordWithExisting\<close>: a pointer is merged in place, also when \<open>mergo\<close> then fails; a nil
  pointer or a struct is merged in a new variable, which the caller stores in the same place.
\<close>

definition merge_record_with_existing ::
  "('e, 'r, 'v, 'w, 'h, 'err, 'a) controller \<Rightarrow> 'r \<Rightarrow> 'r \<Rightarrow> (('e, 'r, 'v, 'w) world, 'r \<times> 'err option) state" where
  "merge_record_with_existing c r existing = State (\<lambda>s.
     (let heap = wd_heap s;
          target = (case heap r of RNil \<Rightarrow> RPointer (ct_zero_struct c) | v \<Rightarrow> v)
      in case ct_mergo c target (heap existing) of
           (merged, None) \<Rightarrow> ((r, None), s\<lparr>wd_heap := heap(r := merged)\<rparr>)
         | (merged, Some e) \<Rightarrow>
             ((ct_zero c, Some e),
              (case heap r of RPointer cells \<Rightarrow> s\<lparr>wd_heap := heap(r := merged)\<rparr> | _ \<Rightarrow> s))))"

definition virtual_sources :: "('v \<Rightarrow> 'a json_source) \<Rightarrow> 'v cell list \<Rightarrow> (string, 'a json_source) gomap" where
  "virtual_sources source cells = map (\<lambda>x. (sf_name (cell_field x), source (cell_value x))) cells"

definition store_sources ::
  "('v \<Rightarrow> 'a json_source) \<Rightarrow> ('a json_source \<Rightarrow> 'v) \<Rightarrow> (string, 'a json_source) gomap \<Rightarrow> 'v cell list \<Rightarrow>
   'v cell list" where
  "store_sources source of_source m cells =
     map (\<lambda>x. case map_of m (sf_name (cell_field x)) of
            None \<Rightarrow> x
          | Some src \<Rightarrow> (if src = source (cell_value x) then x else x\<lparr>cell_value := of_source src\<rparr>)) cells"

definition struct_cells :: "'v model_record \<Rightarrow> 'v cell list option" where
  "struct_cells rec = (case rec of RPointer cells \<Rightarrow> Some cells | RStruct cells \<Rightarrow> Some cells | _ \<Rightarrow> None)"

text \<open>\<open>mergeVirtualMaps\<close>; \<open>None\<close> is a panic, of the merge or of looking up a field of no struct.\<close>

definition merge_virtual_records ::
  "('e, 'r, 'v, 'w, 'h, 'err, 'a) controller \<Rightarrow> 'v model_record \<Rightarrow> 'v model_record \<Rightarrow> 'v model_record option" where
  "merge_virtual_records c current incoming =
     (if ct_virtual_defs c = [] then Some incoming
      else case incoming of
        RNil \<Rightarrow> Some incoming
      | _ \<Rightarrow>
          (case (struct_cells current, struct_cells incoming) of
             (Some cur, Some inc) \<Rightarrow>
               (case merge_sources (virtual_sources (ct_source c) cur) (virtual_sources (ct_source c) inc)
                       (ct_virtual_defs c) (ct_merge_policy c) of
                  MergePanic \<Rightarrow> None
                | Merged m \<Rightarrow>
                    (let cells = store_sources (ct_source c) (ct_of_source c) m inc
                     in Some (case incoming of RStruct xs \<Rightarrow> RStruct cells | _ \<Rightarrow> RPointer cells)))
           | _ \<Rightarrow> None))"

definition merge_virtual_maps ::
  "('e, 'r, 'v, 'w, 'h, 'err, 'a) controller \<Rightarrow> 'r \<Rightarrow> 'r \<Rightarrow> (('e, 'r, 'v, 'w) world, 'r option) state" where
  "merge_virtual_maps c existing r = State (\<lambda>s.
     (case merge_virtual_records c (wd_heap s existing) (wd_heap s r) of
        None \<Rightarrow> (None, s)
      | Some merged \<Rightarrow> (Some r, s\<lparr>wd_heap := (wd_heap s)(r := merged)\<rparr>)))"

section \<open>Option items\<close>

definition should_return_options :: "http_request \<Rightarrow> bool" where
  "should_return_options hr = equal_fold (trim_space (hq_query (hr_query hr) ''format'')) ''options''"

definition option_item_of :: "string \<Rightarrow> 'r record_handlers \<Rightarrow> 'r \<Rightarrow> option_item" where
  "option_item_of labelField h r =
     (let v1 = handler_text (rh_get_id h) r;
          v2 = (if v1 = [] then handler_text (rh_get_identifier_value h) r else v1);
          v3 = (if v2 = [] then (case rh_json_field h r ''id'' of Some v \<Rightarrow> v | None \<Rightarrow> v2) else v2);
          l1 = (if labelField \<noteq> [] then (case rh_json_field h r labelField of Some v \<Rightarrow> v | None \<Rightarrow> []) else []);
          l2 = (if l1 = [] then handler_text (rh_get_identifier_value h) r else l1)
      in \<lparr>oi_value = v3, oi_label = (if l2 = [] then v3 else l2)\<rparr>)"

definition build_option_items ::
  "('e, 'r, 'v, 'w, 'h, 'err, 'a) controller \<Rightarrow> ('r \<Rightarrow> 'v model_record) \<Rightarrow> 'r list \<Rightarrow> option_item list" where
  "build_option_items c heap rs = map (option_item_of (ct_label_field c) (handlers_at c heap)) rs"

text \<open>What a handler answers with the records of a list or a batch.\<close>

definition list_reply ::
  "('e, 'r, 'v, 'w, 'h, 'err, 'a) controller \<Rightarrow> http_request \<Rightarrow> string \<Rightarrow> 'r list \<Rightarrow> filters \<Rightarrow>
   (('e, 'r, 'v, 'w) world, ('r, 'err) reply) state" where
  "list_reply c hr op rs fs = State (\<lambda>s.
     ((if should_return_options hr then OnOptions (build_option_items c (wd_heap s) rs)
       else OnList rs op fs), s))"

definition batch_filters :: "string \<Rightarrow> 'r list \<Rightarrow> filters" where
  "batch_filters op rs =
     \<lparr>fl_operation = op, fl_limit = 0, fl_offset = 0, fl_page = 0, fl_search = [], fl_adjusted = False,
      fl_count = int (length rs), fl_order = [], fl_fields = [], fl_include = [], fl_relations = []\<rparr>"

section \<open>Reading\<close>

definition show_record ::
  "('e, 'r, 'v, 'w, 'h, 'err, 'a) controller \<Rightarrow> http_request \<Rightarrow> (('e, 'r, 'v, 'w) world, ('r, 'err) reply) state" where
  "show_record c hr0 = opened c op_read hr0 (\<lambda>e. OnError e op_read) (\<lambda>hr meta policy.
     (case build_query_criteria_with (ct_globals c) (ct_model c) (hr_query hr) op_read (policy_query_options policy) of
        Inl e \<Rightarrow> State_Monad.return (OnError (QueryError e) op_read)
      | Inr (cs, fs) \<Rightarrow> do {
          (r, err) \<leftarrow> sv_show (resolved_read_service c) (hr_id hr) (restricted_criteria cs meta policy);
          (case err of
             Some e \<Rightarrow> State_Monad.return (OnError (NotFoundError e) op_read)
           | None \<Rightarrow> do {
               _ \<leftarrow> mask_record (ct_snake c) policy r;
               State_Monad.return (OnData r op_read (Some fs))
             })
        }))"

text \<open>The end of a list: its records masked and answered.\<close>

definition index_reply ::
  "('e, 'r, 'v, 'w, 'h, 'err, 'a) controller \<Rightarrow> http_request \<Rightarrow> 'v resolved_field_policy \<Rightarrow> 'r list \<Rightarrow> filters \<Rightarrow>
   (('e, 'r, 'v, 'w) world, ('r, 'err) reply) state" where
  "index_reply c hr policy rs fs = do {
     _ \<leftarrow> mask_slice (ct_snake c) policy rs;
     list_reply c hr op_list rs fs
   }"

definition index_records ::
  "('e, 'r, 'v, 'w, 'h, 'err, 'a) controller \<Rightarrow> http_request \<Rightarrow> (('e, 'r, 'v, 'w) world, ('r, 'err) reply) state" where
  "index_records c hr0 = opened c op_list hr0 (\<lambda>e. OnError e op_list) (\<lambda>hr meta policy.
     (case build_query_criteria_with (ct_globals c) (ct_model c) (hr_query hr) op_list (policy_query_options policy) of
        Inl e \<Rightarrow> State_Monad.return (OnError (QueryError e) op_list)
      | Inr (cs0, fs0) \<Rightarrow>
          (let cs = restricted_criteria cs0 meta policy
           in do {
             (rs, count, err) \<leftarrow> sv_index (resolved_read_service c) cs;
             (case err of
                Some e \<Rightarrow> State_Monad.return (OnError (PlainError e) op_list)
              | None \<Rightarrow>
                  (let (fs, adjusted) = normalize_pagination (fs0\<lparr>fl_count := count\<rparr>) count
                   in if adjusted \<and> count > 0 \<and> fl_offset fs \<noteq> fl_offset fs0
                      then do {
                        (rs', count', err') \<leftarrow> sv_index (resolved_read_service c)
                          (cs @ [pagination_criteria (fl_limit fs) (fl_offset fs)]);
                        (case err' of
                           Some e \<Rightarrow> State_Monad.return (OnError (PlainError e) op_list)
                         | None \<Rightarrow> index_reply c hr policy rs' fs)
                      }
                      else index_reply c hr policy rs fs))
           })))"

section \<open>Creating\<close>

text \<open>
  What a create does once it has its record, in \<open>Create\<close> and in \<open>CreateRecord\<close>: \<open>fail\<close> and \<open>ok\<close>
  are the results of the two.
\<close>

definition create_with ::
  "('e, 'r, 'v, 'w, 'h, 'err, 'a) controller \<Rightarrow> guard_request_context \<Rightarrow> 'v resolved_field_policy \<Rightarrow>
   ('err crud_error \<Rightarrow> 'y) \<Rightarrow> ('r \<Rightarrow> 'y) \<Rightarrow> 'r \<Rightarrow> (('e, 'r, 'v, 'w) world, 'y) state" where
  "create_with c meta policy fail ok r = do {
     (created, err) \<leftarrow> sv_create (resolved_write_service c) r;
     (case err of
        Some e \<Rightarrow> failed_with c op_create meta [r] e (fail (PlainError e))
      | None \<Rightarrow> do {
          _ \<leftarrow> emit_activity_events c op_create meta [created] None;
          _ \<leftarrow> mask_record (ct_snake c) policy created;
          State_Monad.return (ok created)
        })
   }"

definition create_handler ::
  "('e, 'r, 'v, 'w, 'h, 'err, 'a) controller \<Rightarrow> http_request \<Rightarrow> (('e, 'r, 'v, 'w) world, ('r, 'err) reply) state" where
  "create_handler c hr0 = opened c op_create hr0 (\<lambda>e. OnError e op_create) (\<lambda>hr meta policy. do {
     (r, err) \<leftarrow> ct_deserialize c op_create hr;
     (case err of
        Some e \<Rightarrow> failed_with c op_create meta [r] (Failed e) (OnError (ValidationFailure (Failed e)) op_create)
      | None \<Rightarrow> create_with c meta policy (\<lambda>e. OnError e op_create) (\<lambda>r. OnData r op_create None) r)
   })"

definition create_batch_with ::
  "('e, 'r, 'v, 'w, 'h, 'err, 'a) controller \<Rightarrow> guard_request_context \<Rightarrow> 'v resolved_field_policy \<Rightarrow>
   ('err crud_error \<Rightarrow> 'y) \<Rightarrow> ('r list \<Rightarrow> (('e, 'r, 'v, 'w) world, 'y) state) \<Rightarrow> 'r list \<Rightarrow>
   (('e, 'r, 'v, 'w) world, 'y) state" where
  "create_batch_with c meta policy fail ok rs = do {
     (created, err) \<leftarrow> sv_create_batch (resolved_write_service c) rs;
     (case err of
        Some e \<Rightarrow> failed_with c op_create_batch meta rs e (fail (PlainError e))
      | None \<Rightarrow> do {
          _ \<leftarrow> emit_activity_events c op_create_batch meta created None;
          _ \<leftarrow> mask_slice (ct_snake c) policy created;
          ok created
        })
   }"

definition create_batch_handler ::
  "('e, 'r, 'v, 'w, 'h, 'err, 'a) controller \<Rightarrow> http_request \<Rightarrow> (('e, 'r, 'v, 'w) world, ('r, 'err) reply) state" where
  "create_batch_handler c hr0 = opened c op_create_batch hr0 (\<lambda>e. OnError e op_create_batch) (\<lambda>hr meta policy. do {
     (rs, err) \<leftarrow> ct_deserialize_many c op_create_batch hr;
     (case err of
        Some e \<Rightarrow> failed_with c op_create_batch meta rs (Failed e) (OnError (ValidationFailure (Failed e)) op_create_batch)
      | None \<Rightarrow> create_batch_with c meta policy (\<lambda>e. OnError e op_create_batch)
          (\<lambda>created. list_reply c hr op_create_batch created (batch_filters op_create_batch created)) rs)
   })"

section \<open>Updating\<close>

text \<open>
  The stored record of an update, looked up under the restrictions of the request, merged into the
  new one. \<open>on_merge\<close> is what an activity event names when \<open>mergo\<close> fails: \<open>Update\<close> has then
  overwritten its record with the zero one, \<open>UpdateRecord\<close> has not.
\<close>

definition update_with ::
  "('e, 'r, 'v, 'w, 'h, 'err, 'a) controller \<Rightarrow> guard_request_context \<Rightarrow> 'v resolved_field_policy \<Rightarrow>
   ('err crud_error \<Rightarrow> 'y) \<Rightarrow> ('r \<Rightarrow> 'y) \<Rightarrow> 'y \<Rightarrow> ('r \<Rightarrow> 'r) \<Rightarrow> string \<Rightarrow> string \<Rightarrow> 'r \<Rightarrow>
   (('e, 'r, 'v, 'w) world, 'y) state" where
  "update_with c meta policy fail ok panic on_merge idStr uid r =
     (case ct_set_id c of
        None \<Rightarrow> State_Monad.return panic
      | Some setID \<Rightarrow> do {
          _ \<leftarrow> setID r uid;
          (existing, err) \<leftarrow> sv_show (resolved_write_service c) idStr (restricted_criteria [] meta policy);
          (case err of
             Some e \<Rightarrow> failed_with c op_update meta [r] e (fail (NotFoundError e))
           | None \<Rightarrow> do {
               (merged, err) \<leftarrow> merge_record_with_existing c r existing;
               (case err of
                  Some e \<Rightarrow> failed_with c op_update meta [on_merge r] (Failed e) (fail (PlainError (Failed e)))
                | None \<Rightarrow> do {
                    final \<leftarrow> merge_virtual_maps c existing merged;
                    (case final of
                       None \<Rightarrow> State_Monad.return panic
                     | Some rec \<Rightarrow> do {
                         (updated, err) \<leftarrow> sv_update (resolved_write_service c) rec;
                         (case err of
                            Some e \<Rightarrow> failed_with c op_update meta [rec] e (fail (PlainError e))
                          | None \<Rightarrow> do {
                              _ \<leftarrow> emit_activity_events c op_update meta [updated] None;
                              _ \<leftarrow> mask_record (ct_snake c) policy updated;
                              State_Monad.return (ok updated)
                            })
                       })
                  })
             })
        })"

definition update_handler ::
  "('e, 'r, 'v, 'w, 'h, 'err, 'a) controller \<Rightarrow> http_request \<Rightarrow> (('e, 'r, 'v, 'w) world, ('r, 'err) reply) state" where
  "update_handler c hr0 = opened c op_update hr0 (\<lambda>e. OnError e op_update) (\<lambda>hr meta policy.
     (case ct_parse_id c (hr_id hr) of
        Inl e \<Rightarrow> failed_with c op_update meta [] (Failed e) (OnError (ValidationFailure (Failed e)) op_update)
      | Inr uid \<Rightarrow> do {
          (r, err) \<leftarrow> ct_deserialize c op_update hr;
          (case err of
             Some e \<Rightarrow> failed_with c op_update meta [r] (Failed e) (OnError (ValidationFailure (Failed e)) op_update)
           | None \<Rightarrow> update_with c meta policy (\<lambda>e. OnError e op_update) (\<lambda>r. OnData r op_update None) OnPanic
               (\<lambda>r. ct_zero c) (hr_id hr) uid r)
        }))"

datatype 'err merge_stop = StopNotFound "'err service_error" | StopFailed "'err service_error" | StopPanic

text \<open>
  The loop of a batch update. It stops at the first record that is not found or cannot be merged;
  records merged before that stay merged.
\<close>

fun merge_each ::
  "('e, 'r, 'v, 'w, 'h, 'err, 'a) controller \<Rightarrow> criteria list \<Rightarrow> 'r list \<Rightarrow>
   (('e, 'r, 'v, 'w) world, 'err merge_stop option) state" where
  "merge_each c cs [] = State_Monad.return None"
| "merge_each c cs (r # rs) =
     (case ct_get_id c of
        None \<Rightarrow> State_Monad.return (Some StopPanic)
      | Some getID \<Rightarrow> do {
          s \<leftarrow> State_Monad.get;
          (existing, err) \<leftarrow> sv_show (resolved_write_service c) (getID (wd_heap s r)) cs;
          (case err of
             Some e \<Rightarrow> State_Monad.return (Some (StopNotFound e))
           | None \<Rightarrow> do {
               (merged, err) \<leftarrow> merge_record_with_existing c r existing;
               (case err of
                  Some e \<Rightarrow> State_Monad.return (Some (StopFailed (Failed e)))
                | None \<Rightarrow> do {
                    final \<leftarrow> merge_virtual_maps c existing merged;
                    (case final of
                       None \<Rightarrow> State_Monad.return (Some StopPanic)
                     | Some rec \<Rightarrow> merge_each c cs rs)
                  })
             })
        })"

definition update_batch_with ::
  "('e, 'r, 'v, 'w, 'h, 'err, 'a) controller \<Rightarrow> guard_request_context \<Rightarrow> 'v resolved_field_policy \<Rightarrow>
   ('err crud_error \<Rightarrow> 'y) \<Rightarrow> ('r list \<Rightarrow> (('e, 'r, 'v, 'w) world, 'y) state) \<Rightarrow> 'y \<Rightarrow> 'r list \<Rightarrow>
   (('e, 'r, 'v, 'w) world, 'y) state" where
  "update_batch_with c meta policy fail ok panic rs = do {
     stop \<leftarrow> merge_each c (restricted_criteria [] meta policy) rs;
     (case stop of
        Some (StopNotFound e) \<Rightarrow> failed_with c op_update_batch meta rs e (fail (NotFoundError e))
      | Some (StopFailed e) \<Rightarrow> failed_with c op_update_batch meta rs e (fail (PlainError e))
      | Some StopPanic \<Rightarrow> State_Monad.return panic
      | None \<Rightarrow> do {
          (updated, err) \<leftarrow> sv_update_batch (resolved_write_service c) rs;
          (case err of
             Some e \<Rightarrow> failed_with c op_update_batch meta rs e (fail (PlainError e))
           | None \<Rightarrow> do {
               _ \<leftarrow> emit_activity_events c op_update_batch meta updated None;
               _ \<leftarrow> mask_slice (ct_snake c) policy updated;
               ok updated
             })
        })
   }"

definition update_batch_handler ::
  "('e, 'r, 'v, 'w, 'h, 'err, 'a) controller \<Rightarrow> http_request \<Rightarrow> (('e, 'r, 'v, 'w) world, ('r, 'err) reply) state" where
  "update_batch_handler c hr0 = opened c op_update_batch hr0 (\<lambda>e. OnError e op_update_batch) (\<lambda>hr meta policy. do {
     (rs, err) \<leftarrow> ct_deserialize_many c op_update_batch hr;
     (case err of
        Some e \<Rightarrow> failed_with c op_update_batch meta rs (Failed e) (OnError (ValidationFailure (Failed e)) op_update_batch)
      | None \<Rightarrow> update_batch_with c meta policy (\<lambda>e. OnError e op_update_batch)
          (\<lambda>updated. list_reply c hr op_update_batch updated (batch_filters op_update_batch updated)) OnPanic rs)
   })"

section \<open>Deleting\<close>

definition delete_with ::
  "('e, 'r, 'v, 'w, 'h, 'err, 'a) controller \<Rightarrow> guard_request_context \<Rightarrow> 'v resolved_field_policy \<Rightarrow>
   ('err crud_error \<Rightarrow> 'y) \<Rightarrow> 'y \<Rightarrow> string \<Rightarrow> (('e, 'r, 'v, 'w) world, 'y) state" where
  "delete_with c meta policy fail ok i = do {
     (r, err) \<leftarrow> sv_show (resolved_write_service c) i (restricted_criteria [] meta policy);
     (case err of
        Some e \<Rightarrow> failed_with c op_delete meta [] e (fail (NotFoundError e))
      | None \<Rightarrow> do {
          err \<leftarrow> sv_delete (resolved_write_service c) r;
          (case err of
             Some e \<Rightarrow> failed_with c op_delete meta [r] e (fail (PlainError e))
           | None \<Rightarrow> do {
               _ \<leftarrow> emit_activity_events c op_delete meta [r] None;
               State_Monad.return ok
             })
        })
   }"

definition delete_handler ::
  "('e, 'r, 'v, 'w, 'h, 'err, 'a) controller \<Rightarrow> http_request \<Rightarrow> (('e, 'r, 'v, 'w) world, ('r, 'err) reply) state" where
  "delete_handler c hr0 = opened c op_delete hr0 (\<lambda>e. OnError e op_delete) (\<lambda>hr meta policy.
     delete_with c meta policy (\<lambda>e. OnError e op_delete) (OnEmpty op_delete) (hr_id hr))"

text \<open>\<open>recordsFromIDs\<close>: the loop stops at the first blank or malformed identifier.\<close>

fun records_from_ids_loop ::
  "('e, 'r, 'v, 'w, 'h, 'err, 'a) controller \<Rightarrow> ('r \<Rightarrow> string \<Rightarrow> (('e, 'r, 'v, 'w) world, unit) state) \<Rightarrow>
   string list \<Rightarrow> (('e, 'r, 'v, 'w) world, 'err + 'r list) state" where
  "records_from_ids_loop c setID [] = State_Monad.return (Inr [])"
| "records_from_ids_loop c setID (raw # raws) =
     (if trim_space raw = [] then State_Monad.return (Inl (ct_errorf c ''empty record id''))
      else case ct_parse_id c (trim_space raw) of
        Inl e \<Rightarrow> State_Monad.return (Inl e)
      | Inr uid \<Rightarrow> do {
          r \<leftarrow> ct_new_record c;
          _ \<leftarrow> setID r uid;
          rest \<leftarrow> records_from_ids_loop c setID raws;
          State_Monad.return (case rest of Inl e \<Rightarrow> Inl e | Inr rs \<Rightarrow> Inr (r # rs))
        })"

definition records_from_ids ::
  "('e, 'r, 'v, 'w, 'h, 'err, 'a) controller \<Rightarrow> string list \<Rightarrow> (('e, 'r, 'v, 'w) world, 'err + 'r list) state" where
  "records_from_ids c ids =
     (case ct_set_id c of
        None \<Rightarrow> State_Monad.return (Inl (ct_errorf c ''missing record id setter''))
      | Some setID \<Rightarrow> records_from_ids_loop c setID ids)"

text \<open>The body of a batch delete: records, or else identifiers; records that came with an error are dropped.\<close>

definition decode_delete_batch ::
  "('e, 'r, 'v, 'w, 'h, 'err, 'a) controller \<Rightarrow> http_request \<Rightarrow> (('e, 'r, 'v, 'w) world, 'err + 'r list) state" where
  "decode_delete_batch c hr = do {
     (rs, err) \<leftarrow> ct_deserialize_many c op_delete_batch hr;
     (case err of
        None \<Rightarrow> State_Monad.return (Inr rs)
      | Some e \<Rightarrow>
          (if hr_body hr = [] then State_Monad.return (Inl e)
           else case ct_decode_ids c (hr_body hr) of
             Inl e' \<Rightarrow> State_Monad.return (Inl e)
           | Inr ids \<Rightarrow> records_from_ids c ids))
   }"

definition delete_batch_with ::
  "('e, 'r, 'v, 'w, 'h, 'err, 'a) controller \<Rightarrow> guard_request_context \<Rightarrow>
   ('err crud_error \<Rightarrow> 'y) \<Rightarrow> 'y \<Rightarrow> 'r list \<Rightarrow> (('e, 'r, 'v, 'w) world, 'y) state" where
  "delete_batch_with c meta fail ok rs = do {
     err \<leftarrow> sv_delete_batch (resolved_write_service c) rs;
     (case err of
        Some e \<Rightarrow> failed_with c op_delete_batch meta rs e (fail (PlainError e))
      | None \<Rightarrow> do {
          _ \<leftarrow> emit_activity_events c op_delete_batch meta rs None;
          State_Monad.return ok
        })
   }"

definition delete_batch_handler ::
  "('e, 'r, 'v, 'w, 'h, 'err, 'a) controller \<Rightarrow> http_request \<Rightarrow> (('e, 'r, 'v, 'w) world, ('r, 'err) reply) state" where
  "delete_batch_handler c hr0 = opened c op_delete_batch hr0 (\<lambda>e. OnError e op_delete_batch) (\<lambda>hr meta policy. do {
     answer \<leftarrow> decode_delete_batch c hr;
     (case answer of
        Inl e \<Rightarrow> failed_with c op_delete_batch meta [] (Failed e) (OnError (ValidationFailure (Failed e)) op_delete_batch)
      | Inr rs \<Rightarrow> delete_batch_with c meta (\<lambda>e. OnError e op_delete_batch) (OnEmpty op_delete_batch) rs)
   })"

section \<open>The typed operations\<close>

text \<open>The operations of \<open>controller_ops.go\<close>, without HTTP parsing and rendering; a result is \<open>None\<close> when they panic.\<close>

type_synonym ('r, 'err) typed_result = "('r \<times> 'err crud_error option) option"

definition show_by_id ::
  "('e, 'r, 'v, 'w, 'h, 'err, 'a) controller \<Rightarrow> http_request \<Rightarrow> string \<Rightarrow> criteria list \<Rightarrow>
   (('e, 'r, 'v, 'w) world, 'r \<times> 'err crud_error option) state" where
  "show_by_id c hr0 i cs = opened c op_read hr0 (\<lambda>e. (ct_zero c, Some e)) (\<lambda>hr meta policy. do {
     (r, err) \<leftarrow> sv_show (resolved_read_service c) (trim_space i) (restricted_criteria cs meta policy);
     (case err of
        Some e \<Rightarrow> State_Monad.return (ct_zero c, Some (NotFoundError e))
      | None \<Rightarrow> do { _ \<leftarrow> mask_record (ct_snake c) policy r; State_Monad.return (r, None) })
   })"

definition index_with ::
  "('e, 'r, 'v, 'w, 'h, 'err, 'a) controller \<Rightarrow> http_request \<Rightarrow> criteria list \<Rightarrow>
   (('e, 'r, 'v, 'w) world, 'r list \<times> int \<times> 'err crud_error option) state" where
  "index_with c hr0 cs = opened c op_list hr0 (\<lambda>e. ([], 0, Some e)) (\<lambda>hr meta policy. do {
     (rs, count, err) \<leftarrow> sv_index (resolved_read_service c) (restricted_criteria cs meta policy);
     (case err of
        Some e \<Rightarrow> State_Monad.return ([], 0, Some (PlainError e))
      | None \<Rightarrow> do { _ \<leftarrow> mask_slice (ct_snake c) policy rs; State_Monad.return (rs, count, None) })
   })"

definition create_record ::
  "('e, 'r, 'v, 'w, 'h, 'err, 'a) controller \<Rightarrow> http_request \<Rightarrow> 'r \<Rightarrow>
   (('e, 'r, 'v, 'w) world, 'r \<times> 'err crud_error option) state" where
  "create_record c hr0 r = opened c op_create hr0 (\<lambda>e. (ct_zero c, Some e)) (\<lambda>hr meta policy.
     create_with c meta policy (\<lambda>e. (ct_zero c, Some e)) (\<lambda>r. (r, None)) r)"

definition create_records ::
  "('e, 'r, 'v, 'w, 'h, 'err, 'a) controller \<Rightarrow> http_request \<Rightarrow> 'r list \<Rightarrow>
   (('e, 'r, 'v, 'w) world, 'r list \<times> 'err crud_error option) state" where
  "create_records c hr0 rs = opened c op_create_batch hr0 (\<lambda>e. ([], Some e)) (\<lambda>hr meta policy.
     create_batch_with c meta policy (\<lambda>e. ([], Some e)) (\<lambda>rs. State_Monad.return (rs, None)) rs)"

definition update_record ::
  "('e, 'r, 'v, 'w, 'h, 'err, 'a) controller \<Rightarrow> http_request \<Rightarrow> string \<Rightarrow> 'r \<Rightarrow>
   (('e, 'r, 'v, 'w) world, ('r, 'err) typed_result) state" where
  "update_record c hr0 i r = opened c op_update hr0 (\<lambda>e. Some (ct_zero c, Some e)) (\<lambda>hr meta policy.
     (case ct_parse_id c (trim_space i) of
        Inl e \<Rightarrow> failed_with c op_update meta [] (Failed e) (Some (ct_zero c, Some (ValidationFailure (Failed e))))
      | Inr uid \<Rightarrow> update_with c meta policy (\<lambda>e. Some (ct_zero c, Some e)) (\<lambda>r. Some (r, None)) None
          (\<lambda>r. r) (trim_space i) uid r))"

definition update_records ::
  "('e, 'r, 'v, 'w, 'h, 'err, 'a) controller \<Rightarrow> http_request \<Rightarrow> 'r list \<Rightarrow>
   (('e, 'r, 'v, 'w) world, ('r list, 'err) typed_result) state" where
  "update_records c hr0 rs = opened c op_update_batch hr0 (\<lambda>e. Some ([], Some e)) (\<lambda>hr meta policy.
     update_batch_with c meta policy (\<lambda>e. Some ([], Some e)) (\<lambda>rs. State_Monad.return (Some (rs, None))) None rs)"

definition delete_by_id ::
  "('e, 'r, 'v, 'w, 'h, 'err, 'a) controller \<Rightarrow> http_request \<Rightarrow> string \<Rightarrow>
   (('e, 'r, 'v, 'w) world, 'err crud_error option) state" where
  "delete_by_id c hr0 i = opened c op_delete hr0 Some (\<lambda>hr meta policy.
     delete_with c meta policy Some None (trim_space i))"

definition delete_records ::
  "('e, 'r, 'v, 'w, 'h, 'err, 'a) controller \<Rightarrow> http_request \<Rightarrow> 'r list \<Rightarrow>
   (('e, 'r, 'v, 'w) world, 'err crud_error option) state" where
  "delete_records c hr0 rs = opened c op_delete_batch hr0 Some (\<lambda>hr meta policy.
     delete_batch_with c meta Some None rs)"


end
