(* ===== verification/Service_Properties.thy ===== *)
theory Service_Properties
  imports Service_Stack
begin

text \<open>
  What a service built by \<open>NewService\<close> guarantees, whatever its repository and callbacks do.
\<close>

section \<open>The contract of the whole stack\<close>

text \<open>
  C1 (refinement). A service built by \<open>NewService\<close> refines its repository service, whatever
  layers are configured and whatever their callbacks do: for each of the eight operations the
  stack either refuses with an error before the repository is reached, or calls the repository
  operation exactly once, with the record of the caller (reads: with the criteria of the caller,
  possibly followed by more). A repository error comes back untouched with nothing done after it,
  and no layer replaces a returned record, list or count.
\<close>

theorem new_service_contract:
  "wraps_op (=) snd fst (\<lambda>repo. sv_create (new_service rt zero fm snake (with_repository cfg repo)))
     (\<lambda>repo. sv_create (base_service (with_repository cfg repo))) \<and>
   wraps_op (=) snd fst (\<lambda>repo. sv_create_batch (new_service rt zero fm snake (with_repository cfg repo)))
     (\<lambda>repo. sv_create_batch (base_service (with_repository cfg repo))) \<and>
   wraps_op (=) snd fst (\<lambda>repo. sv_update (new_service rt zero fm snake (with_repository cfg repo)))
     (\<lambda>repo. sv_update (base_service (with_repository cfg repo))) \<and>
   wraps_op (=) snd fst (\<lambda>repo. sv_update_batch (new_service rt zero fm snake (with_repository cfg repo)))
     (\<lambda>repo. sv_update_batch (base_service (with_repository cfg repo))) \<and>
   wraps_op (=) id (\<lambda>y. ()) (\<lambda>repo. sv_delete (new_service rt zero fm snake (with_repository cfg repo)))
     (\<lambda>repo. sv_delete (base_service (with_repository cfg repo))) \<and>
   wraps_op (=) id (\<lambda>y. ()) (\<lambda>repo. sv_delete_batch (new_service rt zero fm snake (with_repository cfg repo)))
     (\<lambda>repo. sv_delete_batch (base_service (with_repository cfg repo))) \<and>
   wraps_op more_criteria page_error page_value
     (\<lambda>repo. sv_index (new_service rt zero fm snake (with_repository cfg repo)))
     (\<lambda>repo. sv_index (base_service (with_repository cfg repo))) \<and>
   wraps_op more_show_criteria snd fst
     (\<lambda>repo. show_of (new_service rt zero fm snake (with_repository cfg repo)))
     (\<lambda>repo. show_of (base_service (with_repository cfg repo)))"
  by (intro conjI built.create built.create_batch built.update built.update_batch built.delete
      built.delete_batch built.index built.show_one)

section \<open>The stack below and above the guard\<close>

definition inner_stack ::
  "('e, 'r, 'v, 'w, 'h, 'err) service_config \<Rightarrow> ('e, 'r, 'v, 'w, 'err) world_service \<Rightarrow>
   ('e, 'r, 'v, 'w, 'err) world_service" where
  "inner_stack cfg =
     (if hooks_empty (sc_hooks cfg) then id else hooks_service (sc_hooks cfg))
     \<circ> (case sc_validator cfg of None \<Rightarrow> id | Some v \<Rightarrow> validation_service v)
     \<circ> (case sc_virtual_fields cfg of None \<Rightarrow> id | Some h \<Rightarrow> virtual_field_service h)"

definition outer_stack ::
  "('e, 'r, 'v, 'w, 'h, 'err) activity_runtime \<Rightarrow> 'r \<Rightarrow> field_map \<Rightarrow> (string \<Rightarrow> string) \<Rightarrow>
   ('e, 'r, 'v, 'w, 'h, 'err) service_config \<Rightarrow> ('e, 'r, 'v, 'w, 'err) world_service \<Rightarrow>
   ('e, 'r, 'v, 'w, 'err) world_service" where
  "outer_stack rt zero fm snake cfg =
     (let em = Some (new_emitter (sc_activity_hooks cfg) (sc_activity_config cfg))
      in (if emitter_enabled em \<or> sc_notification_emitter cfg \<noteq> None
          then activity_service rt em (sc_notification_emitter cfg) else id))
     \<circ> (case sc_field_policy cfg of None \<Rightarrow> id
        | Some p \<Rightarrow> field_policy_service zero (Some p)
            \<lparr>pm_resource_name = sc_resource_name cfg, pm_type_resource = sc_type_resource cfg,
             pm_fields = fm, pm_snake = snake\<rparr>)"

lemma service_stack_split:
  "service_stack rt zero fm snake cfg =
     outer_stack rt zero fm snake cfg \<circ>
     (case sc_scope_guard cfg of None \<Rightarrow> id | Some g \<Rightarrow> scope_guard_service zero g) \<circ> inner_stack cfg"
  by (simp add: service_stack_def outer_stack_def inner_stack_def comp_assoc)

interpretation inner: service_layer "inner_stack cfg" "\<lambda>svc. svc"
  for cfg :: "('e, 'r, 'v, 'w, 'h, 'err) service_config"
  unfolding inner_stack_def
  by (intro service_layer_comp)
    (auto intro: hooks_layer.service_layer_axioms validation_layer.service_layer_axioms
       virtual_layer.service_layer_axioms split: option.split)

interpretation outer: service_layer "outer_stack rt zero fm snake cfg" "\<lambda>svc. svc"
  for rt :: "('e, 'r, 'v, 'w, 'h, 'err) activity_runtime" and zero :: 'r and fm :: field_map
    and snake :: "string \<Rightarrow> string" and cfg :: "('e, 'r, 'v, 'w, 'h, 'err) service_config"
  unfolding outer_stack_def Let_def
  by (intro service_layer_comp)
    (auto intro: activity_layer.service_layer_axioms policy_layer.service_layer_axioms split: option.split)


section \<open>Refused requests\<close>

text \<open>
  When the guard of a service refuses a request, the write is refused with the guard's
  error, and the guard was all that ran: no hook, validator, repository call, activity or
  notification changes the world further.
\<close>

theorem guard_refuses_write:
  assumes "sc_scope_guard cfg = Some g" and "\<And>op. run_state (g op) s = (Inl e, s')"
  shows "run_state (sv_create (new_service rt zero fm snake cfg) r) s = ((r, Some e), s') \<and>
    run_state (sv_create_batch (new_service rt zero fm snake cfg) rs) s = (([], Some e), s') \<and>
    run_state (sv_update (new_service rt zero fm snake cfg) r) s = ((r, Some e), s') \<and>
    run_state (sv_update_batch (new_service rt zero fm snake cfg) rs) s = (([], Some e), s') \<and>
    run_state (sv_delete (new_service rt zero fm snake cfg) r) s = (Some e, s') \<and>
    run_state (sv_delete_batch (new_service rt zero fm snake cfg) rs) s = (Some e, s')"
  using assms
  by (auto simp: new_service_stack service_stack_split outer_stack_def Let_def activity_service_def
      field_policy_service_def reported_def reported_delete_def scope_guard_service_def guarded_write_def
      guarded_delete_def resolve_guard_def split: option.split)

text \<open>The contract of a stack of three parts, for one operation.\<close>

lemma wraps_op_three:
  assumes "wraps_op R1 err val (\<lambda>p. sel (a p)) sel" "wraps_op R2 err val (\<lambda>p. sel (b p)) sel"
    "wraps_op R3 err val (\<lambda>p. sel (c p)) sel"
    and rel: "\<And>w x y z. R1 w x \<Longrightarrow> R2 x y \<Longrightarrow> R3 y z \<Longrightarrow> R w z"
  shows "wraps_op R err val (\<lambda>q. sel (a (b (c (d q))))) (\<lambda>q. sel (d q))"
proof -
  have "wraps_op (R2 OO R3) err val (\<lambda>q. sel (b (c (d q)))) (\<lambda>q. sel (d q))"
    by (rule wraps_op_trans [OF wraps_op_app [OF assms(2), of "\<lambda>q. c (d q)"] wraps_op_app [OF assms(3), of d]]) blast
  from wraps_op_trans [OF wraps_op_app [OF assms(1), of "\<lambda>q. b (c (d q))"] this, of R] rel
  show ?thesis by blast
qed

section \<open>Row scope\<close>

text \<open>A guard that answers on a request it can change, with a scope that says something.\<close>

definition attaching_guard :: "('e, 'r, 'v, 'w, 'err) state_guard \<Rightarrow> bool" where
  "attaching_guard g \<longleftrightarrow>
     (\<forall>op s actor scope s'. run_state (g op) s = (Inr (actor, scope), s') \<longrightarrow>
        rq_settable (wd_request s') \<and> rq_user (wd_request s') \<noteq> None \<and> \<not> scope_is_blank scope)"

text \<open>The criteria of a read once a guard's scope, and possibly others, have been added.\<close>

definition scope_added ::
  "('e, 'r, 'v, 'w, 'err) state_guard \<Rightarrow> string \<Rightarrow> criteria list \<Rightarrow> criteria list \<Rightarrow> bool" where
  "scope_added g op cs cs' \<longleftrightarrow>
     (\<exists>ds es actor scope s s'. run_state (g op) s = (Inr (actor, scope), s') \<and>
        cs' = cs @ ds @ scope_select_criteria scope @ es)"

lemma scope_added_more:
  assumes "more_criteria a b" "scope_added g op b c" "more_criteria c d"
  shows "scope_added g op a d"
proof -
  from assms(1,3) obtain x y where x: "b = a @ x" "d = c @ y" by (auto simp: more_criteria_iff)
  from assms(2) obtain ds es actor scope s s' where
    "run_state (g op) s = (Inr (actor, scope), s')" "c = b @ ds @ scope_select_criteria scope @ es"
    unfolding scope_added_def by blast
  with x show ?thesis
    unfolding scope_added_def by (intro exI [of _ "x @ ds"] exI [of _ "es @ y"]) auto
qed

lemma resolve_guard_attaches:
  assumes "attaching_guard g" "run_state (resolve_guard g op) s = (None, s1)"
  shows "\<exists>actor scope s0 s'. run_state (g op) s0 = (Inr (actor, scope), s') \<and>
    scope_from_context (user_context_of s1) = scope"
proof -
  obtain actor scope s' where g: "run_state (g op) s = (Inr (actor, scope), s')"
    using assms(2) by (auto simp: resolve_guard_def split: prod.splits sum.splits)
  let ?r1 = "attach_actor_to_request_context actor (wd_request s')"
  let ?r2 = "attach_scope_to_request_context scope ?r1"
  from g assms(1) have ok: "rq_settable (wd_request s')" "rq_user (wd_request s') \<noteq> None" "\<not> scope_is_blank scope"
    unfolding attaching_guard_def by blast+
  have "scope_from_context (rq_user ?r2) = scope"
    using scope_key.attached [where v = scope and r = ?r1] ok attach_nil(1) [OF ok(2)]
    by (simp add: attach_scope_to_request_context_def)
  moreover have "user_context_of s1 = rq_user (attach_identifiers_to_request_context
      (resolve_request_id ?r2) (resolve_correlation_id ?r2) ?r2)"
    using assms(2) g by (auto simp: resolve_guard_def update_request_def user_context_of_def)
  ultimately show ?thesis using g by (auto simp: attach_identifiers_keeps)
qed

lemma guard_index_in_scope:
  assumes "attaching_guard g"
  shows "wraps_op (scope_added g op_list) page_error page_value (\<lambda>p. sv_index (scope_guard_service zero g p)) sv_index"
proof (rule wraps_opI)
  let ?before = "\<lambda>cs s. case run_state (resolve_guard g op_list) s of
       (Some e, s1) \<Rightarrow> (Inl ([], 0, Some e), s1) | (None, s1) \<Rightarrow> (Inr (scoped cs s1, Pair), s1)"
  have "scope_added g op_list cs (scoped cs s1)" if r: "run_state (resolve_guard g op_list) s = (None, s1)" for cs s s1
    using resolve_guard_attaches [OF assms r] unfolding scope_added_def scoped_def by (metis append_Nil append_Nil2)
  then show "well_behaved (scope_added g op_list) page_error page_value ?before"
    by (auto simp: well_behaved_def page_error_def split: prod.splits option.splits)
  show "run_state (sv_index (scope_guard_service zero g p) x) s = call_between ?before (sv_index p) x s" for p x s
    by (auto simp: scope_guard_service_def call_between_def scoped_def split: prod.splits option.splits)
qed

lemma guard_show_in_scope:
  assumes "attaching_guard g"
  shows "wraps_op (\<lambda>x x'. fst x' = fst x \<and> scope_added g op_read (snd x) (snd x')) snd fst
    (\<lambda>p. show_of (scope_guard_service zero g p)) show_of"
proof (rule wraps_opI)
  let ?before = "\<lambda>x s. case run_state (resolve_guard g op_read) s of
       (Some e, s1) \<Rightarrow> (Inl (zero, Some e), s1) | (None, s1) \<Rightarrow> (Inr ((fst x, scoped (snd x) s1), Pair), s1)"
  have "scope_added g op_read cs (scoped cs s1)" if r: "run_state (resolve_guard g op_read) s = (None, s1)" for cs s s1
    using resolve_guard_attaches [OF assms r] unfolding scope_added_def scoped_def by (metis append_Nil append_Nil2)
  then show "well_behaved (\<lambda>x x'. fst x' = fst x \<and> scope_added g op_read (snd x) (snd x')) snd fst ?before"
    by (auto simp: well_behaved_def split: prod.splits option.splits)
  show "run_state (show_of (scope_guard_service zero g p) x) s = call_between ?before (show_of p) x s" for p x s
    by (auto simp: scope_guard_service_def show_of_def call_between_def scoped_def split: prod.splits option.splits)
qed

lemma guarded_stack:
  assumes "sc_scope_guard cfg = Some g"
  shows "new_service rt zero fm snake (with_repository cfg repo) =
    outer_stack rt zero fm snake cfg (scope_guard_service zero g (inner_stack cfg (base_service (with_repository cfg repo))))"
  using service_stack_repository [of rt zero fm snake repo cfg] assms
  by (simp add: new_service_stack service_stack_split with_repository_def)

lemma reads_in_scope:
  assumes "sc_scope_guard cfg = Some g" "attaching_guard g"
  shows "wraps_op (scope_added g op_list) page_error page_value
      (\<lambda>repo. sv_index (new_service rt zero fm snake (with_repository cfg repo)))
      (\<lambda>repo. sv_index (base_service (with_repository cfg repo))) \<and>
    wraps_op (\<lambda>x x'. fst x' = fst x \<and> scope_added g op_read (snd x) (snd x')) snd fst
      (\<lambda>repo. show_of (new_service rt zero fm snake (with_repository cfg repo)))
      (\<lambda>repo. show_of (base_service (with_repository cfg repo)))"
proof
  let ?b = "\<lambda>repo. base_service (with_repository cfg repo)"

  show "wraps_op (scope_added g op_list) page_error page_value
      (\<lambda>repo. sv_index (new_service rt zero fm snake (with_repository cfg repo))) (\<lambda>repo. sv_index (?b repo))"
    unfolding guarded_stack [OF assms(1)]
    by (rule wraps_op_three [where sel = sv_index and a = "outer_stack rt zero fm snake cfg"
          and b = "scope_guard_service zero g" and c = "inner_stack cfg",
        OF outer.index guard_index_in_scope [OF assms(2)] inner.index])
      (rule scope_added_more)
  show "wraps_op (\<lambda>x x'. fst x' = fst x \<and> scope_added g op_read (snd x) (snd x')) snd fst
      (\<lambda>repo. show_of (new_service rt zero fm snake (with_repository cfg repo))) (\<lambda>repo. show_of (?b repo))"
    unfolding guarded_stack [OF assms(1)]
    by (rule wraps_op_three [where sel = show_of and a = "outer_stack rt zero fm snake cfg"
          and b = "scope_guard_service zero g" and c = "inner_stack cfg",
        OF outer.show_one guard_show_in_scope [OF assms(2)] inner.show_one])
      (auto simp: more_show_criteria_def intro: scope_added_more)
qed

text \<open>
  C2 (safety). With a guard configured, no read of a service built by \<open>NewService\<close> escapes the
  guard's scope: each list and each single read is refused with an error before the repository is
  reached, or is exactly one call of the repository whose criteria are those of the caller
  followed by the restrictions of a scope the guard answered (and by row filters of a policy).
\<close>

theorem reads_stay_in_scope:
  assumes "sc_scope_guard cfg = Some g" "attaching_guard g"
  shows "wraps_op (scope_added g op_list) page_error page_value
      (\<lambda>repo. sv_index (new_service rt zero fm snake (with_repository cfg repo)))
      (\<lambda>repo. sv_index (base_service (with_repository cfg repo))) \<and>
    wraps_op (\<lambda>x x'. fst x' = fst x \<and> scope_added g op_read (snd x) (snd x')) snd fst
      (\<lambda>repo. show_of (new_service rt zero fm snake (with_repository cfg repo)))
      (\<lambda>repo. show_of (base_service (with_repository cfg repo)))"
  using assms by (rule reads_in_scope)

section \<open>Validation\<close>

definition accepted_by :: "('r \<Rightarrow> ('s, 'err) no_result) \<Rightarrow> 'r \<Rightarrow> bool" where
  "accepted_by v r \<longleftrightarrow> (\<exists>s s'. run_state (v r) s = (None, s'))"

lemma validated_accepted:
  "wraps_op (\<lambda>r r'. r' = r \<and> accepted_by v r) snd fst (\<lambda>p. validated v (f p)) f"
proof (rule wraps_opI)
  let ?before = "\<lambda>r s. case run_state (v r) s of
       (Some e, s1) \<Rightarrow> (Inl (r, Some e), s1) | (None, s1) \<Rightarrow> (Inr (r, Pair), s1)"
  show "well_behaved (\<lambda>r r'. r' = r \<and> accepted_by v r) snd fst ?before"
    by (auto simp: well_behaved_def accepted_by_def split: prod.splits option.splits)
  show "run_state (validated v (f p) x) s = call_between ?before (f p) x s" for p x s
    by (auto simp: validated_def call_between_def split: prod.splits option.splits)
qed

lemma check_each_accepted: "run_state (check_each v rs) s = (None, s') \<Longrightarrow> list_all (accepted_by v) rs"
  by (induction rs arbitrary: s) (auto simp: accepted_by_def split: prod.splits option.splits)

lemma validated_batch_accepted:
  "wraps_op (\<lambda>rs rs'. rs' = rs \<and> list_all (accepted_by v) rs) snd fst (\<lambda>p. validated_batch v (f p)) f"
proof (rule wraps_opI)
  let ?before = "\<lambda>rs s. case run_state (check_each v rs) s of
       (Some e, s1) \<Rightarrow> (Inl ([], Some e), s1) | (None, s1) \<Rightarrow> (Inr (rs, Pair), s1)"
  show "well_behaved (\<lambda>rs rs'. rs' = rs \<and> list_all (accepted_by v) rs) snd fst ?before"
    by (auto simp: well_behaved_def dest: check_each_accepted split: prod.splits option.splits)
  show "run_state (validated_batch v (f p) x) s = call_between ?before (f p) x s" for p x s
    by (auto simp: validated_batch_def call_between_def split: prod.splits option.splits)
qed

definition above_validation ::
  "('e, 'r, 'v, 'w, 'h, 'err) activity_runtime \<Rightarrow> 'r \<Rightarrow> field_map \<Rightarrow> (string \<Rightarrow> string) \<Rightarrow>
   ('e, 'r, 'v, 'w, 'h, 'err) service_config \<Rightarrow> ('e, 'r, 'v, 'w, 'err) world_service \<Rightarrow>
   ('e, 'r, 'v, 'w, 'err) world_service" where
  "above_validation rt zero fm snake cfg =
     outer_stack rt zero fm snake cfg
     \<circ> (case sc_scope_guard cfg of None \<Rightarrow> id | Some g \<Rightarrow> scope_guard_service zero g)
     \<circ> (if hooks_empty (sc_hooks cfg) then id else hooks_service (sc_hooks cfg))"

definition below_validation ::
  "('e, 'r, 'v, 'w, 'h, 'err) service_config \<Rightarrow> ('e, 'r, 'v, 'w, 'err) world_service \<Rightarrow>
   ('e, 'r, 'v, 'w, 'err) world_service" where
  "below_validation cfg = (case sc_virtual_fields cfg of None \<Rightarrow> id | Some h \<Rightarrow> virtual_field_service h)"

lemma validated_stack:
  assumes "sc_validator cfg = Some v"
  shows "new_service rt zero fm snake (with_repository cfg repo) =
    above_validation rt zero fm snake cfg (validation_service v (below_validation cfg (base_service (with_repository cfg repo))))"
  using service_stack_repository [of rt zero fm snake repo cfg] assms
  by (simp add: new_service_stack service_stack_split inner_stack_def above_validation_def below_validation_def
      with_repository_def comp_assoc)

interpretation above: service_layer "above_validation rt zero fm snake cfg" "\<lambda>svc. svc"
  for rt :: "('e, 'r, 'v, 'w, 'h, 'err) activity_runtime" and zero :: 'r and fm :: field_map
    and snake :: "string \<Rightarrow> string" and cfg :: "('e, 'r, 'v, 'w, 'h, 'err) service_config"
  unfolding above_validation_def
  by (intro service_layer_comp)
    (auto intro: outer.service_layer_axioms guard_layer.service_layer_axioms hooks_layer.service_layer_axioms
      split: option.split)

interpretation below: service_layer "below_validation cfg" "\<lambda>svc. svc"
  for cfg :: "('e, 'r, 'v, 'w, 'h, 'err) service_config"
  unfolding below_validation_def by (auto intro: virtual_layer.service_layer_axioms split: option.split)

text \<open>
  C3 (safety). With a validator configured, \<open>NewService\<close> lets no record reach the repository's
  writes that the validator has not accepted; in a batch all records are accepted before any is
  written, whatever hooks, guards and virtual fields do around it.
\<close>

theorem only_validated_writes:
  assumes "sc_validator cfg = Some v"
  shows "wraps_op (\<lambda>r r'. r' = r \<and> accepted_by v r) snd fst
      (\<lambda>repo. sv_create (new_service rt zero fm snake (with_repository cfg repo)))
      (\<lambda>repo. sv_create (base_service (with_repository cfg repo))) \<and>
    wraps_op (\<lambda>rs rs'. rs' = rs \<and> list_all (accepted_by v) rs) snd fst
      (\<lambda>repo. sv_create_batch (new_service rt zero fm snake (with_repository cfg repo)))
      (\<lambda>repo. sv_create_batch (base_service (with_repository cfg repo))) \<and>
    wraps_op (\<lambda>r r'. r' = r \<and> accepted_by v r) snd fst
      (\<lambda>repo. sv_update (new_service rt zero fm snake (with_repository cfg repo)))
      (\<lambda>repo. sv_update (base_service (with_repository cfg repo))) \<and>
    wraps_op (\<lambda>rs rs'. rs' = rs \<and> list_all (accepted_by v) rs) snd fst
      (\<lambda>repo. sv_update_batch (new_service rt zero fm snake (with_repository cfg repo)))
      (\<lambda>repo. sv_update_batch (base_service (with_repository cfg repo)))"
proof -
  let ?a = "above_validation rt zero fm snake cfg"
  let ?c = "below_validation cfg"
  let ?one = "\<lambda>r r'. r' = r \<and> accepted_by v r"
  let ?all = "\<lambda>rs rs'. rs' = rs \<and> list_all (accepted_by v) rs"
  have v: "wraps_op ?one snd fst (\<lambda>p. sv_create (validation_service v p)) sv_create"
    "wraps_op ?one snd fst (\<lambda>p. sv_update (validation_service v p)) sv_update"
    "wraps_op ?all snd fst (\<lambda>p. sv_create_batch (validation_service v p)) sv_create_batch"
    "wraps_op ?all snd fst (\<lambda>p. sv_update_batch (validation_service v p)) sv_update_batch"
    by (simp_all add: validation_service_def validated_accepted validated_batch_accepted)
  show ?thesis
    unfolding validated_stack [OF assms]
    by (intro conjI
        wraps_op_three [where sel = sv_create and a = ?a and b = "validation_service v" and c = ?c and R = ?one,
          OF above.create v(1) below.create]
        wraps_op_three [where sel = sv_create_batch and a = ?a and b = "validation_service v" and c = ?c and R = ?all,
          OF above.create_batch v(3) below.create_batch]
        wraps_op_three [where sel = sv_update and a = ?a and b = "validation_service v" and c = ?c and R = ?one,
          OF above.update v(2) below.update]
        wraps_op_three [where sel = sv_update_batch and a = ?a and b = "validation_service v" and c = ?c and R = ?all,
          OF above.update_batch v(4) below.update_batch]) auto
qed

section \<open>Fields of a list\<close>

definition field_cleared :: "(string \<Rightarrow> string) \<Rightarrow> 'v resolved_field_policy \<Rightarrow> 'v cell \<Rightarrow> bool" where
  "field_cleared snake d c \<longleftrightarrow>
     (sf_exported (cell_field c) \<and> sf_crud (cell_field c) \<noteq> ''-'' \<and>
        \<not> allows_field d (json_field_name snake (cell_field c)) \<longrightarrow> cell_value c = cell_zero c)"

definition hidden_cleared :: "(string \<Rightarrow> string) \<Rightarrow> 'v resolved_field_policy \<Rightarrow> 'v model_record \<Rightarrow> bool" where
  "hidden_cleared snake d rec =
     (case rec of
        RPointer cells \<Rightarrow> list_all (field_cleared snake d) cells
      | RStruct cells \<Rightarrow> list_all (field_cleared snake d) cells
      | _ \<Rightarrow> True)"

lemma cell_cleared: "field_cleared snake d (apply_field_policy_cell snake d c)"
  by (auto simp: field_cleared_def apply_field_policy_cell_def apply_mask_value_def Let_def split: option.split)

lemma value_cleared: "hidden_cleared snake d (apply_field_policy_value snake d True rec)"
  by (cases rec)
    (simp_all add: hidden_cleared_def apply_field_policy_value_def apply_field_policy_struct_def list_all_iff cell_cleared)

lemma fold_cleared:
  assumes "r \<in> set rs \<or> P (h r)" "\<And>x. P (f x)"
  shows "P (fold (\<lambda>r h. h(r := f (h r))) rs h r)"
  using assms(1)
proof (induction rs arbitrary: h)
  case (Cons x rs)
  then show ?case using assms(2) by (cases "r = x") simp_all
qed simp

lemma zero_policy_allows: "policy_is_zero d \<Longrightarrow> allows_field d f"
  by (simp add: policy_is_zero_def allows_field_def)

lemma zero_policy_cleared: "policy_is_zero d \<Longrightarrow> hidden_cleared snake d rec"
  by (cases rec) (simp_all add: hidden_cleared_def field_cleared_def list_all_iff zero_policy_allows)

lemma mask_slice_cleared:
  assumes "run_state (mask_slice snake d rs) s = (u, s')" "r \<in> set rs"
  shows "hidden_cleared snake d (wd_heap s' r)"
proof (cases "policy_is_zero d")
  case False
  then have "wd_heap s' = fold (\<lambda>r h. h(r := apply_field_policy_value snake d True (h r))) rs (wd_heap s)"
    using assms by (auto simp: mask_slice_def update_heap_def)
  then show ?thesis
    by (simp only:) (rule fold_cleared [where P = "hidden_cleared snake d", OF disjI1 [OF assms(2)] value_cleared])
qed (rule zero_policy_cleared)

text \<open>
  C4 (safety). With a field policy configured, a successful list of a service built by
  \<open>NewService\<close> has asked the policy provider first, and when it returns, every record of the list
  has the zero value in each visible field the policy does not allow, also when two entries of
  the list are the same record.
\<close>

theorem lists_hide_fields:
  assumes "sc_field_policy cfg = Some p"
    and "run_state (sv_index (new_service rt zero fm snake cfg) cs) s = ((res, n, None), s')"
  shows "\<exists>q policy s1. run_state (p q) s = (Inr policy, s1) \<and> pq_operation q = op_list \<and>
    pq_resource q = (if sc_resource_name cfg = [] then sc_type_resource cfg else sc_resource_name cfg) \<and>
    (\<forall>r \<in> set res. hidden_cleared snake (build_resolved_field_policy policy fm (pq_resource q) op_list) (wd_heap s' r))"
proof -
  define svc where "svc = (case sc_scope_guard cfg of None \<Rightarrow> id | Some g \<Rightarrow> scope_guard_service zero g)
      (inner_stack cfg (base_service cfg))"
  have svc: "sv_index (new_service rt zero fm snake cfg) = sv_index (field_policy_service zero (Some p)
      \<lparr>pm_resource_name = sc_resource_name cfg, pm_type_resource = sc_type_resource cfg, pm_fields = fm, pm_snake = snake\<rparr> svc)"
    using assms(1)
    by (simp add: new_service_stack service_stack_split outer_stack_def Let_def svc_def, simp add: activity_service_def)
  let ?q = "\<lparr>pq_operation = op_list, pq_actor = actor_from_context (user_context_of s),
    pq_scope = scope_from_context (user_context_of s),
    pq_resource = (if sc_resource_name cfg = [] then sc_type_resource cfg else sc_resource_name cfg)\<rparr>"
  from assms(2) obtain policy s1 where p: "run_state (p ?q) s = (Inr policy, s1)"
    unfolding svc
    by (cases "run_state (p ?q) s"; cases "fst (run_state (p ?q) s)")
      (auto simp: field_policy_service_def resolve_policy_def Let_def cong: if_cong)
  let ?d = "build_resolved_field_policy policy fm (pq_resource ?q) op_list"
  from assms(2) p obtain u s2 where "run_state (mask_slice snake ?d res) s2 = (u, s')"
    unfolding svc
    by (auto simp: field_policy_service_def resolve_policy_def Let_def cong: if_cong split: prod.splits option.splits)
  then show ?thesis using p by (intro exI [of _ ?q]) (auto dest: mask_slice_cleared)
qed

section \<open>Batch deletes\<close>

lemma collect_ids_length: "run_state (collect_ids get_id rs) s = (ids, s') \<Longrightarrow> length ids = length rs"
  by (induction rs arbitrary: s ids) (auto split: prod.splits)

text \<open>
  A batch delete names each record by its identifier, in order; an empty batch
  issues no delete at all, so it can never become a delete without a condition.
\<close>

theorem delete_batch_names_records:
  "\<exists>ids s1. run_state (collect_ids (repo_get_id repo) rs) s = (ids, s1) \<and> length ids = length rs \<and>
     run_state (sv_delete_batch (repository_service repo ic uc) rs) s =
       (if rs = [] then (None, s1) else run_state (repo_delete_by_ids repo (user_context_of s1) ids) s1)"
proof -
  obtain ids s1 where c: "run_state (collect_ids (repo_get_id repo) rs) s = (ids, s1)" by fastforce
  then have "length ids = length rs" by (rule collect_ids_length)
  with c show ?thesis by (auto simp: repository_service_def)
qed

section \<open>Examples\<close>

definition no_hooks :: "('s, 'e, 'r, 'err) lifecycle_hooks" where
  "no_hooks = \<lparr>lh_before_create = [], lh_after_create = [], lh_before_create_batch = [], lh_after_create_batch = [],
     lh_before_update = [], lh_after_update = [], lh_before_update_batch = [], lh_after_update_batch = [],
     lh_after_read = [], lh_after_list = [], lh_before_delete = [], lh_after_delete = [],
     lh_before_delete_batch = [], lh_after_delete_batch = []\<rparr>"

text \<open>A repository of one record, number 0, that accepts every write.\<close>

definition one_record_repository :: "(unit, nat, string, unit, string) world_repository" where
  "one_record_repository =
     \<lparr>repo_create = (\<lambda>uc r. State_Monad.return (r, None)),
      repo_create_many = (\<lambda>uc rs c. State_Monad.return (rs, None)),
      repo_update = (\<lambda>uc r. State_Monad.return (r, None)),
      repo_update_many = (\<lambda>uc rs c. State_Monad.return (rs, None)),
      repo_delete = (\<lambda>uc r. State_Monad.return None),
      repo_delete_by_ids = (\<lambda>uc is. State_Monad.return None),
      repo_list = (\<lambda>uc cs. State_Monad.return ([0], 1, None)),
      repo_get_by_id = (\<lambda>uc i cs. State_Monad.return (0, None)),
      repo_get_id = (\<lambda>r. State_Monad.return (itoa (int r)))\<rparr>"

definition sample_config :: "(unit, nat, string, unit, unit, string) service_config" where
  "sample_config =
     \<lparr>sc_repository = one_record_repository, sc_hooks = no_hooks, sc_scope_guard = None, sc_field_policy = None,
      sc_virtual_fields = None, sc_validator = None, sc_activity_hooks = [],
      sc_activity_config = \<lparr>acfg_enabled = False, acfg_channel = []\<rparr>, sc_notification_emitter = None,
      sc_resource_name = ''user'', sc_type_resource = ''user'', sc_batch_return_order_by_id = False\<rparr>"

definition sample_runtime :: "(unit, nat, string, unit, unit, string) activity_runtime" where
  "sample_runtime =
     \<lparr>ar_hook = (\<lambda>h c e. State_Monad.return None), ar_send = (\<lambda>e c n. State_Monad.return None), ar_now = 0,
      ar_type_name = ''User'', ar_sprint = id\<rparr>"

definition user_world :: "(unit, nat, string, unit) world" where
  "user_world = \<lparr>wd_request = guarded_request, wd_heap = (\<lambda>r. RPointer [text_cell ''Name'' ''Ada'', text_cell ''Email'' ''a@b'']), wd_env = ()\<rparr>"

definition denying_guard :: "(unit, nat, string, unit, string) state_guard" where
  "denying_guard op = State_Monad.return (Inl (Failed ''denied''))"

theorem guard_refuses_write_witness:
  "run_state (sv_create (new_service sample_runtime 0 user_fields to_lower
     (sample_config\<lparr>sc_scope_guard := Some denying_guard\<rparr>)) 7) user_world = ((7, Some (Failed ''denied'')), user_world)"
proof -
  have "run_state (denying_guard op) user_world = (Inl (Failed ''denied''), user_world)" for op
    by (simp add: denying_guard_def)
  from guard_refuses_write [of "sample_config\<lparr>sc_scope_guard := Some denying_guard\<rparr>", OF _ this] show ?thesis by simp
qed

definition tenant_state_guard :: "(unit, nat, string, unit, string) state_guard" where
  "tenant_state_guard op = State (\<lambda>s. (Inr (zero_actor, tenant_scope), s\<lparr>wd_request := guarded_request\<rparr>))"

theorem reads_stay_in_scope_witness:
  "\<exists>cs s1 s2. scope_added tenant_state_guard op_list [] cs \<and>
     run_state (sv_index (base_service sample_config) cs) s1 = (([0], 1, None), s2)"
proof -
  let ?cfg = "sample_config\<lparr>sc_scope_guard := Some tenant_state_guard\<rparr>"
  have "\<not> scope_is_blank tenant_scope" by code_simp
  then have g: "attaching_guard tenant_state_guard"
    by (simp add: attaching_guard_def tenant_state_guard_def guarded_request_def)
  have b: "run_state (sv_index (base_service (with_repository ?cfg one_record_repository)) cs) s = (([0], 1, None), s)" for cs s
    by (simp add: base_service_def with_repository_def repository_service_def one_record_repository_def)
  have h: "new_service sample_runtime 0 user_fields to_lower (with_repository ?cfg one_record_repository) =
      scope_guard_service 0 tenant_state_guard (base_service (with_repository ?cfg one_record_repository))"
    by (simp add: new_service_def base_service_def with_repository_def sample_config_def no_hooks_def hooks_empty_def
        emitter_enabled_def new_emitter_def Let_def)
  obtain s' where "run_state (sv_index (new_service sample_runtime 0 user_fields to_lower
      (with_repository ?cfg one_record_repository)) []) user_world = (([0], 1, None), s')"
    unfolding h by (simp add: scope_guard_service_def resolve_guard_def tenant_state_guard_def update_request_def b)
  from wraps_op_success [OF conjunct1 [OF reads_stay_in_scope [of ?cfg, OF _ g]] this]
  obtain cs s1 s2 where "scope_added tenant_state_guard op_list [] cs"
      "run_state (sv_index (base_service (with_repository ?cfg one_record_repository)) cs) s1 = (([0], 1, None), s2)"
    by (auto simp: page_error_def page_value_def)
  then show ?thesis
    by (auto simp: base_service_def with_repository_def sample_config_def)
qed

definition positive_validator :: "nat \<Rightarrow> ((unit, nat, string, unit) world, string) no_result" where
  "positive_validator r = State_Monad.return (if r = 0 then Some (Failed ''zero'') else None)"

theorem only_validated_writes_witness:
  "\<exists>r s1 s2. r = 7 \<and> accepted_by positive_validator r \<and>
     run_state (sv_create (base_service sample_config) r) s1 = ((7, None), s2)"
proof -
  let ?cfg = "sample_config\<lparr>sc_validator := Some positive_validator\<rparr>"
  let ?repo = one_record_repository
  have b: "base_service (with_repository ?cfg ?repo) = base_service sample_config"
    by (simp add: base_service_def with_repository_def sample_config_def)
  have h: "new_service sample_runtime 0 user_fields to_lower (with_repository ?cfg ?repo) =
      validation_service positive_validator (base_service (with_repository ?cfg ?repo))"
    by (simp add: new_service_def base_service_def with_repository_def sample_config_def no_hooks_def hooks_empty_def
        emitter_enabled_def new_emitter_def Let_def)
  have "run_state (sv_create (new_service sample_runtime 0 user_fields to_lower (with_repository ?cfg ?repo)) 7) user_world =
      ((7, None), user_world)"
    unfolding h b
    by (simp add: validation_service_def validated_def positive_validator_def base_service_def repository_service_def
        sample_config_def one_record_repository_def)
  from wraps_op_success [OF conjunct1 [OF only_validated_writes [of ?cfg positive_validator]] this]
  show ?thesis by (auto simp: b)
qed

definition email_policy :: "(unit, nat, string, unit, string) policy_provider" where
  "email_policy q = State_Monad.return (Inr (plain_policy\<lparr>fp_deny := [''email'']\<rparr>))"

theorem lists_hide_fields_witness:
  "hidden_cleared to_lower (build_resolved_field_policy (plain_policy\<lparr>fp_deny := [''email'']\<rparr>) user_fields ''user'' op_list)
     (wd_heap (snd (run_state (sv_index (new_service sample_runtime 0 user_fields to_lower
        (sample_config\<lparr>sc_field_policy := Some email_policy\<rparr>)) []) user_world)) 0)"
proof -
  let ?cfg = "sample_config\<lparr>sc_field_policy := Some email_policy\<rparr>"
  have "fst (run_state (sv_index (new_service sample_runtime 0 user_fields to_lower ?cfg) []) user_world) = ([0], 1, None)"
    by (simp add: new_service_def sample_config_def no_hooks_def hooks_empty_def emitter_enabled_def new_emitter_def
        Let_def field_policy_service_def resolve_policy_def email_policy_def repository_service_def
        one_record_repository_def mask_slice_def update_heap_def)
  then obtain s' where r: "run_state (sv_index (new_service sample_runtime 0 user_fields to_lower ?cfg) []) user_world =
      (([0], 1, None), s')"
    by (metis prod.collapse)
  from lists_hide_fields [OF _ r, of email_policy]
  show ?thesis unfolding r by (auto simp: email_policy_def sample_config_def)
qed


end
