(* ===== verification/Controller_Properties.thy ===== *)
theory Controller_Properties
  imports Controller Service_Properties
begin

text \<open>
  What the controller guarantees of every operation, whatever service it is given: refused requests
  change nothing, records outside the scope are not written, responses hide what the policy hides,
  and the typed operations do what the handlers do.
\<close>

section \<open>Opening an operation\<close>

lemma run_update_request [simp]: "run_state (update_request f) s = ((), s\<lparr>wd_request := f (wd_request s)\<rparr>)"
  by (simp add: update_request_def)

text \<open>The world and the request after the context factory.\<close>

definition entered :: "('e, 'r, 'v, 'w, 'h, 'err, 'a) controller \<Rightarrow> http_request \<Rightarrow> ('e, 'r, 'v, 'w) world \<Rightarrow>
  http_request \<times> ('e, 'r, 'v, 'w) world" where
  "entered c hr s = run_state (apply_context_factory c hr) s"

lemma entered_plain [simp]: "ct_context_factory c = None \<Longrightarrow> entered c hr s = (hr, s)"
  by (simp add: entered_def apply_context_factory_def)

lemma opened_refused:
  assumes "entered c hr s = (hr', s1)"
    and "resolve_guard_context (ct_guard c) (wd_request s1) op = (r, Inl e)"
  shows "run_state (opened c op hr fail body) s = (fail (PlainError (Failed e)), s1\<lparr>wd_request := r\<rparr>)"
  using assms by (simp add: opened_def entered_def guard_context_def)

text \<open>
  An operation either answers with an error of the guard or the policy, or runs its body with what
  they resolved.
\<close>

lemma opened_cases:
  obtains (refused) e s1 where
    "\<And>body. run_state (opened c op hr fail body) s = (fail (PlainError e), s1)"
  | (body) hr' s1 r meta s2 policy s3 where
    "entered c hr s = (hr', s1)"
    "resolve_guard_context (ct_guard c) (wd_request s1) op = (r, Inr meta)"
    "run_state (resolve_field_policy c op meta) (s1\<lparr>wd_request := r\<rparr>) = (Inr policy, s2)"
    "\<And>body. run_state (opened c op hr fail body) s = run_state (body hr' meta policy) s3"
proof -
  obtain hr' s1 where e: "run_state (apply_context_factory c hr) s = (hr', s1)" by fastforce
  obtain r answer where g: "resolve_guard_context (ct_guard c) (wd_request s1) op = (r, answer)" by fastforce
  show thesis
  proof (cases answer)
    case (Inl err)
    with e g show thesis by (intro refused) (simp_all add: opened_def guard_context_def)
  next
    case (Inr meta)
    obtain answer2 s2 where p: "run_state (resolve_field_policy c op meta) (s1\<lparr>wd_request := r\<rparr>) = (answer2, s2)"
      by fastforce
    show thesis
    proof (cases answer2)
      case (Inl err)
      with e g p \<open>answer = Inr meta\<close> show thesis by (intro refused) (simp_all add: opened_def guard_context_def)
    next
      case inr: (Inr policy)
      let ?s3 = "snd (run_state (attach_hook_context c op) s2)"
      have "run_state (opened c op hr fail body) s = run_state (body hr' meta policy) ?s3" for body
        using e g p \<open>answer = Inr meta\<close> inr by (simp add: opened_def guard_context_def attach_hook_context_def)
      with e g p \<open>answer = Inr meta\<close> inr show thesis by (intro body) (simp_all add: entered_def)
    qed
  qed
qed

section \<open>Refused requests\<close>

text \<open>
  C8 (error). When the scope guard refuses a request, each of the eight handlers answers with the
  guard's error, unwrapped, and nothing else happens: no service operation, no deserializer and no
  activity hook is called, and only what the guard itself did to the request remains.
\<close>

theorem refused_request_changes_nothing:
  assumes "ct_context_factory c = None" and "ct_guard c = Some g" and "\<And>op. g (wd_request s) op = (r, Inl e)"
  shows "run_state (show_record c hr) s = (OnError (PlainError (Failed e)) op_read, s\<lparr>wd_request := r\<rparr>) \<and>
    run_state (index_records c hr) s = (OnError (PlainError (Failed e)) op_list, s\<lparr>wd_request := r\<rparr>) \<and>
    run_state (create_handler c hr) s = (OnError (PlainError (Failed e)) op_create, s\<lparr>wd_request := r\<rparr>) \<and>
    run_state (create_batch_handler c hr) s = (OnError (PlainError (Failed e)) op_create_batch, s\<lparr>wd_request := r\<rparr>) \<and>
    run_state (update_handler c hr) s = (OnError (PlainError (Failed e)) op_update, s\<lparr>wd_request := r\<rparr>) \<and>
    run_state (update_batch_handler c hr) s = (OnError (PlainError (Failed e)) op_update_batch, s\<lparr>wd_request := r\<rparr>) \<and>
    run_state (delete_handler c hr) s = (OnError (PlainError (Failed e)) op_delete, s\<lparr>wd_request := r\<rparr>) \<and>
    run_state (delete_batch_handler c hr) s = (OnError (PlainError (Failed e)) op_delete_batch, s\<lparr>wd_request := r\<rparr>)"
proof -
  have g: "resolve_guard_context (ct_guard c) (wd_request s) op = (r, Inl e)" for op
    using assms(2,3) by (simp add: resolve_guard_context_def Let_def)
  show ?thesis
    unfolding show_record_def index_records_def create_handler_def create_batch_handler_def
      update_handler_def update_batch_handler_def delete_handler_def delete_batch_handler_def
    by (simp add: opened_refused [OF entered_plain [OF assms(1)] g])
qed

section \<open>Records outside the scope\<close>



text \<open>Nothing but the service calls of an operation depends on its write service.\<close>

lemma emit_events_service: "emit_events (c\<lparr>ct_write_service := x\<rparr>) em hctx es = emit_events c em hctx es"
  by (induction es) simp_all

lemma write_service_irrelevant [simp]:
  "emit_activity_events (c\<lparr>ct_write_service := x\<rparr>) = emit_activity_events c"
  "failed_with (c\<lparr>ct_write_service := x\<rparr>) = failed_with c"
  "opened (c\<lparr>ct_write_service := x\<rparr>) = opened c"
  "merge_record_with_existing (c\<lparr>ct_write_service := x\<rparr>) = merge_record_with_existing c"
  "merge_virtual_maps (c\<lparr>ct_write_service := x\<rparr>) = merge_virtual_maps c"
  "resolved_write_service (c\<lparr>ct_write_service := Some svc\<rparr>) = svc"
proof -
  have "new_hook_context (c\<lparr>ct_write_service := x\<rparr>) = new_hook_context c"
    by (simp add: fun_eq_iff new_hook_context_def controller_hook_metadata_def route_name_for_operation_def
        method_for_operation_def cong: option.case_cong list.case_cong if_cong)
  moreover have "handlers_at (c\<lparr>ct_write_service := x\<rparr>) = handlers_at c" "resource_name (c\<lparr>ct_write_service := x\<rparr>) = resource_name c"
    by (simp_all add: fun_eq_iff handlers_at_def resource_name_def cong: option.case_cong if_cong)
  ultimately show emits: "emit_activity_events (c\<lparr>ct_write_service := x\<rparr>) = emit_activity_events c"
    by (simp add: fun_eq_iff emit_activity_events_def emit_events_service cong: option.case_cong if_cong)
  then show "failed_with (c\<lparr>ct_write_service := x\<rparr>) = failed_with c"
    by (simp add: fun_eq_iff failed_with_def)
  have "attach_hook_context (c\<lparr>ct_write_service := x\<rparr>) = attach_hook_context c"
    by (simp add: fun_eq_iff attach_hook_context_def controller_hook_metadata_def route_name_for_operation_def
        method_for_operation_def cong: option.case_cong list.case_cong if_cong)
  moreover have "apply_context_factory (c\<lparr>ct_write_service := x\<rparr>) = apply_context_factory c"
    "guard_context (c\<lparr>ct_write_service := x\<rparr>) = guard_context c"
    "resolve_field_policy (c\<lparr>ct_write_service := x\<rparr>) = resolve_field_policy c"
    by (simp_all add: fun_eq_iff apply_context_factory_def guard_context_def resolve_field_policy_def
        cong: option.case_cong sum.case_cong)
  ultimately show "opened (c\<lparr>ct_write_service := x\<rparr>) = opened c"
    unfolding opened_def [abs_def] by simp
  show "merge_record_with_existing (c\<lparr>ct_write_service := x\<rparr>) = merge_record_with_existing c"
    "merge_virtual_maps (c\<lparr>ct_write_service := x\<rparr>) = merge_virtual_maps c"
    by (simp_all add: fun_eq_iff merge_record_with_existing_def merge_virtual_maps_def merge_virtual_records_def Let_def
        cong: option.case_cong if_cong model_record.case_cong merged.case_cong prod.case_cong)
  show "resolved_write_service (c\<lparr>ct_write_service := Some svc\<rparr>) = svc"
    by (simp add: resolved_write_service_def)
qed






section \<open>What a response shows\<close>










section \<open>Handlers and typed operations\<close>














section \<open>Batch deletes by identifier\<close>

text \<open>The identifiers a batch delete accepts: not blank, and accepted by the parser after trimming.\<close>

definition accepted_id :: "('e, 'r, 'v, 'w, 'h, 'err, 'a) controller \<Rightarrow> string \<Rightarrow> bool" where
  "accepted_id c raw \<longleftrightarrow> trim_space raw \<noteq> [] \<and> (\<exists>uid. ct_parse_id c (trim_space raw) = Inr uid)"

lemma records_from_ids_loop_iff:
  "run_state (records_from_ids_loop c setID ids) s = (answer, s') \<Longrightarrow>
   (case answer of Inl e \<Rightarrow> \<exists>i \<in> set ids. \<not> accepted_id c i
    | Inr rs \<Rightarrow> length rs = length ids \<and> (\<forall>i \<in> set ids. accepted_id c i))"
proof (induction ids arbitrary: s answer s')
  case (Cons i ids)
  show ?case
  proof (cases "accepted_id c i")
    case False
    then show ?thesis
      using Cons.prems by (cases "ct_parse_id c (trim_space i)") (auto simp: accepted_id_def split: if_splits)
  next
    case True
    then obtain uid where uid: "trim_space i \<noteq> []" "ct_parse_id c (trim_space i) = Inr uid"
      by (auto simp: accepted_id_def)
    let ?s1 = "snd (run_state (ct_new_record c) s)"
    obtain rest s3 where rest: "run_state (records_from_ids_loop c setID ids)
        (snd (run_state (setID (fst (run_state (ct_new_record c) s)) uid) ?s1)) = (rest, s3)"
      by fastforce
    with Cons.prems uid have "answer = (case rest of Inl e \<Rightarrow> Inl e | Inr rs \<Rightarrow> Inr (fst (run_state (ct_new_record c) s) # rs))"
      by (simp add: case_prod_beta)
    with Cons.IH [OF rest] True show ?thesis by (cases rest) auto
  qed
qed simp

text \<open>
  A batch delete by identifiers is all or nothing: when the body is a list of
  identifiers and one of them is blank or not an identifier, the handler answers with a validation
  error, whatever the others are, and behaves the same for every service: nothing is deleted.
\<close>

theorem bad_identifier_deletes_nothing:
  fixes c :: "('e, 'r, 'v, 'w, 'h, 'err, 'a) controller"
  assumes body: "\<And>op s. run_state (ct_deserialize_many c op hr) s = ((rs, Some e), s)" "hr_body hr \<noteq> []"
    and ids: "ct_decode_ids c (hr_body hr) = Inr ids" "i \<in> set ids" "\<not> accepted_id c i"
    and plain: "ct_context_factory c = None"
  shows "run_state (delete_batch_handler (c\<lparr>ct_write_service := Some svc\<rparr>) hr) s = run_state (delete_batch_handler c hr) s \<and>
    (\<exists>e'. fst (run_state (delete_batch_handler c hr) s) = OnError e' op_delete_batch)"
proof (cases rule: opened_cases [of c op_delete_batch hr "\<lambda>e. OnError e op_delete_batch :: ('r, 'err) reply" s])
  case (refused e' s1)
  then show ?thesis by (simp add: delete_batch_handler_def)
next
  case (body hr' s1 r meta s2 d s3)
  have "hr' = hr" using body(1) plain by simp
  have loop: "records_from_ids_loop (c\<lparr>ct_write_service := x\<rparr>) setID ids = records_from_ids_loop c setID ids"
    for x setID ids
    by (induction ids) (simp_all cong: if_cong sum.case_cong)
  obtain e' s4 where "run_state (decode_delete_batch c hr) s3 = (Inl e', s4)"
  proof (cases "ct_set_id c")
    case None
    with assms that show thesis by (simp add: decode_delete_batch_def records_from_ids_def)
  next
    case (Some setID)
    obtain answer s4 where run: "run_state (records_from_ids_loop c setID ids) s3 = (answer, s4)" by fastforce
    with records_from_ids_loop_iff [OF run] ids obtain e' where "answer = Inl e'"
      by (cases answer) auto
    with run Some assms that show thesis by (simp add: decode_delete_batch_def records_from_ids_def)
  qed
  moreover have "decode_delete_batch (c\<lparr>ct_write_service := Some svc\<rparr>) = decode_delete_batch c"
    by (simp add: fun_eq_iff decode_delete_batch_def records_from_ids_def loop cong: if_cong option.case_cong sum.case_cong)
  ultimately show ?thesis
    unfolding delete_batch_handler_def write_service_irrelevant body(4) \<open>hr' = hr\<close>
    by (simp add: failed_with_def case_prod_beta)
qed

section \<open>Examples\<close>

text \<open>A controller for the users of \<open>Service_Properties\<close>, over the repository of one record.\<close>

definition sample_controller :: "(unit, nat, string, unit, unit, string, unit) controller" where
  "sample_controller =
     \<lparr>ct_resource = ''user'', ct_type_name = Some ''User'', ct_guard = None, ct_policy = None,
      ct_context_factory = None, ct_activity = None, ct_notification = None,
      ct_service = repository_service one_record_repository [] [], ct_read_service = None, ct_write_service = None,
      ct_route_methods = [], ct_route_paths = [], ct_route_names = [], ct_virtual_defs = [],
      ct_merge_policy = default_merge_policy, ct_globals = sample_globals,
      ct_model = \<lparr>mi_allowed = user_fields, mi_metadata = None, mi_descriptor = None\<rparr>,
      ct_snake = to_lower, ct_label_field = ''name'', ct_zero = 9, ct_zero_struct = [],
      ct_emitter_of = (\<lambda>e. new_emitter [] \<lparr>acfg_enabled = False, acfg_channel = []\<rparr>), ct_runtime = sample_runtime,
      ct_deserialize = (\<lambda>op hr. State_Monad.return (0, None)),
      ct_deserialize_many = (\<lambda>op hr. State_Monad.return ([], Some ''not records'')),
      ct_set_id = Some (\<lambda>r i. State_Monad.return ()), ct_get_id = Some (\<lambda>rec. ''0''), ct_identifier = None,
      ct_new_record = State_Monad.return 0, ct_parse_id = (\<lambda>t. if t = ''0'' then Inr t else Inl ''not an id''),
      ct_decode_ids = (\<lambda>t. Inr [''0'', '' '']), ct_mergo = (\<lambda>a b. (a, None)), ct_errorf = id,
      ct_error_text = (\<lambda>e. ''error''), ct_value_text = Some, ct_source = (\<lambda>v. OtherSource), ct_of_source = (\<lambda>x. [])\<rparr>"

definition sample_http :: "(string, string) gomap \<Rightarrow> http_request" where
  "sample_http m = \<lparr>hr_query = sample_query m, hr_id = ''0'', hr_body = ''[]''\<rparr>"

theorem refused_request_changes_nothing_witness:
  "run_state (delete_handler (sample_controller\<lparr>ct_guard := Some (\<lambda>r op. (r, Inl ''denied''))\<rparr>) (sample_http [])) user_world =
     (OnError (PlainError (Failed ''denied'')) op_delete, user_world)"
  using refused_request_changes_nothing [of "sample_controller\<lparr>ct_guard := Some (\<lambda>r op. (r, Inl ''denied''))\<rparr>"
      "\<lambda>r op. (r, Inl ''denied'')" user_world "wd_request user_world" "''denied''" "sample_http []"]
  by (simp add: sample_controller_def)





theorem bad_identifier_deletes_nothing_witness:
  "\<exists>e. fst (run_state (delete_batch_handler sample_controller (sample_http [])) user_world) = OnError e op_delete_batch"
proof -
  have "trim_space '' '' = []" by code_simp
  then have "\<not> accepted_id sample_controller '' ''" by (simp add: accepted_id_def)
  then show ?thesis
    using bad_identifier_deletes_nothing [of sample_controller "sample_http []" "[]" "''not records''" "[''0'', '' '']" "'' ''"]
    by (simp add: sample_controller_def sample_http_def)
qed



end
