(* ===== verification/Index_Pages.thy ===== *)
theory Index_Pages
  imports Controller_Properties
begin

text \<open>
  The pages of a list: what \<open>Index\<close> answers with is the page its metadata report, also when the
  requested offset lies beyond the result and the handler asks the service again.
\<close>

section \<open>The window of a query\<close>

text \<open>
  The ORM keeps one limit and one offset, the last ones set; zero, also when never set, is no limit.
\<close>

definition set_window :: "qcall \<Rightarrow> int \<times> int \<Rightarrow> int \<times> int" where
  "set_window call w =
     (case call of QLimit n \<Rightarrow> (n, snd w) | QOffset n \<Rightarrow> (fst w, n) | _ \<Rightarrow> w)"

definition query_window :: "criteria list \<Rightarrow> int \<times> int" where
  "query_window cs = fold set_window (sq_calls (apply_criteria cs \<lparr>sq_dialect = None, sq_calls = []\<rparr>)) (0, 0)"

definition page_rows :: "'r list \<Rightarrow> int \<times> int \<Rightarrow> 'r list" where
  "page_rows xs w =
     (let rest = drop (nat (snd w)) xs in if fst w > 0 then take (nat (fst w)) rest else rest)"

text \<open>A service that answers a list with the page of \<open>xs\<close> its criteria ask for.\<close>

definition pages_through :: "'r list \<Rightarrow> ('s, 'r, 'err) service \<Rightarrow> bool" where
  "pages_through xs svc \<longleftrightarrow>
     (\<forall>cs s. fst (run_state (sv_index svc cs) s) = (page_rows xs (query_window cs), int (length xs), None))"

section \<open>Calls that keep the window\<close>

definition keeps_window :: "qcall \<Rightarrow> bool" where
  "keeps_window call = (case call of QLimit n \<Rightarrow> False | QOffset n \<Rightarrow> False | _ \<Rightarrow> True)"

abbreviation windowless :: "criteria list \<Rightarrow> bool" where
  "windowless \<equiv> list_all (appends keeps_window)"

lemma fold_windowless: "list_all keeps_window cs \<Longrightarrow> fold set_window cs w = w"
  by (induction cs arbitrary: w) (auto simp: keeps_window_def set_window_def split: qcall.splits)

lemma windowless_where [simp]: "appends keeps_window (q_where t a)" "appends keeps_window (q_where_or t a)"
  "appends keeps_window (q_where_group sep f)" "appends keeps_window (q_relation n f)"
  "appends keeps_window (emit (QColumn cs))" "appends keeps_window (emit (QOrderExpr t))"
proof -
  have g: "appends keeps_window (\<lambda>q. emit (QWhereGroup sep (calls_of f q)) q)"
    "appends keeps_window (\<lambda>q. emit (QRelation n (calls_of f q)) q)"
    by (rule safeI, force simp: emit_def keeps_window_def)+
  then show "appends keeps_window (q_where_group sep f)" "appends keeps_window (q_relation n f)"
    by (simp_all add: q_where_group_def [abs_def] q_relation_def [abs_def])
qed (simp_all add: q_where_def q_where_or_def safe_emit keeps_window_def)

lemma windowless_where_all [simp]: "appends keeps_window (where_all c op vs)"
  unfolding where_all_def by (rule safe_apply_criteria) (simp add: list_all_iff)

lemma windowless_where_any [simp]: "appends keeps_window (where_any c op vs)"
proof (cases vs)
  case Nil
  have "where_any c op [] = (\<lambda>q. q)" by auto
  with Nil show ?thesis by (simp only: safe_id)
next
  case (Cons v ws)
  have "appends keeps_window (\<lambda>q. apply_criteria (map (\<lambda>v. q_where_or (where_text c op) (Arg v)) ws)
      (q_where (where_text c op) (Arg v) q))"
    by (rule safe_comp [OF windowless_where(1)], rule safe_apply_criteria) (simp add: list_all_iff)
  moreover have "where_any c op (v # ws) = (\<lambda>q. apply_criteria
      (map (\<lambda>v. q_where_or (where_text c op) (Arg v)) ws) (q_where (where_text c op) (Arg v) q))"
    by auto
  ultimately show ?thesis using Cons by simp
qed

lemma filter_predicate_windowless:
  assumes "filter_predicate defaults cfg allowed p = s" "s = FAnd c \<or> s = FOr c"
  shows "appends keeps_window c"
  using assms
  by (auto simp: filter_predicate_def Let_def split: option.splits if_splits sum.splits)

lemma filter_loop_windowless:
  assumes "filter_loop defaults cfg allowed ps uns ands ors = Inr (uns', ands', ors')"
    and "windowless ands" "windowless ors"
  shows "windowless ands' \<and> windowless ors'"
  using assms
proof (induction ps arbitrary: uns ands ors)
  case (Cons p ps)
  then show ?case
    using filter_predicate_windowless [OF refl, of defaults cfg allowed p]
    by (auto split: filter_step.splits)
qed simp

lemma build_filter_windowless:
  "windowless (fst (build_filter_criteria_from_predicates defaults ps cfg))"
proof -
  have "appends keeps_window (combined_filter ands ors)" if "windowless ands" for ands ors
  proof (cases "ors = []")
    case True
    then have "combined_filter ands ors = apply_criteria ands" by (auto simp: combined_filter_def)
    with that show ?thesis by (simp add: safe_apply_criteria)
  next
    case False
    then have "combined_filter ands ors = (\<lambda>q. q_where_group '' AND '' (or_groups ors) (apply_criteria ands q))"
      by (auto simp: combined_filter_def)
    moreover have "appends keeps_window (\<lambda>q. q_where_group '' AND '' (or_groups ors) (apply_criteria ands q))"
      by (rule safe_comp [OF safe_apply_criteria windowless_where(3)]) (rule that)
    ultimately show ?thesis by simp
  qed
  then show ?thesis
    by (auto simp: build_filter_criteria_from_predicates_def
        dest: filter_loop_windowless split: sum.splits prod.splits)
qed

lemma build_order_windowless: "windowless (fst (build_order_criteria o' cfg))"
  by (auto simp: build_order_criteria_def order_criterion_def Let_def list_all_iff intro!: safe_apply_criteria)

lemma build_search_windowless: "windowless (fst (build_search_criteria defaults s cfg))"
  by (auto simp: build_search_criteria_def Let_def)

lemma build_select_windowless: "windowless (fst (build_select_criteria raws cfg))"
  by (auto simp: build_select_criteria_def Let_def)

lemma include_windowless: "windowless (include_criteria nodes)"
proof -
  have "appends keeps_window (include_relation n)" for n
    by (cases n) simp
  then show ?thesis by (auto simp: include_criteria_def list_all_iff)
qed

lemma scope_windowless: "windowless (scope_select_criteria s)"
  by (auto simp: scope_select_criteria_def list_all_iff List.map_filter_def filter_criterion_def Let_def keeps_window_def
      intro!: safe_emit split: if_splits)

section \<open>The window of a request\<close>

lemma window_append:
  assumes "windowless extra"
  shows "query_window (cs @ extra) = query_window cs"
proof -
  obtain ds where "apply_criteria extra (apply_criteria cs \<lparr>sq_dialect = None, sq_calls = []\<rparr>) =
      (apply_criteria cs \<lparr>sq_dialect = None, sq_calls = []\<rparr>)
        \<lparr>sq_calls := sq_calls (apply_criteria cs \<lparr>sq_dialect = None, sq_calls = []\<rparr>) @ ds\<rparr>" "list_all keeps_window ds"
    using safe_list_calls [OF assms] by blast
  then show ?thesis by (simp add: query_window_def apply_criteria_append fold_windowless)
qed

lemma window_pagination: "query_window (cs @ [pagination_criteria limit offset]) = (limit, offset)"
  by (simp add: query_window_def apply_criteria_append pagination_criteria_def emit_def set_window_def)

lemma plan_window:
  assumes "build_query_plan defaults opts cfg = (p, None)"
  shows "query_window (list_criteria p) = (md_limit (plan_metadata p), md_offset (plan_metadata p))"
proof -
  let ?page = "pagination_criteria (md_limit (plan_metadata p)) (md_offset (plan_metadata p))"
  have "plan_pagination p = [?page] \<and> windowless (plan_order p @ plan_filters p @ plan_search p @ plan_select p)"
    using assms build_filter_windowless build_order_windowless build_search_windowless build_select_windowless
    by (auto simp: build_query_plan_def build_pagination_criteria_def Let_def pagination_criteria_def [abs_def]
        split: prod.splits if_splits) (metis fst_conv)+
  then have "list_criteria p = [?page] @ (plan_order p @ plan_filters p @ plan_search p @ plan_select p)"
      "windowless (plan_order p @ plan_filters p @ plan_search p @ plan_select p)"
    by (simp_all add: list_criteria_def)
  then show ?thesis
    using window_append [of _ "[?page]"] window_pagination [of "[]"] by (metis append_Nil)
qed

lemma request_window:
  assumes "build_query_criteria_with g model hq op_list opts = Inr (cs, fs)"
  shows "query_window cs = (fl_limit fs, fl_offset fs)"
proof -
  obtain p where p: "build_query_plan (bun_ops (cg_tables g)) (query_bun_options_from_context g hq)
      (query_bun_config g model (apply_options opts empty_builder_config)) = (p, None)"
    using assms
    by (auto simp: build_query_criteria_with_def build_query_criteria_def finish_criteria_def
        split: prod.splits option.splits)
  obtain ics where "cs = list_criteria p @ ics" "windowless ics"
      "fl_limit fs = md_limit (plan_metadata p)" "fl_offset fs = md_offset (plan_metadata p)"
    using assms p include_windowless
    by (auto simp: build_query_criteria_with_def build_query_criteria_def finish_criteria_def Let_def
        filters_from_query_bun_plan_def build_include_criteria_def
        split: sum.splits prod.splits if_splits)
  then show ?thesis using window_append plan_window [OF p] by simp
qed

lemma restricted_window: "query_window (restricted_criteria cs meta d) = query_window cs"
proof -
  have "\<exists>extra. windowless extra \<and> restricted_criteria cs meta d = cs @ extra"
    using scope_windowless
    by (auto simp: restricted_criteria_def apply_field_policy_criteria_def apply_scope_criteria_def Let_def)
  then show ?thesis using window_append by auto
qed

section \<open>The page of a response\<close>

lemma normalize_unadjusted: "normalize_pagination f n = (f', False) \<Longrightarrow> fl_offset f' = fl_offset f"
  by (auto simp: normalize_pagination_def Let_def split: if_splits)

lemma normalize_count: "normalize_pagination f n = (f', adj) \<Longrightarrow> fl_count f' = fl_count f"
  by (auto simp: normalize_pagination_def Let_def split: if_splits)

lemma normalized_offset:
  assumes "normalize_pagination f n = (f', adj)" "in_int64 n" "in_int64 (fl_limit f)" "0 \<le> n"
  shows "0 \<le> fl_offset f' \<and> (0 < n \<longrightarrow> fl_offset f' < n)"
  using normalize_pagination_offset [of f n] last_page_offset_range [of n "fl_limit f"] assms
  by (auto simp: Let_def max_def split: if_splits)

text \<open>Whichever of its two calls \<open>Index\<close> answers with, it is the one with the reported window.\<close>

lemma answered_page:
  assumes "normalize_pagination (fs0\<lparr>fl_count := n\<rparr>) n = (fs, adjusted)" "n = int (length xs)"
    and "\<not> (adjusted \<and> n > 0 \<and> fl_offset fs \<noteq> fl_offset fs0)"
  shows "page_rows xs (fl_limit fs0, fl_offset fs0) = page_rows xs (fl_limit fs, fl_offset fs)"
proof (cases "xs = []")
  case False
  then have "fl_offset fs = fl_offset fs0"
    using assms normalize_unadjusted [of "fs0\<lparr>fl_count := n\<rparr>" n fs] by (cases adjusted) auto
  then show ?thesis using normalize_pagination_result [OF assms(1)] by simp
qed (simp add: page_rows_def)

text \<open>
  C6 (functional). The page a list answers with is the page it reports. Over a service that answers
  with the rows the last limit and offset of its criteria select, the records of the answer are
  those between the reported offset and limit, the reported count is that of all rows, and the
  reported offset lies inside the rows when there are any: an offset beyond the end, a negative
  one, or one whose arithmetic wraps makes the handler ask again for the last page or the first,
  and the records and the metadata stay together. Filters, search, includes, scope and field
  policy never change the window.
\<close>

theorem index_answers_reported_page:
  fixes c :: "('e, 'r, 'v, 'w, 'h, 'err, 'a) controller"
  assumes pages: "pages_through xs (resolved_read_service c)"
    and reply: "run_state (index_records c hr) s = (OnList rs op fs, s')"
    and limits: "int (length xs) \<le> int_max" "in_int64 (fl_limit fs)"
  shows "rs = page_rows xs (fl_limit fs, fl_offset fs) \<and> fl_count fs = int (length xs) \<and>
    0 \<le> fl_offset fs \<and> (xs \<noteq> [] \<longrightarrow> fl_offset fs < int (length xs))"
proof (cases rule: opened_cases [of c op_list hr "\<lambda>e. OnError e op_list :: ('r, 'err) reply" s])
  case (refused e s1)
  with reply show ?thesis by (simp add: index_records_def)
next
  case (body hr' s1 r meta s2 d s3)
  let ?n = "int (length xs)"
  obtain cs0 fs0 where built: "build_query_criteria_with (ct_globals c) (ct_model c) (hr_query hr') op_list
      (policy_query_options d) = Inr (cs0, fs0)"
    using reply by (auto simp: index_records_def body(4) split: sum.splits)
  let ?cs = "restricted_criteria cs0 meta d"
  have page: "\<exists>s'. run_state (sv_index (resolved_read_service c) cs) s = ((page_rows xs w, ?n, None), s')"
    if "query_window cs = w" for cs s w
    using pages that
    by (cases "run_state (sv_index (resolved_read_service c) cs) s") (simp add: pages_through_def, metis fst_conv)
  obtain s4 where first: "run_state (sv_index (resolved_read_service c) ?cs) s3 =
      ((page_rows xs (fl_limit fs0, fl_offset fs0), ?n, None), s4)"
    using page [of ?cs _ s3] request_window [OF built] restricted_window [of cs0 meta d] by auto
  obtain fs1 adjusted where norm: "normalize_pagination (fs0\<lparr>fl_count := ?n\<rparr>) ?n = (fs1, adjusted)" by fastforce
  obtain s5 where second: "run_state (sv_index (resolved_read_service c)
      (?cs @ [pagination_criteria (fl_limit fs1) (fl_offset fs1)])) s4 =
      ((page_rows xs (fl_limit fs1, fl_offset fs1), ?n, None), s5)"
    using page [OF window_pagination, of ?cs _ _ s4] by blast
  have "rs = page_rows xs (fl_limit fs1, fl_offset fs1) \<and> fs = fs1"
    using reply built first norm second answered_page [OF norm refl]
    by (auto simp: index_records_def body(4) Let_def index_reply_def list_reply_def case_prod_beta
        split: if_splits)
  moreover have "in_int64 ?n"
    using limits(1) by (simp add: in_int64_def int_min_def)
  moreover have "fl_limit (fs0\<lparr>fl_count := ?n\<rparr>) = fl_limit fs1"
    using normalize_pagination_result [OF norm] by simp
  ultimately show ?thesis
    using limits(2) normalized_offset [OF norm] normalize_count [OF norm] by auto
qed

text \<open>Three users, two to a page, and a request for those from the eleventh on.\<close>

definition paging_service :: "(unit, nat, string, unit, string) world_service" where
  "paging_service = (repository_service one_record_repository [] [])
     \<lparr>sv_index := (\<lambda>cs. State_Monad.return (page_rows [0, 1, 2] (query_window cs), 3, None))\<rparr>"

definition late_page :: http_request where
  "late_page = (sample_http [])
     \<lparr>hr_query := (sample_query [])\<lparr>hq_query_int := (\<lambda>k d. if k = ''limit'' then 2 else if k = ''offset'' then 10 else d)\<rparr>\<rparr>"

definition listed :: "('r, 'err) reply \<Rightarrow> ('r list \<times> int \<times> int) option" where
  "listed answer = (case answer of OnList rs op fs \<Rightarrow> Some (rs, fl_limit fs, fl_offset fs) | _ \<Rightarrow> None)"

theorem index_answers_reported_page_witness:
  "\<exists>op fs s'. run_state (index_records (sample_controller\<lparr>ct_read_service := Some paging_service\<rparr>) late_page) user_world =
     (OnList [2] op fs, s') \<and> page_rows [0, 1, 2::nat] (fl_limit fs, fl_offset fs) = [2] \<and> fl_offset fs < 3"
proof -
  let ?c = "sample_controller\<lparr>ct_read_service := Some paging_service\<rparr>"
  let ?run = "run_state (index_records ?c late_page) user_world"
  have "listed (fst ?run) = Some ([2], 2, 2)"
    by code_simp
  then obtain op fs where a: "fst ?run = OnList [2] op fs" "fl_limit fs = 2"
    by (auto simp: listed_def split: reply.splits)
  obtain s' where r: "?run = (OnList [2] op fs, s')"
    using a(1) by (metis prod.collapse)
  have "pages_through [0, 1, 2] (resolved_read_service ?c)"
    by (simp add: pages_through_def resolved_read_service_def paging_service_def)
  from index_answers_reported_page [OF this r] a(2)
  have "[2] = page_rows [0, 1, 2::nat] (fl_limit fs, fl_offset fs)" "fl_offset fs < 3"
    by (simp_all add: in_int64_def int_min_def int_max_def)
  then show ?thesis using r by auto
qed

end
