(* ===== verification/Responses.thy ===== *)
theory Responses
  imports Controller
begin

text \<open>
  Responses: \<open>response.go\<close> and \<open>error_encoder.go\<close>, and the option that installs an error encoder.
  They turn the last call of a handler into a status and a body.
\<close>

section \<open>Errors of the error library\<close>

datatype error_category =
    CategoryValidation | CategoryAuth | CategoryAuthz | CategoryNotFound | CategoryConflict
  | CategoryRateLimit | CategoryBadInput | CategoryMethodNotAllowed | CategoryCommand
  | CategoryExternal | CategoryOperation | CategoryMiddleware | CategoryRouting | CategoryHandler
  | CategoryInternal | OtherCategory string

text \<open>
  An error of go-errors: the fields the encoder reads or sets, with the entries given to
  \<open>WithMetadata\<close>, in order.
\<close>

record 'err go_error =
  ge_message :: string
  ge_category :: error_category
  ge_code :: int
  ge_text_code :: string
  ge_timestamp :: "nat option"
  ge_stack :: "string list"
  ge_request_id :: string
  ge_attached :: "(string \<times> string) list"
  ge_source :: "'err service_error option"

definition new_go_error :: "string \<Rightarrow> error_category \<Rightarrow> 'err go_error" where
  "new_go_error message category =
     \<lparr>ge_message = message, ge_category = category, ge_code = 0, ge_text_code = [], ge_timestamp = None,
      ge_stack = [], ge_request_id = [], ge_attached = [], ge_source = None\<rparr>"

text \<open>
  What an encoder is given: an error of the controller, or none (a nil error); an error mapper
  recognises some errors.
\<close>

type_synonym 'err error_mapper = "'err crud_error \<Rightarrow> 'err go_error option"

text \<open>What the encoders call outside the package, and the process state they read.\<close>

record 'err error_library =
  el_text :: "'err crud_error \<Rightarrow> string"
  el_map_to_error :: "'err crud_error option \<Rightarrow> 'err error_mapper list \<Rightarrow> 'err go_error option"
  el_default_mappers :: "'err error_mapper list"
  el_status_text_code :: "int \<Rightarrow> string"
  el_development :: bool
  el_now :: nat
  el_stack_trace :: "string list"

definition map_crud_typed_errors :: "'err error_library \<Rightarrow> 'err error_mapper" where
  "map_crud_typed_errors lib err =
     (case err of
        NotFoundError e \<Rightarrow>
          (let message = trim_space (el_text lib err)
           in Some ((new_go_error (if message = [] then ''resource not found'' else message) CategoryNotFound)
                \<lparr>ge_code := 404, ge_text_code := ''NOT_FOUND'', ge_source := Some e\<rparr>))
      | ValidationFailure e \<Rightarrow>
          (let message = trim_space (el_text lib err)
           in Some ((new_go_error (if message = [] then ''validation failed'' else message) CategoryValidation)
                \<lparr>ge_code := 422, ge_text_code := ''VALIDATION_ERROR'', ge_source := Some e\<rparr>))
      | _ \<Rightarrow> None)"

definition default_error_status_resolver :: "'err go_error \<Rightarrow> string \<Rightarrow> int" where
  "default_error_status_resolver err op =
     (if ge_code err > 0 then ge_code err
      else case ge_category err of
        CategoryValidation \<Rightarrow> 422
      | CategoryAuth \<Rightarrow> 401
      | CategoryAuthz \<Rightarrow> 403
      | CategoryNotFound \<Rightarrow> 404
      | CategoryConflict \<Rightarrow> 409
      | CategoryRateLimit \<Rightarrow> 429
      | CategoryBadInput \<Rightarrow> 400
      | CategoryMethodNotAllowed \<Rightarrow> 405
      | CategoryCommand \<Rightarrow> 400
      | CategoryExternal \<Rightarrow> 502
      | CategoryOperation \<Rightarrow> 500
      | CategoryMiddleware \<Rightarrow> 500
      | CategoryRouting \<Rightarrow> 404
      | CategoryHandler \<Rightarrow> 500
      | _ \<Rightarrow> 500)"

section \<open>Encoders\<close>

datatype ('r, 'err) response_body =
    RecordBody 'r
  | EnvelopeBody 'r filters
  | ListBody "'r list" filters
  | OptionsBody "option_item list"
  | EmptyBody
  | LegacyErrorBody string
  | ProblemBody "'err go_error" bool

record ('r, 'err) http_response =
  hs_status :: int
  hs_body :: "('r, 'err) response_body"
  hs_content_type :: string

definition json_response :: "int \<Rightarrow> ('r, 'err) response_body \<Rightarrow> ('r, 'err) http_response" where
  "json_response status body = \<lparr>hs_status = status, hs_body = body, hs_content_type = ''application/json''\<rparr>"

type_synonym ('e, 'r, 'err) error_encoder =
  "'e request \<Rightarrow> 'err crud_error option \<Rightarrow> string \<Rightarrow> ('r, 'err) http_response"

record 'err problem_config =
  pj_include_stack :: bool
  pj_mappers :: "'err error_mapper list"
  pj_status :: "'err go_error \<Rightarrow> string \<Rightarrow> int"
  pj_content_type :: string

definition default_problem_config :: "'err error_library \<Rightarrow> 'err problem_config" where
  "default_problem_config lib =
     \<lparr>pj_include_stack = el_development lib, pj_mappers = map_crud_typed_errors lib # el_default_mappers lib,
      pj_status = default_error_status_resolver, pj_content_type = ''application/problem+json''\<rparr>"

definition with_problem_include_stack :: "bool \<Rightarrow> 'err problem_config \<Rightarrow> 'err problem_config" where
  "with_problem_include_stack include cfg = cfg\<lparr>pj_include_stack := include\<rparr>"

definition with_problem_mappers :: "'err error_mapper list \<Rightarrow> 'err problem_config \<Rightarrow> 'err problem_config" where
  "with_problem_mappers ms cfg = cfg\<lparr>pj_mappers := pj_mappers cfg @ ms\<rparr>"

definition with_problem_status_resolver ::
  "('err go_error \<Rightarrow> string \<Rightarrow> int) option \<Rightarrow> 'err problem_config \<Rightarrow> 'err problem_config" where
  "with_problem_status_resolver resolver cfg =
     (case resolver of None \<Rightarrow> cfg | Some f \<Rightarrow> cfg\<lparr>pj_status := f\<rparr>)"

definition with_problem_content_type :: "string \<Rightarrow> 'err problem_config \<Rightarrow> 'err problem_config" where
  "with_problem_content_type t cfg =
     (if trim_space t \<noteq> [] then cfg\<lparr>pj_content_type := trim_space t\<rparr> else cfg)"

definition attach_error_request_metadata :: "'e request \<Rightarrow> string \<Rightarrow> 'err go_error \<Rightarrow> 'err go_error" where
  "attach_error_request_metadata r op err =
     (let requestID = request_id_from_context (rq_user r);
          correlationID = correlation_id_from_context (rq_user r);
          err1 = (if requestID \<noteq> [] then err\<lparr>ge_request_id := requestID\<rparr> else err);
          err2 = (if correlationID \<noteq> []
                  then err1\<lparr>ge_attached := ge_attached err1 @ [(''correlation_id'', correlationID)]\<rparr> else err1)
      in if op \<noteq> [] then err2\<lparr>ge_attached := ge_attached err2 @ [(''operation'', op)]\<rparr> else err2)"

text \<open>
  What the encoder fills in of a mapped error: the status it resolves, the code, the text code, the
  time and, when asked for, the stack; with the status and whether the stack is shown.
\<close>

definition complete_error ::
  "'err error_library \<Rightarrow> 'err problem_config \<Rightarrow> string \<Rightarrow> 'err go_error \<Rightarrow> int \<times> 'err go_error \<times> bool" where
  "complete_error lib cfg op mapped =
     (let resolved = pj_status cfg mapped op;
          status = (if resolved \<le> 0 then 500 else resolved);
          m1 = mapped\<lparr>ge_code := status\<rparr>;
          m2 = (if trim_space (ge_text_code m1) = [] then m1\<lparr>ge_text_code := el_status_text_code lib status\<rparr> else m1);
          m3 = (if ge_timestamp m2 = None then m2\<lparr>ge_timestamp := Some (el_now lib)\<rparr> else m2);
          includeStack = (pj_include_stack cfg \<or> el_development lib)
      in (status, if includeStack \<and> ge_stack m3 = [] then m3\<lparr>ge_stack := el_stack_trace lib\<rparr> else m3, includeStack))"

text \<open>
  The encoder of \<open>ProblemJSONErrorEncoder\<close>. A nil error is handed to \<open>MapToError\<close> as the error
  \<open>unknown error\<close>; \<open>None\<close> stands for it.
\<close>

definition problem_json_encoder ::
  "'err error_library \<Rightarrow> ('err problem_config \<Rightarrow> 'err problem_config) list \<Rightarrow> ('e, 'r, 'err) error_encoder" where
  "problem_json_encoder lib opts r err op =
     (let cfg = fold (\<lambda>opt c. opt c) opts (default_problem_config lib);
          text = (case err of None \<Rightarrow> ''unknown error'' | Some e \<Rightarrow> el_text lib e);
          mapped = (case el_map_to_error lib err (pj_mappers cfg) of
                      Some m \<Rightarrow> m | None \<Rightarrow> new_go_error text CategoryInternal)
      in case complete_error lib cfg op mapped of
           (status, m, includeStack) \<Rightarrow>
             \<lparr>hs_status = status, hs_body = ProblemBody (attach_error_request_metadata r op m) includeStack,
              hs_content_type = pj_content_type cfg\<rparr>)"

definition legacy_json_encoder :: "'err error_library \<Rightarrow> ('e, 'r, 'err) error_encoder" where
  "legacy_json_encoder lib r err op =
     (case err of
        None \<Rightarrow> json_response 500 (LegacyErrorBody ''unknown error'')
      | Some e \<Rightarrow>
          json_response (case e of NotFoundError x \<Rightarrow> 404 | ValidationFailure x \<Rightarrow> 400 | _ \<Rightarrow> 500)
            (LegacyErrorBody (el_text lib e)))"

section \<open>Response handlers\<close>

text \<open>
  The default handler (with its encoder, if one was set), an encoder around another handler, or a
  handler of the application, known by what it answers.
\<close>

datatype ('e, 'r, 'err) response_handler =
    DefaultHandler "('e, 'r, 'err) error_encoder option"
  | EncodingHandler "('e, 'r, 'err) response_handler option" "('e, 'r, 'err) error_encoder option"
  | CustomHandler "'e request \<Rightarrow> ('r, 'err) reply \<Rightarrow> ('r, 'err) http_response option"

definition new_default_response_handler :: "'err error_library \<Rightarrow> ('e, 'r, 'err) response_handler" where
  "new_default_response_handler lib = DefaultHandler (Some (problem_json_encoder lib []))"

definition with_error_encoder ::
  "'err error_library \<Rightarrow> ('e, 'r, 'err) error_encoder option \<Rightarrow> ('e, 'r, 'err) response_handler option \<Rightarrow>
   ('e, 'r, 'err) response_handler option" where
  "with_error_encoder lib encoder resp =
     (case encoder of
        None \<Rightarrow> resp
      | Some enc \<Rightarrow>
          Some (case resp of
             None \<Rightarrow> DefaultHandler (Some enc)
           | Some (DefaultHandler old) \<Rightarrow> DefaultHandler (Some enc)
           | Some (EncodingHandler base old) \<Rightarrow> EncodingHandler base (Some enc)
           | Some (CustomHandler f) \<Rightarrow> EncodingHandler (Some (CustomHandler f)) (Some enc)))"

definition empty_filters :: filters where
  "empty_filters =
     \<lparr>fl_operation = [], fl_limit = 0, fl_offset = 0, fl_page = 0, fl_search = [], fl_adjusted = False,
      fl_count = 0, fl_order = [], fl_fields = [], fl_include = [], fl_relations = []\<rparr>"

definition default_on_data :: "'r \<Rightarrow> string \<Rightarrow> filters option \<Rightarrow> ('r, 'err) http_response" where
  "default_on_data r op fs =
     (if op = op_create then json_response 201 (RecordBody r)
      else json_response 200 (EnvelopeBody r (case fs of None \<Rightarrow> empty_filters | Some f \<Rightarrow> f)))"

definition default_on_list :: "'r list \<Rightarrow> filters \<Rightarrow> ('r, 'err) http_response" where
  "default_on_list rs fs = json_response 200 (ListBody rs fs)"

definition default_on_empty :: "('r, 'err) http_response" where
  "default_on_empty = \<lparr>hs_status = 204, hs_body = EmptyBody, hs_content_type = []\<rparr>"

text \<open>
  The response to the last call of a handler; \<open>None\<close> when the handler panicked. Option items do not
  go through the response handler.
\<close>

fun handler_answer ::
  "'err error_library \<Rightarrow> ('e, 'r, 'err) response_handler \<Rightarrow> 'e request \<Rightarrow> ('r, 'err) reply \<Rightarrow>
   ('r, 'err) http_response option" where
  "handler_answer lib (DefaultHandler enc) r answer =
     (case answer of
        OnError e op \<Rightarrow> Some ((case enc of Some f \<Rightarrow> f | None \<Rightarrow> problem_json_encoder lib []) r (Some e) op)
      | OnData x op fs \<Rightarrow> Some (default_on_data x op fs)
      | OnEmpty op \<Rightarrow> Some default_on_empty
      | OnList xs op fs \<Rightarrow> Some (default_on_list xs fs)
      | _ \<Rightarrow> None)"
| "handler_answer lib (EncodingHandler base enc) r answer =
     (case answer of
        OnError e op \<Rightarrow> Some ((case enc of Some f \<Rightarrow> f | None \<Rightarrow> problem_json_encoder lib []) r (Some e) op)
      | _ \<Rightarrow> (case base of
           Some h \<Rightarrow> handler_answer lib h r answer
         | None \<Rightarrow> (case answer of
             OnData x op fs \<Rightarrow> Some (default_on_data x op fs)
           | OnEmpty op \<Rightarrow> Some default_on_empty
           | OnList xs op fs \<Rightarrow> Some (default_on_list xs fs)
           | _ \<Rightarrow> None)))"
| "handler_answer lib (CustomHandler f) r answer = f r answer"

definition respond ::
  "'err error_library \<Rightarrow> ('e, 'r, 'err) response_handler \<Rightarrow> 'e request \<Rightarrow> ('r, 'err) reply \<Rightarrow>
   ('r, 'err) http_response option" where
  "respond lib h r answer =
     (case answer of
        OnPanic \<Rightarrow> None
      | OnOptions items \<Rightarrow> Some (json_response 200 (OptionsBody items))
      | _ \<Rightarrow> handler_answer lib h r answer)"

section \<open>Facts\<close>

lemma attach_metadata_keeps [simp]:
  "ge_code (attach_error_request_metadata r op e) = ge_code e"
  "ge_text_code (attach_error_request_metadata r op e) = ge_text_code e"
  "ge_timestamp (attach_error_request_metadata r op e) = ge_timestamp e"
  "ge_stack (attach_error_request_metadata r op e) = ge_stack e"
  "ge_category (attach_error_request_metadata r op e) = ge_category e"
  by (simp_all add: attach_error_request_metadata_def Let_def)

lemma complete_error_complete:
  assumes "complete_error lib cfg op mapped = (status, m, stack)" "\<And>n. trim_space (el_status_text_code lib n) \<noteq> []"
  shows "status > 0 \<and> ge_code m = status \<and> trim_space (ge_text_code m) \<noteq> [] \<and> ge_timestamp m \<noteq> None"
  using assms by (auto simp: complete_error_def Let_def split: if_splits)

lemma complete_error_status:
  "fst (complete_error lib cfg op mapped) = (if pj_status cfg mapped op \<le> 0 then 500 else pj_status cfg mapped op)"
  by (simp add: complete_error_def Let_def)

lemma attached_metadata:
  "op \<noteq> [] \<Longrightarrow> (''operation'', op) \<in> set (ge_attached (attach_error_request_metadata r op e))"
  "request_id_from_context (rq_user r) \<noteq> [] \<Longrightarrow>
   ge_request_id (attach_error_request_metadata r op e) = request_id_from_context (rq_user r)"
  by (simp_all add: attach_error_request_metadata_def Let_def)

text \<open>
  Whatever the error, the mappers and the options, a problem response is complete:
  its status is positive and is the code inside the body, the body has a text code and a time, it
  names the operation, and it carries the request identifier of the request's context when there
  is one. The text codes of the error library are not blank.
\<close>

theorem problem_response_complete:
  assumes codes: "\<And>n. trim_space (el_status_text_code lib n) \<noteq> []"
    and answer: "problem_json_encoder lib opts r err op = response"
  shows "hs_status response > 0 \<and>
    (\<exists>m stack. hs_body response = ProblemBody m stack \<and> ge_code m = hs_status response \<and>
       trim_space (ge_text_code m) \<noteq> [] \<and> ge_timestamp m \<noteq> None \<and>
       (op \<noteq> [] \<longrightarrow> (''operation'', op) \<in> set (ge_attached m)) \<and>
       (request_id_from_context (rq_user r) \<noteq> [] \<longrightarrow> ge_request_id m = request_id_from_context (rq_user r)))"
proof -
  let ?cfg = "fold (\<lambda>opt c. opt c) opts (default_problem_config lib)"
  obtain mapped where "response = (case complete_error lib ?cfg op mapped of (status, m, stack) \<Rightarrow>
      \<lparr>hs_status = status, hs_body = ProblemBody (attach_error_request_metadata r op m) stack,
       hs_content_type = pj_content_type ?cfg\<rparr>)"
    using answer by (simp add: problem_json_encoder_def Let_def) blast
  moreover obtain status m stack where c: "complete_error lib ?cfg op mapped = (status, m, stack)"
    by (rule prod_cases3)
  ultimately show ?thesis
    using complete_error_complete [OF c codes] by (simp add: attached_metadata)
qed

text \<open>
  The errors the controller wraps have fixed statuses: a record that is not found
  gives 404 with both encoders, input that cannot be read 422 with the problem encoder but 400 with
  the legacy one, which gives 500 to every other error. For the problem encoder, the mapper of the
  package is the first one asked.
\<close>

theorem wrapped_error_statuses:
  assumes first: "\<And>err m ms. map_crud_typed_errors lib err = Some m \<Longrightarrow>
      el_map_to_error lib (Some err) (map_crud_typed_errors lib # ms) = Some m"
  shows "hs_status (problem_json_encoder lib [] r (Some (NotFoundError e)) op) = 404 \<and>
    hs_status (problem_json_encoder lib [] r (Some (ValidationFailure e)) op) = 422 \<and>
    hs_status (legacy_json_encoder lib r (Some (NotFoundError e)) op) = 404 \<and>
    hs_status (legacy_json_encoder lib r (Some (ValidationFailure e)) op) = 400 \<and>
    hs_status (legacy_json_encoder lib r (Some (PlainError e)) op) = 500"
proof -
  have "\<exists>m. map_crud_typed_errors lib (NotFoundError e) = Some m \<and> ge_code m = 404"
    "\<exists>m. map_crud_typed_errors lib (ValidationFailure e) = Some m \<and> ge_code m = 422"
    by (simp_all add: map_crud_typed_errors_def Let_def)
  then obtain m1 m2 where m: "map_crud_typed_errors lib (NotFoundError e) = Some m1" "ge_code m1 = 404"
      "map_crud_typed_errors lib (ValidationFailure e) = Some m2" "ge_code m2 = 422"
    by blast
  show ?thesis
    using first [OF m(1)] first [OF m(3)] m(2,4)
    by (simp add: problem_json_encoder_def default_problem_config_def default_error_status_resolver_def
        legacy_json_encoder_def json_response_def complete_error_status Let_def case_prod_beta)
qed

text \<open>An encoder installed by the option is the one that answers errors, whatever the handler was.\<close>

lemma installed_encoder_answers:
  "with_error_encoder lib (Some enc) resp = Some h \<Longrightarrow> respond lib h r (OnError e op) = Some (enc r (Some e) op)"
  by (cases resp; cases "the resp") (auto simp: with_error_encoder_def respond_def split: response_handler.splits)

definition sample_library :: "string error_library" where
  "sample_library =
     \<lparr>el_text = (\<lambda>e. ''no rows''),
      el_map_to_error = (\<lambda>err ms. case err of None \<Rightarrow> None | Some e \<Rightarrow>
         (case List.map_filter (\<lambda>m. m e) ms of [] \<Rightarrow> None | m # rest \<Rightarrow> Some m)),
      el_default_mappers = [], el_status_text_code = (\<lambda>n. ''CODE''), el_development = False, el_now = 7,
      el_stack_trace = []\<rparr>"

theorem problem_response_complete_witness:
  "hs_status (problem_json_encoder sample_library [] guarded_request None ''read'' :: (nat, string) http_response) > 0"
proof -
  have "trim_space ''CODE'' \<noteq> []" by code_simp
  then have "trim_space (el_status_text_code sample_library n) \<noteq> []" for n
    by (simp add: sample_library_def)
  from conjunct1 [OF problem_response_complete [OF this refl]] show ?thesis .
qed

theorem wrapped_error_statuses_witness:
  "hs_status (problem_json_encoder sample_library [] guarded_request
     (Some (NotFoundError (Failed ''no rows''))) ''read'' :: (nat, string) http_response) = 404"
proof -
  have "el_map_to_error sample_library (Some err) (map_crud_typed_errors sample_library # ms) = Some m"
    if "map_crud_typed_errors sample_library err = Some m" for err m ms
    using that by (simp add: sample_library_def List.map_filter_simps)
  from conjunct1 [OF wrapped_error_statuses [OF this]] show ?thesis .
qed

end
