(* ===== verification/Routing.thy ===== *)
theory Routing
  imports Controller
begin

text \<open>
  Routes: the route configuration of \<open>options.go\<close>, the actions of \<open>actions.go\<close> and
  \<open>RegisterRoutes\<close>. The router is third-party code: it is the list of routes registered on it, in
  order. The documentation attached to a route is in \<open>Schema_Documents\<close>.
\<close>

section \<open>Route configuration\<close>

record route_options =
  ro_enabled :: "bool option"
  ro_method :: string

text \<open>\<open>RouteConfig\<close>, whose only field is a map; a nil map is empty.\<close>

type_synonym route_config = "(string, route_options) gomap"

definition merge_route_config :: "route_config \<Rightarrow> route_config \<Rightarrow> route_config" where
  "merge_route_config rc other =
     (if rc = [] \<and> other = [] then []
      else if rc = [] then other
      else if other = [] then rc
      else maps_copy rc other)"

definition resolve_route :: "route_config \<Rightarrow> string \<Rightarrow> string \<Rightarrow> bool \<times> string" where
  "resolve_route rc op defaultMethod =
     (let method = (if defaultMethod = [] then ''GET'' else defaultMethod)
      in case map_of rc op of
           None \<Rightarrow> (True, to_upper method)
         | Some opt \<Rightarrow>
             ((case ro_enabled opt of Some b \<Rightarrow> b | None \<Rightarrow> True),
              to_upper (if ro_method opt \<noteq> [] then to_upper (ro_method opt) else method)))"

fun trim_slashes :: "string \<Rightarrow> string" where
  "trim_slashes t = rev (dropWhile (\<lambda>ch. ch = CHR ''/'') (rev (dropWhile (\<lambda>ch. ch = CHR ''/'') t)))"

definition batch_segment :: "string \<Rightarrow> string" where
  "batch_segment configured =
     (let segment = trim_slashes (trim_space configured) in if segment = [] then ''batch'' else segment)"

definition with_batch_route_segment :: "string \<Rightarrow> string \<Rightarrow> string" where
  "with_batch_route_segment segment old =
     (let cleaned = trim_slashes (trim_space segment) in if cleaned = [] then ''batch'' else cleaned)"

section \<open>Actions\<close>

datatype action_target = TargetCollection | TargetResource | OtherTarget string

text \<open>An action of the application, without the fields that only document it; a nil handler is \<open>None\<close>.\<close>

record 'k action =
  an_name :: string
  an_method :: string
  an_target :: action_target
  an_path :: string
  an_handler :: "'k option"

record action_descriptor =
  ad_name :: string
  ad_slug :: string
  ad_method :: string
  ad_target :: action_target
  ad_path :: string

record 'k resolved_action =
  ra_descriptor :: action_descriptor
  ra_route_name :: string
  ra_operation :: string
  ra_handler :: 'k

text \<open>\<open>kebab\<close> is \<open>strcase.ToKebab\<close>.\<close>

definition resolve_action ::
  "(string \<Rightarrow> string) \<Rightarrow> string \<Rightarrow> string \<Rightarrow> 'k action \<Rightarrow> 'k resolved_action option" where
  "resolve_action kebab resource resources a =
     (case an_handler a of
        None \<Rightarrow> None
      | Some h \<Rightarrow>
          (let name = trim_space (an_name a);
               slug = kebab name;
               upper = to_upper (trim_space (an_method a));
               method = (if upper = [] then ''POST'' else upper);
               target = (case an_target a of OtherTarget t \<Rightarrow> TargetResource | t \<Rightarrow> t);
               given = trim_space (an_path a);
               path = (if given \<noteq> [] then given
                       else if target = TargetResource then ''/'' @ resource @ ''/:id/actions/'' @ slug
                       else ''/'' @ resources @ ''/actions/'' @ slug);
               rooted = (if path \<noteq> [] \<and> hd path = CHR ''/'' then path else ''/'' @ path)
           in if name = [] then None
              else Some
                \<lparr>ra_descriptor = \<lparr>ad_name = name, ad_slug = slug, ad_method = method, ad_target = target, ad_path = rooted\<rparr>,
                 ra_route_name = resource @ '':action:'' @ slug, ra_operation = ''action:'' @ slug, ra_handler = h\<rparr>))"

definition resolve_actions ::
  "(string \<Rightarrow> string) \<Rightarrow> 'k action list \<Rightarrow> string \<Rightarrow> string \<Rightarrow> 'k resolved_action list" where
  "resolve_actions kebab as resource resources = List.map_filter (resolve_action kebab resource resources) as"

section \<open>Registering\<close>

datatype 'k route_handler = SchemaRoute | OperationRoute string | ActionRoute 'k

record 'k route =
  rt_method :: string
  rt_path :: string
  rt_name :: string
  rt_handler :: "'k route_handler"

text \<open>\<open>invokeRoute\<close>: a method the router interface does not offer registers nothing.\<close>

definition routable :: "string \<Rightarrow> bool" where
  "routable method \<longleftrightarrow> method \<in> {''GET'', ''POST'', ''PUT'', ''PATCH'', ''DELETE''}"

definition record_route_metadata ::
  "string \<Rightarrow> string \<Rightarrow> string \<Rightarrow> string \<Rightarrow> ('e, 'r, 'v, 'w, 'h, 'err, 'a) controller \<Rightarrow>
   ('e, 'r, 'v, 'w, 'h, 'err, 'a) controller" where
  "record_route_metadata op method path name c =
     c\<lparr>ct_route_methods := (if method \<noteq> [] then put op method (ct_route_methods c) else ct_route_methods c),
       ct_route_paths := (if path \<noteq> [] then put op path (ct_route_paths c) else ct_route_paths c),
       ct_route_names := (if name \<noteq> [] then put op name (ct_route_names c) else ct_route_names c)\<rparr>"

text \<open>The state of a registration: the routes so far and the controller, which remembers them.\<close>

type_synonym ('e, 'r, 'v, 'w, 'h, 'err, 'a, 'k) registration =
  "'k route list \<times> ('e, 'r, 'v, 'w, 'h, 'err, 'a) controller"

definition register_operation ::
  "route_config \<Rightarrow> string \<Rightarrow> string \<times> string \<times> string \<Rightarrow>
   ('e, 'r, 'v, 'w, 'h, 'err, 'a, 'k) registration \<Rightarrow> ('e, 'r, 'v, 'w, 'h, 'err, 'a, 'k) registration" where
  "register_operation rc resource entry st =
     (case (entry, st) of ((op, defaultMethod, path), (routes, c)) \<Rightarrow>
        (let (enabled, method) = resolve_route rc op defaultMethod;
             name = resource @ '':'' @ op
         in if \<not> enabled \<or> \<not> routable method then st
            else (routes @ [\<lparr>rt_method = method, rt_path = path, rt_name = name, rt_handler = OperationRoute op\<rparr>],
                  record_route_metadata op method path name c)))"

definition register_action ::
  "'k resolved_action \<Rightarrow> ('e, 'r, 'v, 'w, 'h, 'err, 'a, 'k) registration \<Rightarrow>
   ('e, 'r, 'v, 'w, 'h, 'err, 'a, 'k) registration" where
  "register_action a st =
     (case st of (routes, c) \<Rightarrow>
        (let d = ra_descriptor a
         in if \<not> routable (ad_method d) then st
            else (routes @ [\<lparr>rt_method = ad_method d, rt_path = ad_path d, rt_name = ra_route_name a,
                             rt_handler = ActionRoute (ra_handler a)\<rparr>],
                  record_route_metadata (ra_operation a) (ad_method d) (ad_path d) (ra_route_name a) c)))"

lemmas op_names = op_create_def op_create_batch_def op_read_def op_update_def op_update_batch_def op_delete_def
  op_delete_batch_def

text \<open>The operations in the order they are registered, with their default method and path.\<close>

definition operation_entries :: "string \<Rightarrow> string \<Rightarrow> string \<Rightarrow> (string \<times> string \<times> string) list" where
  "operation_entries resource resources segment =
     (let showPath = ''/'' @ resource @ ''/:id'';
          batchPath = ''/'' @ resource @ ''/'' @ segment
      in [(op_read, ''GET'', showPath), (op_list, ''GET'', ''/'' @ resources),
          (op_create_batch, ''POST'', batchPath), (op_create, ''POST'', ''/'' @ resource),
          (op_update_batch, ''PUT'', batchPath), (op_update, ''PUT'', showPath),
          (op_delete_batch, ''DELETE'', batchPath), (op_delete, ''DELETE'', showPath)])"

definition register_routes ::
  "(string \<Rightarrow> string) \<Rightarrow> string \<Rightarrow> string \<Rightarrow> string \<Rightarrow> route_config \<Rightarrow> 'k action list \<Rightarrow>
   ('e, 'r, 'v, 'w, 'h, 'err, 'a) controller \<Rightarrow> ('e, 'r, 'v, 'w, 'h, 'err, 'a, 'k) registration" where
  "register_routes kebab resource resources configured rc as c0 =
     (let schema = \<lparr>rt_method = ''GET'', rt_path = ''/'' @ resource @ ''/schema'', rt_name = resource @ '':schema'',
                    rt_handler = SchemaRoute\<rparr>;
          st = fold (register_operation rc resource)
                 (operation_entries resource resources (batch_segment configured)) ([schema], c0\<lparr>ct_resource := resource\<rparr>)
      in fold register_action (resolve_actions kebab as resource resources) st)"

section \<open>Running an action\<close>

text \<open>What an action's handler is given besides the request.\<close>

record action_context =
  acx_actor :: actor_context
  acx_scope :: scope_filter
  acx_request_id :: string
  acx_correlation_id :: string
  acx_action :: action_descriptor
  acx_operation :: string

text \<open>
  The handler of an action route: the context factory and the guard, then the action, which writes
  its own response; only an error goes to the response handler.
\<close>

definition action_handler ::
  "('e, 'r, 'v, 'w, 'h, 'err, 'a) controller \<Rightarrow>
   ('k \<Rightarrow> http_request \<Rightarrow> action_context \<Rightarrow> (('e, 'r, 'v, 'w) world, 'err option) state) \<Rightarrow>
   'k resolved_action \<Rightarrow> http_request \<Rightarrow> (('e, 'r, 'v, 'w) world, ('r, 'err) reply option) state" where
  "action_handler c run a hr0 = do {
     hr \<leftarrow> apply_context_factory c hr0;
     answer \<leftarrow> guard_context c (ra_operation a);
     (case answer of
        Inl e \<Rightarrow> State_Monad.return (Some (OnError (PlainError (Failed e)) (ra_operation a)))
      | Inr meta \<Rightarrow> do {
          err \<leftarrow> run (ra_handler a) hr
            \<lparr>acx_actor = clone_actor (gm_actor meta), acx_scope = clone_scope (gm_scope meta),
             acx_request_id = gm_request_id meta, acx_correlation_id = gm_correlation_id meta,
             acx_action = ra_descriptor a, acx_operation = ra_operation a\<rparr>;
          State_Monad.return (map_option (\<lambda>e. OnError (PlainError (Failed e)) (ra_operation a)) err)
        })
   }"

section \<open>No route hides another\<close>

text \<open>
  A router that tries the routes of a method in the order they were registered sends a request to
  the first whose pattern matches: segment by segment, a segment that starts with a colon matching
  every one.
\<close>

definition matches_path :: "string \<Rightarrow> string \<Rightarrow> bool" where
  "matches_path pattern path \<longleftrightarrow>
     list_all2 (\<lambda>p s. (p \<noteq> [] \<and> hd p = CHR '':'') \<or> p = s) (split_on CHR ''/'' pattern) (split_on CHR ''/'' path)"

definition hides :: "'k route \<Rightarrow> 'k route \<Rightarrow> bool" where
  "hides earlier later \<longleftrightarrow> rt_method earlier = rt_method later \<and> matches_path (rt_path earlier) (rt_path later)"

definition plain_segment :: "string \<Rightarrow> bool" where
  "plain_segment t \<longleftrightarrow> t \<noteq> [] \<and> CHR ''/'' \<notin> set t \<and> hd t \<noteq> CHR '':''"

text \<open>A configuration that only enables and disables operations keeps their default methods.\<close>

definition keeps_methods :: "route_config \<Rightarrow> bool" where
  "keeps_methods rc \<longleftrightarrow> (\<forall>opt \<in> snd ` set rc. ro_method opt = [])"

text \<open>An action that keeps the default path, with a slug that is one literal segment.\<close>

definition plain_action :: "(string \<Rightarrow> string) \<Rightarrow> 'k action \<Rightarrow> bool" where
  "plain_action kebab a \<longleftrightarrow> trim_space (an_path a) = [] \<and> plain_segment (kebab (trim_space (an_name a)))"

lemma split_slash: "split_on CHR ''/'' (CHR ''/'' # t) = [] # split_on CHR ''/'' t"
  by (simp add: split_on_def)

lemma split_slash_in: "CHR ''/'' \<notin> set a \<Longrightarrow> split_on CHR ''/'' (a @ CHR ''/'' # t) = a # split_on CHR ''/'' t"
  unfolding split_on_def by (rule split_by_append) auto

lemma split_actions:
  assumes "CHR ''/'' \<notin> set t"
  shows "split_on CHR ''/'' (''actions/'' @ t) = [''actions'', t]"
    and "split_on CHR ''/'' ('':id/actions/'' @ t) = ['':id'', ''actions'', t]"
  using assms split_on_none [OF assms] by (simp_all add: split_on_def)

lemmas split_paths = split_slash split_slash_in split_actions [simplified] split_on_none

text \<open>The route of an operation, and of an action, when they are registered.\<close>

definition operation_route :: "string \<Rightarrow> string \<times> string \<times> string \<Rightarrow> 'k route" where
  "operation_route resource entry =
     (case entry of (op, method, path) \<Rightarrow>
        \<lparr>rt_method = method, rt_path = path, rt_name = resource @ '':'' @ op, rt_handler = OperationRoute op\<rparr>)"

definition action_route :: "'k resolved_action \<Rightarrow> 'k route" where
  "action_route a = \<lparr>rt_method = ad_method (ra_descriptor a), rt_path = ad_path (ra_descriptor a),
     rt_name = ra_route_name a, rt_handler = ActionRoute (ra_handler a)\<rparr>"

lemma upper_routable: "routable m \<Longrightarrow> to_upper m = m \<and> m \<noteq> []"
  by (auto simp: routable_def to_upper_def upper_char_def)

lemma resolve_route_default:
  "keeps_methods rc \<Longrightarrow> routable m \<Longrightarrow> snd (resolve_route rc op m) = m"
  by (auto simp: resolve_route_def Let_def keeps_methods_def upper_routable split: option.splits
      dest!: map_of_SomeD)

lemma fold_operations:
  assumes "keeps_methods rc" "\<forall>(op, m, p) \<in> set es. routable m"
  shows "fst (fold (register_operation rc resource) es st) =
    fst st @ map (operation_route resource) (filter (\<lambda>(op, m, p). fst (resolve_route rc op m)) es)"
  using assms
proof (induction es arbitrary: st)
  case (Cons e es)
  obtain op m p where e: "e = (op, m, p)" by (cases e)
  obtain b m' where r: "resolve_route rc op m = (b, m')" by force
  have "m' = m" "routable m" using Cons.prems resolve_route_default [of rc m op] r e by auto
  then show ?case using Cons e r
    by (auto simp: register_operation_def operation_route_def Let_def split: prod.splits)
qed simp

lemma fold_actions:
  "fst (fold register_action as st) =
     fst st @ map action_route (filter (\<lambda>a. routable (ad_method (ra_descriptor a))) as)"
  by (induction as arbitrary: st) (auto simp: register_action_def action_route_def Let_def split: prod.splits)

lemma entries_routable: "\<forall>(op, m, p) \<in> set (operation_entries resource resources segment). routable m"
  by (simp add: operation_entries_def routable_def Let_def)

lemma plain_resolved:
  assumes "plain_action kebab a" "resolve_action kebab resource resources a = Some x"
  shows "plain_segment (ad_slug (ra_descriptor x))"
    and "ad_target (ra_descriptor x) = TargetResource \<and>
           ad_path (ra_descriptor x) = ''/'' @ resource @ ''/:id/actions/'' @ ad_slug (ra_descriptor x) \<or>
         ad_target (ra_descriptor x) = TargetCollection \<and>
           ad_path (ra_descriptor x) = ''/'' @ resources @ ''/actions/'' @ ad_slug (ra_descriptor x)"
  using assms
  by (auto simp: resolve_action_def plain_action_def Let_def split: option.splits if_splits action_target.splits)

lemma map_filter_in: "y \<in> set (List.map_filter f xs) \<longleftrightarrow> (\<exists>x \<in> set xs. f x = Some y)"
  by (induction xs) (auto simp: List.map_filter_simps split: option.splits)

lemma operations_not_hidden:
  assumes "plain_segment resource" "plain_segment resources" "plain_segment segment" "segment \<noteq> ''schema''"
  shows "sorted_wrt (\<lambda>a b. \<not> hides a b)
    (\<lparr>rt_method = ''GET'', rt_path = ''/'' @ resource @ ''/schema'', rt_name = name, rt_handler = SchemaRoute\<rparr> #
     map (operation_route resource) (operation_entries resource resources segment))"
  using assms
  by (auto simp: operation_entries_def operation_route_def hides_def matches_path_def plain_segment_def Let_def
      split_paths)

lemma action_not_hidden_by_operation:
  assumes "plain_segment resource" "plain_segment resources" "plain_segment segment"
    and "e \<in> set (operation_entries resource resources segment)"
    and "plain_action kebab a" "resolve_action kebab resource resources a = Some x"
  shows "\<not> hides (operation_route resource e) (action_route x)"
  using assms(1-4) plain_resolved [OF assms(5,6)]
  by (auto simp: operation_entries_def operation_route_def action_route_def hides_def matches_path_def
      plain_segment_def Let_def split_paths)

lemma schema_not_hiding:
  assumes "plain_segment resource" "plain_segment resources"
    and "plain_action kebab a" "resolve_action kebab resource resources a = Some x"
  shows "\<not> hides \<lparr>rt_method = m, rt_path = ''/'' @ resource @ ''/schema'', rt_name = n, rt_handler = h\<rparr> (action_route x)"
  using assms(1,2) plain_resolved [OF assms(3,4)]
  by (auto simp: action_route_def hides_def matches_path_def plain_segment_def split_paths)

lemma action_not_hidden_by_action:
  assumes "plain_segment resource" "plain_segment resources"
    and "plain_action kebab a" "resolve_action kebab resource resources a = Some x"
    and "plain_action kebab b" "resolve_action kebab resource resources b = Some y"
    and "ad_slug (ra_descriptor x) \<noteq> ad_slug (ra_descriptor y)"
  shows "\<not> hides (action_route x) (action_route y)"
  using assms(1,2,7) plain_resolved [OF assms(3,4)] plain_resolved [OF assms(5,6)]
  by (auto simp: action_route_def hides_def matches_path_def plain_segment_def split_paths)

lemma sorted_wrt_map_filter_in:
  assumes "distinct (map key (List.map_filter f xs))"
    and "\<And>a b x y. a \<in> set xs \<Longrightarrow> b \<in> set xs \<Longrightarrow> f a = Some x \<Longrightarrow> f b = Some y \<Longrightarrow> key x \<noteq> key y \<Longrightarrow> P x y"
  shows "sorted_wrt P (List.map_filter f xs)"
  using assms
proof (induction xs)
  case (Cons a xs)
  have "sorted_wrt P (List.map_filter f xs)"
    by (rule Cons.IH) (use Cons.prems in \<open>auto simp: List.map_filter_simps split: option.splits\<close>)
  then show ?case using Cons.prems
    by (fastforce simp: List.map_filter_simps map_filter_in split: option.splits)
qed (simp add: List.map_filter_simps)

text \<open>
  C10 (safety). No registered route is hidden by one registered before it: when the route configuration keeps
  the default methods, the resource's two names and the batch segment are literal segments and
  the segment is not the one of the schema, and the actions keep their default paths with distinct
  slugs, then in the list of routes \<open>RegisterRoutes\<close> registers no route matches the path of a later
  one of the same method: \<open>/user/batch\<close> comes before \<open>/user/:id\<close>, and an action does not
  shadow another.
\<close>

theorem no_route_is_hidden:
  assumes "keeps_methods rc" "plain_segment resource" "plain_segment resources"
    and "plain_segment (batch_segment configured)" "batch_segment configured \<noteq> ''schema''"
    and "\<forall>a \<in> set actions. plain_action kebab a"
    and "distinct (map (\<lambda>x. ad_slug (ra_descriptor x)) (resolve_actions kebab actions resource resources))"
  shows "sorted_wrt (\<lambda>earlier later. \<not> hides earlier later)
    (fst (register_routes kebab resource resources configured rc actions c))"
proof -
  let ?es = "operation_entries resource resources (batch_segment configured)"
  let ?xs = "resolve_actions kebab actions resource resources"
  let ?S = "\<lparr>rt_method = ''GET'', rt_path = ''/'' @ resource @ ''/schema'', rt_name = resource @ '':schema'',
     rt_handler = SchemaRoute\<rparr>"
  have "sorted_wrt (\<lambda>x y. \<not> hides (action_route x) (action_route y)) ?xs"
    unfolding resolve_actions_def
    by (rule sorted_wrt_map_filter_in [OF assms(7) [unfolded resolve_actions_def]])
      (use assms action_not_hidden_by_action in blast)
  then have actions: "sorted_wrt (\<lambda>a b. \<not> hides a b) (map action_route (filter Q ?xs))" for Q
    by (simp add: sorted_wrt_map sorted_wrt_filter)
  have operations: "sorted_wrt (\<lambda>a b. \<not> hides a b) (?S # map (operation_route resource) (filter Q ?es))" for Q
    using operations_not_hidden [OF assms(2-5), of "resource @ '':schema''"]
    by (auto simp: sorted_wrt_map sorted_wrt_filter)
  have cross: "\<not> hides a b" if ab: "a \<in> set (?S # map (operation_route resource) ?es)" "b \<in> action_route ` set ?xs" for a b
  proof -
    obtain x act where x: "b = action_route x" "act \<in> set actions" "resolve_action kebab resource resources act = Some x"
      using ab(2) by (auto simp: resolve_actions_def map_filter_in)
    then have act: "plain_action kebab act" using assms(6) by blast
    from ab(1) consider "a = ?S" | e where "e \<in> set ?es" "a = operation_route resource e" by auto
    then show ?thesis
      using action_not_hidden_by_operation [OF assms(2-4) _ act x(3)]
        schema_not_hiding [OF assms(2,3) act x(3)] x(1) by cases simp_all
  qed
  have "sorted_wrt (\<lambda>a b. \<not> hides a b)
      ((?S # map (operation_route resource) (filter P ?es)) @ map action_route (filter Q ?xs))" for P Q
    unfolding sorted_wrt_append by (intro conjI ballI operations actions cross) auto
  then show ?thesis
    by (simp only: register_routes_def fold_actions fold_operations [OF assms(1) entries_routable]
        Let_def fst_conv append_Cons append_Nil)
qed

theorem no_route_is_hidden_witness:
  "\<forall>c :: ('e, 'r, 'v, 'w, 'h, 'err, 'a) controller. sorted_wrt (\<lambda>earlier later. \<not> hides earlier later)
    (fst (register_routes (\<lambda>name. name) ''user'' ''users'' '' /batch/ '' [(''delete'', \<lparr>ro_enabled = Some False, ro_method = []\<rparr>)]
       [\<lparr>an_name = ''ban'', an_method = ''post'', an_target = TargetResource, an_path = [], an_handler = Some (0::nat)\<rparr>,
        \<lparr>an_name = ''sync'', an_method = [], an_target = TargetCollection, an_path = [], an_handler = Some 1\<rparr>]
       c))"
  apply (rule allI)
  apply (rule no_route_is_hidden)
        apply (simp add: keeps_methods_def)
       apply (simp add: plain_segment_def)
      apply (simp add: plain_segment_def)
     apply (simp add: plain_segment_def batch_segment_def trim_space_def trim_left_def is_space_def)
    apply (simp add: batch_segment_def trim_space_def trim_left_def is_space_def)
   apply (simp add: plain_action_def plain_segment_def trim_space_def trim_left_def is_space_def)
  apply (simp add: resolve_actions_def resolve_action_def List.map_filter_simps Let_def trim_space_def trim_left_def
      is_space_def)
  done

section \<open>A registered operation knows its route\<close>

definition knows_routes ::
  "string \<Rightarrow> ('e, 'r, 'v, 'w, 'h, 'err, 'a, 'k) registration \<Rightarrow> bool" where
  "knows_routes resource st \<longleftrightarrow>
     ct_resource (snd st) = resource \<and>
     (\<forall>r \<in> set (fst st). \<forall>op. rt_handler r = OperationRoute op \<longrightarrow>
        controller_hook_metadata (snd st) op =
          \<lparr>hm_operation = op, hm_resource = resource, hm_route_name = rt_name r, hm_method = rt_method r,
           hm_path = rt_path r\<rparr>)"

definition registered :: "string \<Rightarrow> ('e, 'r, 'v, 'w, 'h, 'err, 'a, 'k) registration \<Rightarrow> bool" where
  "registered op st \<longleftrightarrow> (\<exists>r \<in> set (fst st). rt_handler r = OperationRoute op)"

lemma metadata_after_record:
  assumes "method \<noteq> []" "path \<noteq> []" "name \<noteq> []"
  shows "controller_hook_metadata (record_route_metadata op method path name c) o1 =
    (if o1 = op then \<lparr>hm_operation = op, hm_resource = ct_resource c, hm_route_name = name, hm_method = method,
       hm_path = path\<rparr> else controller_hook_metadata c o1)"
  using assms
  by (auto simp: controller_hook_metadata_def record_route_metadata_def route_name_for_operation_def
      method_for_operation_def split: option.splits list.splits)

lemma knows_routes_add:
  assumes "knows_routes resource (routes, c)" "\<not> registered op (routes, c)"
    "rt_method r \<noteq> []" "rt_path r \<noteq> []" "rt_name r \<noteq> []"
    "\<And>o1. rt_handler r = OperationRoute o1 \<Longrightarrow> o1 = op"
  shows "knows_routes resource (routes @ [r], record_route_metadata op (rt_method r) (rt_path r) (rt_name r) c)"
  unfolding knows_routes_def fst_conv snd_conv
proof (intro conjI ballI allI impI)
  show res: "ct_resource (record_route_metadata op (rt_method r) (rt_path r) (rt_name r) c) = resource"
    using assms(1) by (simp add: knows_routes_def record_route_metadata_def)
  fix x o1 assume x: "x \<in> set (routes @ [r])" "rt_handler x = OperationRoute o1"
  show "controller_hook_metadata (record_route_metadata op (rt_method r) (rt_path r) (rt_name r) c) o1 =
      \<lparr>hm_operation = o1, hm_resource = resource, hm_route_name = rt_name x, hm_method = rt_method x,
       hm_path = rt_path x\<rparr>"
  proof (cases "x \<in> set routes")
    case True
    then have "o1 \<noteq> op" using assms(2) x(2) by (force simp: registered_def)
    then show ?thesis using True assms(1,3,4,5) x(2) by (simp add: metadata_after_record knows_routes_def)
  next
    case False
    then have "x = r" "o1 = op" using x assms(6) by auto
    then show ?thesis using assms(1,3,4,5) by (simp add: metadata_after_record knows_routes_def)
  qed
qed

lemma knows_routes_operation:
  assumes "knows_routes resource st" "\<not> registered op st" "path \<noteq> []"
  shows "knows_routes resource (register_operation rc resource (op, m, path) st)"
proof -
  obtain enabled meth where r: "resolve_route rc op m = (enabled, meth)" by force
  obtain routes c where st: "st = (routes, c)" by (cases st)
  have m: "routable meth \<Longrightarrow> meth \<noteq> []" by (simp add: upper_routable)
  let ?r = "\<lparr>rt_method = meth, rt_path = path, rt_name = resource @ '':'' @ op, rt_handler = OperationRoute op\<rparr>"
  show ?thesis
  proof (cases "enabled \<and> routable meth")
    case True
    then show ?thesis using knows_routes_add [of resource routes c op ?r] assms m st
      by (simp add: register_operation_def r Let_def)
  qed (use assms r st in \<open>auto simp: register_operation_def\<close>)
qed

lemma registered_operation:
  "registered o1 (register_operation rc resource (op, m, path) st) \<Longrightarrow> o1 = op \<or> registered o1 st"
  by (auto simp: register_operation_def registered_def Let_def split: prod.splits if_splits)

lemma knows_routes_operations:
  assumes "knows_routes resource st" "distinct (map fst es)" "\<forall>e \<in> set es. \<not> registered (fst e) st \<and> snd (snd e) \<noteq> []"
  shows "knows_routes resource (fold (register_operation rc resource) es st)"
  using assms
proof (induction es arbitrary: st)
  case (Cons e es)
  obtain op m p where e: "e = (op, m, p)" by (cases e)
  let ?st = "register_operation rc resource e st"
  have "knows_routes resource ?st"
    using Cons.prems unfolding e by (intro knows_routes_operation) auto
  moreover have "\<not> registered (fst x) ?st" if "x \<in> set es" for x
  proof
    assume "registered (fst x) ?st"
    then have "fst x = op \<or> registered (fst x) st" unfolding e by (rule registered_operation)
    then show False using that Cons.prems(2,3) by (auto simp: e)
  qed
  ultimately show ?case using Cons by simp
qed simp

lemma knows_routes_action:
  assumes "knows_routes resource st" "\<not> registered (ra_operation a) st" "ra_route_name a \<noteq> []"
    "ad_path (ra_descriptor a) \<noteq> []"
  shows "knows_routes resource (register_action a st)"
proof -
  obtain routes c where st: "st = (routes, c)" by (cases st)
  show ?thesis
    using assms upper_routable [of "ad_method (ra_descriptor a)"]
      knows_routes_add [of resource routes c "ra_operation a" "action_route a"]
    by (simp add: register_action_def st Let_def action_route_def)
qed

lemma registered_action: "registered op (register_action a st) \<longleftrightarrow> registered op st"
  by (auto simp: register_action_def registered_def Let_def split: prod.splits)

lemma knows_routes_actions:
  assumes "knows_routes resource st"
    "\<forall>a \<in> set as. \<not> registered (ra_operation a) st \<and> ra_route_name a \<noteq> [] \<and> ad_path (ra_descriptor a) \<noteq> []"
  shows "knows_routes resource (fold register_action as st)"
  using assms
proof (induction as arbitrary: st)
  case (Cons a as)
  then have "knows_routes resource (register_action a st)" by (intro knows_routes_action) auto
  with Cons show ?case by (simp add: registered_action)
qed simp

lemma resolve_action_names:
  assumes "resolve_action kebab resource resources a = Some x"
  shows "ra_route_name x \<noteq> []" "ad_path (ra_descriptor x) \<noteq> []" "prefix ''action:'' (ra_operation x)"
proof -
  obtain h where h: "an_handler a = Some h" using assms by (cases "an_handler a") (auto simp: resolve_action_def)
  have n: "trim_space (an_name a) \<noteq> []" using assms by (rule contrapos_pn) (simp add: resolve_action_def h Let_def)
  have rooted: "(if p \<noteq> [] \<and> hd p = CHR ''/'' then p else ''/'' @ p) \<noteq> []" for p by simp
  show "ra_route_name x \<noteq> []" "ad_path (ra_descriptor x) \<noteq> []" "prefix ''action:'' (ra_operation x)"
    using assms n rooted by (auto simp: resolve_action_def h Let_def simp del: if_image_distrib)
qed

lemma resolved_names:
  assumes "x \<in> set (resolve_actions kebab as resource resources)"
  shows "ra_route_name x \<noteq> []" "ad_path (ra_descriptor x) \<noteq> []" "prefix ''action:'' (ra_operation x)"
  using assms by (auto simp: resolve_actions_def map_filter_in dest: resolve_action_names)

lemma registered_start: "\<not> registered op ([\<lparr>rt_method = m, rt_path = p, rt_name = n, rt_handler = SchemaRoute\<rparr>], c)"
  by (simp add: registered_def)

lemma entry_facts:
  "distinct (map fst (operation_entries resource resources segment))"
  "e \<in> set (operation_entries resource resources segment) \<Longrightarrow> snd (snd e) \<noteq> [] \<and> \<not> prefix ''action:'' (fst e)"
  by (auto simp: operation_entries_def Let_def op_names op_list_def prefix_def)

lemma registered_operations:
  "registered o1 (fold (register_operation rc resource) es st) \<Longrightarrow> o1 \<in> fst ` set es \<or> registered o1 st"
proof (induction es arbitrary: st)
  case (Cons e es)
  obtain op m p where e: "e = (op, m, p)" by (cases e)
  from Cons.prems have "o1 \<in> fst ` set es \<or> registered o1 (register_operation rc resource e st)"
    by (auto dest: Cons.IH)
  then show ?case unfolding e by (auto dest: registered_operation)
qed simp

text \<open>
  After \<open>RegisterRoutes\<close> the controller knows the routes it registered: for every
  operation route on the router, with whatever configuration, actions and earlier registrations,
  the metadata the hooks of the operation get names that operation and resource and exactly the
  name, the method and the path of the route.
\<close>

theorem registered_operation_knows_its_route:
  fixes actions :: "'k action list"
  shows "list_all (\<lambda>r. case rt_handler r of
       OperationRoute op \<Rightarrow>
         controller_hook_metadata (snd (register_routes kebab resource resources configured rc actions c)) op =
           \<lparr>hm_operation = op, hm_resource = resource, hm_route_name = rt_name r, hm_method = rt_method r,
            hm_path = rt_path r\<rparr>
     | _ \<Rightarrow> True)
     (fst (register_routes kebab resource resources configured rc actions c))"
proof -
  let ?es = "operation_entries resource resources (batch_segment configured)"
  let ?S = "\<lparr>rt_method = ''GET'', rt_path = ''/'' @ resource @ ''/schema'', rt_name = resource @ '':schema'',
     rt_handler = SchemaRoute :: 'k route_handler\<rparr>"
  let ?st0 = "([?S], c\<lparr>ct_resource := resource\<rparr>)"
  let ?st = "fold (register_operation rc resource) ?es ?st0"
  have ops: "knows_routes resource ?st"
    by (rule knows_routes_operations) (auto simp: knows_routes_def registered_start entry_facts)
  have "\<not> registered op ?st" if "prefix ''action:'' op" for op
  proof
    assume "registered op ?st"
    then have "op \<in> fst ` set ?es" using registered_operations registered_start by blast
    then show False using that entry_facts(2) by auto
  qed
  then have "\<forall>a \<in> set (resolve_actions kebab actions resource resources). \<not> registered (ra_operation a) ?st"
    using resolved_names(3) by blast
  then have "knows_routes resource (register_routes kebab resource resources configured rc actions c)"
    unfolding register_routes_def Let_def
    by (intro knows_routes_actions ops) (auto simp: resolved_names)
  then show ?thesis by (simp add: knows_routes_def list_all_iff split: route_handler.splits)
qed

end
