(* ===== verification/Go_Parsing.thy ===== *)
theory Go_Parsing
  imports Go_Strings
begin

text \<open>
  The parsing functions of Go's \<open>strconv\<close> the source uses: \<open>ParseBool\<close> and \<open>Atoi\<close>, with the facts
  that relate them to the formatting ones.
\<close>

definition parse_bool :: "string \<Rightarrow> bool option" where
  "parse_bool t =
     (if t \<in> {''1'', ''t'', ''T'', ''TRUE'', ''true'', ''True''} then Some True
      else if t \<in> {''0'', ''f'', ''F'', ''FALSE'', ''false'', ''False''} then Some False
      else None)"

definition digit_value :: "char \<Rightarrow> int option" where
  "digit_value c = (let n = of_char c :: nat in if 48 \<le> n \<and> n \<le> 57 then Some (int n - 48) else None)"

text \<open>The value of a run of decimal digits; \<open>None\<close> when a byte is no digit.\<close>

fun digits_value :: "int \<Rightarrow> string \<Rightarrow> int option" where
  "digits_value acc [] = Some acc"
| "digits_value acc (c # cs) =
     (case digit_value c of None \<Rightarrow> None | Some d \<Rightarrow> digits_value (10 * acc + d) cs)"

text \<open>\<open>Atoi\<close>: an optional sign and at least one digit; a number out of range is an error.\<close>

definition atoi :: "string \<Rightarrow> int option" where
  "atoi t =
     (let negative = (t \<noteq> [] \<and> hd t = CHR ''-'');
          digits = (if t \<noteq> [] \<and> hd t \<in> {CHR ''-'', CHR ''+''} then tl t else t)
      in if digits = [] then None
         else case digits_value 0 digits of
           None \<Rightarrow> None
         | Some n \<Rightarrow> (let v = (if negative then - n else n) in if in_int64 v then Some v else None))"

lemma parse_format_bool [simp]: "parse_bool (format_bool b) = Some b"
  by (cases b) (simp_all add: parse_bool_def format_bool_def)

lemma digits_value_append:
  "digits_value acc (xs @ ys) = (case digits_value acc xs of None \<Rightarrow> None | Some v \<Rightarrow> digits_value v ys)"
  by (induction xs arbitrary: acc) (auto split: option.splits)

lemma digit_value_char [simp]: "d < 10 \<Longrightarrow> digit_value (digit_char d) = Some (int d)"
  by (simp add: digit_value_def digit_char_def Let_def)

lemma digits_value_nat: "digits_value 0 (nat_digits n) = Some (int n)"
proof (induction n rule: nat_digits.induct)
  case (1 n)
  show ?case
  proof (cases "n < 10")
    case True
    then show ?thesis by (subst nat_digits.simps) simp
  next
    case False
    have "10 * int (n div 10) + int (n mod 10) = int n"
      using div_mult_mod_eq [of n 10] by presburger
    with False 1 show ?thesis
      by (subst nat_digits.simps) (simp add: digits_value_append)
  qed
qed

lemma nat_digits_hd: "nat_digits n \<noteq> [] \<and> digit_value (hd (nat_digits n)) \<noteq> None"
proof (induction n rule: nat_digits.induct)
  case (1 n)
  then show ?case
    by (cases "n < 10") (subst (1 2) nat_digits.simps, simp)+
qed

lemma nat_digits_sign: "hd (nat_digits n) \<noteq> CHR ''-''" "hd (nat_digits n) \<noteq> CHR ''+''"
  using nat_digits_hd [of n] by (auto simp: digit_value_def)

text \<open>Every machine integer is read back from its text.\<close>

lemma atoi_itoa: "in_int64 n \<Longrightarrow> atoi (itoa n) = Some n"
  using nat_digits_hd [of "nat n"] nat_digits_hd [of "nat (- n)"]
  by (auto simp: atoi_def itoa_def digits_value_nat nat_digits_sign Let_def)

lemma atoi_range: "atoi t = Some n \<Longrightarrow> in_int64 n"
  by (auto simp: atoi_def Let_def split: if_splits option.splits)

lemma set_join: "set (join sep ts) \<subseteq> set sep \<union> (\<Union>t \<in> set ts. set t)"
  by (induction sep ts rule: join.induct) auto

end
