(* ===== verification/Negotiation.thy ===== *)
theory Negotiation
  imports Go_Parsing Routing
begin

text \<open>
  The response negotiation of mutations (\<open>enhanced_action.go\<close>) and the actions that run a command
  (\<open>action_command.go\<close>). What the functions ask of a request is its headers: a context is \<open>None\<close>
  when it is nil or has no \<open>Header\<close> method.
\<close>

section \<open>Media types\<close>

type_synonym header_source = "(string \<Rightarrow> string) option"

definition request_header :: "header_source \<Rightarrow> string \<Rightarrow> string" where
  "request_header ctx key = (case ctx of None \<Rightarrow> [] | Some header \<Rightarrow> trim_space (header key))"

text \<open>The text before the first semicolon, trimmed again if there is one.\<close>

definition drop_parameters :: "string \<Rightarrow> string" where
  "drop_parameters item = (case cut_at '';'' item of None \<Rightarrow> item | Some (before, after) \<Rightarrow> trim_space before)"

definition accepts_media_type :: "string \<Rightarrow> string \<Rightarrow> bool" where
  "accepts_media_type header0 mediaType0 =
     (let header = trim_space header0; mediaType = to_lower (trim_space mediaType0)
      in if header = [] \<or> mediaType = [] then False
         else list_ex (\<lambda>part. to_lower (drop_parameters (trim_space part)) = mediaType) (split_on CHR '','' header))"

definition accepts_any_media_type :: "string \<Rightarrow> string list \<Rightarrow> bool" where
  "accepts_any_media_type header mediaTypes = list_ex (accepts_media_type header) mediaTypes"

definition is_form_content_type :: "string \<Rightarrow> bool" where
  "is_form_content_type contentType =
     (let bare = (case cut_at '';'' contentType of None \<Rightarrow> contentType | Some (before, after) \<Rightarrow> before)
      in to_lower (trim_space bare) \<in> {''application/x-www-form-urlencoded'', ''multipart/form-data''})"

section \<open>Enhanced requests\<close>

definition enhanced_request_header :: string where "enhanced_request_header = ''X-Enhanced-Action''"
definition enhanced_request_header_value :: string where "enhanced_request_header_value = ''1''"
definition enhanced_mutation_media_type :: string where
  "enhanced_mutation_media_type = ''application/vnd.crud.enhanced+json''"

datatype mutation_response_mode = ModeJSON | ModeHTML | ModeEnhanced

record mutation_request =
  mr_enhanced :: bool
  mr_accept :: string
  mr_content_type :: string
  mr_mode :: mutation_response_mode

record negotiation_config =
  nc_header :: string
  nc_header_value :: string
  nc_media_types :: "string list"

definition default_negotiation_config :: negotiation_config where
  "default_negotiation_config =
     \<lparr>nc_header = enhanced_request_header, nc_header_value = enhanced_request_header_value,
      nc_media_types = [enhanced_mutation_media_type]\<rparr>"

definition normalize_negotiation_config :: "negotiation_config \<Rightarrow> negotiation_config" where
  "normalize_negotiation_config cfg =
     \<lparr>nc_header = (if trim_space (nc_header cfg) = [] then enhanced_request_header else nc_header cfg),
      nc_header_value =
        (if trim_space (nc_header_value cfg) = [] then enhanced_request_header_value else nc_header_value cfg),
      nc_media_types = (if nc_media_types cfg = [] then [enhanced_mutation_media_type] else nc_media_types cfg)\<rparr>"

definition is_truthy_header :: "string \<Rightarrow> bool" where
  "is_truthy_header value0 =
     (let value = trim_space (to_lower value0)
      in if value = [] then False
         else if value \<in> {''1'', ''true'', ''yes'', ''on''} then True
         else parse_bool value = Some True)"

definition enhanced_header_matches :: "string \<Rightarrow> string \<Rightarrow> bool" where
  "enhanced_header_matches value expected0 =
     (let expected = trim_space expected0
      in if expected = [] \<or> expected = enhanced_request_header_value then is_truthy_header value
         else equal_fold (trim_space value) expected)"

definition is_enhanced_request_with :: "header_source \<Rightarrow> negotiation_config \<Rightarrow> bool" where
  "is_enhanced_request_with ctx cfg0 =
     (let cfg = normalize_negotiation_config cfg0; header = trim_space (nc_header cfg)
      in if header \<noteq> [] \<and> enhanced_header_matches (request_header ctx header) (nc_header_value cfg) then True
         else accepts_any_media_type (request_header ctx ''Accept'') (nc_media_types cfg))"

definition is_enhanced_request :: "header_source \<Rightarrow> bool" where
  "is_enhanced_request ctx = is_enhanced_request_with ctx default_negotiation_config"

definition accepts_enhanced_mutation_with :: "header_source \<Rightarrow> negotiation_config \<Rightarrow> bool" where
  "accepts_enhanced_mutation_with ctx cfg =
     accepts_any_media_type (request_header ctx ''Accept'') (nc_media_types (normalize_negotiation_config cfg))"

definition accepts_enhanced_mutation :: "header_source \<Rightarrow> bool" where
  "accepts_enhanced_mutation ctx = accepts_enhanced_mutation_with ctx default_negotiation_config"

definition accepts_json :: "header_source \<Rightarrow> bool" where
  "accepts_json ctx = accepts_media_type (request_header ctx ''Accept'') ''application/json''"

definition accepts_html :: "header_source \<Rightarrow> bool" where
  "accepts_html ctx = accepts_media_type (request_header ctx ''Accept'') ''text/html''"

definition is_form_request :: "header_source \<Rightarrow> bool" where
  "is_form_request ctx = is_form_content_type (request_header ctx ''Content-Type'')"

definition detect_mutation_request_with :: "header_source \<Rightarrow> negotiation_config \<Rightarrow> mutation_request" where
  "detect_mutation_request_with ctx cfg =
     (let accept = request_header ctx ''Accept''; contentType = request_header ctx ''Content-Type'';
          enhanced = is_enhanced_request_with ctx cfg
      in \<lparr>mr_enhanced = enhanced, mr_accept = accept, mr_content_type = contentType,
          mr_mode = (if enhanced then ModeEnhanced
                     else if accepts_media_type accept ''text/html'' \<and> is_form_content_type contentType then ModeHTML
                     else ModeJSON)\<rparr>)"

definition detect_mutation_request :: "header_source \<Rightarrow> mutation_request" where
  "detect_mutation_request ctx = detect_mutation_request_with ctx default_negotiation_config"

section \<open>Mutation responses\<close>

record ('d, 'm) mutation_response =
  mp_data :: 'd
  mp_operation :: string
  mp_status :: int
  mp_meta :: "(string, 'm) gomap option"

type_synonym ('d, 'm) mutation_option = "('d, 'm) mutation_response \<Rightarrow> ('d, 'm) mutation_response"

definition new_mutation_response :: "'d \<Rightarrow> string \<Rightarrow> ('d, 'm) mutation_option option list \<Rightarrow> ('d, 'm) mutation_response" where
  "new_mutation_response data op opts =
     fold (\<lambda>opt res. case opt of None \<Rightarrow> res | Some f \<Rightarrow> f res) opts
       \<lparr>mp_data = data, mp_operation = op, mp_status = 200, mp_meta = None\<rparr>"

definition with_mutation_status :: "int \<Rightarrow> ('d, 'm) mutation_option" where
  "with_mutation_status status res = (if status > 0 then res\<lparr>mp_status := status\<rparr> else res)"

definition with_mutation_meta :: "string \<Rightarrow> 'm \<Rightarrow> ('d, 'm) mutation_option" where
  "with_mutation_meta key0 value res =
     (let key = trim_space key0
      in if key = [] then res
         else res\<lparr>mp_meta := Some (put key value (case mp_meta res of None \<Rightarrow> [] | Some m \<Rightarrow> m))\<rparr>)"

section \<open>Actions that run a command\<close>

text \<open>
  The configuration of a command-backed action; \<open>'c\<close> is what a handler is given, \<open>'s\<close> the state of
  the application, and nil functions are \<open>None\<close>.
\<close>

record ('c, 'i, 'd, 'm, 's, 'err) command_action =
  cc_decode :: "('c \<Rightarrow> ('s, 'i \<times> 'err option) state) option"
  cc_command :: "('i \<Rightarrow> ('s, 'd \<times> 'err option) state) option"
  cc_respond :: "('c \<Rightarrow> mutation_request \<Rightarrow> ('d, 'm) mutation_response \<Rightarrow> ('s, 'err option) state) option"
  cc_on_error :: "('c \<Rightarrow> mutation_request \<Rightarrow> 'err \<Rightarrow> ('s, 'err option) state) option"
  cc_options :: "('d, 'm) mutation_option option list"

definition command_failed ::
  "('c, 'i, 'd, 'm, 's, 'err) command_action \<Rightarrow> 'c \<Rightarrow> mutation_request \<Rightarrow> 'err \<Rightarrow> ('s, 'err option) state" where
  "command_failed cfg actx req e =
     (case cc_on_error cfg of Some f \<Rightarrow> f actx req e | None \<Rightarrow> State_Monad.return (Some e))"

text \<open>\<open>headers\<close> and \<open>operation\<close> are those of the action context, \<open>errorf\<close> is \<open>errors.New\<close>.\<close>

definition command_backed_action_handler ::
  "(string \<Rightarrow> 'err) \<Rightarrow> ('c \<Rightarrow> header_source) \<Rightarrow> ('c \<Rightarrow> string) \<Rightarrow>
   ('c, 'i, 'd, 'm, 's, 'err) command_action \<Rightarrow> 'c \<Rightarrow> ('s, 'err option) state" where
  "command_backed_action_handler errorf headers operation cfg actx =
     (let req = detect_mutation_request (headers actx); fail = command_failed cfg actx req
      in case (cc_decode cfg, cc_command cfg, cc_respond cfg) of
           (None, _, _) \<Rightarrow> fail (errorf ''crud: command-backed action missing decoder'')
         | (_, None, _) \<Rightarrow> fail (errorf ''crud: command-backed action missing command executor'')
         | (_, _, None) \<Rightarrow> fail (errorf ''crud: command-backed action missing responder'')
         | (Some decode, Some run, Some respond) \<Rightarrow> do {
             (input, err) \<leftarrow> decode actx;
             (case err of
                Some e \<Rightarrow> fail e
              | None \<Rightarrow> do {
                  (result, err) \<leftarrow> run input;
                  (case err of
                     Some e \<Rightarrow> fail e
                   | None \<Rightarrow> respond actx req (new_mutation_response result (operation actx) (cc_options cfg)))
                })
           })"

section \<open>Space around parts\<close>

lemma dropWhile_spaces: "\<forall>c \<in> set pre. P c \<Longrightarrow> dropWhile P (pre @ t) = dropWhile P t"
  by (induction pre) auto

lemma trim_space_decompose:
  obtains pre post where "t = pre @ trim_space t @ post" "\<forall>c \<in> set pre. is_space c" "\<forall>c \<in> set post. is_space c"
proof -
  let ?l = "dropWhile is_space t"
  have l: "t = takeWhile is_space t @ ?l" by simp
  have "rev ?l = takeWhile is_space (rev ?l) @ dropWhile is_space (rev ?l)" by simp
  then have r: "?l = rev (dropWhile is_space (rev ?l)) @ rev (takeWhile is_space (rev ?l))"
    by (metis rev_append rev_rev_ident)
  have "t = takeWhile is_space t @ trim_space t @ rev (takeWhile is_space (rev ?l))"
    using l r by (simp add: trim_space_def trim_left_def)
  then show thesis
    by (rule that) (auto dest: set_takeWhileD)
qed

lemma trim_space_pad:
  assumes "\<forall>c \<in> set pre. is_space c" "\<forall>c \<in> set post. is_space c"
  shows "trim_space (pre @ t @ post) = trim_space t"
proof (cases "\<forall>c \<in> set t. is_space c")
  case True
  then have "trim_space (pre @ t @ post) = []" "trim_space t = []"
    using assms by (auto simp: trim_space_eq_Nil)
  then show ?thesis by simp
next
  case False
  then have "dropWhile is_space (t @ post) = dropWhile is_space t @ post"
    by (auto simp: dropWhile_append1)
  then show ?thesis
    using assms by (simp add: trim_space_def trim_left_def dropWhile_spaces)
qed

lemma split_by_pad_right:
  assumes "\<forall>c \<in> set post. \<not> P c"
  shows "split_by P (t @ post) = butlast (split_by P t) @ [last (split_by P t) @ post]"
proof (induction t)
  case Nil
  then show ?case using assms by (simp add: split_by_none)
next
  case (Cons c t)
  obtain w ws where w: "split_by P t = w # ws" by (cases "split_by P t") auto
  with Cons show ?case by (cases ws) auto
qed

lemma split_by_pad_left:
  assumes "\<forall>c \<in> set pre. \<not> P c"
  shows "split_by P (pre @ t) = (pre @ hd (split_by P t)) # tl (split_by P t)"
proof -
  obtain w ws where w: "split_by P t = w # ws" by (cases "split_by P t") auto
  show ?thesis using assms by (induction pre) (auto simp: w)
qed

lemma trimmed_parts:
  assumes "\<not> is_space sep"
  shows "map trim_space (split_on sep (trim_space t)) = map trim_space (split_on sep t)"
proof -
  obtain pre post where t: "t = pre @ trim_space t @ post"
    and sp: "\<forall>c \<in> set pre. is_space c" "\<forall>c \<in> set post. is_space c"
    by (rule trim_space_decompose)
  let ?P = "\<lambda>c. c = sep" and ?u = "trim_space t"
  let ?ws = "split_by ?P (?u @ post)"
  have np: "\<forall>c \<in> set pre. \<not> ?P c" "\<forall>c \<in> set post. \<not> ?P c" using sp assms by auto
  have pad: "trim_space (pre @ w) = trim_space w" "trim_space (w @ post) = trim_space w" for w
    using trim_space_pad [OF sp(1), of "[]" w] trim_space_pad [of "[]" post w] sp(2) by simp_all
  have "?ws \<noteq> []" by simp
  then have "map trim_space (split_by ?P (pre @ ?u @ post)) = map trim_space ?ws"
    unfolding split_by_pad_left [OF np(1)] by (cases ?ws) (simp_all add: pad)
  also have "\<dots> = map trim_space (split_by ?P ?u)"
  proof -
    have "split_by ?P ?u = butlast (split_by ?P ?u) @ [last (split_by ?P ?u)]" by simp
    then have "map trim_space (split_by ?P ?u) =
        map trim_space (butlast (split_by ?P ?u)) @ [trim_space (last (split_by ?P ?u))]"
      by (metis list.simps(8,9) map_append)
    then show ?thesis unfolding split_by_pad_right [OF np(2)] by (simp add: pad)
  qed
  finally show ?thesis using t by (simp add: split_on_def)
qed

section \<open>Accept headers\<close>

text \<open>A media range as a client writes it: a type and its parameters.\<close>

definition render_range :: "string \<times> string list \<Rightarrow> string" where
  "render_range r = join '';'' (fst r # snd r)"

definition clean_range :: "string \<times> string list \<Rightarrow> bool" where
  "clean_range r \<longleftrightarrow> CHR '';'' \<notin> set (fst r) \<and> (\<forall>t \<in> set (fst r # snd r). CHR '','' \<notin> set t)"

lemma range_type:
  assumes "CHR '';'' \<notin> set t"
  shows "to_lower (drop_parameters (trim_space (render_range (t, ps)))) = to_lower (trim_space t)"
proof (cases ps)
  case Nil
  have "CHR '';'' \<notin> set (trim_space t)" using assms set_trim_space by blast
  then show ?thesis using Nil by (simp add: render_range_def drop_parameters_def cut_at_notin)
next
  case (Cons p qs)
  let ?full = "t @ CHR '';'' # join '';'' (p # qs)"
  have f: "render_range (t, ps) = ?full" using Cons by (simp add: render_range_def)
  have semi: "\<not> is_space CHR '';''" by (simp add: is_space_def)
  have left: "trim_left ?full = trim_left t @ CHR '';'' # join '';'' (p # qs)"
    using semi by (simp add: trim_left_def dropWhile_append dropWhile_eq_Nil_conv)
  have "\<exists>rest. trim_space ?full = trim_left t @ CHR '';'' # rest"
    unfolding trim_space_def left using semi by (auto simp: dropWhile_append)
  then obtain rest where right: "trim_space ?full = trim_left t @ CHR '';'' # rest" by blast
  have free: "CHR '';'' \<notin> set (trim_left t)"
    using assms by (auto simp: trim_left_def dest: set_dropWhileD)
  have "trim_space (trim_left t) = trim_space t"
    by (simp add: trim_space_def trim_left_def dropWhile_idem)
  then show ?thesis
    unfolding f right drop_parameters_def by (simp add: cut_at_append_singleton [OF free])
qed

text \<open>
  The negotiation of a mutation reads an \<open>Accept\<close> header as the set of the media types in
  it: for a header that lists media ranges, a type is accepted exactly when one of the ranges names
  it, whatever the order of the ranges, their parameters, the space around them and the case of
  their letters.
\<close>

theorem accept_names_type:
  assumes clean: "\<forall>r \<in> set rs. clean_range r" and m: "trim_space mediaType \<noteq> []"
  shows "accepts_media_type (join '','' (map render_range rs)) mediaType \<longleftrightarrow>
    (\<exists>r \<in> set rs. equal_fold (trim_space (fst r)) (trim_space mediaType))"
proof (cases "rs = []")
  case True
  then show ?thesis by (simp add: accepts_media_type_def)
next
  case False
  let ?h = "join '','' (map render_range rs)"
  let ?read = "\<lambda>part. to_lower (drop_parameters part)"
  have free: "CHR '','' \<notin> set (render_range r)" if "r \<in> set rs" for r
    using clean that set_join [of "'';''" "fst r # snd r"] by (fastforce simp: render_range_def clean_range_def)
  have "split_on CHR '','' ?h = map render_range rs"
    using False free by (intro split_on_join) auto
  then have parts: "map trim_space (split_on CHR '','' (trim_space ?h)) = map trim_space (map render_range rs)"
    using trimmed_parts [of "CHR '',''" ?h] by (simp add: is_space_def)
  have type: "?read (trim_space (render_range r)) = to_lower (trim_space (fst r))" if "r \<in> set rs" for r
    using clean that range_type [of "fst r" "snd r"] by (auto simp: clean_range_def)
  have "list_ex (\<lambda>part. ?read (trim_space part) = to_lower (trim_space mediaType)) (split_on CHR '','' (trim_space ?h)) \<longleftrightarrow>
      (\<exists>t \<in> set (map trim_space (split_on CHR '','' (trim_space ?h))). ?read t = to_lower (trim_space mediaType))"
    by (auto simp: list_ex_iff)
  also have "\<dots> \<longleftrightarrow> (\<exists>r \<in> set rs. equal_fold (trim_space (fst r)) (trim_space mediaType))"
    unfolding parts using type by (auto simp: equal_fold_def)
  finally have ex: "list_ex (\<lambda>part. ?read (trim_space part) = to_lower (trim_space mediaType))
      (split_on CHR '','' (trim_space ?h)) \<longleftrightarrow> (\<exists>r \<in> set rs. equal_fold (trim_space (fst r)) (trim_space mediaType))" .
  moreover have "\<not> list_ex (\<lambda>part. ?read (trim_space part) = to_lower (trim_space mediaType)) (split_on CHR '','' [])"
  proof -
    have "to_lower (trim_space mediaType) \<noteq> []" using m by simp
    then show ?thesis by (simp add: split_on_def drop_parameters_def cut_at_notin eq_commute [of "[]"])
  qed
  ultimately show ?thesis using m by (auto simp: accepts_media_type_def Let_def)
qed

theorem accept_names_type_witness:
  "accepts_media_type (join '','' (map render_range [(''text/html'', [''q=0.9'']), ('' Application/JSON'', [])])) ''application/json''"
proof -
  let ?rs = "[(''text/html'', [''q=0.9'']), ('' Application/JSON'', [])]"
  have "\<forall>r \<in> set ?rs. clean_range r" by (simp add: clean_range_def)
  moreover have "trim_space ''application/json'' \<noteq> []" "equal_fold (trim_space '' Application/JSON'') (trim_space ''application/json'')"
    by code_simp+
  ultimately show ?thesis using accept_names_type [of ?rs "''application/json''"] by simp
qed

section \<open>Actions behind a guard\<close>

text \<open>
  An action that is refused does not run: when the scope guard answers an action's route with an
  error, the handler of the action is not called, whatever it is - a command behind
  \<open>CommandBackedActionHandler\<close> included, so its decoder and its command are not run either - and the
  error goes to the response handler.
\<close>

lemma refused_action_does_not_run:
  assumes "ct_context_factory c = None" "ct_guard c = Some g"
    and "g (wd_request s) (ra_operation a) = (r, Inl e)"
  shows "run_state (action_handler c run a hr) s =
    (Some (OnError (PlainError (Failed e)) (ra_operation a)), s\<lparr>wd_request := r\<rparr>)"
  using assms
  by (simp add: action_handler_def apply_context_factory_def guard_context_def resolve_guard_context_def Let_def)

text \<open>An action that fails is answered once, by the handler of errors; one that succeeds has answered itself.\<close>

lemma action_answers:
  assumes "ct_context_factory c = None"
    and "resolve_guard_context (ct_guard c) (wd_request s) (ra_operation a) = (r, Inr meta)"
  shows "fst (run_state (action_handler c run a hr) s) =
    map_option (\<lambda>e. OnError (PlainError (Failed e)) (ra_operation a))
      (fst (run_state (run (ra_handler a) hr
         \<lparr>acx_actor = clone_actor (gm_actor meta), acx_scope = clone_scope (gm_scope meta),
          acx_request_id = gm_request_id meta, acx_correlation_id = gm_correlation_id meta,
          acx_action = ra_descriptor a, acx_operation = ra_operation a\<rparr>) (s\<lparr>wd_request := r\<rparr>)))"
  using assms by (simp add: action_handler_def apply_context_factory_def guard_context_def case_prod_beta)

text \<open>The command of an action runs only on an input that was decoded, and the responder only on a result.\<close>

lemma command_runs_on_decoded:
  assumes "cc_decode cfg = Some decode" "run_state (decode actx) s = ((input, Some e), s')"
    and "cc_command cfg = Some run" "cc_respond cfg = Some respond" "cc_on_error cfg = None"
  shows "run_state (command_backed_action_handler errorf headers operation cfg actx) s = (Some e, s')"
  using assms by (simp add: command_backed_action_handler_def command_failed_def Let_def)

end
