(* ===== verification/Rpc_Context.thy ===== *)
theory Rpc_Context
  imports Go_Parsing Scope_Guard Query_Builder "HOL-Library.Multiset"
begin

text \<open>
  The request context of an RPC call (\<open>rpc/context.go\<close>): the identity and scope an envelope carries,
  read from dynamic values, and the methods the package asks of a request.
\<close>

section \<open>Dynamic values of an envelope\<close>

text \<open>
  A value of type \<open>any\<close> in an envelope, by the cases of the type switches of \<open>context.go\<close>. A number
  of \<open>json.Number\<close> and a float are given by their texts; \<open>RawMap\<close> is a \<open>map[string]any\<close>,
  \<open>RawStrMap\<close> a \<open>map[string]string\<close>, \<open>RawTyped\<close> a map of another type and \<open>RawSeq\<close> a slice or array
  of another type. A stringer is taken not to be a map, slice or array itself.
\<close>

datatype raw =
    RawNull
  | RawString string
  | RawBytes string
  | RawNumber string
  | RawStringer string
  | RawBool bool
  | RawInt int
  | RawFloat string
  | RawStrings "string list"
  | RawAnys "raw list"
  | RawSeq "raw list"
  | RawMap "(string \<times> raw) list"
  | RawStrMap "(string \<times> string) list"
  | RawTyped "(raw \<times> raw) list"
  | RawOther

text \<open>As the rest of the package sees such a value; it only passes it on.\<close>

fun raw_any :: "raw \<Rightarrow> go_any" where
  "raw_any RawNull = ANil"
| "raw_any (RawString t) = AString t"
| "raw_any (RawBytes t) = ASeq (map (\<lambda>c. AInt (int (of_char c))) t)"
| "raw_any (RawNumber t) = AStringer t"
| "raw_any (RawStringer t) = AStringer t"
| "raw_any (RawBool b) = ABool b"
| "raw_any (RawInt n) = AInt n"
| "raw_any (RawFloat t) = AFloat t"
| "raw_any (RawStrings ts) = AStrings ts"
| "raw_any (RawAnys vs) = AAnys (map raw_any vs)"
| "raw_any (RawSeq vs) = ASeq (map raw_any vs)"
| "raw_any v = ARef"

definition non_blank :: "string \<Rightarrow> string option" where
  "non_blank t = (if trim_space t \<noteq> [] then Some (trim_space t) else None)"

fun as_string :: "raw \<Rightarrow> string option" where
  "as_string (RawString t) = non_blank t"
| "as_string (RawBytes t) = non_blank t"
| "as_string (RawNumber t) = non_blank t"
| "as_string (RawStringer t) = non_blank t"
| "as_string (RawBool b) = Some (format_bool b)"
| "as_string (RawInt n) = Some (itoa n)"
| "as_string (RawFloat t) = Some t"
| "as_string v = None"

fun as_bool :: "raw \<Rightarrow> bool option" where
  "as_bool (RawBool b) = Some b"
| "as_bool (RawString t) = parse_bool (trim_space t)"
| "as_bool v = None"

definition normalize_string_slice :: "string list \<Rightarrow> string list" where
  "normalize_string_slice values = filter (\<lambda>t. t \<noteq> []) (map trim_space values)"

fun as_any_slice :: "raw \<Rightarrow> raw list option" where
  "as_any_slice (RawAnys vs) = Some vs"
| "as_any_slice (RawSeq vs) = Some vs"
| "as_any_slice (RawStrings ts) = Some (map RawString ts)"
| "as_any_slice (RawBytes t) = Some (map (\<lambda>c. RawInt (int (of_char c))) t)"
| "as_any_slice v = None"

definition as_string_slice :: "raw \<Rightarrow> string list" where
  "as_string_slice v =
     (case as_string v of
        Some t \<Rightarrow> [t]
      | None \<Rightarrow>
          (case v of
             RawNull \<Rightarrow> []
           | RawStrings ts \<Rightarrow> normalize_string_slice ts
           | _ \<Rightarrow> (case as_any_slice v of None \<Rightarrow> [] | Some items \<Rightarrow> List.map_filter as_string items)))"

text \<open>A map of another type keeps the entries whose keys have a text; later ones win.\<close>

definition typed_entries :: "(raw \<times> raw) list \<Rightarrow> (string, raw) gomap" where
  "typed_entries kvs =
     fold (\<lambda>(k, v) out. case as_string k of None \<Rightarrow> out | Some t \<Rightarrow> put t v out) kvs []"

fun map_as_string_any :: "raw \<Rightarrow> (string, raw) gomap option" where
  "map_as_string_any (RawMap m) = Some m"
| "map_as_string_any (RawStrMap m) = Some (map (apsnd RawString) m)"
| "map_as_string_any (RawTyped kvs) = (let out = typed_entries kvs in if out = [] then None else Some out)"
| "map_as_string_any v = None"

definition read_string_map :: "raw \<Rightarrow> (string, string) gomap option" where
  "read_string_map v =
     map_option (List.map_filter (\<lambda>(k, x). map_option (Pair k) (as_string x))) (map_as_string_any v)"

section \<open>The identity of an envelope\<close>

text \<open>The fields of \<open>commandrpc.RequestMeta\<close> the package reads.\<close>

record request_meta =
  rm_actor_id :: string
  rm_tenant :: string
  rm_roles :: "string list"
  rm_permissions :: "string list"
  rm_scope :: "(string, raw) gomap"
  rm_request_id :: string
  rm_correlation_id :: string
  rm_params :: "(string, string) gomap"
  rm_query :: "(string, string list) gomap"
  rm_headers :: "(string, string) gomap"

definition actor_from_meta :: "request_meta \<Rightarrow> actor_context" where
  "actor_from_meta meta =
     (let roles = normalize_string_slice (rm_roles meta);
          permissions = normalize_string_slice (rm_permissions meta)
      in zero_actor
           \<lparr>ac_actor_id := trim_space (rm_actor_id meta), ac_tenant_id := trim_space (rm_tenant meta),
            ac_role := (case roles of [] \<Rightarrow> [] | r # rs \<Rightarrow> r),
            ac_metadata :=
              (if roles \<noteq> [] then [(''roles'', AStrings roles)] else []) @
              (if permissions \<noteq> [] then [(''permissions'', AStrings permissions)] else [])\<rparr>)"

definition raw_at :: "(string, raw) gomap \<Rightarrow> string \<Rightarrow> raw" where
  "raw_at m k = (case map_of m k of Some v \<Rightarrow> v | None \<Rightarrow> RawNull)"

text \<open>One item of a list of column filters; the text of a missing column or operator is empty.\<close>

definition read_column_filter :: "raw \<Rightarrow> scope_column_filter option" where
  "read_column_filter item =
     (case map_as_string_any item of
        None \<Rightarrow> None
      | Some entry \<Rightarrow>
          (let column = (case as_string (raw_at entry ''column'') of Some t \<Rightarrow> t | None \<Rightarrow> []);
               operator = (case as_string (raw_at entry ''operator'') of Some t \<Rightarrow> t | None \<Rightarrow> []);
               listed = as_string_slice (raw_at entry ''values'');
               values = (if listed = [] then as_string_slice (raw_at entry ''value'') else listed)
           in if entry = [] \<or> trim_space column = [] \<or> values = [] then None
              else Some \<lparr>scf_column = column, scf_operator = operator, scf_values = values\<rparr>))"

definition read_column_filters :: "raw \<Rightarrow> scope_column_filter list" where
  "read_column_filters v =
     (case as_any_slice v of None \<Rightarrow> [] | Some items \<Rightarrow> List.map_filter read_column_filter items)"

definition add_listed_filters :: "scope_column_filter list \<Rightarrow> scope_filter \<Rightarrow> scope_filter" where
  "add_listed_filters fs sc = fold (\<lambda>f. add_column_filter (scf_column f) (scf_operator f) (scf_values f)) fs sc"

definition reserved_scope_key :: "string \<Rightarrow> bool" where
  "reserved_scope_key k \<longleftrightarrow> k \<in> {''bypass'', ''labels'', ''columnFilters'', ''column_filters''}"

text \<open>The other entries, each an equality filter, when no listed filter was added.\<close>

definition add_entry_filter :: "string \<times> raw \<Rightarrow> scope_filter \<Rightarrow> scope_filter" where
  "add_entry_filter entry sc =
     (case entry of (key, value) \<Rightarrow>
        (let values = as_string_slice value
         in if reserved_scope_key key \<or> values = [] then sc else add_column_filter key ''='' values sc))"

definition scope_from_meta :: "(string, raw) gomap \<Rightarrow> scope_filter" where
  "scope_from_meta m =
     (if m = [] then zero_scope
      else let s1 = zero_scope\<lparr>sf_raw := map (apsnd raw_any) m\<rparr>;
               s2 = (case as_bool (raw_at m ''bypass'') of Some b \<Rightarrow> s1\<lparr>sf_bypass := b\<rparr> | None \<Rightarrow> s1);
               s3 = (case read_string_map (raw_at m ''labels'') of
                       Some labels \<Rightarrow> (if labels \<noteq> [] then s2\<lparr>sf_labels := labels\<rparr> else s2)
                     | None \<Rightarrow> s2);
               s4 = add_listed_filters (read_column_filters (raw_at m ''columnFilters'')) s3;
               s5 = add_listed_filters (read_column_filters (raw_at m ''column_filters'')) s4
           in if sf_column_filters s5 = [] then fold add_entry_filter m s5 else s5)"

section \<open>The request context\<close>

definition header_lookup_key :: "string \<Rightarrow> string" where
  "header_lookup_key key = to_lower (trim_space key)"

definition normalize_headers :: "(string, string) gomap \<Rightarrow> (string, string) gomap" where
  "normalize_headers m =
     fold (\<lambda>(k, v) out. if header_lookup_key k = [] then out else put (header_lookup_key k) v out) m []"

text \<open>\<open>'d\<close> is what a handler answers with; copies of maps are equal maps.\<close>

record ('e, 'd) rpc_context =
  rc_user :: "'e user_context option"
  rc_params :: "(string, string) gomap"
  rc_query :: "(string, string list) gomap"
  rc_headers :: "(string, string) gomap"
  rc_status :: int
  rc_response :: "'d option"

definition new_request_context :: "'e user_context option \<Rightarrow> request_meta \<Rightarrow> ('e, 'd) rpc_context" where
  "new_request_context base meta =
     (let ctx0 = (case base of None \<Rightarrow> Some background | Some c \<Rightarrow> Some c);
          actor = actor_from_meta meta;
          ctx1 = (if actor_is_zero actor then ctx0 else context_with_actor actor ctx0);
          scope = scope_from_meta (rm_scope meta);
          ctx2 = (if scope_is_blank scope then ctx1 else context_with_scope scope ctx1);
          requestID = trim_space (rm_request_id meta);
          ctx3 = (if requestID \<noteq> [] then context_with_request_id requestID ctx2 else ctx2);
          corrID = trim_space (rm_correlation_id meta);
          ctx4 = (if corrID \<noteq> [] then context_with_correlation_id corrID ctx3 else ctx3)
      in \<lparr>rc_user = ctx4, rc_params = rm_params meta, rc_query = rm_query meta,
          rc_headers = normalize_headers (rm_headers meta), rc_status = 0, rc_response = None\<rparr>)"

definition rpc_set_user_context :: "'e user_context option \<Rightarrow> ('e, 'd) rpc_context \<Rightarrow> ('e, 'd) rpc_context" where
  "rpc_set_user_context ctx c = (if ctx = None then c else c\<lparr>rc_user := ctx\<rparr>)"

text \<open>A default value is \<open>None\<close> when the call gives none.\<close>

definition rpc_params :: "('e, 'd) rpc_context \<Rightarrow> string \<Rightarrow> string option \<Rightarrow> string" where
  "rpc_params c key def =
     (case map_of (rc_params c) key of
        Some v \<Rightarrow> (if trim_space v \<noteq> [] then v else case def of Some d \<Rightarrow> d | None \<Rightarrow> [])
      | None \<Rightarrow> (case def of Some d \<Rightarrow> d | None \<Rightarrow> []))"

definition rpc_query_values :: "('e, 'd) rpc_context \<Rightarrow> string \<Rightarrow> string list" where
  "rpc_query_values c key = (case map_of (rc_query c) key of Some vs \<Rightarrow> vs | None \<Rightarrow> [])"

definition rpc_query :: "('e, 'd) rpc_context \<Rightarrow> string \<Rightarrow> string option \<Rightarrow> string" where
  "rpc_query c key def =
     (case rpc_query_values c key of v # vs \<Rightarrow> v | [] \<Rightarrow> (case def of Some d \<Rightarrow> d | None \<Rightarrow> []))"

definition rpc_query_int :: "('e, 'd) rpc_context \<Rightarrow> string \<Rightarrow> int option \<Rightarrow> int" where
  "rpc_query_int c key def =
     (let value = rpc_query c key None; fallback = (case def of Some d \<Rightarrow> d | None \<Rightarrow> 0)
      in if value = [] then fallback else case atoi value of Some n \<Rightarrow> n | None \<Rightarrow> fallback)"

definition rpc_queries :: "('e, 'd) rpc_context \<Rightarrow> (string, string) gomap" where
  "rpc_queries c = List.map_filter (\<lambda>(k, vs). case vs of [] \<Rightarrow> None | v # _ \<Rightarrow> Some (k, v)) (rc_query c)"

definition rpc_header :: "('e, 'd) rpc_context \<Rightarrow> string \<Rightarrow> string" where
  "rpc_header c key = (case map_of (rc_headers c) (header_lookup_key key) of Some v \<Rightarrow> v | None \<Rightarrow> [])"

definition rpc_body_parser :: "'x option \<Rightarrow> string option" where
  "rpc_body_parser out =
     (case out of None \<Rightarrow> None | Some x \<Rightarrow> Some ''body parser not supported in rpc request context'')"

definition rpc_status :: "int \<Rightarrow> ('e, 'd) rpc_context \<Rightarrow> ('e, 'd) rpc_context" where
  "rpc_status n c = c\<lparr>rc_status := n\<rparr>"

definition rpc_json :: "'d \<Rightarrow> ('e, 'd) rpc_context \<Rightarrow> ('e, 'd) rpc_context" where
  "rpc_json d c = c\<lparr>rc_response := Some d\<rparr>"

text \<open>The context as the request the rest of the package works on.\<close>

definition rpc_request :: "('e, 'd) rpc_context \<Rightarrow> 'e request" where
  "rpc_request c = \<lparr>rq_user = rc_user c, rq_settable = True, rq_headers = Some (rpc_header c)\<rparr>"

definition rpc_http_query :: "('e, 'd) rpc_context \<Rightarrow> http_query" where
  "rpc_http_query c =
     \<lparr>hq_queries = rpc_queries c, hq_query = (\<lambda>k. rpc_query c k None), hq_query_int = (\<lambda>k d. rpc_query_int c k (Some d)),
      hq_query_values = rpc_query_values c\<rparr>"

section \<open>The scope of an envelope\<close>

text \<open>The filter an entry gives, if it gives one.\<close>

definition made_filter :: "string \<Rightarrow> string \<Rightarrow> string list \<Rightarrow> scope_column_filter option" where
  "made_filter column op vs =
     (let kept = filter (\<lambda>v. trim_space v \<noteq> []) vs
      in if trim_space column = [] \<or> kept = [] then None
         else Some \<lparr>scf_column = trim_space column, scf_operator = trim_space op, scf_values = kept\<rparr>)"

definition entry_filter :: "string \<times> raw \<Rightarrow> scope_column_filter option" where
  "entry_filter entry =
     (case entry of (key, value) \<Rightarrow>
        if reserved_scope_key key then None else made_filter key ''='' (as_string_slice value))"

lemma add_column_filter_made:
  "add_column_filter column op vs sc =
     (case made_filter column op vs of None \<Rightarrow> sc | Some f \<Rightarrow> sc\<lparr>sf_column_filters := sf_column_filters sc @ [f]\<rparr>)"
  by (simp add: add_column_filter_def made_filter_def Let_def)

lemma add_entry_filter_made:
  "add_entry_filter entry sc =
     (case entry_filter entry of None \<Rightarrow> sc | Some f \<Rightarrow> sc\<lparr>sf_column_filters := sf_column_filters sc @ [f]\<rparr>)"
  by (auto simp: add_entry_filter_def entry_filter_def add_column_filter_made made_filter_def Let_def
      split: prod.splits option.splits)

lemma fold_entry_filters:
  "fold add_entry_filter m sc = sc\<lparr>sf_column_filters := sf_column_filters sc @ List.map_filter entry_filter m\<rparr>"
  by (induction m arbitrary: sc) (simp_all add: add_entry_filter_made List.map_filter_simps split: option.split)

lemma listed_filters:
  "add_listed_filters fs sc =
     sc\<lparr>sf_column_filters := sf_column_filters sc @
        List.map_filter (\<lambda>f. made_filter (scf_column f) (scf_operator f) (scf_values f)) fs\<rparr>"
  unfolding add_listed_filters_def
  by (induction fs arbitrary: sc) (simp_all add: add_column_filter_made List.map_filter_simps split: option.split)

lemma made_filter_wf: "made_filter column op vs = Some f \<Longrightarrow> wf_column_filter f"
  by (auto simp: made_filter_def wf_column_filter_def Let_def list_all_iff split: if_splits)

lemma mset_map_filter: "mset (List.map_filter f xs) = image_mset (the \<circ> f) (filter_mset (\<lambda>x. f x \<noteq> None) (mset xs))"
  by (induction xs) (auto simp: List.map_filter_simps split: option.split)

text \<open>The filters of a list of column filters.\<close>

definition listed :: "raw \<Rightarrow> scope_column_filter list" where
  "listed v = List.map_filter (\<lambda>f. made_filter (scf_column f) (scf_operator f) (scf_values f)) (read_column_filters v)"

definition explicit_filters :: "(string, raw) gomap \<Rightarrow> scope_column_filter list" where
  "explicit_filters m = listed (raw_at m ''columnFilters'') @ listed (raw_at m ''column_filters'')"

lemma scope_filters:
  "sf_column_filters (scope_from_meta m) =
     (if explicit_filters m \<noteq> [] then explicit_filters m else List.map_filter entry_filter m)"
  by (simp add: scope_from_meta_def fold_entry_filters listed_filters explicit_filters_def listed_def zero_scope_def
      Let_def List.map_filter_simps raw_at_def read_column_filters_def split: option.split)

lemma scope_switches:
  "sf_bypass (scope_from_meta m) = (case as_bool (raw_at m ''bypass'') of Some b \<Rightarrow> b | None \<Rightarrow> False)"
  "sf_labels (scope_from_meta m) = (case read_string_map (raw_at m ''labels'') of Some l \<Rightarrow> l | None \<Rightarrow> [])"
  "sf_raw (scope_from_meta m) = map (apsnd raw_any) m"
  by (auto simp: scope_from_meta_def fold_entry_filters listed_filters zero_scope_def raw_at_def read_string_map_def
      Let_def split: option.split)

lemma raw_at_order: "wf_map m \<Longrightarrow> mset m' = mset m \<Longrightarrow> raw_at m' = raw_at m"
proof -
  assume "wf_map m" "mset m' = mset m"
  then have "wf_map m'" "set m' = set m"
    by (metis mset_map mset_eq_imp_distinct_iff, metis set_mset_mset)
  with \<open>wf_map m\<close> have "map_of m' = map_of m" by (simp add: map_of_inject_set)
  then show ?thesis by (simp add: raw_at_def fun_eq_iff)
qed

text \<open>
  The scope of an envelope does not depend on the order in which Go iterates over
  its map, but for the order of its filters; and whatever dynamic values the envelope holds, every
  filter has a trimmed, non-empty column and at least one value, none of them blank. Filters listed
  explicitly take the place of all others; without any, each other entry with a text is an
  equality.
\<close>

theorem rpc_scope_deterministic:
  assumes "wf_map m" "mset m' = mset m"
  shows "mset (sf_column_filters (scope_from_meta m')) = mset (sf_column_filters (scope_from_meta m)) \<and>
    sf_bypass (scope_from_meta m') = sf_bypass (scope_from_meta m) \<and>
    sf_labels (scope_from_meta m') = sf_labels (scope_from_meta m) \<and>
    wf_scope (scope_from_meta m) \<and>
    (explicit_filters m \<noteq> [] \<longrightarrow> sf_column_filters (scope_from_meta m) = explicit_filters m)"
proof -
  have r: "raw_at m' = raw_at m" using assms by (rule raw_at_order)
  have "wf_scope (scope_from_meta m)"
    by (auto simp: wf_scope_def list_all_iff scope_filters explicit_filters_def listed_def entry_filter_def
        List.map_filter_def intro: made_filter_wf split: if_splits)
  then show ?thesis
    by (simp add: r scope_filters scope_switches explicit_filters_def mset_map_filter assms(2))
qed

definition tenant_meta :: "(string, raw) gomap" where
  "tenant_meta = [(''tenant_id'', RawString ''t1''), (''region'', RawAnys [RawString ''eu'', RawInt 7, RawNull])]"

theorem rpc_scope_deterministic_witness:
  "wf_scope (scope_from_meta tenant_meta) \<and>
   mset (sf_column_filters (scope_from_meta (rev tenant_meta))) = mset (sf_column_filters (scope_from_meta tenant_meta))"
  using rpc_scope_deterministic [of tenant_meta "rev tenant_meta"] by (simp add: tenant_meta_def)

lemma tenant_meta_filters: "map scf_column (sf_column_filters (scope_from_meta tenant_meta)) = [''tenant_id'', ''region'']"
  by code_simp

text \<open>
  A listed filter without a usable value restricts nothing: the filter is dropped, and no other
  entry takes its place.
\<close>

lemma unusable_filter_restricts_nothing:
  "scope_select_criteria (scope_from_meta
     [(''columnFilters'', RawAnys [RawMap [(''column'', RawString ''tenant_id''), (''value'', RawString '''')]])]) = []"
  by code_simp

end
