(* ===== verification/Rpc_Endpoints.thy ===== *)
theory Rpc_Endpoints
  imports Rpc_Context Controller_Properties
begin

text \<open>
  The endpoints of an RPC server (\<open>rpc/register.go\<close>): eight methods that run the typed operations of
  a controller in the context of their envelope. The server and its envelopes are third-party code:
  a registration is the list of endpoint definitions handed to it.
\<close>

section \<open>Names\<close>

text \<open>The shape of the type parameter: a struct, a pointer (to a struct or not), or another type.\<close>

datatype type_shape = ShapeStruct | ShapePointer bool | ShapeOther

definition resolve_resource_name :: "type_shape \<Rightarrow> string \<Rightarrow> string \<Rightarrow> string" where
  "resolve_resource_name shape modelName explicit =
     (if trim_space explicit \<noteq> [] then trim_space explicit
      else case shape of
        ShapeStruct \<Rightarrow> trim_space modelName
      | ShapePointer to_struct \<Rightarrow> (if to_struct then trim_space modelName else [])
      | ShapeOther \<Rightarrow> [])"

record registration_options =
  ro_resource :: string
  ro_prefix :: string
  ro_resolver :: "(string \<Rightarrow> string \<Rightarrow> string) option"

definition default_method_prefix :: string where "default_method_prefix = ''crud''"

definition method_for :: "registration_options \<Rightarrow> string \<Rightarrow> string \<Rightarrow> string" where
  "method_for opts resource op =
     (let prefix = (if trim_space (ro_prefix opts) = [] then default_method_prefix else trim_space (ro_prefix opts));
          built = join ''.'' [prefix, resource, op]
      in case ro_resolver opts of
           Some f \<Rightarrow> (if trim_space (f resource op) \<noteq> [] then trim_space (f resource op) else built)
         | None \<Rightarrow> built)"

section \<open>Data of the calls\<close>


record ('r) delete_batch_data =
  bd_records :: "'r list"
  bd_ids :: "string list"

record show_data =
  sd_id :: string
  sd_criteria :: "criteria list"

record index_data =
  xd_options :: list_query_options
  xd_criteria :: "criteria list"

definition has_list_query_options :: "list_query_options \<Rightarrow> bool" where
  "has_list_query_options o' \<longleftrightarrow>
     lq_page o' \<noteq> 0 \<or> lq_per_page o' \<noteq> 0 \<or> lq_limit o' \<noteq> 0 \<or> lq_offset o' \<noteq> 0 \<or> lq_sort_by o' \<noteq> [] \<or>
     lq_sort_desc o' \<or> lq_order o' \<noteq> [] \<or> lq_search o' \<noteq> [] \<or> lq_filters o' \<noteq> [] \<or> lq_predicates o' \<noteq> [] \<or>
     lq_select o' \<noteq> [] \<or> lq_include o' \<noteq> []"

definition no_list_query_options :: list_query_options where
  "no_list_query_options =
     \<lparr>lq_page = 0, lq_per_page = 0, lq_limit = 0, lq_offset = 0, lq_sort_by = [], lq_sort_desc = False, lq_order = [],
      lq_search = [], lq_filters = [], lq_predicates = [], lq_select = [], lq_include = []\<rparr>"

definition build_index_criteria ::
  "crud_globals \<Rightarrow> model_info \<Rightarrow> list_query_options \<Rightarrow> criteria list \<Rightarrow> build_error + criteria list" where
  "build_index_criteria g model o' cs =
     (if has_list_query_options o'
      then (case build_list_criteria_from_options g model o' [] of
              Inl e \<Rightarrow> Inl e | Inr (built, fs) \<Rightarrow> Inr (cs @ built))
      else if cs = []
      then (case build_list_criteria_from_options g model no_list_query_options [] of
              Inl e \<Rightarrow> Inl e | Inr (built, fs) \<Rightarrow> Inr (cs @ built))
      else Inr cs)"

section \<open>Calls\<close>

text \<open>
  A call runs in a context of its own: the request of the world is the one of the envelope. A record
  that fails is answered with the error alone, and \<open>None\<close> is the panic of an operation.
\<close>

type_synonym ('err, 'y) rpc_answer = "('err crud_error + 'y) option"

definition rpc_http :: "('e, unit) rpc_context \<Rightarrow> http_request" where
  "rpc_http ctx = \<lparr>hr_query = rpc_http_query ctx, hr_id = rpc_params ctx ''id'' None, hr_body = []\<rparr>"

definition in_envelope ::
  "'e user_context option \<Rightarrow> request_meta \<Rightarrow> (http_request \<Rightarrow> (('e, 'r, 'v, 'w) world, 'y) state) \<Rightarrow>
   (('e, 'r, 'v, 'w) world, 'y) state" where
  "in_envelope base meta body = State (\<lambda>s.
     (let ctx = new_request_context base meta
      in run_state (body (rpc_http ctx)) (s\<lparr>wd_request := rpc_request ctx\<rparr>)))"

definition envelope :: "('a \<Rightarrow> 'y) \<Rightarrow> 'a \<times> 'err crud_error option \<Rightarrow> 'err crud_error + 'y" where
  "envelope f answer = (case answer of (x, Some e) \<Rightarrow> Inl e | (x, None) \<Rightarrow> Inr (f x))"

definition list_result :: "'r list \<Rightarrow> 'r list \<times> int" where
  "list_result rs = (rs, int (length rs))"

text \<open>The identifier of a call: the one of its data, or else the parameter of the envelope.\<close>

definition call_id :: "string \<Rightarrow> request_meta \<Rightarrow> string" where
  "call_id given meta =
     (if trim_space given \<noteq> [] then trim_space given
      else trim_space (case map_of (rm_params meta) ''id'' of Some v \<Rightarrow> v | None \<Rightarrow> []))"


definition rpc_create_batch ::
  "('e, 'r, 'v, 'w, 'h, 'err, 'a) controller \<Rightarrow> 'e user_context option \<Rightarrow> request_meta \<Rightarrow> 'r list \<Rightarrow>
   (('e, 'r, 'v, 'w) world, ('err, 'r list \<times> int) rpc_answer) state" where
  "rpc_create_batch c base meta rs = do {
     answer \<leftarrow> in_envelope base meta (\<lambda>hr. create_records c hr rs);
     State_Monad.return (Some (envelope list_result answer))
   }"

definition rpc_show ::
  "('e, 'r, 'v, 'w, 'h, 'err, 'a) controller \<Rightarrow> 'e user_context option \<Rightarrow> request_meta \<Rightarrow> show_data \<Rightarrow>
   (('e, 'r, 'v, 'w) world, ('err, 'r) rpc_answer) state" where
  "rpc_show c base meta d = do {
     answer \<leftarrow> in_envelope base meta (\<lambda>hr. show_by_id c hr (call_id (sd_id d) meta) (sd_criteria d));
     State_Monad.return (Some (envelope id answer))
   }"

definition rpc_index ::
  "('e, 'r, 'v, 'w, 'h, 'err, 'a) controller \<Rightarrow> 'e user_context option \<Rightarrow> request_meta \<Rightarrow> index_data \<Rightarrow>
   (('e, 'r, 'v, 'w) world, ('err, 'r list \<times> int) rpc_answer) state" where
  "rpc_index c base meta d =
     (case build_index_criteria (ct_globals c) (ct_model c) (xd_options d) (xd_criteria d) of
        Inl e \<Rightarrow> State_Monad.return (Some (Inl (QueryError e)))
      | Inr cs \<Rightarrow> do {
          (rs, count, err) \<leftarrow> in_envelope base meta (\<lambda>hr. index_with c hr cs);
          State_Monad.return (Some (envelope id ((rs, count), err)))
        })"


definition rpc_update_batch ::
  "('e, 'r, 'v, 'w, 'h, 'err, 'a) controller \<Rightarrow> 'e user_context option \<Rightarrow> request_meta \<Rightarrow> 'r list \<Rightarrow>
   (('e, 'r, 'v, 'w) world, ('err, 'r list \<times> int) rpc_answer) state" where
  "rpc_update_batch c base meta rs = do {
     answer \<leftarrow> in_envelope base meta (\<lambda>hr. update_records c hr rs);
     State_Monad.return (map_option (envelope list_result) answer)
   }"


text \<open>Records given by identifier are made before the operation starts.\<close>

definition rpc_delete_batch ::
  "('e, 'r, 'v, 'w, 'h, 'err, 'a) controller \<Rightarrow> 'e user_context option \<Rightarrow> request_meta \<Rightarrow> 'r delete_batch_data \<Rightarrow>
   (('e, 'r, 'v, 'w) world, ('err, int) rpc_answer) state" where
  "rpc_delete_batch c base meta d =
     in_envelope base meta (\<lambda>hr. do {
       parsed \<leftarrow> (if bd_records d = [] \<and> bd_ids d \<noteq> [] then records_from_ids c (bd_ids d)
                  else State_Monad.return (Inr (bd_records d)));
       (case parsed of
          Inl e \<Rightarrow> State_Monad.return (Some (Inl (PlainError (Failed e))))
        | Inr rs \<Rightarrow> do {
            err \<leftarrow> delete_records c hr rs;
            State_Monad.return (Some (envelope (\<lambda>u. int (length rs)) ((), err)))
          })
     })"

section \<open>Registration\<close>

datatype method_kind = KindCommand | KindQuery

datatype rpc_operation =
    RpcCreate | RpcCreateBatch | RpcShow | RpcIndex | RpcUpdate | RpcUpdateBatch | RpcDelete | RpcDeleteBatch

record endpoint =
  ep_method :: string
  ep_kind :: method_kind
  ep_operation :: rpc_operation

definition endpoint_specs :: "(string \<times> method_kind \<times> rpc_operation) list" where
  "endpoint_specs =
     [(''create'', KindCommand, RpcCreate), (''create_batch'', KindCommand, RpcCreateBatch),
      (''show'', KindQuery, RpcShow), (''index'', KindQuery, RpcIndex), (''update'', KindCommand, RpcUpdate),
      (''update_batch'', KindCommand, RpcUpdateBatch), (''delete'', KindCommand, RpcDelete),
      (''delete_batch'', KindCommand, RpcDeleteBatch)]"

text \<open>\<open>server\<close> is \<open>RegisterEndpoints\<close> of the registrar, which may refuse the definitions.\<close>

definition register_resource_endpoints ::
  "(endpoint list \<Rightarrow> string option) option \<Rightarrow> 'c option \<Rightarrow> type_shape \<Rightarrow> string \<Rightarrow> registration_options \<Rightarrow>
   string + endpoint list" where
  "register_resource_endpoints server controller shape modelName opts =
     (case server of
        None \<Rightarrow> Inl ''rpc registrar is required''
      | Some register \<Rightarrow>
          if controller = None then Inl ''controller is required''
          else (let resource = resolve_resource_name shape modelName (ro_resource opts);
                    defs = map (\<lambda>(op, kind, f). \<lparr>ep_method = method_for opts resource op, ep_kind = kind, ep_operation = f\<rparr>)
                             endpoint_specs
                in if resource = [] then Inl ''resource name is required''
                   else case register defs of Some e \<Rightarrow> Inl e | None \<Rightarrow> Inr defs))"

section \<open>What a call sees\<close>

lemma actor_from_meta_zero:
  "actor_is_zero (actor_from_meta meta) \<longleftrightarrow>
     trim_space (rm_actor_id meta) = [] \<and> trim_space (rm_tenant meta) = [] \<and> normalize_string_slice (rm_roles meta) = []"
proof (cases "normalize_string_slice (rm_roles meta)")
  case (Cons r rs)
  then have "r \<in> set (normalize_string_slice (rm_roles meta))" by simp
  then have "r \<noteq> []" by (simp add: normalize_string_slice_def)
  with Cons show ?thesis by (simp add: actor_is_zero_def actor_from_meta_def zero_actor_def Let_def)
qed (simp add: actor_is_zero_def actor_from_meta_def zero_actor_def Let_def)

lemma blank_scope_is_zero: "scope_is_blank (scope_from_meta m) \<Longrightarrow> scope_from_meta m = zero_scope"
proof -
  assume "scope_is_blank (scope_from_meta m)"
  then have "m = []" by (simp add: scope_is_blank_def scope_switches)
  then show ?thesis by (simp add: scope_from_meta_def)
qed

lemma envelope_context:
  fixes meta :: request_meta
  assumes "base = None \<or> base = Some background"
  defines "ctx \<equiv> rc_user (new_request_context base meta)"
  shows "ctx \<noteq> None"
    and "actor_from_context ctx = (if actor_is_zero (actor_from_meta meta) then zero_actor else actor_from_meta meta)"
    and "scope_from_context ctx = scope_from_meta (rm_scope meta)"
    and "request_id_from_context ctx = trim_space (rm_request_id meta)"
    and "correlation_id_from_context ctx = trim_space (rm_correlation_id meta)"
  using assms(1) blank_scope_is_zero [of "rm_scope meta"] unfolding ctx_def
  by (auto simp: new_request_context_def Let_def context_with_actor_def context_with_scope_def
      context_with_request_id_def context_with_correlation_id_def background_def actor_from_context_def
      scope_from_context_def request_id_from_context_def correlation_id_from_context_def clone_actor_def clone_scope_def)

section \<open>Commands\<close>

abbreviation envelope_request :: "'e user_context option \<Rightarrow> request_meta \<Rightarrow> 'e request" where
  "envelope_request base meta \<equiv> rpc_request (new_request_context base meta :: ('e, unit) rpc_context)"





lemma trim_call_id [simp]: "trim_space (call_id given meta) = call_id given meta"
  by (simp add: call_id_def)


definition sample_meta :: request_meta where
  "sample_meta = \<lparr>rm_actor_id = ''u1'', rm_tenant = [], rm_roles = [], rm_permissions = [], rm_scope = tenant_meta,
     rm_request_id = '' r1 '', rm_correlation_id = [], rm_params = [(''id'', '' 0'')], rm_query = [], rm_headers = []\<rparr>"


section \<open>Identity\<close>

text \<open>Attaching the actor and the scope of a request to the request itself changes neither, nor the identifiers.\<close>

lemma reattach_actor:
  assumes "actor_from_context (rq_user r) = a"
  shows "actor_from_context (rq_user (attach_actor_to_request_context a r)) = a"
    "scope_from_context (rq_user (attach_actor_to_request_context a r)) = scope_from_context (rq_user r)"
    "request_id_from_context (rq_user (attach_actor_to_request_context a r)) = request_id_from_context (rq_user r)"
    "correlation_id_from_context (rq_user (attach_actor_to_request_context a r)) = correlation_id_from_context (rq_user r)"
  using assms
  by (auto simp: attach_actor_to_request_context_def set_user_context_def context_with_actor_def actor_from_context_def
      scope_from_context_def request_id_from_context_def correlation_id_from_context_def clone_actor_def split: option.splits)

lemma reattach_scope:
  assumes "scope_from_context (rq_user r) = sc"
  shows "scope_from_context (rq_user (attach_scope_to_request_context sc r)) = sc"
    "request_id_from_context (rq_user (attach_scope_to_request_context sc r)) = request_id_from_context (rq_user r)"
    "correlation_id_from_context (rq_user (attach_scope_to_request_context sc r)) = correlation_id_from_context (rq_user r)"
  using assms
  by (auto simp: attach_scope_to_request_context_def set_user_context_def context_with_scope_def
      scope_from_context_def request_id_from_context_def correlation_id_from_context_def clone_scope_def split: option.splits)

lemma no_guard_keeps:
  assumes "resolve_guard_context None r0 op = (r, Inr gm)"
  shows "gm_actor gm = actor_from_context (rq_user r0)" "gm_scope gm = scope_from_context (rq_user r0)"
    "request_id_from_context (rq_user r0) \<noteq> [] \<Longrightarrow> gm_request_id gm = request_id_from_context (rq_user r0)"
    "correlation_id_from_context (rq_user r0) \<noteq> [] \<Longrightarrow> gm_correlation_id gm = correlation_id_from_context (rq_user r0)"
proof -
  let ?a = "actor_from_context (rq_user r0)" and ?s = "scope_from_context (rq_user r0)"
  define r1 where "r1 = (if actor_is_zero ?a then r0 else attach_actor_to_request_context ?a r0)"
  define r2 where "r2 = (if scope_has_filters ?s \<or> sf_bypass ?s then attach_scope_to_request_context ?s r1 else r1)"
  have k1: "actor_from_context (rq_user r1) = ?a" "scope_from_context (rq_user r1) = ?s"
      "request_id_from_context (rq_user r1) = request_id_from_context (rq_user r0)"
      "correlation_id_from_context (rq_user r1) = correlation_id_from_context (rq_user r0)"
    by (simp_all add: r1_def reattach_actor)
  have k2: "actor_from_context (rq_user r2) = ?a" "scope_from_context (rq_user r2) = ?s"
      "request_id_from_context (rq_user r2) = request_id_from_context (rq_user r0)"
      "correlation_id_from_context (rq_user r2) = correlation_id_from_context (rq_user r0)"
    using k1 by (simp_all add: r2_def reattach_scope attach_scope_keeps_actor)
  have gm: "gm = snd (finish_guard_context ?a ?s r2)"
    using assms unfolding resolve_guard_context_def Let_def option.case r1_def [symmetric] r2_def [symmetric]
    by (auto simp: case_prod_beta)
  show "gm_actor gm = ?a" "gm_scope gm = ?s"
    "request_id_from_context (rq_user r0) \<noteq> [] \<Longrightarrow> gm_request_id gm = request_id_from_context (rq_user r0)"
    "correlation_id_from_context (rq_user r0) \<noteq> [] \<Longrightarrow> gm_correlation_id gm = correlation_id_from_context (rq_user r0)"
    unfolding gm
    by (simp_all add: finish_guard_context_def attach_identifiers_keeps k2 resolve_request_id_def resolve_correlation_id_def Let_def)
qed

text \<open>
  Without a guard, the identity of a call is exactly the one of its envelope: the
  operation runs as the actor the envelope names (nobody, when it names no actor, tenant or role),
  under the scope the envelope carries, with its request and correlation identifiers, trimmed.
\<close>

theorem rpc_identity:
  assumes base: "base = None \<or> base = Some background"
    and guard: "resolve_guard_context None (envelope_request base meta) op = (r, Inr gm)"
  shows "gm_actor gm = (if actor_is_zero (actor_from_meta meta) then zero_actor else actor_from_meta meta) \<and>
    gm_scope gm = scope_from_meta (rm_scope meta) \<and>
    (trim_space (rm_request_id meta) \<noteq> [] \<longrightarrow> gm_request_id gm = trim_space (rm_request_id meta)) \<and>
    (trim_space (rm_correlation_id meta) \<noteq> [] \<longrightarrow> gm_correlation_id gm = trim_space (rm_correlation_id meta))"
  using no_guard_keeps [OF guard] envelope_context [OF base, of meta, where ?'b = unit] by (simp add: rpc_request_def)

theorem rpc_identity_witness:
  "\<exists>r gm. resolve_guard_context (None :: (string, unit) scope_guard option) (envelope_request None sample_meta) ''show'' = (r, Inr gm) \<and>
     gm_scope gm = scope_from_meta tenant_meta \<and> gm_request_id gm = ''r1''"
proof -
  obtain r gm where "resolve_guard_context (None :: (string, unit) scope_guard option) (envelope_request None sample_meta) ''show'' = (r, Inr gm)"
    by (simp add: resolve_guard_context_def Let_def case_prod_beta)
  moreover from rpc_identity [OF _ this] have "gm_scope gm = scope_from_meta tenant_meta"
      "trim_space '' r1 '' \<noteq> [] \<longrightarrow> gm_request_id gm = trim_space '' r1 ''"
    by (simp_all add: sample_meta_def)
  moreover have "trim_space '' r1 '' = ''r1''" by code_simp
  ultimately show ?thesis by auto
qed

section \<open>Registered methods\<close>

lemma method_for_default:
  "ro_resolver opts = None \<Longrightarrow> method_for opts resource op = method_for opts resource op' \<Longrightarrow> op = op'"
  by (simp add: method_for_def Let_def)

text \<open>
  Without a resolver of their names, the eight endpoints that are registered have
  pairwise distinct methods, whatever the prefix and the resource, so no call reaches an operation
  other than the one its method names.
\<close>

theorem rpc_methods_distinct:
  assumes "ro_resolver opts = None"
    and "register_resource_endpoints server controller shape modelName opts = Inr defs"
  shows "distinct (map ep_method defs) \<and> length defs = 8 \<and>
    map ep_operation defs =
      [RpcCreate, RpcCreateBatch, RpcShow, RpcIndex, RpcUpdate, RpcUpdateBatch, RpcDelete, RpcDeleteBatch]"
proof -
  let ?r = "resolve_resource_name shape modelName (ro_resource opts)"
  have d: "defs = map (\<lambda>(op, kind, f). \<lparr>ep_method = method_for opts ?r op, ep_kind = kind, ep_operation = f\<rparr>) endpoint_specs"
    using assms(2) by (auto simp: register_resource_endpoints_def Let_def split: option.splits if_splits)
  have m: "map ep_method defs = map (method_for opts ?r) (map fst endpoint_specs)"
    by (simp add: d case_prod_beta o_def)
  have "inj (method_for opts ?r)" using method_for_default [OF assms(1)] by (rule injI)
  moreover have "distinct (map fst endpoint_specs)" by (simp add: endpoint_specs_def)
  ultimately have "distinct (map ep_method defs)" unfolding m
    by (subst distinct_map) (blast intro: inj_on_subset)
  then show ?thesis by (simp add: d endpoint_specs_def)
qed

theorem rpc_methods_distinct_witness:
  "\<exists>defs. register_resource_endpoints (Some (\<lambda>defs. None)) (Some ()) ShapeStruct ''user''
     \<lparr>ro_resource = [], ro_prefix = [], ro_resolver = None\<rparr> = Inr defs \<and> distinct (map ep_method defs)"
proof -
  have "trim_space ''user'' = ''user''" by code_simp
  then obtain defs where "register_resource_endpoints (Some (\<lambda>defs. None)) (Some ()) ShapeStruct ''user''
      \<lparr>ro_resource = [], ro_prefix = [], ro_resolver = None\<rparr> = Inr defs"
    by (simp add: register_resource_endpoints_def resolve_resource_name_def Let_def)
  with rpc_methods_distinct [OF _ this] show ?thesis by simp
qed

section \<open>Lists and field policies\<close>

text \<open>The calls criteria make on an empty query.\<close>

definition calls_made :: "criteria list \<Rightarrow> qcall list" where
  "calls_made cs = sq_calls (apply_criteria cs \<lparr>sq_dialect = None, sq_calls = []\<rparr>)"

definition email_options :: list_query_options where
  "email_options = no_list_query_options
     \<lparr>lq_predicates := [\<lparr>lqp_field = ''email'', lqp_operator = ''eq'', lqp_values = [''x'']\<rparr>]\<rparr>"

text \<open>
  The criteria of an RPC list ignore the field policy: under a policy that denies
  \<open>email\<close>, an HTTP list drops the condition on it, but the RPC method \<open>index\<close> builds its criteria
  before the policy is resolved and keeps it, so a caller learns the values of a field it is not
  shown.
\<close>

theorem rpc_index_ignores_policy:
  "(let model = \<lparr>mi_allowed = user_fields, mi_metadata = None, mi_descriptor = None\<rparr>;
        decision = build_resolved_field_policy (plain_policy\<lparr>fp_deny := [''email'']\<rparr>) user_fields ''user'' op_list
    in map_sum id calls_made (build_index_criteria sample_globals model email_options []) =
         Inr [QLimit 25, QOffset 0, QWhere ''email = ?'' (Arg ''x'')] \<and>
       map_sum id (calls_made \<circ> fst) (build_query_criteria_with sample_globals model
           (sample_query [(''email'', ''x'')]) op_list (policy_query_options decision)) =
         Inr [QLimit 25, QOffset 0])"
  by code_simp

end
