(* ===== verification/Relation_Descriptors.thy ===== *)
theory Relation_Descriptors
  imports Relation_Metadata
begin

text \<open>
  The relation descriptors of the types (\<open>relation_descriptor.go\<close>, \<open>WithRelationFilter\<close> in \<open>options.go\<close> and
  the calls of them in \<open>query_config.go\<close>): the provider of every type, the cache of descriptors and the
  query configurations made from them. The lemmas show that the cache of descriptors is never stale, and
  that the configurations made from them can be.
\<close>

section \<open>The state\<close>

text \<open>
  What the router library does: a provider \<open>'p\<close> builds the descriptor of a type or fails, and the filters
  \<open>'q\<close> registered so far are applied to it.
\<close>

record ('p, 'q, 'f) relation_router =
  ro_build :: "'p \<Rightarrow> go_type \<Rightarrow> 'f relation_descriptor option"
  ro_filter :: "'q list \<Rightarrow> go_type \<Rightarrow> 'f relation_descriptor \<Rightarrow> 'f relation_descriptor option"
  ro_default :: 'p

record ('p, 'q, 'f) relation_state =
  rs_providers :: "(go_type, 'p) gomap"
  rs_descriptors :: "(go_type, 'f relation_descriptor option) gomap"
  rs_filters :: "'q list"
  rs_queries :: query_registry

definition no_relations :: "('p, 'q, 'f) relation_state" where
  "no_relations =
     \<lparr>rs_providers = [], rs_descriptors = [], rs_filters = [],
      rs_queries = \<lparr>fields_cache = [], query_configs = []\<rparr>\<rparr>"

section \<open>Operations\<close>

definition drop_query_config :: "go_type \<Rightarrow> query_registry \<Rightarrow> query_registry" where
  "drop_query_config base r =
     (case base of TStruct t \<Rightarrow> r\<lparr>query_configs := del t (query_configs r)\<rparr> | _ \<Rightarrow> r)"

definition register_relation_provider ::
  "('p, 'q, 'f) relation_router \<Rightarrow> go_type \<Rightarrow> 'p option \<Rightarrow> ('p, 'q, 'f) relation_state \<Rightarrow> ('p, 'q, 'f) relation_state" where
  "register_relation_provider R typ provider s =
     (let base = indirect_type typ;
          p = (case provider of None \<Rightarrow> ro_default R | Some p \<Rightarrow> p)
      in s\<lparr>rs_providers := put base p (rs_providers s),
           rs_descriptors := del base (rs_descriptors s),
           rs_queries := drop_query_config base (rs_queries s)\<rparr>)"

definition get_relation_descriptor_for_type ::
  "('p, 'q, 'f) relation_router \<Rightarrow> go_type \<Rightarrow> ('p, 'q, 'f) relation_state \<Rightarrow>
   'f relation_descriptor option \<times> ('p, 'q, 'f) relation_state" where
  "get_relation_descriptor_for_type R typ s =
     (let base = indirect_type typ
      in case map_of (rs_descriptors s) base of
           Some descriptor \<Rightarrow> (descriptor, s)
         | None \<Rightarrow>
             (let provider = (case map_of (rs_providers s) base of None \<Rightarrow> ro_default R | Some p \<Rightarrow> p)
              in case ro_build R provider base of
                   None \<Rightarrow> (None, s)
                 | Some d \<Rightarrow>
                     (let descriptor = ro_filter R (rs_filters s) base d
                      in (descriptor, s\<lparr>rs_descriptors := put base descriptor (rs_descriptors s)\<rparr>))))"

definition invalidate_relation_descriptor_cache :: "('p, 'q, 'f) relation_state \<Rightarrow> ('p, 'q, 'f) relation_state" where
  "invalidate_relation_descriptor_cache s = s\<lparr>rs_descriptors := []\<rparr>"

definition with_relation_filter :: "'q option \<Rightarrow> ('p, 'q, 'f) relation_state \<Rightarrow> ('p, 'q, 'f) relation_state" where
  "with_relation_filter q s =
     (case q of
        None \<Rightarrow> s
      | Some f \<Rightarrow> invalidate_relation_descriptor_cache (s\<lparr>rs_filters := rs_filters s @ [f]\<rparr>))"

text \<open>
  The two functions of the query configuration with the descriptor they ask for. A struct type always has
  metadata, so that the descriptor is read before or after the build makes no difference.
\<close>

definition register_type_config ::
  "('p, 'q, 'f) relation_router \<Rightarrow> type_env \<Rightarrow> (string \<Rightarrow> string) \<Rightarrow> go_type \<Rightarrow> field_map_provider option \<Rightarrow>
   ('p, 'q, 'f) relation_state \<Rightarrow> ('p, 'q, 'f) relation_state" where
  "register_type_config R env snake typ provider s =
     (case indirect_type typ of
        TStruct t \<Rightarrow>
          (case get_relation_descriptor_for_type R (TStruct t) s of
             (d, s') \<Rightarrow> s'\<lparr>rs_queries := register_query_config env snake d (TStruct t) provider (rs_queries s')\<rparr>)
      | _ \<Rightarrow> s)"

definition type_relation_metadata ::
  "('p, 'q, 'f) relation_router \<Rightarrow> type_env \<Rightarrow> (string \<Rightarrow> string) \<Rightarrow> go_type \<Rightarrow> ('p, 'q, 'f) relation_state \<Rightarrow>
   relation_metadata option \<times> ('p, 'q, 'f) relation_state" where
  "type_relation_metadata R env snake typ s =
     (case indirect_type typ of
        TStruct t \<Rightarrow>
          (case map_of (query_configs (rs_queries s)) t of
             Some root \<Rightarrow> (Some root, s)
           | None \<Rightarrow>
               (case get_relation_descriptor_for_type R (TStruct t) s of
                  (d, s') \<Rightarrow>
                    (case get_relation_metadata_for_type env snake d (TStruct t) (rs_queries s') of
                       (m, q) \<Rightarrow> (m, s'\<lparr>rs_queries := q\<rparr>))))
      | _ \<Rightarrow> (None, s))"

section \<open>Sequences of operations\<close>

datatype ('p, 'q) relation_call =
    RegisterProvider go_type "'p option"
  | AddRelationFilter "'q option"
  | ReadDescriptor go_type
  | RegisterConfig go_type "field_map_provider option"
  | ReadMetadata go_type

definition relation_step ::
  "('p, 'q, 'f) relation_router \<Rightarrow> type_env \<Rightarrow> (string \<Rightarrow> string) \<Rightarrow> ('p, 'q) relation_call \<Rightarrow>
   ('p, 'q, 'f) relation_state \<Rightarrow> ('p, 'q, 'f) relation_state" where
  "relation_step R env snake c s =
     (case c of
        RegisterProvider typ p \<Rightarrow> register_relation_provider R typ p s
      | AddRelationFilter q \<Rightarrow> with_relation_filter q s
      | ReadDescriptor typ \<Rightarrow> snd (get_relation_descriptor_for_type R typ s)
      | RegisterConfig typ provider \<Rightarrow> register_type_config R env snake typ provider s
      | ReadMetadata typ \<Rightarrow> snd (type_relation_metadata R env snake typ s))"

definition relation_calls ::
  "('p, 'q, 'f) relation_router \<Rightarrow> type_env \<Rightarrow> (string \<Rightarrow> string) \<Rightarrow> ('p, 'q) relation_call list \<Rightarrow>
   ('p, 'q, 'f) relation_state" where
  "relation_calls R env snake cs = fold (relation_step R env snake) cs no_relations"

section \<open>What the cache stands for\<close>

text \<open>The provider of a type and the filters after a sequence of operations, and the descriptor they give.\<close>

fun last_provider :: "'p \<Rightarrow> ('p, 'q) relation_call list \<Rightarrow> go_type \<Rightarrow> 'p \<Rightarrow> 'p" where
  "last_provider dflt [] base p = p"
| "last_provider dflt (RegisterProvider typ q # cs) base p =
     last_provider dflt cs base (if indirect_type typ = base then (case q of None \<Rightarrow> dflt | Some q' \<Rightarrow> q') else p)"
| "last_provider dflt (c # cs) base p = last_provider dflt cs base p"

fun filters_added :: "('p, 'q) relation_call list \<Rightarrow> 'q list" where
  "filters_added [] = []"
| "filters_added (AddRelationFilter (Some q) # cs) = q # filters_added cs"
| "filters_added (c # cs) = filters_added cs"

definition descriptor_of ::
  "('p, 'q, 'f) relation_router \<Rightarrow> ('p, 'q) relation_call list \<Rightarrow> go_type \<Rightarrow> 'f relation_descriptor option" where
  "descriptor_of R cs base =
     (case ro_build R (last_provider (ro_default R) cs base (ro_default R)) base of
        None \<Rightarrow> None
      | Some d \<Rightarrow> ro_filter R (filters_added cs) base d)"

definition provider_of :: "('p, 'q, 'f) relation_router \<Rightarrow> ('p, 'q, 'f) relation_state \<Rightarrow> go_type \<Rightarrow> 'p" where
  "provider_of R s base = (case map_of (rs_providers s) base of None \<Rightarrow> ro_default R | Some p \<Rightarrow> p)"

definition fresh_descriptor ::
  "('p, 'q, 'f) relation_router \<Rightarrow> ('p, 'q, 'f) relation_state \<Rightarrow> go_type \<Rightarrow> 'f relation_descriptor option" where
  "fresh_descriptor R s base =
     (case ro_build R (provider_of R s base) base of None \<Rightarrow> None | Some d \<Rightarrow> ro_filter R (rs_filters s) base d)"

definition cache_fresh :: "('p, 'q, 'f) relation_router \<Rightarrow> ('p, 'q, 'f) relation_state \<Rightarrow> bool" where
  "cache_fresh R s \<longleftrightarrow> (\<forall>base d. map_of (rs_descriptors s) base = Some d \<longrightarrow> d = fresh_descriptor R s base)"

lemma fresh_descriptor_cong:
  "rs_providers s' = rs_providers s \<Longrightarrow> rs_filters s' = rs_filters s \<Longrightarrow>
   fresh_descriptor R s' = fresh_descriptor R s"
  by (simp add: fresh_descriptor_def provider_of_def fun_eq_iff cong: option.case_cong)

lemma cache_fresh_queries [simp]: "cache_fresh R (s\<lparr>rs_queries := q\<rparr>) = cache_fresh R s"
  by (simp add: cache_fresh_def fresh_descriptor_cong [of "s\<lparr>rs_queries := q\<rparr>" s])

lemma get_descriptor_eq:
  "get_relation_descriptor_for_type R typ s =
     (case map_of (rs_descriptors s) (indirect_type typ) of
        Some d \<Rightarrow> (d, s)
      | None \<Rightarrow>
          (fresh_descriptor R s (indirect_type typ),
           if ro_build R (provider_of R s (indirect_type typ)) (indirect_type typ) = None then s
           else s\<lparr>rs_descriptors := put (indirect_type typ) (fresh_descriptor R s (indirect_type typ)) (rs_descriptors s)\<rparr>))"
proof (cases "ro_build R (provider_of R s (indirect_type typ)) (indirect_type typ)")
  case None
  then show ?thesis
    unfolding get_relation_descriptor_for_type_def Let_def fresh_descriptor_def provider_of_def
    by (simp only: option.case simp_thms if_True cong: option.case_cong)
next
  case (Some d)
  then show ?thesis
    unfolding get_relation_descriptor_for_type_def Let_def fresh_descriptor_def provider_of_def
    by (simp only: option.case option.distinct simp_thms if_False cong: option.case_cong)
qed

lemma descriptor_read:
  assumes "cache_fresh R s" "get_relation_descriptor_for_type R typ s = (d, s')"
  shows "d = fresh_descriptor R s (indirect_type typ)" "cache_fresh R s'"
    "rs_providers s' = rs_providers s" "rs_filters s' = rs_filters s" "rs_queries s' = rs_queries s"
proof -
  let ?b = "indirect_type typ"
  consider "map_of (rs_descriptors s) ?b = Some d" "s' = s"
    | "d = fresh_descriptor R s ?b" "s' = s"
    | "d = fresh_descriptor R s ?b" "s' = s\<lparr>rs_descriptors := put ?b (fresh_descriptor R s ?b) (rs_descriptors s)\<rparr>"
  proof (cases "map_of (rs_descriptors s) ?b")
    case None
    with assms(2) that show thesis unfolding get_descriptor_eq by (simp only: option.case) (auto split: if_splits)
  next
    case (Some d0)
    with assms(2) have "map_of (rs_descriptors s) ?b = Some d \<and> s' = s" by (auto simp: get_descriptor_eq)
    then show thesis using that(1) by blast
  qed
  note cases = this
  have same: "fresh_descriptor R (s\<lparr>rs_descriptors := c\<rparr>) = fresh_descriptor R s" for c
    by (rule fresh_descriptor_cong) simp_all
  show "cache_fresh R s'"
    by (rule cases) (use assms(1) in \<open>auto simp: cache_fresh_def same\<close>)
  show "d = fresh_descriptor R s ?b"
    by (rule cases) (use assms(1) in \<open>auto simp: cache_fresh_def\<close>)
  show "rs_providers s' = rs_providers s" "rs_filters s' = rs_filters s" "rs_queries s' = rs_queries s"
    by (rule cases; simp)+
qed

lemma config_registered:
  assumes "cache_fresh R s"
  shows "cache_fresh R (register_type_config R env snake typ provider s)"
    "rs_providers (register_type_config R env snake typ provider s) = rs_providers s"
    "rs_filters (register_type_config R env snake typ provider s) = rs_filters s"
  using assms
  by (auto simp: register_type_config_def split: go_type.split prod.split dest: descriptor_read)

lemma metadata_read:
  assumes "cache_fresh R s"
  shows "cache_fresh R (snd (type_relation_metadata R env snake typ s))"
    "rs_providers (snd (type_relation_metadata R env snake typ s)) = rs_providers s"
    "rs_filters (snd (type_relation_metadata R env snake typ s)) = rs_filters s"
  using assms
  by (auto simp: type_relation_metadata_def split: go_type.split option.split prod.split dest: descriptor_read)

lemma descriptor_read_state:
  assumes "cache_fresh R s"
  shows "cache_fresh R (snd (get_relation_descriptor_for_type R typ s))"
    "rs_providers (snd (get_relation_descriptor_for_type R typ s)) = rs_providers s"
    "rs_filters (snd (get_relation_descriptor_for_type R typ s)) = rs_filters s"
  using descriptor_read [OF assms surjective_pairing] by auto

text \<open>A step keeps the cache fresh, and what it makes of the providers and the filters is what the call says.\<close>

lemma relation_step_provider:
  assumes "cache_fresh R s"
  shows "cache_fresh R (register_relation_provider R typ p s)"
proof -
  let ?s' = "register_relation_provider R typ p s" and ?b = "indirect_type typ"
  have "provider_of R ?s' base = provider_of R s base" if "base \<noteq> ?b" for base
    using that by (simp add: register_relation_provider_def provider_of_def Let_def)
  then have "fresh_descriptor R ?s' base = fresh_descriptor R s base" if "base \<noteq> ?b" for base
    using that by (simp add: fresh_descriptor_def register_relation_provider_def Let_def cong: option.case_cong)
  with assms show ?thesis
    by (simp add: cache_fresh_def) (simp add: register_relation_provider_def Let_def)
qed

lemma relation_step_fresh:
  assumes "cache_fresh R s"
  shows "cache_fresh R (relation_step R env snake c s)"
proof (cases c)
  case (AddRelationFilter q)
  with assms show ?thesis
    by (cases q)
      (simp_all add: relation_step_def with_relation_filter_def invalidate_relation_descriptor_cache_def cache_fresh_def)
qed (use assms in \<open>simp_all add: relation_step_def relation_step_provider descriptor_read_state config_registered
      metadata_read\<close>)

lemma relation_step_state:
  assumes "cache_fresh R s"
  shows "provider_of R (relation_step R env snake c s) base = last_provider (ro_default R) [c] base (provider_of R s base)"
    and "rs_filters (relation_step R env snake c s) = rs_filters s @ filters_added [c]"
proof -
  show "provider_of R (relation_step R env snake c s) base = last_provider (ro_default R) [c] base (provider_of R s base)"
  proof (cases c)
    case (RegisterProvider ty p)
    then show ?thesis
      by (cases p) (simp_all add: relation_step_def register_relation_provider_def provider_of_def Let_def)
  next
    case (AddRelationFilter q)
    then show ?thesis
      by (cases q)
        (simp_all add: relation_step_def with_relation_filter_def invalidate_relation_descriptor_cache_def provider_of_def)
  qed (use assms in \<open>simp_all add: provider_of_def relation_step_def descriptor_read_state config_registered
        metadata_read\<close>)
  show "rs_filters (relation_step R env snake c s) = rs_filters s @ filters_added [c]"
  proof (cases c)
    case (AddRelationFilter q)
    then show ?thesis
      by (cases q) (simp_all add: relation_step_def with_relation_filter_def invalidate_relation_descriptor_cache_def)
  qed (use assms in \<open>simp_all add: relation_step_def register_relation_provider_def Let_def descriptor_read_state
        config_registered metadata_read\<close>)
qed

lemma last_provider_Cons:
  "last_provider dflt (c # cs) base p = last_provider dflt cs base (last_provider dflt [c] base p)"
  by (cases c) simp_all

lemma filters_added_Cons: "filters_added (c # cs) = filters_added [c] @ filters_added cs"
proof (cases c)
  case (AddRelationFilter q)
  then show ?thesis by (cases q) simp_all
qed simp_all

lemma relation_steps:
  assumes "cache_fresh R s"
  shows "cache_fresh R (fold (relation_step R env snake) cs s)"
    and "provider_of R (fold (relation_step R env snake) cs s) base = last_provider (ro_default R) cs base (provider_of R s base)"
    and "rs_filters (fold (relation_step R env snake) cs s) = rs_filters s @ filters_added cs"
proof -
  have "cache_fresh R (fold (relation_step R env snake) cs s) \<and>
    provider_of R (fold (relation_step R env snake) cs s) base = last_provider (ro_default R) cs base (provider_of R s base) \<and>
    rs_filters (fold (relation_step R env snake) cs s) = rs_filters s @ filters_added cs"
    using assms
  proof (induction cs arbitrary: s)
    case (Cons c cs)
    note relation_step_state [OF Cons.prems, of env snake c]
    with Cons.IH [OF relation_step_fresh [OF Cons.prems, of env snake c]] show ?case
      by (simp add: last_provider_Cons [of _ c cs] filters_added_Cons [of c cs] del: last_provider.simps filters_added.simps)
  qed simp
  then show "cache_fresh R (fold (relation_step R env snake) cs s)"
    "provider_of R (fold (relation_step R env snake) cs s) base = last_provider (ro_default R) cs base (provider_of R s base)"
    "rs_filters (fold (relation_step R env snake) cs s) = rs_filters s @ filters_added cs"
    by simp_all
qed

lemma calls_descriptor:
  "cache_fresh R (relation_calls R env snake cs)"
  "fresh_descriptor R (relation_calls R env snake cs) base = descriptor_of R cs base"
proof -
  have start: "cache_fresh R (no_relations :: ('p, 'q, 'f) relation_state)" for R :: "('p, 'q, 'f) relation_router"
    by (simp add: cache_fresh_def no_relations_def)
  show "cache_fresh R (relation_calls R env snake cs)"
    using relation_steps(1) [OF start] by (simp add: relation_calls_def)
  show "fresh_descriptor R (relation_calls R env snake cs) base = descriptor_of R cs base"
    using relation_steps(2,3) [OF start, of R env snake cs]
    by (simp add: relation_calls_def fresh_descriptor_def descriptor_of_def)
      (simp add: provider_of_def no_relations_def cong: option.case_cong)
qed


section \<open>Descriptors and metadata\<close>

text \<open>What the constructor of a controller does last: its provider, then its query configuration.\<close>

definition initialize_relations ::
  "('p, 'q, 'f) relation_router \<Rightarrow> type_env \<Rightarrow> (string \<Rightarrow> string) \<Rightarrow> go_type \<Rightarrow> 'p option \<Rightarrow> field_map_provider option \<Rightarrow>
   ('p, 'q, 'f) relation_state \<Rightarrow> ('p, 'q, 'f) relation_state" where
  "initialize_relations R env snake typ p provider s =
     register_type_config R env snake typ provider (register_relation_provider R typ p s)"

lemma accepted_prune_by:
  assumes "rd_tree d = Some node"
  shows "accepted (prune_by (Some d) m) \<subseteq> offered node"
  using assms prune_accepts [of m node] by (auto simp: prune_by_def prune_relation_metadata_def)

lemma config_stored:
  assumes "map_of (query_configs (register_query_config env snake d (TStruct t) provider q)) t = Some m"
    and "map_of (query_configs q) t = None"
  shows "\<exists>root. m = prune_by d root"
  using assms by (auto simp: register_query_config_def split: prod.splits option.splits)

lemma initialized_config:
  assumes s: "cache_fresh R s" and base: "indirect_type typ = TStruct t"
    and m: "fst (type_relation_metadata R env snake typ (initialize_relations R env snake typ p provider s)) = Some m"
  shows "\<exists>root. m = prune_by (fresh_descriptor R (register_relation_provider R typ p s) (TStruct t)) root"
proof -
  let ?s = "register_relation_provider R typ p s" and ?S = "TStruct t"
  have i: "cache_fresh R ?s" using s by (rule relation_step_provider)
  obtain d s' where d: "get_relation_descriptor_for_type R ?S ?s = (d, s')" by fastforce
  note read = descriptor_read [OF i d]
  define q where "q = register_query_config env snake d ?S provider (rs_queries s')"
  have "map_of (query_configs (rs_queries s')) t = None"
    by (simp add: read(5) register_relation_provider_def base drop_query_config_def Let_def)
  then have stored: "\<exists>root. x = prune_by d root" if "map_of (query_configs q) t = Some x" for x
    using that unfolding q_def by (rule config_stored [rotated])
  have init: "initialize_relations R env snake typ p provider s = s'\<lparr>rs_queries := q\<rparr>"
    by (simp add: initialize_relations_def register_type_config_def base d q_def)
  show ?thesis
  proof (cases "map_of (query_configs q) t")
    case (Some x)
    with m stored show ?thesis by (auto simp: init type_relation_metadata_def base read(1))
  next
    case None
    obtain d2 s2 where d2: "get_relation_descriptor_for_type R ?S (s'\<lparr>rs_queries := q\<rparr>) = (d2, s2)" by fastforce
    have fresh: "cache_fresh R (s'\<lparr>rs_queries := q\<rparr>)" using read(2) by simp
    note read2 = descriptor_read [OF fresh d2]
    have "d2 = fresh_descriptor R ?s ?S"
      using read2(1) fresh_descriptor_cong [of "s'\<lparr>rs_queries := q\<rparr>" ?s R] read(3,4) by simp
    with m None show ?thesis
      by (auto simp: init type_relation_metadata_def base d2 get_relation_metadata_for_type_def read2(5) Let_def
          split: prod.splits option.splits)
  qed
qed

text \<open>
  C18 (safety). The relations a client may include on a type follow the filters: whatever happened before,
  once a controller of the type is built, its relation metadata resolve only paths that the tree of the
  type's descriptor offers, with every relation filter registered up to then applied.
\<close>

theorem initialized_metadata_offered:
  "case fst (type_relation_metadata R env snake typ
           (initialize_relations R env snake typ p provider (relation_calls R env snake cs))) of
     None \<Rightarrow> True
   | Some m \<Rightarrow>
       (case descriptor_of R (cs @ [RegisterProvider typ p]) (indirect_type typ) of
          None \<Rightarrow> True
        | Some d \<Rightarrow> (case rd_tree d of None \<Rightarrow> True | Some node \<Rightarrow> accepted m \<subseteq> offered node))"
proof (cases "\<exists>t. indirect_type typ = TStruct t")
  case True
  then obtain t where t: "indirect_type typ = TStruct t" by blast
  have "register_relation_provider R typ p (relation_calls R env snake cs) =
      relation_calls R env snake (cs @ [RegisterProvider typ p])"
    by (simp add: relation_calls_def relation_step_def)
  then have *: "fresh_descriptor R (register_relation_provider R typ p (relation_calls R env snake cs)) (TStruct t) =
      descriptor_of R (cs @ [RegisterProvider typ p]) (TStruct t)"
    by (simp add: calls_descriptor(2))
  let ?init = "initialize_relations R env snake typ p provider (relation_calls R env snake cs)"
  have "accepted m \<subseteq> offered node"
    if m: "fst (type_relation_metadata R env snake typ ?init) = Some m" and node: "rd_tree d = Some node"
      and d: "descriptor_of R (cs @ [RegisterProvider typ p]) (indirect_type typ) = Some d" for m d node
  proof -
    obtain root where "m = prune_by (Some d) root"
      using initialized_config [OF calls_descriptor(1) t m] d by (auto simp: * t)
    with node show ?thesis by (simp add: accepted_prune_by)
  qed
  then show ?thesis by (simp split: option.split)
next
  case False
  then show ?thesis by (auto simp: type_relation_metadata_def split: go_type.split)
qed

text \<open>
  A filter registered after the metadata of a type were built does not reach them: the descriptor of the
  type no longer offers the relation, its metadata still accept it, and a client can include it.
\<close>

definition hiding_router :: "(unit, string, unit) relation_router" where
  "hiding_router =
     \<lparr>ro_build = (\<lambda>p t. Some \<lparr>rd_includes = [''Author''], rd_relations = [],
                              rd_tree = Some (RelationNode [(''Author'', RelationNode [])])\<rparr>),
      ro_filter = (\<lambda>qs t d. Some (if qs = [] then d
                                   else d\<lparr>rd_includes := [], rd_tree := Some (RelationNode [])\<rparr>)),
      ro_default = ()\<rparr>"

definition before_filter :: "(unit, string) relation_call list" where
  "before_filter = [RegisterProvider (TStruct ''Article'') None, RegisterConfig (TStruct ''Article'') None]"

theorem late_filter_does_not_reach_metadata:
  "let s = relation_calls hiding_router article_env to_lower (before_filter @ [AddRelationFilter (Some ''no authors'')])
   in map_option rd_includes (fst (get_relation_descriptor_for_type hiding_router (TStruct ''Article'') s)) = Some [] \<and>
      map_option (\<lambda>m. meta_accepts m [''author'']) (fst (type_relation_metadata hiding_router article_env to_lower (TStruct ''Article'') s)) =
        Some True"
  by code_simp

end
