(* ===== verification/Controller_Setup.thy ===== *)
theory Controller_Setup
  imports Controller_Properties Routing Responses Relation_Descriptors
begin

text \<open>
  How a controller is put together: the options (\<open>options.go\<close>), the hook combinators (\<open>hooks.go\<close>) and the
  construction (\<open>NewController\<close>, \<open>initialize\<close>, \<open>buildService\<close>, \<open>composeService\<close> and \<open>attachVirtualFieldHooks\<close>
  in \<open>controller.go\<close>). The lemmas show what the services of a controller are in terms of its list of
  options, and that guards and policies are part of them exactly when the service is the default one.
\<close>

section \<open>Hooks\<close>

definition empty_hooks :: "('s, 'e, 'r, 'err) lifecycle_hooks" where
  "empty_hooks = \<lparr>lh_before_create = [], lh_after_create = [], lh_before_create_batch = [], lh_after_create_batch = [],
     lh_before_update = [], lh_after_update = [], lh_before_update_batch = [], lh_after_update_batch = [],
     lh_after_read = [], lh_after_list = [], lh_before_delete = [], lh_after_delete = [],
     lh_before_delete_batch = [], lh_after_delete_batch = []\<rparr>"

definition merge_lifecycle_hooks ::
  "('s, 'e, 'r, 'err) lifecycle_hooks \<Rightarrow> ('s, 'e, 'r, 'err) lifecycle_hooks \<Rightarrow> ('s, 'e, 'r, 'err) lifecycle_hooks" where
  "merge_lifecycle_hooks base add =
     \<lparr>lh_before_create = lh_before_create base @ lh_before_create add,
      lh_after_create = lh_after_create base @ lh_after_create add,
      lh_before_create_batch = lh_before_create_batch base @ lh_before_create_batch add,
      lh_after_create_batch = lh_after_create_batch base @ lh_after_create_batch add,
      lh_before_update = lh_before_update base @ lh_before_update add,
      lh_after_update = lh_after_update base @ lh_after_update add,
      lh_before_update_batch = lh_before_update_batch base @ lh_before_update_batch add,
      lh_after_update_batch = lh_after_update_batch base @ lh_after_update_batch add,
      lh_after_read = lh_after_read base @ lh_after_read add,
      lh_after_list = lh_after_list base @ lh_after_list add,
      lh_before_delete = lh_before_delete base @ lh_before_delete add,
      lh_after_delete = lh_after_delete base @ lh_after_delete add,
      lh_before_delete_batch = lh_before_delete_batch base @ lh_before_delete_batch add,
      lh_after_delete_batch = lh_after_delete_batch base @ lh_after_delete_batch add\<rparr>"

text \<open>
  A legacy hook of a context and a record, for single records and for batches; the context of a hook is
  the request of the world, so that the adapted hook ignores the rest. A nil hook stays nil.
\<close>

definition hook_from_context :: "('x \<Rightarrow> ('s, 'err) no_result) option \<Rightarrow> ('s, 'e, 'x, 'err) lifecycle_hook option" where
  "hook_from_context hook = map_option (\<lambda>h hctx x. h x) hook"

fun chain_hooks :: "('s, 'e, 'x, 'err) lifecycle_hook option list \<Rightarrow> ('s, 'e, 'x, 'err) lifecycle_hook" where
  "chain_hooks [] hctx x = State_Monad.return None"
| "chain_hooks (h # hs) hctx x =
     (case h of
        None \<Rightarrow> chain_hooks hs hctx x
      | Some f \<Rightarrow> do {
          err \<leftarrow> f hctx x;
          (case err of Some e \<Rightarrow> State_Monad.return (Some e) | None \<Rightarrow> chain_hooks hs hctx x)
        })"

section \<open>The parts of a controller\<close>

text \<open>
  What the options set. \<open>'k\<close> is the handler of an action, \<open>'p\<close> a relation provider. The options that only
  store a deserializer, a logger or the admin metadata of the OpenAPI document are left out.
\<close>

record ('e, 'r, 'v, 'w, 'h, 'err, 'k, 'p) controller_setup =
  su_service :: "('e, 'r, 'v, 'w, 'err) world_service option"
  su_read_service :: "('e, 'r, 'v, 'w, 'err) world_service option"
  su_write_service :: "('e, 'r, 'v, 'w, 'err) world_service option"
  su_overrides :: "(('e, 'r, 'v, 'w) world, 'r, 'err) service_funcs option"
  su_command_factory :: "(('e, 'r, 'v, 'w, 'err) world_service \<Rightarrow> ('e, 'r, 'v, 'w, 'err) world_service option) option"
  su_hooks :: "(('e, 'r, 'v, 'w) world, 'e, 'r, 'err) lifecycle_hooks"
  su_guard :: "('err, 'e) scope_guard option"
  su_policy :: "('e, 'r, 'v, 'w, 'err) policy_provider option"
  su_context_factory :: "(http_request \<times> 'e request \<Rightarrow> (http_request \<times> 'e request) option) option"
  su_fields :: "field_map_provider option"
  su_query_logging :: bool
  su_route_config :: route_config
  su_batch_segment :: string
  su_return_order_by_id :: bool
  su_activity :: "'h emitter option"
  su_notification :: "'e option"
  su_actions :: "'k action list"
  su_relation_provider :: "'p option"
  su_responses :: "('e, 'r, 'err) response_handler option"
  su_virtual_enabled :: bool
  su_virtual_config :: virtual_config
  su_virtual_defs :: "virtual_def list"
  su_merge_policy :: merge_policy

text \<open>
  The program around it: the types of the model and their fields, strcase, the runtime of the activity
  layer, the fields the policy layer may use, and the hooks of a virtual field handler.
\<close>

record ('e, 'r, 'v, 'w, 'h, 'err, 'p, 'q, 'f) program =
  pg_env :: type_env
  pg_is_string_map :: "go_type \<Rightarrow> bool"
  pg_model_type :: go_type
  pg_type_resource :: string
  pg_model_fields :: "string list option"
  pg_snake :: "string \<Rightarrow> string"
  pg_runtime :: "('e, 'r, 'v, 'w, 'h, 'err) activity_runtime"
  pg_zero :: 'r
  pg_fields :: field_map
  pg_errors :: "'err error_library"
  pg_virtual_hooks :: "virtual_config \<Rightarrow> virtual_def list \<Rightarrow> (('e, 'r, 'v, 'w) world, 'e, 'r, 'err) virtual_processor"
  pg_relations :: "('p, 'q, 'f) relation_router"

definition zero_virtual_config :: virtual_config where
  "zero_virtual_config = \<lparr>vc_preserve = None, vc_copy_metadata = False, vc_clear = None, vc_allow_zero_tag = [], vc_dialect = []\<rparr>"

definition new_controller_base ::
  "('e, 'r, 'v, 'w, 'h, 'err, 'p, 'q, 'f) program \<Rightarrow> ('e, 'r, 'v, 'w, 'h, 'err, 'k, 'p) controller_setup" where
  "new_controller_base P =
     \<lparr>su_service = None, su_read_service = None, su_write_service = None, su_overrides = None,
      su_command_factory = None, su_hooks = empty_hooks, su_guard = None, su_policy = None,
      su_context_factory = None, su_fields = None, su_query_logging = False, su_route_config = [],
      su_batch_segment = ''batch'', su_return_order_by_id = False, su_activity = None, su_notification = None,
      su_actions = [], su_relation_provider = Some (ro_default (pg_relations P)),
      su_responses = Some (new_default_response_handler (pg_errors P)),
      su_virtual_enabled = False, su_virtual_config = zero_virtual_config, su_virtual_defs = [],
      su_merge_policy = default_merge_policy\<rparr>"

section \<open>Options\<close>

text \<open>An option of the controller; a nil argument is \<open>None\<close>.\<close>

datatype ('e, 'r, 'v, 'w, 'h, 'err, 'k, 'p, 'q) controller_option =
    WithService "('e, 'r, 'v, 'w, 'err) world_service option"
  | WithReadService "('e, 'r, 'v, 'w, 'err) world_service option"
  | WithWriteService "('e, 'r, 'v, 'w, 'err) world_service option"
  | WithServiceFuncs "(('e, 'r, 'v, 'w) world, 'r, 'err) service_funcs"
  | WithCommandService "(('e, 'r, 'v, 'w, 'err) world_service \<Rightarrow> ('e, 'r, 'v, 'w, 'err) world_service option) option"
  | WithLifecycleHooks "(('e, 'r, 'v, 'w) world, 'e, 'r, 'err) lifecycle_hooks"
  | WithScopeGuard "('err, 'e) scope_guard option"
  | WithFieldPolicyProvider "('e, 'r, 'v, 'w, 'err) policy_provider option"
  | WithContextFactory "(http_request \<times> 'e request \<Rightarrow> (http_request \<times> 'e request) option) option"
  | WithFieldMapProvider "field_map_provider option"
  | WithQueryLogging bool
  | WithRouteConfig route_config
  | WithBatchRouteSegment string
  | WithBatchReturnOrderByID bool
  | WithActivityHooks "'h option list" activity_config
  | WithNotificationEmitter "'e option"
  | WithActions "'k action list"
  | WithRelationMetadataProvider "'p option"
  | WithRelationFilter "'q option"
  | WithResponseHandler "('e, 'r, 'err) response_handler option"
  | WithErrorEncoder "('e, 'r, 'err) error_encoder option"
  | WithVirtualFields "virtual_config option"

text \<open>
  What an option does: it changes the controller, and \<open>WithRelationFilter\<close> the filters of the process.
\<close>

definition apply_option ::
  "('e, 'r, 'v, 'w, 'h, 'err, 'p, 'q, 'f) program \<Rightarrow> ('e, 'r, 'v, 'w, 'h, 'err, 'k, 'p, 'q) controller_option \<Rightarrow>
   ('e, 'r, 'v, 'w, 'h, 'err, 'k, 'p) controller_setup \<Rightarrow> ('e, 'r, 'v, 'w, 'h, 'err, 'k, 'p) controller_setup" where
  "apply_option P opt c =
     (case opt of
        WithService svc \<Rightarrow> c\<lparr>su_service := svc\<rparr>
      | WithReadService svc \<Rightarrow> c\<lparr>su_read_service := svc\<rparr>
      | WithWriteService svc \<Rightarrow> c\<lparr>su_write_service := svc\<rparr>
      | WithServiceFuncs funcs \<Rightarrow> c\<lparr>su_overrides := Some funcs\<rparr>
      | WithCommandService factory \<Rightarrow>
          (case factory of None \<Rightarrow> c | Some f \<Rightarrow> c\<lparr>su_command_factory := Some f\<rparr>)
      | WithLifecycleHooks hooks \<Rightarrow> c\<lparr>su_hooks := merge_lifecycle_hooks (su_hooks c) hooks\<rparr>
      | WithScopeGuard g \<Rightarrow> c\<lparr>su_guard := g\<rparr>
      | WithFieldPolicyProvider p \<Rightarrow> c\<lparr>su_policy := p\<rparr>
      | WithContextFactory factory \<Rightarrow>
          (case factory of None \<Rightarrow> c | Some f \<Rightarrow> c\<lparr>su_context_factory := Some f\<rparr>)
      | WithFieldMapProvider p \<Rightarrow> c\<lparr>su_fields := p\<rparr>
      | WithQueryLogging b \<Rightarrow> c\<lparr>su_query_logging := b\<rparr>
      | WithRouteConfig rc \<Rightarrow> c\<lparr>su_route_config := merge_route_config (su_route_config c) rc\<rparr>
      | WithBatchRouteSegment segment \<Rightarrow> c\<lparr>su_batch_segment := with_batch_route_segment segment (su_batch_segment c)\<rparr>
      | WithBatchReturnOrderByID b \<Rightarrow> c\<lparr>su_return_order_by_id := b\<rparr>
      | WithActivityHooks hooks cfg \<Rightarrow> c\<lparr>su_activity := Some (new_emitter hooks cfg)\<rparr>
      | WithNotificationEmitter em \<Rightarrow> c\<lparr>su_notification := em\<rparr>
      | WithActions as \<Rightarrow> (if as = [] then c else c\<lparr>su_actions := su_actions c @ as\<rparr>)
      | WithRelationMetadataProvider p \<Rightarrow> c\<lparr>su_relation_provider := p\<rparr>
      | WithRelationFilter q \<Rightarrow> c
      | WithResponseHandler resp \<Rightarrow> c\<lparr>su_responses := resp\<rparr>
      | WithErrorEncoder enc \<Rightarrow> c\<lparr>su_responses := with_error_encoder (pg_errors P) enc (su_responses c)\<rparr>
      | WithVirtualFields cfg \<Rightarrow>
          (case cfg of
             None \<Rightarrow> c\<lparr>su_virtual_enabled := True\<rparr>
           | Some vc \<Rightarrow> c\<lparr>su_virtual_enabled := True, su_virtual_config := vc\<rparr>))"

definition option_filter ::
  "('e, 'r, 'v, 'w, 'h, 'err, 'k, 'p, 'q) controller_option \<Rightarrow> ('p, 'q, 'f) relation_state \<Rightarrow> ('p, 'q, 'f) relation_state" where
  "option_filter opt rel = (case opt of WithRelationFilter q \<Rightarrow> with_relation_filter q rel | _ \<Rightarrow> rel)"

section \<open>Construction\<close>

text \<open>The handler of the virtual fields, and its hooks after those of the application.\<close>

definition virtual_handler_defs :: "('e, 'r, 'v, 'w, 'h, 'err, 'p, 'q, 'f) program \<Rightarrow> virtual_config \<Rightarrow> virtual_def list" where
  "virtual_handler_defs P cfg =
     extract_virtual_field_defs (pg_env P) (pg_is_string_map P) (pg_model_type P)
       (vc_allow_zero_tag (normalize_virtual_config cfg))"

definition virtual_lifecycle_hooks ::
  "(('e, 'r, 'v, 'w) world, 'e, 'r, 'err) virtual_processor \<Rightarrow> (('e, 'r, 'v, 'w) world, 'e, 'r, 'err) lifecycle_hooks" where
  "virtual_lifecycle_hooks h =
     empty_hooks\<lparr>lh_before_create := [Some (vp_before_save h)], lh_before_update := [Some (vp_before_save h)],
       lh_after_create := [Some (vp_after_load h)], lh_after_update := [Some (vp_after_load h)],
       lh_after_read := [Some (vp_after_load h)], lh_after_list := [Some (vp_after_load_batch h)]\<rparr>"

definition attach_virtual_field_hooks ::
  "('e, 'r, 'v, 'w, 'h, 'err, 'p, 'q, 'f) program \<Rightarrow> ('e, 'r, 'v, 'w, 'h, 'err, 'k, 'p) controller_setup \<Rightarrow>
   ('e, 'r, 'v, 'w, 'h, 'err, 'k, 'p) controller_setup" where
  "attach_virtual_field_hooks P c =
     (if \<not> su_virtual_enabled c then c
      else (let ds = virtual_handler_defs P (su_virtual_config c);
                c' = c\<lparr>su_virtual_defs := ds\<rparr>
            in if ds = [] then c'
               else c'\<lparr>su_hooks := merge_lifecycle_hooks (su_hooks c')
                        (virtual_lifecycle_hooks (pg_virtual_hooks P (su_virtual_config c) ds))\<rparr>))"

text \<open>The guard as a layer of the service calls it, on the request of the world.\<close>

definition guard_of :: "('err, 'e) scope_guard \<Rightarrow> ('e, 'r, 'v, 'w, 'err) state_guard" where
  "guard_of g op = State (\<lambda>s. case g (wd_request s) op of
     (r, Inl e) \<Rightarrow> (Inl (Failed e), s\<lparr>wd_request := r\<rparr>)
   | (r, Inr answer) \<Rightarrow> (Inr answer, s\<lparr>wd_request := r\<rparr>))"

text \<open>The configuration of the service: the controller's resource is still unnamed, there is no validator
  and no activity, and virtual fields come as hooks.\<close>

definition controller_service_config ::
  "('e, 'r, 'v, 'w, 'h, 'err, 'p, 'q, 'f) program \<Rightarrow> ('e, 'r, 'v, 'w, 'err) world_repository \<Rightarrow>
   ('e, 'r, 'v, 'w, 'h, 'err, 'k, 'p) controller_setup \<Rightarrow> ('e, 'r, 'v, 'w, 'h, 'err) service_config" where
  "controller_service_config P repo c =
     \<lparr>sc_repository = repo, sc_hooks = su_hooks c, sc_scope_guard = map_option guard_of (su_guard c),
      sc_field_policy = su_policy c, sc_virtual_fields = None, sc_validator = None, sc_activity_hooks = [],
      sc_activity_config = \<lparr>acfg_enabled = False, acfg_channel = []\<rparr>, sc_notification_emitter = None,
      sc_resource_name = [], sc_type_resource = pg_type_resource P,
      sc_batch_return_order_by_id = su_return_order_by_id c\<rparr>"

definition compose_controller_service ::
  "('e, 'r, 'v, 'w, 'h, 'err, 'p, 'q, 'f) program \<Rightarrow> ('e, 'r, 'v, 'w, 'h, 'err, 'k, 'p) controller_setup \<Rightarrow>
   ('e, 'r, 'v, 'w, 'h, 'err) service_config \<Rightarrow> ('e, 'r, 'v, 'w, 'err) world_service option \<Rightarrow> bool \<Rightarrow>
   ('e, 'r, 'v, 'w, 'err) world_service option" where
  "compose_controller_service P c cfg svc allow_default =
     (let svc1 = (case svc of
             None \<Rightarrow> if allow_default then Some (new_service (pg_runtime P) (pg_zero P) (pg_fields P) (pg_snake P) cfg) else None
           | Some v \<Rightarrow> Some (if hooks_empty (sc_hooks cfg) then v else hooks_service (sc_hooks cfg) v))
      in case svc1 of
           None \<Rightarrow> None
         | Some v1 \<Rightarrow>
             (let v2 = (case su_overrides c of None \<Rightarrow> v1 | Some funcs \<Rightarrow> compose_service v1 funcs)
              in Some (case su_command_factory c of
                         None \<Rightarrow> v2
                       | Some f \<Rightarrow> (case f v2 of None \<Rightarrow> v2 | Some wrapped \<Rightarrow> wrapped))))"

definition build_service ::
  "('e, 'r, 'v, 'w, 'h, 'err, 'p, 'q, 'f) program \<Rightarrow> ('e, 'r, 'v, 'w, 'err) world_repository \<Rightarrow>
   ('e, 'r, 'v, 'w, 'h, 'err, 'k, 'p) controller_setup \<Rightarrow> ('e, 'r, 'v, 'w, 'h, 'err, 'k, 'p) controller_setup" where
  "build_service P repo c =
     (let cfg = controller_service_config P repo c;
          c1 = c\<lparr>su_service := compose_controller_service P c cfg (su_service c) True\<rparr>;
          c2 = (if su_read_service c1 = None then c1
                else c1\<lparr>su_read_service := compose_controller_service P c1 cfg (su_read_service c1) False\<rparr>)
      in if su_write_service c2 = None then c2
         else c2\<lparr>su_write_service := compose_controller_service P c2 cfg (su_write_service c2) False\<rparr>)"

definition initialize_controller ::
  "('e, 'r, 'v, 'w, 'h, 'err, 'p, 'q, 'f) program \<Rightarrow> ('e, 'r, 'v, 'w, 'err) world_repository \<Rightarrow>
   ('e, 'r, 'v, 'w, 'h, 'err, 'k, 'p) controller_setup \<times> ('p, 'q, 'f) relation_state \<Rightarrow>
   ('e, 'r, 'v, 'w, 'h, 'err, 'k, 'p) controller_setup \<times> ('p, 'q, 'f) relation_state" where
  "initialize_controller P repo = (\<lambda>(c, rel).
     let c1 = build_service P repo (attach_virtual_field_hooks P c);
         c2 = (if su_fields c1 \<noteq> None then c1
               else c1\<lparr>su_fields := new_field_map_provider_from_repo (pg_snake P) (pg_model_fields P) (pg_model_type P)\<rparr>);
         c3 = (if su_virtual_enabled c2
               then c2\<lparr>su_fields := wrap_field_map_provider_with_virtuals (su_fields c2) (su_virtual_defs c2) (su_virtual_config c2)\<rparr>
               else c2);
         c4 = (if su_relation_provider c3 = None then c3\<lparr>su_relation_provider := Some (ro_default (pg_relations P))\<rparr> else c3)
     in (c4, initialize_relations (pg_relations P) (pg_env P) (pg_snake P) (pg_model_type P) (su_relation_provider c4)
               (su_fields c4) rel))"

definition apply_options ::
  "('e, 'r, 'v, 'w, 'h, 'err, 'p, 'q, 'f) program \<Rightarrow> ('e, 'r, 'v, 'w, 'h, 'err, 'k, 'p, 'q) controller_option list \<Rightarrow>
   ('e, 'r, 'v, 'w, 'h, 'err, 'k, 'p) controller_setup \<times> ('p, 'q, 'f) relation_state \<Rightarrow>
   ('e, 'r, 'v, 'w, 'h, 'err, 'k, 'p) controller_setup \<times> ('p, 'q, 'f) relation_state" where
  "apply_options P opts = fold (\<lambda>opt (c, rel). (apply_option P opt c, option_filter opt rel)) opts"

definition new_controller_with_service ::
  "('e, 'r, 'v, 'w, 'h, 'err, 'p, 'q, 'f) program \<Rightarrow> ('e, 'r, 'v, 'w, 'err) world_repository \<Rightarrow>
   ('e, 'r, 'v, 'w, 'err) world_service option \<Rightarrow> ('e, 'r, 'v, 'w, 'h, 'err, 'k, 'p, 'q) controller_option list \<Rightarrow>
   ('p, 'q, 'f) relation_state \<Rightarrow>
   ('e, 'r, 'v, 'w, 'h, 'err, 'k, 'p) controller_setup \<times> ('p, 'q, 'f) relation_state" where
  "new_controller_with_service P repo svc opts rel =
     initialize_controller P repo (apply_options P opts ((new_controller_base P)\<lparr>su_service := svc\<rparr>, rel))"

definition new_controller ::
  "('e, 'r, 'v, 'w, 'h, 'err, 'p, 'q, 'f) program \<Rightarrow> ('e, 'r, 'v, 'w, 'err) world_repository \<Rightarrow>
   ('e, 'r, 'v, 'w, 'h, 'err, 'k, 'p, 'q) controller_option list \<Rightarrow> ('p, 'q, 'f) relation_state \<Rightarrow>
   ('e, 'r, 'v, 'w, 'h, 'err, 'k, 'p) controller_setup \<times> ('p, 'q, 'f) relation_state" where
  "new_controller P repo opts rel = initialize_controller P repo (apply_options P opts (new_controller_base P, rel))"


section \<open>Hook combinators\<close>

text \<open>A chain of hooks stands for the list of its parts, and merged hooks run one set after the other.\<close>

lemma chain_hooks_run: "chain_hooks hs hctx x = run_hook_funcs hctx hs x"
  by (induction hctx hs x rule: run_hook_funcs.induct) simp_all

lemma run_hooks_append:
  "run_state (run_hook_funcs hctx (hs @ hs') x) s =
     (case run_state (run_hook_funcs hctx hs x) s of
        (Some e, s') \<Rightarrow> (Some e, s') | (None, s') \<Rightarrow> run_state (run_hook_funcs hctx hs' x) s')"
  by (induction hctx hs x arbitrary: s rule: run_hook_funcs.induct) (auto split: prod.splits option.splits)

lemma chained_is_listed:
  "run_state (run_hook_funcs hctx (pre @ [Some (chain_hooks hs)] @ post) x) s =
   run_state (run_hook_funcs hctx (pre @ hs @ post) x) s"
  by (simp add: run_hooks_append chain_hooks_run split: prod.split option.split)

lemma merge_hooks_assoc:
  "merge_lifecycle_hooks (merge_lifecycle_hooks a b) c = merge_lifecycle_hooks a (merge_lifecycle_hooks b c)"
  by (simp add: merge_lifecycle_hooks_def)

lemma merge_hooks_empty [simp]:
  "merge_lifecycle_hooks empty_hooks h = h" "merge_lifecycle_hooks h empty_hooks = h"
  by (simp_all add: merge_lifecycle_hooks_def empty_hooks_def)

section \<open>What a list of options sets\<close>

text \<open>The last value a list of options gives, and the value to start with when none of them does.\<close>

definition last_set :: "('o \<Rightarrow> 'a option) \<Rightarrow> 'o list \<Rightarrow> 'a \<Rightarrow> 'a" where
  "last_set sel opts a = fold (\<lambda>o' b. case sel o' of None \<Rightarrow> b | Some v \<Rightarrow> v) opts a"

fun sets_service where "sets_service (WithService v) = Some v" | "sets_service _ = None"
fun sets_read_service where "sets_read_service (WithReadService v) = Some v" | "sets_read_service _ = None"
fun sets_write_service where "sets_write_service (WithWriteService v) = Some v" | "sets_write_service _ = None"
fun sets_overrides where "sets_overrides (WithServiceFuncs v) = Some (Some v)" | "sets_overrides _ = None"
fun sets_factory where "sets_factory (WithCommandService (Some v)) = Some (Some v)" | "sets_factory _ = None"
fun sets_guard where "sets_guard (WithScopeGuard v) = Some v" | "sets_guard _ = None"
fun sets_policy where "sets_policy (WithFieldPolicyProvider v) = Some v" | "sets_policy _ = None"
fun sets_order where "sets_order (WithBatchReturnOrderByID v) = Some v" | "sets_order _ = None"
fun enables_virtual where "enables_virtual (WithVirtualFields v) = Some True" | "enables_virtual _ = None"
fun sets_virtual_config where
  "sets_virtual_config (WithVirtualFields (Some v)) = Some v" | "sets_virtual_config _ = None"
fun adds_hooks where "adds_hooks (WithLifecycleHooks h) = Some h" | "adds_hooks _ = None"

lemma applied_component:
  assumes "\<And>opt c. su (apply_option P opt c) = (case sel opt of None \<Rightarrow> su c | Some v \<Rightarrow> v)"
  shows "su (fst (apply_options P opts (c, rel))) = last_set sel opts (su c)"
proof (induction opts arbitrary: c rel)
  case (Cons opt opts)
  then show ?case using assms [of opt c] by (simp add: apply_options_def last_set_def)
qed (simp add: apply_options_def last_set_def)

lemma applied_services:
  "su_service (fst (apply_options P opts (c, rel))) = last_set sets_service opts (su_service c)"
  "su_read_service (fst (apply_options P opts (c, rel))) = last_set sets_read_service opts (su_read_service c)"
  "su_write_service (fst (apply_options P opts (c, rel))) = last_set sets_write_service opts (su_write_service c)"
  "su_overrides (fst (apply_options P opts (c, rel))) = last_set sets_overrides opts (su_overrides c)"
  "su_command_factory (fst (apply_options P opts (c, rel))) = last_set sets_factory opts (su_command_factory c)"
  by (rule applied_component; simp add: apply_option_def split: controller_option.split option.split)+

lemma applied_policies:
  "su_guard (fst (apply_options P opts (c, rel))) = last_set sets_guard opts (su_guard c)"
  "su_policy (fst (apply_options P opts (c, rel))) = last_set sets_policy opts (su_policy c)"
  "su_return_order_by_id (fst (apply_options P opts (c, rel))) = last_set sets_order opts (su_return_order_by_id c)"
  "su_virtual_enabled (fst (apply_options P opts (c, rel))) = last_set enables_virtual opts (su_virtual_enabled c)"
  "su_virtual_config (fst (apply_options P opts (c, rel))) = last_set sets_virtual_config opts (su_virtual_config c)"
  by (rule applied_component; simp add: apply_option_def split: controller_option.split option.split)+

lemma applied_hooks:
  "su_hooks (fst (apply_options P opts (c, rel))) =
     fold (\<lambda>h b. merge_lifecycle_hooks b h) (List.map_filter adds_hooks opts) (su_hooks c)"
proof (induction opts arbitrary: c rel)
  case (Cons opt opts)
  have "su_hooks (apply_option P opt c) =
      (case adds_hooks opt of None \<Rightarrow> su_hooks c | Some h \<Rightarrow> merge_lifecycle_hooks (su_hooks c) h)"
    by (simp add: apply_option_def split: controller_option.split option.split)
  with Cons.IH [of "apply_option P opt c" "option_filter opt rel"] show ?case
    by (cases "adds_hooks opt") (simp_all add: apply_options_def List.map_filter_simps)
qed (simp add: apply_options_def List.map_filter_simps)

section \<open>The services of a controller\<close>

text \<open>The hooks of a controller: those of the application in the order of the options, then the virtual ones.\<close>

definition option_hooks ::
  "('e, 'r, 'v, 'w, 'h, 'err, 'p, 'q, 'f) program \<Rightarrow> ('e, 'r, 'v, 'w, 'h, 'err, 'k, 'p, 'q) controller_option list \<Rightarrow>
   (('e, 'r, 'v, 'w) world, 'e, 'r, 'err) lifecycle_hooks" where
  "option_hooks P opts =
     (let hooks = fold (\<lambda>h b. merge_lifecycle_hooks b h) (List.map_filter adds_hooks opts) empty_hooks;
          vc = last_set sets_virtual_config opts zero_virtual_config;
          ds = virtual_handler_defs P vc
      in if last_set enables_virtual opts False \<and> ds \<noteq> []
         then merge_lifecycle_hooks hooks (virtual_lifecycle_hooks (pg_virtual_hooks P vc ds)) else hooks)"

definition options_config ::
  "('e, 'r, 'v, 'w, 'h, 'err, 'p, 'q, 'f) program \<Rightarrow> ('e, 'r, 'v, 'w, 'err) world_repository \<Rightarrow>
   ('e, 'r, 'v, 'w, 'h, 'err, 'k, 'p, 'q) controller_option list \<Rightarrow> ('e, 'r, 'v, 'w, 'h, 'err) service_config" where
  "options_config P repo opts =
     \<lparr>sc_repository = repo, sc_hooks = option_hooks P opts,
      sc_scope_guard = map_option guard_of (last_set sets_guard opts None),
      sc_field_policy = last_set sets_policy opts None, sc_virtual_fields = None, sc_validator = None,
      sc_activity_hooks = [], sc_activity_config = \<lparr>acfg_enabled = False, acfg_channel = []\<rparr>,
      sc_notification_emitter = None, sc_resource_name = [], sc_type_resource = pg_type_resource P,
      sc_batch_return_order_by_id = last_set sets_order opts False\<rparr>"

text \<open>The overrides, and then the command service, around a service.\<close>

definition dressed ::
  "('e, 'r, 'v, 'w, 'h, 'err, 'k, 'p, 'q) controller_option list \<Rightarrow> ('e, 'r, 'v, 'w, 'err) world_service \<Rightarrow>
   ('e, 'r, 'v, 'w, 'err) world_service" where
  "dressed opts v =
     (let v' = (case last_set sets_overrides opts None of None \<Rightarrow> v | Some funcs \<Rightarrow> compose_service v funcs)
      in case last_set sets_factory opts None of None \<Rightarrow> v' | Some f \<Rightarrow> (case f v' of None \<Rightarrow> v' | Some w \<Rightarrow> w))"

definition hooked ::
  "(('e, 'r, 'v, 'w) world, 'e, 'r, 'err) lifecycle_hooks \<Rightarrow> ('e, 'r, 'v, 'w, 'err) world_service \<Rightarrow>
   ('e, 'r, 'v, 'w, 'err) world_service" where
  "hooked hooks v = (if hooks_empty hooks then v else hooks_service hooks v)"

lemma attached_hooks:
  fixes opts :: "('e, 'r, 'v, 'w, 'h, 'err, 'k, 'p, 'q) controller_option list"
  assumes "c = fst (apply_options P opts ((new_controller_base P)\<lparr>su_service := svc\<rparr>, rel))"
  shows "su_hooks (attach_virtual_field_hooks P c) = option_hooks P opts"
  using assms
  by (simp add: attach_virtual_field_hooks_def option_hooks_def applied_hooks applied_policies new_controller_base_def Let_def)

lemma attach_keeps:
  "su_service (attach_virtual_field_hooks P c) = su_service c"
  "su_read_service (attach_virtual_field_hooks P c) = su_read_service c"
  "su_write_service (attach_virtual_field_hooks P c) = su_write_service c"
  "su_overrides (attach_virtual_field_hooks P c) = su_overrides c"
  "su_command_factory (attach_virtual_field_hooks P c) = su_command_factory c"
  "su_guard (attach_virtual_field_hooks P c) = su_guard c"
  "su_policy (attach_virtual_field_hooks P c) = su_policy c"
  "su_return_order_by_id (attach_virtual_field_hooks P c) = su_return_order_by_id c"
  by (simp_all add: attach_virtual_field_hooks_def Let_def)

lemma composed_service:
  assumes "su_overrides c = last_set sets_overrides opts None" "su_command_factory c = last_set sets_factory opts None"
  shows "compose_controller_service P c cfg svc dflt =
    (case svc of
       None \<Rightarrow> if dflt then Some (dressed opts (new_service (pg_runtime P) (pg_zero P) (pg_fields P) (pg_snake P) cfg)) else None
     | Some v \<Rightarrow> Some (dressed opts (hooked (sc_hooks cfg) v)))"
  using assms by (simp add: compose_controller_service_def dressed_def hooked_def Let_def split: option.split)

lemma initialized_services:
  "su_service (fst (initialize_controller P repo (c, rel))) = su_service (build_service P repo (attach_virtual_field_hooks P c))"
  "su_read_service (fst (initialize_controller P repo (c, rel))) =
     su_read_service (build_service P repo (attach_virtual_field_hooks P c))"
  "su_write_service (fst (initialize_controller P repo (c, rel))) =
     su_write_service (build_service P repo (attach_virtual_field_hooks P c))"
  by (simp_all add: initialize_controller_def Let_def)

text \<open>
  C23 (functional). The services of a controller are what its options say, whatever their order: the
  default service is the \<open>NewService\<close> stack over the repository with the last guard and policy given and all
  hooks in the order they were added, the virtual field hooks last; a service given by an option gets the
  hooks alone, no guard and no policy; and overrides and the command service are put around each of them.
\<close>

theorem controller_services:
  "(let c = fst (new_controller_with_service P repo svc opts rel); hooks = option_hooks P opts
    in su_service c = Some (dressed opts (case last_set sets_service opts svc of
             None \<Rightarrow> new_service (pg_runtime P) (pg_zero P) (pg_fields P) (pg_snake P) (options_config P repo opts)
           | Some v \<Rightarrow> hooked hooks v)) \<and>
       su_read_service c = map_option (\<lambda>v. dressed opts (hooked hooks v)) (last_set sets_read_service opts None) \<and>
       su_write_service c = map_option (\<lambda>v. dressed opts (hooked hooks v)) (last_set sets_write_service opts None))"
proof -
  define c where "c = fst (apply_options P opts ((new_controller_base P)\<lparr>su_service := svc\<rparr>, rel))"
  define rel' where "rel' = snd (apply_options P opts ((new_controller_base P)\<lparr>su_service := svc\<rparr>, rel))"
  let ?c = "attach_virtual_field_hooks P c"
  have hooks: "su_hooks ?c = option_hooks P opts" by (rule attached_hooks [OF c_def])
  have cfg: "controller_service_config P repo ?c = options_config P repo opts"
    by (simp add: controller_service_config_def options_config_def hooks attach_keeps)
      (simp add: c_def applied_policies new_controller_base_def)
  have set: "su_service ?c = last_set sets_service opts svc" "su_read_service ?c = last_set sets_read_service opts None"
    "su_write_service ?c = last_set sets_write_service opts None" "su_overrides ?c = last_set sets_overrides opts None"
    "su_command_factory ?c = last_set sets_factory opts None"
    by (simp_all add: attach_keeps c_def applied_services new_controller_base_def)
  have new: "new_controller_with_service P repo svc opts rel = initialize_controller P repo (c, rel')"
    by (simp add: new_controller_with_service_def c_def rel'_def)
  have h: "sc_hooks (options_config P repo opts) = option_hooks P opts" by (simp add: options_config_def)
  show ?thesis
    unfolding new initialized_services Let_def
    by (simp add: build_service_def cfg set Let_def composed_service [where opts = opts] h split: option.split)
qed


section \<open>The controller that is built\<close>

text \<open>The controller of the handlers, around what does not depend on the options.\<close>

definition controller_of ::
  "('e, 'r, 'v, 'w, 'h, 'err, 'a) controller \<Rightarrow> ('e, 'r, 'v, 'w, 'h, 'err, 'k, 'p) controller_setup \<Rightarrow>
   ('e, 'r, 'v, 'w, 'h, 'err, 'a) controller" where
  "controller_of base c =
     base\<lparr>ct_resource := [], ct_guard := su_guard c, ct_policy := su_policy c,
       ct_context_factory := su_context_factory c, ct_notification := su_notification c,
       ct_service := (case su_service c of Some v \<Rightarrow> v | None \<Rightarrow> ct_service base),
       ct_read_service := su_read_service c, ct_write_service := su_write_service c,
       ct_route_methods := [], ct_route_paths := [], ct_route_names := [],
       ct_virtual_defs := su_virtual_defs c, ct_merge_policy := su_merge_policy c\<rparr>"

lemma new_controller_no_service: "new_controller P repo opts rel = new_controller_with_service P repo None opts rel"
  by (simp add: new_controller_def new_controller_with_service_def new_controller_base_def)

definition plain_services :: "('e, 'r, 'v, 'w, 'h, 'err, 'k, 'p, 'q) controller_option list \<Rightarrow> bool" where
  "plain_services opts \<longleftrightarrow>
     last_set sets_service opts None = None \<and> last_set sets_read_service opts None = None \<and>
     last_set sets_overrides opts None = None \<and> last_set sets_factory opts None = None"

lemma default_read_service:
  assumes "plain_services opts"
  shows "resolved_read_service (controller_of base (fst (new_controller P repo opts rel))) =
    new_service (pg_runtime P) (pg_zero P) (pg_fields P) (pg_snake P) (options_config P repo opts)"
  using assms controller_services [of P repo None opts rel]
  by (simp add: plain_services_def controller_of_def resolved_read_service_def new_controller_no_service dressed_def Let_def)

lemma options_config_repository: "options_config P repo opts = with_repository (options_config P r0 opts) repo"
  by (simp add: options_config_def with_repository_def)

text \<open>
  C24 (safety). A controller built with a scope guard and without a service of its own reads the
  repository only inside the guard's scope, wherever in the options the guard is given and whatever
  hooks, policies and virtual fields are given with it: each list and each single read of the service its
  read handlers use is refused, or is one call of the repository with the restrictions of a scope the
  guard answered.
\<close>

theorem built_controller_reads_in_scope:
  fixes P :: "('e, 'r, 'v, 'w, 'h, 'err, 'p, 'q, 'f) program"
    and guard :: "('e, 'r, 'v, 'w, 'err) state_guard"
  assumes "plain_services opts" "last_set sets_guard opts None = Some g"
    and "guard = guard_of g" "attaching_guard guard"
  shows "wraps_op (scope_added guard op_list) page_error page_value
      (\<lambda>repo. sv_index (resolved_read_service (controller_of base (fst (new_controller P repo opts rel)))))
      (\<lambda>repo. sv_index (base_service (options_config P repo opts))) \<and>
    wraps_op (\<lambda>x x'. fst x' = fst x \<and> scope_added guard op_read (snd x) (snd x')) snd fst
      (\<lambda>repo. show_of (resolved_read_service (controller_of base (fst (new_controller P repo opts rel)))))
      (\<lambda>repo. show_of (base_service (options_config P repo opts)))"
proof -
  fix r0 :: "('e, 'r, 'v, 'w, 'err) world_repository"
  define cfg where "cfg = options_config P r0 opts"
  have "sc_scope_guard cfg = Some guard" using assms(2,3) by (simp add: options_config_def cfg_def)
  note reads = reads_in_scope [OF this assms(4)]
  have cfg: "options_config P repo opts = with_repository cfg repo" for repo
    unfolding cfg_def by (rule options_config_repository)
  show ?thesis unfolding default_read_service [OF assms(1)] cfg by (rule reads)
qed


text \<open>A guard that answers the tenant of the request, in a program whose model is not looked at.\<close>

definition tenant_guard :: "(string, unit) scope_guard" where
  "tenant_guard r op = (guarded_request, Inr (zero_actor, tenant_scope))"

definition tenant_layer :: "(unit, nat, string, unit, string) state_guard" where
  "tenant_layer = guard_of tenant_guard"

definition sample_program :: "(unit, nat, string, unit, unit, string, unit, string, unit) program" where
  "sample_program =
     \<lparr>pg_env = article_env, pg_is_string_map = (\<lambda>t. False), pg_model_type = TStruct ''User'', pg_type_resource = ''user'',
      pg_model_fields = None, pg_snake = to_lower, pg_runtime = sample_runtime, pg_zero = 0, pg_fields = user_fields,
      pg_errors = sample_library,
      pg_virtual_hooks = (\<lambda>cfg ds. \<lparr>vp_before_save = \<lambda>c r. State_Monad.return None, vp_after_load = \<lambda>c r. State_Monad.return None,
        vp_after_load_batch = \<lambda>c rs. State_Monad.return None\<rparr>),
      pg_relations = hiding_router\<rparr>"

definition guarded_options :: "(unit, nat, string, unit, unit, string, unit, unit, string) controller_option list" where
  "guarded_options = [WithScopeGuard None, WithQueryLogging True, WithScopeGuard (Some tenant_guard), WithVirtualFields None]"

theorem built_controller_reads_in_scope_witness:
  "\<forall>base. wraps_op (scope_added tenant_layer op_list) page_error page_value
      (\<lambda>repo. sv_index (resolved_read_service (controller_of (base :: (unit, nat, string, unit, unit, string, unit) controller)
         (fst (new_controller sample_program repo guarded_options no_relations)))))
      (\<lambda>repo. sv_index (base_service (options_config sample_program repo guarded_options)))"
proof
  fix base :: "(unit, nat, string, unit, unit, string, unit) controller"
  have "\<not> scope_is_blank tenant_scope" by code_simp
  then have "attaching_guard tenant_layer"
    by (simp add: tenant_layer_def attaching_guard_def guard_of_def tenant_guard_def guarded_request_def)
  moreover have "plain_services guarded_options" "last_set sets_guard guarded_options None = Some tenant_guard"
    by (simp_all add: plain_services_def guarded_options_def last_set_def)
  ultimately show "wraps_op (scope_added tenant_layer op_list) page_error page_value
      (\<lambda>repo. sv_index (resolved_read_service (controller_of base
         (fst (new_controller sample_program repo guarded_options no_relations)))))
      (\<lambda>repo. sv_index (base_service (options_config sample_program repo guarded_options)))"
    using built_controller_reads_in_scope [of guarded_options tenant_guard tenant_layer base sample_program no_relations] by (simp add: tenant_layer_def)
qed

text \<open>
  The virtual fields are loaded by hooks that run after the hooks of the application: its hooks after a
  read, a create or an update see a record whose virtual fields are not loaded yet, also when the virtual
  fields are the first option. In the stack of \<open>NewService\<close> they are a layer below the hooks and loaded before.
\<close>

lemma application_hooks_before_load:
  assumes "virtual_handler_defs P vc \<noteq> []" "opts \<in> {[WithVirtualFields (Some vc), WithLifecycleHooks h], [WithLifecycleHooks h, WithVirtualFields (Some vc)]}"
  shows "\<exists>load. lh_after_read (option_hooks P opts) = lh_after_read h @ [Some load] \<and>
    lh_after_create (option_hooks P opts) = lh_after_create h @ [Some load]"
  using assms
  by (auto simp: option_hooks_def last_set_def List.map_filter_simps merge_lifecycle_hooks_def virtual_lifecycle_hooks_def
      empty_hooks_def Let_def)

text \<open>A response handler given after an error encoder replaces it, and the errors are encoded as before.\<close>

lemma handler_after_encoder:
  "su_responses (apply_option P (WithResponseHandler (Some h)) (apply_option P (WithErrorEncoder enc) c)) = Some h"
  by (simp add: apply_option_def)

end
