(* ===== verification/Schema_Registry.thy ===== *)
theory Schema_Registry
  imports Complex_Main Go_Strings "HOL-Library.Log_Nat" "HOL-Library.Multiset"
begin

text \<open>
  The schema registry (\<open>schema_registry.go\<close>): OpenAPI documents by resource, deep-copied through JSON on every
  way in and out, the listeners told of a registration, and the export. The lemmas show that the registry
  refines a map from resource names to the last accepted registration, when a registration returns, that
  its state stays well-formed and that the export does not depend on the order of a map.
\<close>

section \<open>Documents\<close>

text \<open>
  A value of a document. JSON has one kind of number, which decodes to a \<open>float64\<close>: \<open>DocFloat\<close> is a finite
  one, \<open>DocInt\<close> an integer of Go. Any other Go value is given with what its JSON text decodes to, or
  \<open>None\<close> when it has none (a function, a channel, a NaN). A nil slice or map is \<open>DocNull\<close>.
\<close>

datatype doc =
    DocNull
  | DocBool bool
  | DocInt int
  | DocFloat rat
  | DocText string
  | DocList "doc list"
  | DocDict "(string \<times> doc) list"
  | DocOther "doc option"

type_synonym dict = "(string \<times> doc) list"

text \<open>A type assertion to \<open>map[string]any\<close>.\<close>

definition dict_value :: "doc option \<Rightarrow> dict option" where
  "dict_value v = (case v of Some (DocDict m) \<Rightarrow> Some m | _ \<Rightarrow> None)"

definition nested_dict :: "string \<Rightarrow> dict \<Rightarrow> dict option" where
  "nested_dict key raw = dict_value (map_of raw key)"

text \<open>The \<open>float64\<close> nearest to an integer, ties to the even mantissa of 53 bits.\<close>

definition float64_int :: "int \<Rightarrow> int" where
  "float64_int n =
     (let m = \<bar>n\<bar>; e = nat (bitlen m - 53)
      in if m < 2 ^ 53 then n
         else (let q = m div 2 ^ e; r = m mod 2 ^ e; h = 2 ^ e div 2;
                   q' = (if h < r \<or> h = r \<and> odd q then q + 1 else q)
               in sgn n * (q' * 2 ^ e)))"

text \<open>\<open>json.Marshal\<close> and then \<open>json.Unmarshal\<close>; \<open>None\<close> when the value has no JSON text.\<close>

fun decode_doc :: "doc \<Rightarrow> doc option"
  and decode_list :: "doc list \<Rightarrow> doc list option"
  and decode_fields :: "(string \<times> doc) list \<Rightarrow> (string \<times> doc) list option" where
  "decode_doc DocNull = Some DocNull"
| "decode_doc (DocBool b) = Some (DocBool b)"
| "decode_doc (DocInt n) = Some (DocFloat (of_int (float64_int n)))"
| "decode_doc (DocFloat x) = Some (DocFloat x)"
| "decode_doc (DocText t) = Some (DocText t)"
| "decode_doc (DocList vs) = map_option DocList (decode_list vs)"
| "decode_doc (DocDict kvs) = map_option DocDict (decode_fields kvs)"
| "decode_doc (DocOther None) = None"
| "decode_doc (DocOther (Some d)) = decode_doc d"
| "decode_list [] = Some []"
| "decode_list (v # vs) =
     (case decode_doc v of None \<Rightarrow> None | Some v' \<Rightarrow> map_option ((#) v') (decode_list vs))"
| "decode_fields [] = Some []"
| "decode_fields ((k, v) # kvs) =
     (case decode_doc v of None \<Rightarrow> None | Some v' \<Rightarrow> map_option ((#) (k, v')) (decode_fields kvs))"

type_synonym document = "(string, doc) gomap option"

definition clone_schema_document :: "document \<Rightarrow> document" where
  "clone_schema_document d = (case d of None \<Rightarrow> None | Some kvs \<Rightarrow> decode_fields kvs)"

section \<open>Entries\<close>

text \<open>A time: its instant, counted from the zero time, and its location.\<close>

record go_time =
  t_instant :: int
  t_location :: string

definition zero_time :: go_time where "zero_time = \<lparr>t_instant = 0, t_location = ''UTC''\<rparr>"

definition time_is_zero :: "go_time \<Rightarrow> bool" where "time_is_zero t \<longleftrightarrow> t_instant t = 0"

definition time_utc :: "go_time \<Rightarrow> go_time" where "time_utc t = t\<lparr>t_location := ''UTC''\<rparr>"

record schema_entry =
  se_resource :: string
  se_plural :: string
  se_document :: document
  se_updated_at :: go_time

definition clone_entry :: "schema_entry \<Rightarrow> schema_entry" where
  "clone_entry e = e\<lparr>se_document := clone_schema_document (se_document e)\<rparr>"

section \<open>The registry\<close>

text \<open>
  A listener is a function value \<open>'l\<close>. What the registry has to know of its run is which functions of the
  registry it calls, for the registry calls it with its lock held.
\<close>

datatype 'l registry_call =
    ListSchemas
  | GetSchema string
  | RegisterSchemaListener "'l option"
  | RegisterSchema go_time schema_entry

record 'l schema_registry =
  sr_entries :: "(string, schema_entry) gomap"
  sr_listeners :: "'l list"

definition empty_registry :: "'l schema_registry" where
  "empty_registry = \<lparr>sr_entries = [], sr_listeners = []\<rparr>"

text \<open>An entry without a name or without a document is refused before the registry is locked.\<close>

definition registrable :: "schema_entry \<Rightarrow> bool" where
  "registrable e \<longleftrightarrow>
     trim_space (se_resource e) \<noteq> [] \<and> (case se_document e of None \<Rightarrow> False | Some kvs \<Rightarrow> kvs \<noteq> [])"

definition locks_registry :: "'l registry_call \<Rightarrow> bool" where
  "locks_registry c =
     (case c of RegisterSchemaListener None \<Rightarrow> False | RegisterSchema now e \<Rightarrow> registrable e | _ \<Rightarrow> True)"

text \<open>
  \<open>calls l e\<close> are the calls the listener \<open>l\<close> makes when it is told of \<open>e\<close>. The mutex of Go is not
  reentrant: a call that locks it again never returns, and neither does the registration (\<open>None\<close>). A
  registration that returns is given with the notifications made, in order.
\<close>

type_synonym 'l listener_calls = "'l \<Rightarrow> schema_entry \<Rightarrow> 'l registry_call list"

fun notify_listeners :: "'l listener_calls \<Rightarrow> schema_entry \<Rightarrow> 'l list \<Rightarrow> ('l \<times> schema_entry) list option" where
  "notify_listeners calls e [] = Some []"
| "notify_listeners calls e (l # ls) =
     (if list_ex locks_registry (calls l (clone_entry e)) then None
      else map_option ((#) (l, clone_entry e)) (notify_listeners calls e ls))"

definition upsert ::
  "'l listener_calls \<Rightarrow> schema_entry \<Rightarrow> 'l schema_registry \<Rightarrow>
   ('l schema_registry \<times> ('l \<times> schema_entry) list) option" where
  "upsert calls e r =
     (let r' = r\<lparr>sr_entries := put (se_resource e) (clone_entry e) (sr_entries r)\<rparr>
      in if sr_listeners r = [] then Some (r', [])
         else map_option (Pair r') (notify_listeners calls e (sr_listeners r)))"

definition list_schemas :: "'l schema_registry \<Rightarrow> schema_entry list" where
  "list_schemas r = map (\<lambda>(k, e). clone_entry e) (sr_entries r)"

definition get_schema :: "string \<Rightarrow> 'l schema_registry \<Rightarrow> schema_entry option" where
  "get_schema resource r = map_option clone_entry (map_of (sr_entries r) resource)"

definition add_listener :: "'l option \<Rightarrow> 'l schema_registry \<Rightarrow> 'l schema_registry" where
  "add_listener l r = (case l of None \<Rightarrow> r | Some f \<Rightarrow> r\<lparr>sr_listeners := sr_listeners r @ [f]\<rparr>)"

text \<open>\<open>now\<close> is what the clock says, read when the entry has no time of its own.\<close>

definition stamped :: "go_time \<Rightarrow> schema_entry \<Rightarrow> schema_entry" where
  "stamped now e =
     e\<lparr>se_resource := trim_space (se_resource e), se_document := clone_schema_document (se_document e),
       se_updated_at := time_utc (if time_is_zero (se_updated_at e) then now else se_updated_at e)\<rparr>"

definition register_schema_entry ::
  "'l listener_calls \<Rightarrow> go_time \<Rightarrow> schema_entry \<Rightarrow> 'l schema_registry \<Rightarrow>
   (bool \<times> 'l schema_registry \<times> ('l \<times> schema_entry) list) option" where
  "register_schema_entry calls now e r =
     (if \<not> registrable e then Some (False, r, [])
      else map_option (Pair True) (upsert calls (stamped now e) r))"

definition register_schema_document ::
  "'l listener_calls \<Rightarrow> go_time \<Rightarrow> string \<Rightarrow> string \<Rightarrow> document \<Rightarrow> 'l schema_registry \<Rightarrow>
   (bool \<times> 'l schema_registry \<times> ('l \<times> schema_entry) list) option" where
  "register_schema_document calls now resource plural d =
     register_schema_entry calls now
       \<lparr>se_resource = resource, se_plural = plural, se_document = d, se_updated_at = zero_time\<rparr>"

section \<open>The export\<close>

datatype 'x export_error = NilWriter | NoSchemas | EncodeFailed 'x

text \<open>The options set the indentation. A writer is what it answers to an indentation and the entries it is given.\<close>

definition export_indent :: "(string \<Rightarrow> string) option list \<Rightarrow> string" where
  "export_indent opts = fold (\<lambda>opt cfg. case opt of None \<Rightarrow> cfg | Some f \<Rightarrow> f cfg) opts []"

definition with_schema_export_indent :: "string \<Rightarrow> string \<Rightarrow> string" where
  "with_schema_export_indent indent cfg = indent"

definition exported_schemas :: "'l schema_registry \<Rightarrow> schema_entry list" where
  "exported_schemas r = sort_key se_resource (list_schemas r)"

definition export_schemas ::
  "(string \<Rightarrow> schema_entry list \<Rightarrow> 'x option) option \<Rightarrow> (string \<Rightarrow> string) option list \<Rightarrow> 'l schema_registry \<Rightarrow>
   'x export_error option" where
  "export_schemas w opts r =
     (case w of
        None \<Rightarrow> Some NilWriter
      | Some write \<Rightarrow>
          (if list_schemas r = [] then Some NoSchemas
           else map_option EncodeFailed (write (export_indent opts) (exported_schemas r))))"

section \<open>Sequences of calls\<close>

definition registry_step :: "'l listener_calls \<Rightarrow> 'l registry_call \<Rightarrow> 'l schema_registry \<Rightarrow> 'l schema_registry option" where
  "registry_step calls c r =
     (case c of
        RegisterSchemaListener l \<Rightarrow> Some (add_listener l r)
      | RegisterSchema now e \<Rightarrow> map_option (\<lambda>(ok, r', told). r') (register_schema_entry calls now e r)
      | _ \<Rightarrow> Some r)"

fun run_calls :: "'l listener_calls \<Rightarrow> 'l registry_call list \<Rightarrow> 'l schema_registry \<Rightarrow> 'l schema_registry option" where
  "run_calls calls [] r = Some r"
| "run_calls calls (c # cs) r =
     (case registry_step calls c r of None \<Rightarrow> None | Some r' \<Rightarrow> run_calls calls cs r')"


section \<open>Copies\<close>

lemma decode_again:
  "decode_doc d = Some d' \<Longrightarrow> decode_doc d' = Some d'"
  "decode_list vs = Some vs' \<Longrightarrow> decode_list vs' = Some vs'"
  "decode_fields kvs = Some kvs' \<Longrightarrow> decode_fields kvs' = Some kvs'"
  by (induction d and vs and kvs arbitrary: d' and vs' and kvs' rule: decode_doc_decode_list_decode_fields.induct)
    (auto split: option.splits)

lemma clone_schema_document_idem [simp]:
  "clone_schema_document (clone_schema_document d) = clone_schema_document d"
proof (cases "clone_schema_document d")
  case (Some kvs)
  then show ?thesis by (auto simp: clone_schema_document_def decode_again split: option.splits)
qed (simp add: clone_schema_document_def)

lemma clone_entry_idem [simp]: "clone_entry (clone_entry e) = clone_entry e"
  by (simp add: clone_entry_def)

lemma clone_entry_resource [simp]: "se_resource (clone_entry e) = se_resource e"
  by (simp add: clone_entry_def)

lemma clone_stamped [simp]: "clone_entry (stamped now e) = stamped now e"
  by (simp add: clone_entry_def stamped_def)

lemma stamped_resource [simp]: "se_resource (stamped now e) = trim_space (se_resource e)"
  by (simp add: stamped_def)

lemma document_keys: "decode_fields kvs = Some kvs' \<Longrightarrow> map fst kvs' = map fst kvs"
  by (induction kvs arbitrary: kvs') (auto split: option.splits)

section \<open>When a registration returns\<close>

definition calls_back :: "'l listener_calls \<Rightarrow> schema_entry \<Rightarrow> 'l \<Rightarrow> bool" where
  "calls_back calls e l \<longleftrightarrow> list_ex locks_registry (calls l e)"

lemma notify_listeners_eq:
  "notify_listeners calls e ls =
     (if list_ex (calls_back calls (clone_entry e)) ls then None else Some (map (\<lambda>l. (l, clone_entry e)) ls))"
  by (induction ls) (auto simp: calls_back_def)

lemma upsert_eq:
  "upsert calls e r =
     (if list_ex (calls_back calls (clone_entry e)) (sr_listeners r) then None
      else Some (r\<lparr>sr_entries := put (se_resource e) (clone_entry e) (sr_entries r)\<rparr>,
                 map (\<lambda>l. (l, clone_entry e)) (sr_listeners r)))"
  by (auto simp: upsert_def notify_listeners_eq Let_def)

lemma register_schema_entry_eq:
  "register_schema_entry calls now e r =
     (if \<not> registrable e then Some (False, r, [])
      else if list_ex (calls_back calls (stamped now e)) (sr_listeners r) then None
      else Some (True, r\<lparr>sr_entries := put (trim_space (se_resource e)) (stamped now e) (sr_entries r)\<rparr>,
                 map (\<lambda>l. (l, stamped now e)) (sr_listeners r)))"
  by (simp add: register_schema_entry_def upsert_eq)

text \<open>
  C21 (liveness). An accepted registration returns exactly when no listener calls a function of the registry
  that locks it; then every listener has been told once, in the order of registration, of the entry that
  the registry answers from then on, and every other resource is answered as before.
\<close>

theorem registration_tells_listeners:
  "registrable e \<Longrightarrow>
   (case register_schema_entry calls now e r of
      None \<Rightarrow> list_ex (calls_back calls (stamped now e)) (sr_listeners r)
    | Some (ok, r', told) \<Rightarrow>
        \<not> list_ex (calls_back calls (stamped now e)) (sr_listeners r) \<and> ok \<and>
        map fst told = sr_listeners r' \<and> sr_listeners r' = sr_listeners r \<and>
        list_all (\<lambda>(l, x). get_schema (trim_space (se_resource e)) r' = Some x) told \<and>
        (\<forall>name. name \<noteq> trim_space (se_resource e) \<longrightarrow> get_schema name r' = get_schema name r))"
  by (simp add: register_schema_entry_eq get_schema_def o_def list_all_iff)

text \<open>A document that has no JSON text is registered as no document, and the registration is reported as done.\<close>

definition unencodable_entry :: schema_entry where
  "unencodable_entry =
     \<lparr>se_resource = ''user'', se_plural = ''users'', se_document = Some [(''hook'', DocOther None)],
      se_updated_at = \<lparr>t_instant = 5, t_location = ''UTC''\<rparr>\<rparr>"

lemma unencodable_document_is_lost:
  "register_schema_entry (\<lambda>l e. []) zero_time unencodable_entry (empty_registry :: string schema_registry) =
     Some (True,
       \<lparr>sr_entries = [(''user'', unencodable_entry\<lparr>se_document := None\<rparr>)], sr_listeners = []\<rparr>, [])"
  by (simp add: register_schema_entry_eq unencodable_entry_def empty_registry_def registrable_def stamped_def
      clone_schema_document_def time_is_zero_def time_utc_def put_def trim_space_def trim_left_def is_space_def)

text \<open>Listeners that do not call back never block: every sequence of calls returns.\<close>

lemma quiet_calls_return: "\<exists>r'. run_calls (\<lambda>l e. []) cs r = Some r'"
  by (induction cs arbitrary: r)
    (auto simp: registry_step_def register_schema_entry_eq calls_back_def list_ex_iff split: registry_call.split)

text \<open>A listener that reads the registry blocks the registration, and the lock stays held.\<close>

theorem registration_tells_listeners_witness:
  "registrable unencodable_entry \<and>
   register_schema_entry (\<lambda>l e. [GetSchema l]) zero_time unencodable_entry
     \<lparr>sr_entries = [], sr_listeners = [''index'']\<rparr> = None"
proof -
  have r: "registrable unencodable_entry"
    by (simp add: unencodable_entry_def registrable_def trim_space_def trim_left_def is_space_def)
  let ?r = "\<lparr>sr_entries = [], sr_listeners = [''index'']\<rparr>"
  have "list_ex (calls_back (\<lambda>l e. [GetSchema l]) (stamped zero_time unencodable_entry)) (sr_listeners ?r)"
    by (simp add: calls_back_def locks_registry_def)
  with r show ?thesis
    using registration_tells_listeners [of unencodable_entry "\<lambda>l e. [GetSchema l]" zero_time ?r]
    by (auto split: option.splits)
qed

section \<open>The registry as a map\<close>

text \<open>What the registry stands for: by resource, the last registration that was accepted.\<close>

definition registry_map :: "'l schema_registry \<Rightarrow> string \<Rightarrow> schema_entry option" where
  "registry_map r name = get_schema name r"

definition map_step :: "'l registry_call \<Rightarrow> (string \<Rightarrow> schema_entry option) \<Rightarrow> string \<Rightarrow> schema_entry option" where
  "map_step c m =
     (case c of
        RegisterSchema now e \<Rightarrow>
          (if registrable e then m(trim_space (se_resource e) \<mapsto> stamped now e) else m)
      | _ \<Rightarrow> m)"

lemma registry_step_map:
  assumes "registry_step calls c r = Some r'"
  shows "registry_map r' = map_step c (registry_map r)"
proof (cases c)
  case (RegisterSchema now e)
  with assms show ?thesis
    by (auto simp: registry_step_def register_schema_entry_eq registry_map_def map_step_def get_schema_def fun_eq_iff
        split: if_splits)
qed (use assms in \<open>auto simp: registry_step_def map_step_def add_listener_def registry_map_def get_schema_def
      fun_eq_iff split: option.splits\<close>)

text \<open>
  C20 (refinement). The registry refines a map: after any sequence of calls that returns, a resource is
  answered with the last registration accepted under its trimmed name - a copy of its document, its time
  in UTC or the time of the registration - and with nothing when there was none.
\<close>

theorem registry_refines_map:
  assumes "run_calls calls cs r = Some r'"
  shows "registry_map r' = fold map_step cs (registry_map r)"
  using assms
  by (induction cs arbitrary: r) (auto simp: registry_step_map split: option.splits)

definition two_registrations :: "string registry_call list" where
  "two_registrations =
     [RegisterSchemaListener (Some ''log''),
      RegisterSchema \<lparr>t_instant = 7, t_location = ''CET''\<rparr>
        \<lparr>se_resource = '' user'', se_plural = ''users'', se_document = Some [(''n'', DocInt 1)], se_updated_at = zero_time\<rparr>,
      RegisterSchema zero_time
        \<lparr>se_resource = ''user'', se_plural = ''people'', se_document = Some [], se_updated_at = zero_time\<rparr>]"

theorem registry_refines_map_witness:
  "\<exists>r. run_calls (\<lambda>l e. []) two_registrations empty_registry = Some r \<and>
     registry_map r ''user'' =
       Some \<lparr>se_resource = ''user'', se_plural = ''users'', se_document = Some [(''n'', DocFloat 1)],
             se_updated_at = \<lparr>t_instant = 7, t_location = ''UTC''\<rparr>\<rparr>"
proof -
  obtain r where r: "run_calls (\<lambda>l e. []) two_registrations empty_registry = Some r"
    using quiet_calls_return by blast
  have "fold map_step two_registrations (registry_map (empty_registry :: string schema_registry)) ''user'' =
      Some \<lparr>se_resource = ''user'', se_plural = ''users'', se_document = Some [(''n'', DocFloat 1)],
            se_updated_at = \<lparr>t_instant = 7, t_location = ''UTC''\<rparr>\<rparr>"
    by (simp add: two_registrations_def map_step_def registrable_def stamped_def clone_schema_document_def
        float64_int_def time_is_zero_def time_utc_def zero_time_def trim_space_def trim_left_def is_space_def)
  with registry_refines_map [OF r] r show ?thesis by auto
qed

section \<open>Well-formed registries\<close>

definition plain_document :: "document \<Rightarrow> bool" where
  "plain_document d \<longleftrightarrow> clone_schema_document d = d"

definition entry_ok :: "string \<Rightarrow> schema_entry \<Rightarrow> bool" where
  "entry_ok k e \<longleftrightarrow>
     se_resource e = k \<and> k \<noteq> [] \<and> is_trimmed k \<and> plain_document (se_document e) \<and>
     t_location (se_updated_at e) = ''UTC''"

definition registry_ok :: "'l schema_registry \<Rightarrow> bool" where
  "registry_ok r \<longleftrightarrow> wf_map (sr_entries r) \<and> list_all (\<lambda>(k, e). entry_ok k e) (sr_entries r)"

lemma entry_ok_stamped: "registrable e \<Longrightarrow> entry_ok (trim_space (se_resource e)) (stamped now e)"
  by (simp add: entry_ok_def registrable_def plain_document_def stamped_def time_utc_def)

lemma list_all_put_pair:
  "list_all (\<lambda>(k, e). P k e) m \<Longrightarrow> P k v \<Longrightarrow> list_all (\<lambda>(k, e). P k e) (put k v m)"
  by (induction m) (auto simp: put_def)

lemma registry_step_ok:
  assumes "registry_step calls c r = Some r'" "registry_ok r"
  shows "registry_ok r'"
proof (cases c)
  case (RegisterSchema now e)
  with assms show ?thesis
    by (auto simp: registry_step_def register_schema_entry_eq registry_ok_def
        intro!: list_all_put_pair entry_ok_stamped split: if_splits)
qed (use assms in \<open>auto simp: registry_step_def add_listener_def registry_ok_def split: option.splits\<close>)

text \<open>
  C22 (type). Every state the registry can reach is well-formed: one entry for a resource, under its own
  trimmed and non-empty name, with a document that is its own JSON copy and a time in UTC.
\<close>

theorem registry_stays_ok:
  assumes "run_calls calls cs r = Some r'" "registry_ok r"
  shows "registry_ok r'"
  using assms
  by (induction cs arbitrary: r) (auto dest: registry_step_ok split: option.splits)

theorem registry_stays_ok_witness:
  "\<exists>r. run_calls (\<lambda>l e. []) two_registrations empty_registry = Some r \<and> registry_ok r"
proof -
  obtain r where r: "run_calls (\<lambda>l e. []) two_registrations empty_registry = Some r"
    using quiet_calls_return by blast
  have "registry_ok (empty_registry :: string schema_registry)"
    by (simp add: registry_ok_def empty_registry_def)
  with registry_stays_ok [OF r] r show ?thesis by blast
qed

section \<open>The order of the export\<close>

lemma get_schema_stored:
  assumes "registry_ok r"
  shows "get_schema k r = map_of (sr_entries r) k"
proof (cases "map_of (sr_entries r) k")
  case (Some e)
  then have "(k, e) \<in> set (sr_entries r)" by (rule map_of_SomeD)
  then have "clone_entry e = e"
    using assms by (auto simp: registry_ok_def list_all_iff entry_ok_def plain_document_def clone_entry_def)
  with Some show ?thesis by (simp add: get_schema_def)
qed (simp add: get_schema_def)

definition stored_entry :: "string \<Rightarrow> schema_entry" where
  "stored_entry name =
     \<lparr>se_resource = name, se_plural = name, se_document = Some [(''x'', DocNull)], se_updated_at = zero_time\<rparr>"

definition a_then_b :: "string schema_registry" where
  "a_then_b = \<lparr>sr_entries = [(''a'', stored_entry ''a''), (''b'', stored_entry ''b'')], sr_listeners = []\<rparr>"

definition b_then_a :: "string schema_registry" where
  "b_then_a = \<lparr>sr_entries = [(''b'', stored_entry ''b''), (''a'', stored_entry ''a'')], sr_listeners = []\<rparr>"

lemma listed_resources:
  assumes "registry_ok r"
  shows "map se_resource (list_schemas r) = map fst (sr_entries r)"
  using assms by (auto simp: registry_ok_def list_schemas_def list_all_iff entry_ok_def)

lemma export_sorted:
  assumes "registry_ok r"
  shows "sorted (map se_resource (exported_schemas r)) \<and> distinct (map se_resource (exported_schemas r))"
proof
  show "sorted (map se_resource (exported_schemas r))" by (simp add: exported_schemas_def)
  have "distinct (map se_resource (list_schemas r))"
    using assms listed_resources [OF assms] by (simp add: registry_ok_def)
  moreover have "mset (map se_resource (exported_schemas r)) = mset (map se_resource (list_schemas r))"
    by (simp add: exported_schemas_def)
  ultimately show "distinct (map se_resource (exported_schemas r))"
    using mset_eq_imp_distinct_iff by blast
qed

text \<open>
  The export is canonical: the entries are in strictly increasing order of their
  resources, and two well-formed registries that answer every resource alike export the same, whatever the
  order in which the entries are met.
\<close>

theorem export_canonical:
  assumes "registry_ok r" "registry_ok r'" "registry_map r = registry_map r'"
  shows "export_schemas w opts r = export_schemas w opts r' \<and>
    sorted_wrt (<) (map se_resource (exported_schemas r))"
proof -
  have "map_of (sr_entries r) k = map_of (sr_entries r') k" for k
    using fun_cong [OF assms(3), of k] assms(1,2) by (simp add: registry_map_def get_schema_stored)
  then have maps: "map_of (sr_entries r) = map_of (sr_entries r')" by (rule ext)
  have "wf_map (sr_entries r)" "wf_map (sr_entries r')" using assms(1,2) by (simp_all add: registry_ok_def)
  with maps have same: "set (sr_entries r) = set (sr_entries r')" by (metis map_of_inject_set)
  have listed: "set (list_schemas r) = set (list_schemas r')" unfolding list_schemas_def set_map same ..
  then have sets: "set (exported_schemas r) = set (exported_schemas r')" by (simp add: exported_schemas_def)
  have "inj_on se_resource (set (exported_schemas r))"
    using export_sorted [OF assms(1)] by (metis distinct_map)
  with sets have "exported_schemas r = exported_schemas r'"
    using export_sorted [OF assms(1)] export_sorted [OF assms(2)]
    by (intro map_sorted_distinct_set_unique [where f = se_resource]) simp_all
  moreover have "list_schemas r = [] \<longleftrightarrow> list_schemas r' = []"
    using listed by (metis set_empty)
  ultimately show ?thesis
    using export_sorted [OF assms(1)] by (simp add: export_schemas_def strict_sorted_iff split: option.split)
qed

theorem export_canonical_witness:
  "export_schemas (Some (\<lambda>indent es. Some es)) [Some (with_schema_export_indent ''  '')] b_then_a =
     Some (EncodeFailed [stored_entry ''a'', stored_entry ''b'']) \<and>
   export_schemas (Some (\<lambda>indent es. Some es)) [Some (with_schema_export_indent ''  '')] a_then_b =
     Some (EncodeFailed [stored_entry ''a'', stored_entry ''b''])"
proof -
  have ok: "registry_ok a_then_b" "registry_ok b_then_a"
    by (simp_all add: a_then_b_def b_then_a_def registry_ok_def entry_ok_def stored_entry_def is_trimmed_def
        is_space_def plain_document_def clone_schema_document_def zero_time_def)
  have "registry_map a_then_b = registry_map b_then_a"
    by (auto simp: registry_map_def get_schema_def a_then_b_def b_then_a_def fun_eq_iff)
  from export_canonical [OF ok this] have
    "export_schemas (Some (\<lambda>indent es. Some es)) [Some (with_schema_export_indent ''  '')] a_then_b =
     export_schemas (Some (\<lambda>indent es. Some es)) [Some (with_schema_export_indent ''  '')] b_then_a" by blast
  moreover have "export_schemas (Some (\<lambda>indent es. Some es)) [Some (with_schema_export_indent ''  '')] a_then_b =
      Some (EncodeFailed [stored_entry ''a'', stored_entry ''b''])"
    by (simp add: export_schemas_def exported_schemas_def list_schemas_def a_then_b_def stored_entry_def
        clone_entry_def clone_schema_document_def less_char_def)
  ultimately show ?thesis by simp
qed

end
