(* ===== verification/Schema_Refresh.thy ===== *)
theory Schema_Refresh
  imports Schema_Registry
begin

text \<open>
  The refresher (\<open>gql/refresh/refresh.go\<close>): it regenerates the GraphQL output when the schema registry
  changes. Its goroutines are a state machine: the calls of \<open>Trigger\<close>, the timer that debounces them, and
  the runs of the generator. The lemmas show that the generator never runs twice at once, that no trigger
  is lost, and that the machine comes to rest when the triggers stop.
\<close>

section \<open>The machine\<close>

text \<open>
  Where a goroutine stands. Code under the mutex is one step; the checks of the context before it are
  steps of their own. \<open>AtFinish\<close> carries the argument of \<open>finish\<close>.
\<close>

datatype refresh_pc =
    AtTrigger
  | AtFlush
  | AtFlushLock
  | AtRun
  | AtGenerate
  | AtFinish bool

text \<open>The fields of the \<open>Refresher\<close>, whether its timer is running and its context cancelled, and the goroutines.\<close>

record refresher =
  rf_cancelled :: bool
  rf_armed :: bool
  rf_running :: bool
  rf_pending :: bool
  rf_threads :: "refresh_pc multiset"

definition new_refresher :: refresher where
  "new_refresher = \<lparr>rf_cancelled = False, rf_armed = False, rf_running = False, rf_pending = False, rf_threads = {#}\<rparr>"

definition spawn :: "refresh_pc \<Rightarrow> refresher \<Rightarrow> refresher" where
  "spawn p r = r\<lparr>rf_threads := add_mset p (rf_threads r)\<rparr>"

definition leave :: "refresh_pc \<Rightarrow> refresher \<Rightarrow> refresher" where
  "leave p r = r\<lparr>rf_threads := rf_threads r - {#p#}\<rparr>"

text \<open>\<open>Trigger\<close> under the lock: with a debounce the timer is started or started again.\<close>

definition trigger_locked :: "bool \<Rightarrow> refresher \<Rightarrow> refresher" where
  "trigger_locked debounce r =
     (if debounce then r\<lparr>rf_armed := True\<rparr>
      else if rf_running r then r\<lparr>rf_pending := True\<rparr>
      else spawn AtRun (r\<lparr>rf_running := True\<rparr>))"

text \<open>\<open>flush\<close> under the lock; it goes on with a run in the same goroutine.\<close>

definition flush_locked :: "refresher \<Rightarrow> refresher" where
  "flush_locked r =
     (if rf_running r then r\<lparr>rf_pending := True\<rparr> else spawn AtRun (r\<lparr>rf_running := True\<rparr>))"

definition finish_locked :: "bool \<Rightarrow> refresher \<Rightarrow> refresher" where
  "finish_locked allowPending r =
     (if allowPending \<and> rf_pending r \<and> \<not> rf_cancelled r then spawn AtRun (r\<lparr>rf_pending := False\<rparr>)
      else r\<lparr>rf_running := False\<rparr>)"

datatype refresh_event = Call | Request | Fire | Flush | Enter | Generate | GiveUp | Returned | Finish | Cancel

inductive refresh_step :: "bool \<Rightarrow> refresher \<Rightarrow> refresh_event \<Rightarrow> refresher \<Rightarrow> bool" for debounce :: bool where
  call: "\<not> rf_cancelled r \<Longrightarrow> refresh_step debounce r Call (spawn AtTrigger r)"
| call_cancelled: "rf_cancelled r \<Longrightarrow> refresh_step debounce r Call r"
| request: "AtTrigger \<in># rf_threads r \<Longrightarrow>
    refresh_step debounce r Request (trigger_locked debounce (leave AtTrigger r))"
| fire: "rf_armed r \<Longrightarrow> refresh_step debounce r Fire (spawn AtFlush (r\<lparr>rf_armed := False\<rparr>))"
| flush: "AtFlush \<in># rf_threads r \<Longrightarrow>
    refresh_step debounce r Flush (if rf_cancelled r then leave AtFlush r else spawn AtFlushLock (leave AtFlush r))"
| enter: "AtFlushLock \<in># rf_threads r \<Longrightarrow> refresh_step debounce r Enter (flush_locked (leave AtFlushLock r))"
| generate: "AtRun \<in># rf_threads r \<Longrightarrow> \<not> rf_cancelled r \<Longrightarrow>
    refresh_step debounce r Generate (spawn AtGenerate (leave AtRun r))"
| give_up: "AtRun \<in># rf_threads r \<Longrightarrow> rf_cancelled r \<Longrightarrow>
    refresh_step debounce r GiveUp (spawn (AtFinish False) (leave AtRun r))"
| returned: "AtGenerate \<in># rf_threads r \<Longrightarrow>
    refresh_step debounce r Returned (spawn (AtFinish True) (leave AtGenerate r))"
| finish: "AtFinish allow \<in># rf_threads r \<Longrightarrow>
    refresh_step debounce r Finish (finish_locked allow (leave (AtFinish allow) r))"
| cancel: "refresh_step debounce r Cancel (r\<lparr>rf_cancelled := True\<rparr>)"

inductive_cases refresh_stepE: "refresh_step debounce r e r'"

text \<open>The runs of the machine, with their events in order.\<close>

inductive refresh_run :: "bool \<Rightarrow> refresh_event list \<Rightarrow> refresher \<Rightarrow> bool" for debounce :: bool where
  start: "refresh_run debounce [] new_refresher"
| next_step: "refresh_run debounce es r \<Longrightarrow> refresh_step debounce r e r' \<Longrightarrow> refresh_run debounce (es @ [e]) r'"

section \<open>One generator at a time\<close>

definition is_runner :: "refresh_pc \<Rightarrow> bool" where
  "is_runner p \<longleftrightarrow> p = AtRun \<or> p = AtGenerate \<or> (\<exists>b. p = AtFinish b)"

definition runners :: "refresher \<Rightarrow> nat" where
  "runners r = size (filter_mset is_runner (rf_threads r))"

definition refresher_ok :: "refresher \<Rightarrow> bool" where
  "refresher_ok r \<longleftrightarrow>
     runners r = of_bool (rf_running r) \<and>
     (rf_pending r \<longrightarrow> rf_running r \<or> rf_cancelled r) \<and>
     (AtFinish False \<in># rf_threads r \<longrightarrow> rf_cancelled r)"

lemma runners_simps [simp]:
  "runners (spawn p r) = runners r + of_bool (is_runner p)"
  "p \<in># rf_threads r \<Longrightarrow> runners (leave p r) = runners r - of_bool (is_runner p)"
  "runners (r\<lparr>rf_running := b\<rparr>) = runners r" "runners (r\<lparr>rf_pending := b\<rparr>) = runners r"
  "runners (r\<lparr>rf_armed := b\<rparr>) = runners r" "runners (r\<lparr>rf_cancelled := b\<rparr>) = runners r"
  by (auto simp: runners_def spawn_def leave_def size_Diff_singleton filter_diff_mset)

lemma is_runner_simps [simp]:
  "is_runner AtRun" "is_runner AtGenerate" "is_runner (AtFinish b)" "\<not> is_runner AtTrigger" "\<not> is_runner AtFlush"
  "\<not> is_runner AtFlushLock"
  by (auto simp: is_runner_def)

lemma runner_running: "refresher_ok r \<Longrightarrow> p \<in># rf_threads r \<Longrightarrow> is_runner p \<Longrightarrow> rf_running r"
proof (rule ccontr)
  assume "refresher_ok r" "p \<in># rf_threads r" "is_runner p" "\<not> rf_running r"
  moreover from this have "filter_mset is_runner (rf_threads r) = {#}" by (simp add: refresher_ok_def runners_def)
  ultimately show False by auto
qed

lemma spawn_sel [simp]:
  "rf_cancelled (spawn p r) = rf_cancelled r" "rf_armed (spawn p r) = rf_armed r"
  "rf_running (spawn p r) = rf_running r" "rf_pending (spawn p r) = rf_pending r"
  "rf_threads (spawn p r) = add_mset p (rf_threads r)"
  by (simp_all add: spawn_def)

lemma leave_sel [simp]:
  "rf_cancelled (leave p r) = rf_cancelled r" "rf_armed (leave p r) = rf_armed r"
  "rf_running (leave p r) = rf_running r" "rf_pending (leave p r) = rf_pending r"
  "rf_threads (leave p r) = rf_threads r - {#p#}"
  by (simp_all add: leave_def)

lemma refresh_step_ok:
  assumes "refresh_step debounce r e r'" "refresher_ok r"
  shows "refresher_ok r'"
  using assms(1)
proof cases
  case request
  with assms(2) show ?thesis by (auto simp: refresher_ok_def trigger_locked_def dest: in_diffD)
next
  case flush
  with assms(2) show ?thesis by (auto simp: refresher_ok_def dest: in_diffD)
next
  case enter
  with assms(2) show ?thesis by (auto simp: refresher_ok_def flush_locked_def dest: in_diffD)
next
  case generate
  with assms(2) runner_running [OF assms(2) generate(3)] show ?thesis
    by (auto simp: refresher_ok_def dest: in_diffD)
next
  case give_up
  with assms(2) runner_running [OF assms(2) give_up(3)] show ?thesis
    by (auto simp: refresher_ok_def dest: in_diffD)
next
  case returned
  with assms(2) runner_running [OF assms(2) returned(3)] show ?thesis
    by (auto simp: refresher_ok_def dest: in_diffD)
next
  case (finish allow)
  with assms(2) runner_running [OF assms(2) finish(3)] show ?thesis
    by (cases allow) (auto simp: refresher_ok_def finish_locked_def dest: in_diffD)
qed (use assms(2) in \<open>auto simp: refresher_ok_def\<close>)

lemma refresh_run_ok: "refresh_run debounce es r \<Longrightarrow> refresher_ok r"
proof (induction rule: refresh_run.induct)
  case start
  show ?case by (simp add: refresher_ok_def new_refresher_def runners_def)
next
  case next_step
  then show ?case by (blast intro: refresh_step_ok)
qed

text \<open>
  C27 (safety). The generator never runs twice at the same time: in every state the refresher can reach, by
  whatever interleaving of triggers, timer and goroutines, at most one goroutine is generating, and it is
  the only one of all goroutines that run, generate or finish.
\<close>

theorem one_generator_at_a_time:
  assumes "refresh_run debounce es r"
  shows "count (rf_threads r) AtGenerate \<le> 1 \<and>
    (AtGenerate \<in># rf_threads r \<longrightarrow> filter_mset is_runner (rf_threads r) = {#AtGenerate#})"
proof -
  have "size (filter_mset is_runner (rf_threads r)) \<le> 1"
    using refresh_run_ok [OF assms] by (simp add: refresher_ok_def runners_def)
  moreover have "count (rf_threads r) AtGenerate = count (filter_mset is_runner (rf_threads r)) AtGenerate" by simp
  moreover have "count M p \<le> size M" for M :: "refresh_pc multiset" and p by (rule count_le_size)
  moreover have "filter_mset is_runner (rf_threads r) = {#AtGenerate#}"
    if g: "AtGenerate \<in># rf_threads r" and one: "size (filter_mset is_runner (rf_threads r)) \<le> 1"
  proof -
    have m: "AtGenerate \<in># filter_mset is_runner (rf_threads r)" using g by simp
    then have "size (filter_mset is_runner (rf_threads r)) = Suc 0"
      using one by (metis One_nat_def Suc_leI le_antisym nonempty_has_size empty_not_add_mset multi_member_split)
    with m show ?thesis by (metis add_mset_eq_singleton_iff multi_member_split size_1_singleton_mset One_nat_def)
  qed
  ultimately show ?thesis by (metis order_trans)
qed

section \<open>Coming to rest\<close>

text \<open>What is left to do: the steps every goroutine, the timer and a pending run can still cause.\<close>

definition pc_work :: "refresh_pc \<Rightarrow> nat" where
  "pc_work p = (case p of AtTrigger \<Rightarrow> 7 | AtFlush \<Rightarrow> 5 | AtFlushLock \<Rightarrow> 4 | AtRun \<Rightarrow> 3 | AtGenerate \<Rightarrow> 2 | AtFinish b \<Rightarrow> 1)"

definition work :: "refresher \<Rightarrow> nat" where
  "work r = sum_mset (image_mset pc_work (rf_threads r)) + 6 * of_bool (rf_armed r) + 3 * of_bool (rf_pending r)"

lemma work_simps [simp]:
  "work (spawn p r) = work r + pc_work p"
  "p \<in># rf_threads r \<Longrightarrow> work (leave p r) + pc_work p = work r"
  "work (r\<lparr>rf_running := b\<rparr>) = work r" "work (r\<lparr>rf_cancelled := b\<rparr>) = work r"
  by (auto simp: work_def spawn_def leave_def dest!: multi_member_split)

lemma pc_work_simps [simp]:
  "pc_work AtTrigger = 7" "pc_work AtFlush = 5" "pc_work AtFlushLock = 4" "pc_work AtRun = 3" "pc_work AtGenerate = 2"
  "pc_work (AtFinish b) = 1"
  by (simp_all add: pc_work_def)

definition internal_event :: "refresh_event \<Rightarrow> bool" where
  "internal_event e \<longleftrightarrow> e \<noteq> Call \<and> e \<noteq> Cancel"

lemma work_fields:
  "work (r\<lparr>rf_armed := b\<rparr>) + 6 * of_bool (rf_armed r) = work r + 6 * of_bool b"
  "work (r\<lparr>rf_pending := b\<rparr>) + 3 * of_bool (rf_pending r) = work r + 3 * of_bool b"
  by (simp_all add: work_def)

lemma work_armed: "work (r\<lparr>rf_armed := True\<rparr>) \<le> work r + 6"
  using work_fields(1) [of True r] by simp

lemma work_pending: "work (r\<lparr>rf_pending := True\<rparr>) \<le> work r + 3"
  using work_fields(2) [of True r] by simp

lemma work_trigger: "work (trigger_locked debounce r) \<le> work r + 6"
  using work_armed [of r] work_pending [of r] by (simp add: trigger_locked_def)

lemma work_flush: "work (flush_locked r) \<le> work r + 3"
  using work_pending [of r] by (simp add: flush_locked_def)

lemma work_finish: "work (finish_locked allow r) \<le> work r"
  using work_fields(2) [of False r] by (auto simp: finish_locked_def)

lemma work_leave: "p \<in># rf_threads r \<Longrightarrow> work r = work (leave p r) + pc_work p"
  by (simp add: work_simps(2))

text \<open>
  C26 (termination). The refresher comes to rest: every step it takes by itself leaves strictly less work,
  so after the last call of \<open>Trigger\<close> (and whatever the context does) only finitely many steps can follow,
  at most \<open>work\<close> of them.
\<close>

theorem refresher_comes_to_rest:
  assumes "refresh_step debounce r e r'" "internal_event e"
  shows "work r' < work r"
  using assms(1)
proof cases
  case request
  show ?thesis
    using work_trigger [of debounce "leave AtTrigger r"] work_leave [OF request(3)] request(2) by simp
next
  case fire
  then show ?thesis using work_fields(1) [of False r] by simp
next
  case flush
  then show ?thesis using work_leave [OF flush(3)] by simp
next
  case enter
  then show ?thesis using work_flush [of "leave AtFlushLock r"] work_leave [OF enter(3)] by simp
next
  case generate
  then show ?thesis using work_leave [OF generate(3)] by simp
next
  case give_up
  then show ?thesis using work_leave [OF give_up(3)] by simp
next
  case returned
  then show ?thesis using work_leave [OF returned(3)] by simp
next
  case (finish allow)
  then show ?thesis using work_finish [of allow "leave (AtFinish allow) r"] work_leave [OF finish(3)] by simp
qed (use assms(2) in \<open>simp_all add: internal_event_def\<close>)

theorem refresher_comes_to_rest_witness:
  "work (new_refresher\<lparr>rf_armed := True\<rparr>) > work (spawn AtFlush (new_refresher\<lparr>rf_armed := True, rf_armed := False\<rparr>))"
  by (rule refresher_comes_to_rest [OF refresh_step.fire [of "new_refresher\<lparr>rf_armed := True\<rparr>" True]])
    (simp_all add: new_refresher_def internal_event_def)

section \<open>No trigger is lost\<close>

text \<open>A run of the generator is on its way: a trigger is still being debounced, handed over or about to run.\<close>

definition on_its_way :: "refresher \<Rightarrow> bool" where
  "on_its_way r \<longleftrightarrow> rf_armed r \<or> rf_pending r \<or>
     AtFlush \<in># rf_threads r \<or> AtFlushLock \<in># rf_threads r \<or> AtRun \<in># rf_threads r"

definition at_rest :: "bool \<Rightarrow> refresher \<Rightarrow> bool" where
  "at_rest debounce r \<longleftrightarrow> (\<forall>e r'. refresh_step debounce r e r' \<longrightarrow> \<not> internal_event e)"

lemma request_on_its_way: "on_its_way (trigger_locked debounce r)"
  by (simp add: on_its_way_def trigger_locked_def)

lemma stays_in_threads: "p \<in># M \<Longrightarrow> p \<noteq> q \<Longrightarrow> p \<in># M - {#q#}"
  by (metis in_diff_count count_single lessI not_gr_zero count_greater_zero_iff)

lemma refresh_step_on_its_way:
  assumes "refresh_step debounce r e r'" "refresher_ok r" "on_its_way r" "e \<noteq> Generate" "\<not> rf_cancelled r'"
  shows "on_its_way r'"
  using assms(1)
proof cases
  case request
  then show ?thesis by (simp add: request_on_its_way)
next
  case (finish allow)
  with assms show ?thesis
    by (cases allow) (auto simp: on_its_way_def finish_locked_def refresher_ok_def stays_in_threads)
qed (use assms in \<open>auto simp: on_its_way_def flush_locked_def stays_in_threads\<close>)

lemma cancelled_stays: "refresh_step debounce r e r' \<Longrightarrow> rf_cancelled r \<Longrightarrow> rf_cancelled r'"
  by (erule refresh_step.cases) (auto simp: trigger_locked_def flush_locked_def finish_locked_def)

lemma owed_on_its_way:
  assumes "refresh_run debounce es r" "es = before @ Request # after" "Generate \<notin> set after" "\<not> rf_cancelled r"
  shows "on_its_way r"
  using assms
proof (induction arbitrary: after rule: refresh_run.induct)
  case (next_step es r e r')
  show ?case
  proof (cases after rule: rev_cases)
    case Nil
    then have e: "e = Request" using next_step.prems(1) by simp
    from next_step.hyps(2) show ?thesis unfolding e by cases (simp add: request_on_its_way)
  next
    case (snoc earlier last_event)
    then have "es = before @ Request # earlier" "last_event = e" using next_step.prems(1) by simp_all
    with snoc next_step show ?thesis
      using refresh_step_on_its_way [OF next_step.hyps(2) refresh_run_ok [OF next_step.hyps(1)]]
        cancelled_stays [OF next_step.hyps(2)]
      by auto
  qed
qed simp

lemma thread_can_step:
  assumes "p \<in># rf_threads r"
  shows "\<exists>e r'. refresh_step debounce r e r' \<and> internal_event e"
proof (cases p)
  case AtTrigger
  with assms show ?thesis using refresh_step.request by (fastforce simp: internal_event_def)
next
  case AtFlush
  with assms show ?thesis using refresh_step.flush by (fastforce simp: internal_event_def)
next
  case AtFlushLock
  with assms show ?thesis using refresh_step.enter by (fastforce simp: internal_event_def)
next
  case AtRun
  with assms show ?thesis
    using refresh_step.generate refresh_step.give_up by (cases "rf_cancelled r") (fastforce simp: internal_event_def)+
next
  case AtGenerate
  with assms show ?thesis using refresh_step.returned by (fastforce simp: internal_event_def)
next
  case AtFinish
  with assms show ?thesis using refresh_step.finish by (fastforce simp: internal_event_def)
qed

lemma armed_can_step: "rf_armed r \<Longrightarrow> \<exists>e r'. refresh_step debounce r e r' \<and> internal_event e"
  using refresh_step.fire by (fastforce simp: internal_event_def)

lemma at_rest_iff: "at_rest debounce r \<longleftrightarrow> rf_threads r = {#} \<and> \<not> rf_armed r"
proof
  assume "at_rest debounce r"
  then show "rf_threads r = {#} \<and> \<not> rf_armed r"
    using thread_can_step armed_can_step unfolding at_rest_def by (metis multiset_nonemptyE)
next
  assume "rf_threads r = {#} \<and> \<not> rf_armed r"
  then show "at_rest debounce r"
    unfolding at_rest_def by (auto elim!: refresh_step.cases simp: internal_event_def)
qed

text \<open>
  C25 (liveness). No trigger is lost: whenever the refresher has come to rest without being cancelled, every
  \<open>Trigger\<close> that took effect on the way was followed by a run of the generator, whatever the interleaving:
  whether it was debounced, merged with others, or came while the generator was already running. At rest no
  goroutine is left and nothing is marked as running or pending.
\<close>

theorem no_trigger_is_lost:
  assumes "refresh_run debounce es r" "at_rest debounce r" "\<not> rf_cancelled r" "es = before @ Request # after"
  shows "Generate \<in> set after \<and> rf_threads r = {#} \<and> \<not> rf_running r \<and> \<not> rf_pending r"
proof -
  have rest: "rf_threads r = {#}" "\<not> rf_armed r" using assms(2) by (auto simp: at_rest_iff)
  moreover from this have "\<not> rf_running r" "\<not> rf_pending r"
    using refresh_run_ok [OF assms(1)] assms(3) by (auto simp: refresher_ok_def runners_def)
  ultimately have "\<not> on_its_way r" by (simp add: on_its_way_def)
  then have "Generate \<in> set after" using owed_on_its_way [OF assms(1,4) _ assms(3)] by blast
  with rest \<open>\<not> rf_running r\<close> \<open>\<not> rf_pending r\<close> show ?thesis by blast
qed

lemma refresh_run_step:
  "refresh_run debounce es r \<Longrightarrow> refresh_step debounce r e r1 \<Longrightarrow> r1 = r' \<Longrightarrow> es @ [e] = es' \<Longrightarrow>
    refresh_run debounce es' r'"
  using refresh_run.next_step by metis

text \<open>A run without debounce: one trigger, one run of the generator.\<close>

lemma sample_generating:
  "refresh_run False [Call, Request, Generate] (new_refresher\<lparr>rf_running := True, rf_threads := {#AtGenerate#}\<rparr>)"
proof -
  have c: "refresh_run False [Call] (new_refresher\<lparr>rf_threads := {#AtTrigger#}\<rparr>)"
    by (rule refresh_run_step [OF refresh_run.start refresh_step.call]) (simp_all add: new_refresher_def spawn_def)
  have "refresh_run False [Call, Request] (new_refresher\<lparr>rf_running := True, rf_threads := {#AtRun#}\<rparr>)"
    by (rule refresh_run_step [OF c refresh_step.request])
      (simp_all add: new_refresher_def spawn_def leave_def trigger_locked_def)
  then show ?thesis
    by (rule refresh_run_step [OF _ refresh_step.generate]) (simp_all add: new_refresher_def spawn_def leave_def)
qed

lemma sample_run: "refresh_run False [Call, Request, Generate, Returned, Finish] new_refresher"
proof -
  have "refresh_run False [Call, Request, Generate, Returned]
      (new_refresher\<lparr>rf_running := True, rf_threads := {#AtFinish True#}\<rparr>)"
    by (rule refresh_run_step [OF sample_generating refresh_step.returned])
      (simp_all add: new_refresher_def spawn_def leave_def)
  then show ?thesis
    by (rule refresh_run_step [OF _ refresh_step.finish [where allow = True]])
      (simp_all add: new_refresher_def spawn_def leave_def finish_locked_def)
qed

theorem no_trigger_is_lost_witness:
  "refresh_run False ([Call] @ Request # [Generate, Returned, Finish]) new_refresher \<and> at_rest False new_refresher \<and>
    Generate \<in> set [Generate, Returned, Finish]"
proof -
  have "at_rest False new_refresher" by (simp add: at_rest_iff new_refresher_def)
  with sample_run show ?thesis
    using no_trigger_is_lost [OF sample_run, of "[Call]" "[Generate, Returned, Finish]"]
    by (simp add: new_refresher_def)
qed

theorem one_generator_at_a_time_witness:
  "count (rf_threads (new_refresher\<lparr>rf_running := True, rf_threads := {#AtGenerate#}\<rparr>)) AtGenerate \<le> 1"
  using one_generator_at_a_time [OF sample_generating] by blast

end
