(* ===== verification/Schema_Documents.thy ===== *)
theory Schema_Documents
  imports Routing Virtual_Fields Schema_Registry
begin

text \<open>
  The documents of the resources: the metadata of a controller and the documentation of its routes
  (\<open>openapi_meta.go\<close>, \<open>actions.go\<close>), the types a resource is related to (\<open>schema_helpers.go\<close>), the virtual fields and
  admin extensions added to the compiled document (\<open>virtual_fields_openapi.go\<close>, \<open>admin_metadata.go\<close>), and
  how \<open>controller.go\<close> compiles, serves and registers it. The metadata of a type and the OpenAPI document of some
  metadata come from the router library and are parameters. The lemmas show which types a document covers,
  what is added to it and that nothing else changes, and that the registry holds the document that is served.
\<close>

section \<open>Related types\<close>

text \<open>The struct type a field relates its own to.\<close>

definition relation_child :: "struct_field \<Rightarrow> string option" where
  "relation_child f =
     (if \<not> sf_exported f \<or> sf_crud f = ''-'' \<or> sf_bun f = [] \<or>
         \<not> contains_sub (sf_bun f) ''rel:'' \<and> \<not> contains_sub (sf_bun f) ''m2m:''
      then None
      else case element_type (sf_type f) of TStruct t \<Rightarrow> Some t | _ \<Rightarrow> None)"

lemma unvisited_decreases:
  assumes "child \<notin> set visited" "struct_fields env child \<noteq> []"
  shows "card (fst ` set env - set (child # visited)) < card (fst ` set env - set visited)"
proof (rule psubset_card_mono)
  from assms(2) have "child \<in> fst ` set env"
    by (auto simp: struct_fields_def split: option.splits dest: map_of_SomeD intro: rev_image_eqI)
  with assms(1) show "fst ` set env - set (child # visited) \<subset> fst ` set env - set visited" by auto
qed simp

lemma unvisited_stays: "card (fst ` set env - set (child # visited)) \<le> card (fst ` set env - set visited)"
  by (rule card_mono) auto

text \<open>
  The recursion over the types, with the stack of its calls: for each the type and the fields it still has
  to look at. \<open>visited\<close> and \<open>acc\<close> are the two sets all calls share.
\<close>

function collect_relation_types ::
  "type_env \<Rightarrow> (string \<times> struct_field list) list \<Rightarrow> string list \<Rightarrow> string list \<Rightarrow> string list \<times> string list" where
  "collect_relation_types env [] visited acc = (visited, acc)"
| "collect_relation_types env ((base, []) # stack) visited acc = collect_relation_types env stack visited acc"
| "collect_relation_types env ((base, f # fs) # stack) visited acc =
     (case relation_child f of
        None \<Rightarrow> collect_relation_types env ((base, fs) # stack) visited acc
      | Some child \<Rightarrow>
          (let acc' = (if child \<noteq> base \<and> child \<notin> set acc then acc @ [child] else acc)
           in if child \<in> set visited then collect_relation_types env ((base, fs) # stack) visited acc'
              else collect_relation_types env ((child, struct_fields env child) # (base, fs) # stack) (child # visited) acc'))"
  by pat_completeness auto

termination
proof (relation "measures [\<lambda>(env, stack, visited, acc). card (fst ` set env - set visited),
    \<lambda>(env, stack, visited, acc). sum_list (map (\<lambda>(b, fs). Suc (2 * length fs)) stack)]", goal_cases)
  case (5 env base f fs stack visited acc child acc')
  show ?case
  proof (cases "struct_fields env child = []")
    case True
    with unvisited_stays [of env child visited] show ?thesis by (auto simp: le_less)
  next
    case False
    from unvisited_decreases [OF 5(3) this] show ?thesis by simp
  qed
qed auto

declare collect_relation_types.simps(3) [simp del]

definition collect_relation_resource_types :: "type_env \<Rightarrow> go_type \<Rightarrow> string list" where
  "collect_relation_resource_types env typ =
     (case indirect_type typ of
        TStruct t \<Rightarrow> snd (collect_relation_types env [(t, struct_fields env t)] [t] [])
      | _ \<Rightarrow> [])"

section \<open>The types found are the reachable ones\<close>

definition relation_edges :: "type_env \<Rightarrow> (string \<times> string) set" where
  "relation_edges env = {(b, c). \<exists>f \<in> set (struct_fields env b). relation_child f = Some c}"

definition related_to :: "type_env \<Rightarrow> string \<Rightarrow> string set" where
  "related_to env start = {c. \<exists>b. (start, b) \<in> (relation_edges env)\<^sup>* \<and> (b, c) \<in> relation_edges env \<and> c \<noteq> b}"

definition pending :: "(string \<times> struct_field list) list \<Rightarrow> string \<Rightarrow> struct_field \<Rightarrow> bool" where
  "pending stack b f \<longleftrightarrow> (\<exists>fs. (b, fs) \<in> set stack \<and> f \<in> set fs)"

definition covered :: "string list \<Rightarrow> string list \<Rightarrow> string \<Rightarrow> struct_field \<Rightarrow> bool" where
  "covered visited acc b f \<longleftrightarrow>
     (\<forall>c. relation_child f = Some c \<longrightarrow> c \<in> set visited \<and> (c \<noteq> b \<longrightarrow> c \<in> set acc))"

text \<open>The invariant: what has been visited is reachable, and the fields seen are covered or still to come.\<close>

definition collecting ::
  "type_env \<Rightarrow> string \<Rightarrow> (string \<times> struct_field list) list \<Rightarrow> string list \<Rightarrow> string list \<Rightarrow> bool" where
  "collecting env start stack visited acc \<longleftrightarrow>
     (\<forall>b fs. (b, fs) \<in> set stack \<longrightarrow> b \<in> set visited \<and> set fs \<subseteq> set (struct_fields env b)) \<and>
     start \<in> set visited \<and> (\<forall>b \<in> set visited. (start, b) \<in> (relation_edges env)\<^sup>*) \<and>
     set acc \<subseteq> related_to env start \<and> distinct acc \<and>
     (\<forall>b \<in> set visited. \<forall>f \<in> set (struct_fields env b). covered visited acc b f \<or> pending stack b f)"

lemma covered_mono: "covered v a b f \<Longrightarrow> set v \<subseteq> set v' \<Longrightarrow> set a \<subseteq> set a' \<Longrightarrow> covered v' a' b f"
  by (auto simp: covered_def)

lemma collecting_done:
  "collecting env start ((base, []) # stack) visited acc \<Longrightarrow> collecting env start stack visited acc"
proof -
  have "pending ((base, []) # stack) = pending stack" by (intro ext) (auto simp: pending_def)
  then show "collecting env start ((base, []) # stack) visited acc \<Longrightarrow> collecting env start stack visited acc"
    unfolding collecting_def by simp
qed

lemma collecting_field:
  assumes "collecting env start ((base, f # fs) # stack) visited acc"
    and "set visited \<subseteq> set visited'" "set acc \<subseteq> set acc'" "covered visited' acc' base f"
    and "\<And>b. b \<in> set visited' \<Longrightarrow> b \<notin> set visited \<Longrightarrow> (start, b) \<in> (relation_edges env)\<^sup>*"
    and "set acc' \<subseteq> related_to env start" "distinct acc'"
    and "\<And>b g. b \<in> set visited' \<Longrightarrow> b \<notin> set visited \<Longrightarrow> g \<in> set (struct_fields env b) \<Longrightarrow> pending frames b g"
    and "\<And>b gs. (b, gs) \<in> set frames \<Longrightarrow> b \<in> set visited' \<and> set gs \<subseteq> set (struct_fields env b)"
  shows "collecting env start (frames @ (base, fs) # stack) visited' acc'"
  unfolding collecting_def
proof (intro conjI ballI allI impI)
  have old: "b \<in> set visited \<and> set gs \<subseteq> set (struct_fields env b)" if "(b, gs) \<in> set ((base, f # fs) # stack)" for b gs
    using assms(1) that unfolding collecting_def by blast
  fix b gs assume "(b, gs) \<in> set (frames @ (base, fs) # stack)"
  then consider "(b, gs) \<in> set frames" | "b = base" "gs = fs" | "(b, gs) \<in> set stack" by auto
  then have "b \<in> set visited' \<and> set gs \<subseteq> set (struct_fields env b)"
    using assms(2,9) old [of base "f # fs"] old [of b gs] by cases auto
  then show "b \<in> set visited'" "set gs \<subseteq> set (struct_fields env b)" by simp_all
next
  show "(start, b) \<in> (relation_edges env)\<^sup>*" if "b \<in> set visited'" for b
    using that assms(1,5) unfolding collecting_def by blast
  fix b g assume b: "b \<in> set visited'" and g: "g \<in> set (struct_fields env b)"
  show "covered visited' acc' b g \<or> pending (frames @ (base, fs) # stack) b g"
  proof (cases "b \<in> set visited")
    case True
    with assms(1) g have "covered visited acc b g \<or> pending ((base, f # fs) # stack) b g"
      unfolding collecting_def by blast
    then show ?thesis
    proof
      assume "covered visited acc b g"
      with covered_mono assms(2,3) show ?thesis by blast
    next
      assume "pending ((base, f # fs) # stack) b g"
      with assms(4) show ?thesis unfolding pending_def by auto
    qed
  next
    case False
    from assms(8) [OF b False g] show ?thesis by (auto simp: pending_def)
  qed
qed (use assms in \<open>auto simp: collecting_def\<close>)

lemma collecting_end:
  "collecting env start stack visited acc \<Longrightarrow>
    (case collect_relation_types env stack visited acc of (v, a) \<Rightarrow> collecting env start [] v a)"
proof (induction env stack visited acc rule: collect_relation_types.induct)
  case (2 env base stack visited acc)
  then show ?case using collecting_done [OF 2(2)] by simp
next
  case (3 env base f fs stack visited acc)
  note inv = 3(4)
  from inv have known: "set acc \<subseteq> related_to env start" "distinct acc" by (simp_all add: collecting_def)
  show ?case
  proof (cases "relation_child f")
    case None
    have "collecting env start ([] @ (base, fs) # stack) visited acc"
      by (rule collecting_field [OF inv]) (use known None in \<open>auto simp: covered_def\<close>)
    with 3(1) [OF None] None show ?thesis by (simp add: collect_relation_types.simps(3))
  next
    case (Some child)
    let ?acc = "if child \<noteq> base \<and> child \<notin> set acc then acc @ [child] else acc"
    from inv have "base \<in> set visited" "f \<in> set (struct_fields env base)" unfolding collecting_def by fastforce+
    moreover from inv this(1) have reach: "(start, base) \<in> (relation_edges env)\<^sup>*" unfolding collecting_def by blast
    ultimately have edge: "(base, child) \<in> relation_edges env" using Some by (auto simp: relation_edges_def)
    with reach have "child \<in> related_to env start" if "child \<noteq> base" using that by (auto simp: related_to_def)
    with known have acc: "set ?acc \<subseteq> related_to env start" "distinct ?acc" by auto
    have further: "(start, child) \<in> (relation_edges env)\<^sup>*" using reach edge by simp
    show ?thesis
    proof (cases "child \<in> set visited")
      case True
      have "collecting env start ([] @ (base, fs) # stack) visited ?acc"
        by (rule collecting_field [OF inv]) (use acc True Some in \<open>auto simp: covered_def\<close>)
      with 3(2) [OF Some refl True] Some True show ?thesis by (simp add: collect_relation_types.simps(3) Let_def)
    next
      case False
      have "collecting env start ([(child, struct_fields env child)] @ (base, fs) # stack) (child # visited) ?acc"
        by (rule collecting_field [OF inv]) (use acc False Some further in \<open>auto simp: covered_def pending_def\<close>)
      with 3(3) [OF Some refl False] Some False show ?thesis by (simp add: collect_relation_types.simps(3) Let_def)
    qed
  qed
qed simp

text \<open>
  C38 (functional). A document covers the related types: the types collected for a resource, each once, are exactly
  those that a chain of relation fields leads to from the type of the resource, itself included when another type
  refers back to it.
\<close>

theorem related_types_reachable:
  "distinct (collect_relation_resource_types env typ) \<and>
   set (collect_relation_resource_types env typ) =
     (case indirect_type typ of TStruct t \<Rightarrow> related_to env t | _ \<Rightarrow> {})"
proof (cases "indirect_type typ")
  case (TStruct t)
  obtain v a where c: "collect_relation_types env [(t, struct_fields env t)] [t] [] = (v, a)" by fastforce
  have "collecting env t [(t, struct_fields env t)] [t] []"
    by (auto simp: collecting_def pending_def)
  from collecting_end [OF this] c have inv: "collecting env t [] v a" by simp
  then have cov: "covered v a b f" if "b \<in> set v" "f \<in> set (struct_fields env b)" for b f
    using that by (auto simp: collecting_def pending_def)
  have reach: "b \<in> set v" if "(t, b) \<in> (relation_edges env)\<^sup>*" for b
    using that
  proof induction
    case base
    show ?case using inv by (simp add: collecting_def)
  next
    case (step b c)
    then show ?case using cov by (fastforce simp: relation_edges_def covered_def)
  qed
  have "related_to env t \<subseteq> set a"
  proof
    fix c assume "c \<in> related_to env t"
    then obtain b where "(t, b) \<in> (relation_edges env)\<^sup>*" "(b, c) \<in> relation_edges env" "c \<noteq> b"
      by (auto simp: related_to_def)
    with reach cov show "c \<in> set a" by (fastforce simp: relation_edges_def covered_def)
  qed
  with inv TStruct c show ?thesis by (auto simp: collect_relation_resource_types_def collecting_def)
qed (simp_all add: collect_relation_resource_types_def)

section \<open>Documentation of the routes\<close>

text \<open>What the router library calls a route definition: a route with its documentation. A body is its description, whether it is required, and its content.\<close>

record route_parameter =
  rp_name :: string
  rp_in :: string
  rp_required :: bool
  rp_schema :: "(string, doc) gomap"

type_synonym request_body = "string \<times> bool \<times> (string, doc) gomap"

record route_definition =
  rd_method :: string
  rd_path :: string
  rd_name :: string
  rd_summary :: string
  rd_description :: string
  rd_tags :: "string list"
  rd_parameters :: "route_parameter list"
  rd_request_body :: "request_body option"
  rd_responses :: "(int \<times> string \<times> (string, doc) gomap) list"
  rd_security :: "string list"

text \<open>The fields of an action that document it, and an action with them.\<close>

record action_docs =
  ax_summary :: string
  ax_description :: string
  ax_tags :: "string list"
  ax_parameters :: "route_parameter list"
  ax_request_body :: "request_body option"
  ax_responses :: "(int \<times> string \<times> (string, doc) gomap) list"
  ax_security :: "string list"

type_synonym 'k documented_action = "'k action \<times> action_docs"

definition action_route_def :: "'k resolved_action \<Rightarrow> action_docs \<Rightarrow> route_definition" where
  "action_route_def a x =
     \<lparr>rd_method = ad_method (ra_descriptor a), rd_path = ad_path (ra_descriptor a), rd_name = ra_route_name a,
      rd_summary = ax_summary x, rd_description = ax_description x, rd_tags = ax_tags x, rd_parameters = ax_parameters x,
      rd_request_body = ax_request_body x, rd_responses = ax_responses x, rd_security = ax_security x\<rparr>"

definition resolve_documented ::
  "(string \<Rightarrow> string) \<Rightarrow> 'k documented_action list \<Rightarrow> string \<Rightarrow> string \<Rightarrow> ('k resolved_action \<times> action_docs) list" where
  "resolve_documented kebab as resource resources =
     List.map_filter (\<lambda>(a, x). map_option (\<lambda>r. (r, x)) (resolve_action kebab resource resources a)) as"

text \<open>The metadata of a resource; \<open>'m\<close> is what the code only passes on.\<close>

record 'm resource_metadata =
  mt_name :: string
  mt_plural :: string
  mt_schema_name :: string
  mt_routes :: "route_definition list"
  mt_rest :: 'm

definition get_metadata :: "'m \<Rightarrow> 'm resource_metadata option \<Rightarrow> route_definition list \<Rightarrow> 'm resource_metadata" where
  "get_metadata zero metadata actionDefs =
     (case metadata of
        None \<Rightarrow> \<lparr>mt_name = [], mt_plural = [], mt_schema_name = [], mt_routes = actionDefs, mt_rest = zero\<rparr>
      | Some m \<Rightarrow> m\<lparr>mt_routes := mt_routes m @ actionDefs\<rparr>)"

text \<open>What \<open>RegisterRoutes\<close> tells a route that takes documentation.\<close>

datatype doc_call =
    DocDescription string
  | DocSummary string
  | DocTags "string list"
  | DocParameter route_parameter
  | DocRequestBody request_body
  | DocResponse "int \<times> string \<times> (string, doc) gomap"

definition definition_calls :: "route_definition \<Rightarrow> doc_call list" where
  "definition_calls d =
     (if rd_description d \<noteq> [] then [DocDescription (rd_description d)] else []) @
     (if rd_summary d \<noteq> [] then [DocSummary (rd_summary d)] else []) @
     (if rd_tags d \<noteq> [] then [DocTags (rd_tags d)] else []) @
     map DocParameter (rd_parameters d) @
     (case rd_request_body d of None \<Rightarrow> [] | Some b \<Rightarrow> [DocRequestBody b]) @
     map DocResponse (rd_responses d)"

definition route_meta :: "route_definition list \<Rightarrow> (string, route_definition) gomap" where
  "route_meta defs = fold (\<lambda>d. put (rd_method d @ '' '' @ rd_path d) d) defs []"

definition apply_meta :: "route_definition list \<Rightarrow> string \<Rightarrow> string \<Rightarrow> doc_call list" where
  "apply_meta defs method path =
     (case map_of (route_meta defs) (method @ '' '' @ path) of None \<Rightarrow> [] | Some d \<Rightarrow> definition_calls d)"

text \<open>
  \<open>RegisterRoutes\<close> with the documentation of the routes, on a router whose routes take it. Only the route of
  the schema is registered without.
\<close>

definition register_documented_routes ::
  "(string \<Rightarrow> string) \<Rightarrow> string \<Rightarrow> string \<Rightarrow> string \<Rightarrow> route_config \<Rightarrow> 'k documented_action list \<Rightarrow> 'm \<Rightarrow>
   'm resource_metadata option \<Rightarrow> ('e, 'r, 'v, 'w, 'h, 'err, 'a) controller \<Rightarrow>
   ('k route \<times> doc_call list) list \<times> ('e, 'r, 'v, 'w, 'h, 'err, 'a) controller" where
  "register_documented_routes kebab resource resources configured rc as zero metadata c0 =
     (let actionDefs = map (\<lambda>(r, x). action_route_def r x) (resolve_documented kebab as resource resources);
          defs = mt_routes (get_metadata zero metadata actionDefs);
          (routes, c) = register_routes kebab resource resources configured rc (map fst as) c0
      in (map (\<lambda>r. (r, if rt_handler r = SchemaRoute then [] else apply_meta defs (rt_method r) (rt_path r))) routes, c))"

section \<open>Extensions of the document\<close>

text \<open>\<open>AdminScopeMetadata\<close>, \<open>AdminMenuMetadata\<close> and \<open>RowFilterHint\<close>, and the maps and JSON values they become.\<close>

record admin_scope_metadata =
  as_level :: string
  as_description :: string
  as_claims :: "string list"
  as_roles :: "string list"
  as_labels :: "string list"

record admin_menu_metadata =
  am_group :: string
  am_label :: string
  am_icon :: string
  am_order :: int
  am_path :: string
  am_hidden :: bool

record row_filter_hint =
  rf_field :: string
  rf_operator :: string
  rf_description :: string

definition text_entry :: "string \<Rightarrow> string \<Rightarrow> (string, doc) gomap" where
  "text_entry key t = (if t = [] then [] else [(key, DocText t)])"

definition texts_entry :: "string \<Rightarrow> string list \<Rightarrow> (string, doc) gomap" where
  "texts_entry key ts = (if ts = [] then [] else [(key, DocOther (Some (DocList (map DocText ts))))])"

definition scope_to_map :: "admin_scope_metadata \<Rightarrow> dict" where
  "scope_to_map m =
     text_entry ''level'' (trim_space (as_level m)) @ text_entry ''description'' (trim_space (as_description m)) @
     texts_entry ''claims'' (as_claims m) @ texts_entry ''roles'' (as_roles m) @ texts_entry ''labels'' (as_labels m)"

definition menu_to_map :: "admin_menu_metadata \<Rightarrow> dict" where
  "menu_to_map m =
     text_entry ''group'' (trim_space (am_group m)) @ text_entry ''label'' (trim_space (am_label m)) @
     text_entry ''icon'' (trim_space (am_icon m)) @
     (if am_order m = 0 then [] else [(''order'', DocInt (am_order m))]) @
     text_entry ''path'' (trim_space (am_path m)) @ (if am_hidden m then [(''hidden'', DocBool True)] else [])"

definition hint_json :: "row_filter_hint \<Rightarrow> doc" where
  "hint_json h = DocDict ((''field'', DocText (rf_field h)) # text_entry ''operator'' (rf_operator h) @
     text_entry ''description'' (rf_description h))"

fun target_text :: "action_target \<Rightarrow> string" where
  "target_text TargetCollection = ''collection''"
| "target_text TargetResource = ''resource''"
| "target_text (OtherTarget t) = t"

definition descriptor_json :: "action_descriptor \<times> action_docs \<Rightarrow> doc" where
  "descriptor_json d =
     (case d of (a, x) \<Rightarrow> DocDict ([(''name'', DocText (ad_name a)), (''slug'', DocText (ad_slug a)),
        (''method'', DocText (ad_method a)), (''target'', DocText (target_text (ad_target a))), (''path'', DocText (ad_path a))] @
        text_entry ''summary'' (ax_summary x) @ text_entry ''description'' (ax_description x) @
        (if ax_tags x = [] then [] else [(''tags'', DocList (map DocText (ax_tags x)))])))"

text \<open>A change of the schema of a name, where the document has it.\<close>

definition update_nested :: "string \<Rightarrow> (dict \<Rightarrow> dict) \<Rightarrow> dict \<Rightarrow> dict" where
  "update_nested key f d = (case nested_dict key d of None \<Rightarrow> d | Some m \<Rightarrow> put key (DocDict (f m)) d)"

definition update_schema :: "string \<Rightarrow> (dict \<Rightarrow> dict) \<Rightarrow> dict \<Rightarrow> dict" where
  "update_schema name f = update_nested ''components'' (update_nested ''schemas'' (update_nested name f))"

text \<open>The kinds of a named type that is neither a struct, a pointer, a slice nor an array.\<close>

datatype go_kind = KindString | KindBool | KindInteger | KindFloat | KindMap | KindOther

fun map_go_type_to_openapi :: "(string \<Rightarrow> go_kind) \<Rightarrow> go_type \<Rightarrow> dict" where
  "map_go_type_to_openapi kind (TPointer t) = map_go_type_to_openapi kind t"
| "map_go_type_to_openapi kind (TSlice t) = [(''type'', DocText ''array''), (''items'', DocDict (map_go_type_to_openapi kind t))]"
| "map_go_type_to_openapi kind (TArray t) = [(''type'', DocText ''array''), (''items'', DocDict (map_go_type_to_openapi kind t))]"
| "map_go_type_to_openapi kind (TStruct n) =
     (if n = ''time.Time'' then [(''type'', DocText ''string''), (''format'', DocText ''date-time'')]
      else [(''type'', DocText ''object'')])"
| "map_go_type_to_openapi kind (TOther n) =
     [(''type'', DocText (case kind n of KindString \<Rightarrow> ''string'' | KindBool \<Rightarrow> ''boolean'' | KindInteger \<Rightarrow> ''integer''
        | KindFloat \<Rightarrow> ''number'' | KindMap \<Rightarrow> ''object'' | KindOther \<Rightarrow> ''string''))]"

definition append_virtual_extensions :: "virtual_def \<Rightarrow> dict \<Rightarrow> dict" where
  "append_virtual_extensions d prop =
     (let p = put ''x-virtual-key'' (DocText (vd_json_name d))
                (put ''x-virtual-source'' (DocText (vd_source d)) (put ''x-virtual-field'' (DocBool True) prop))
      in if vd_merge d \<noteq> [] then put ''x-virtual-merge'' (DocText (vd_merge d)) p else p)"

definition build_virtual_property :: "(string \<Rightarrow> go_kind) \<Rightarrow> virtual_def \<Rightarrow> dict" where
  "build_virtual_property kind d = maps_copy (append_virtual_extensions d []) (map_go_type_to_openapi kind (vd_type d))"

definition annotate_property :: "(string \<Rightarrow> go_kind) \<Rightarrow> virtual_def \<Rightarrow> dict \<Rightarrow> dict" where
  "annotate_property kind d props =
     (case map_of props (vd_json_name d) of
        None \<Rightarrow> put (vd_json_name d) (DocDict (build_virtual_property kind d)) props
      | Some (DocDict prop) \<Rightarrow> put (vd_json_name d) (DocDict (append_virtual_extensions d prop)) props
      | Some other \<Rightarrow> props)"

definition annotate_schema :: "(string \<Rightarrow> go_kind) \<Rightarrow> virtual_def list \<Rightarrow> dict \<Rightarrow> dict" where
  "annotate_schema kind defs schema =
     (let props = (case nested_dict ''properties'' schema of None \<Rightarrow> [] | Some m \<Rightarrow> m)
      in put ''properties'' (DocDict (fold (annotate_property kind) defs props)) schema)"

definition annotate_virtual_fields_in_schema ::
  "(string \<Rightarrow> go_kind) \<Rightarrow> virtual_def list \<Rightarrow> string \<Rightarrow> dict \<Rightarrow> dict" where
  "annotate_virtual_fields_in_schema kind defs schemaName d =
     (if d = [] \<or> schemaName = [] then d else update_schema schemaName (annotate_schema kind defs) d)"

section \<open>Compiling, serving and registering the document\<close>

text \<open>
  What of a controller and of the libraries this depends on. \<open>su_range\<close> is the order in which Go ranges over
  the set of related types, \<open>su_openapi\<close> the document the aggregator makes of some metadata.
\<close>

record 'm schema_setup =
  su_env :: type_env
  su_is_string_map :: "go_type \<Rightarrow> bool"
  su_kind :: "string \<Rightarrow> go_kind"
  su_resource_type :: go_type
  su_range :: "string list \<Rightarrow> string list"
  su_metadata :: "go_type \<Rightarrow> 'm resource_metadata option"
  su_zero :: 'm
  su_openapi :: "'m resource_metadata list \<Rightarrow> dict"
  su_actions :: "(action_descriptor \<times> action_docs) list"
  su_action_defs :: "route_definition list"
  su_scope :: admin_scope_metadata
  su_menu :: admin_menu_metadata
  su_hints :: "row_filter_hint list"

definition set_resolved_actions :: "('k resolved_action \<times> action_docs) list \<Rightarrow> 'm schema_setup \<Rightarrow> 'm schema_setup" where
  "set_resolved_actions as su =
     su\<lparr>su_actions := map (\<lambda>(a, x). (ra_descriptor a, x)) as, su_action_defs := map (\<lambda>(a, x). action_route_def a x) as\<rparr>"

definition admin_schema :: "'m schema_setup \<Rightarrow> dict \<Rightarrow> dict" where
  "admin_schema su s0 =
     (let s1 = (if scope_to_map (su_scope su) \<noteq> [] then put ''x-admin-scope'' (DocDict (scope_to_map (su_scope su))) s0 else s0);
          s2 = (if su_actions su \<noteq> []
                then put ''x-admin-actions'' (DocOther (Some (DocList (map descriptor_json (su_actions su))))) s1 else s1);
          s3 = (if menu_to_map (su_menu su) \<noteq> [] then put ''x-admin-menu'' (DocDict (menu_to_map (su_menu su))) s2 else s2)
      in if su_hints su \<noteq> [] then put ''x-admin-row-filters'' (DocOther (Some (DocList (map hint_json (su_hints su))))) s3 else s3)"

definition apply_admin_extensions :: "'m schema_setup \<Rightarrow> 'm resource_metadata \<Rightarrow> dict \<Rightarrow> dict" where
  "apply_admin_extensions su meta d =
     (let schemaName = (if mt_name meta = [] then mt_schema_name meta else mt_name meta)
      in if schemaName = [] then d else update_schema schemaName (admin_schema su) d)"

text \<open>The metadata of the related types, none of a name that is there already.\<close>

fun related_metadata :: "(go_type \<Rightarrow> 'm resource_metadata option) \<Rightarrow> string list \<Rightarrow> string list \<Rightarrow> 'm resource_metadata list" where
  "related_metadata lib added [] = []"
| "related_metadata lib added (t # ts) =
     (case lib (TStruct t) of
        None \<Rightarrow> related_metadata lib added ts
      | Some m \<Rightarrow>
          if mt_name m = [] \<or> mt_name m \<in> set added then related_metadata lib added ts
          else m # related_metadata lib (mt_name m # added) ts)"

definition setup_metadata :: "'m schema_setup \<Rightarrow> 'm resource_metadata" where
  "setup_metadata su = get_metadata (su_zero su) (su_metadata su (su_resource_type su)) (su_action_defs su)"

definition setup_virtual_defs :: "'m schema_setup \<Rightarrow> virtual_def list" where
  "setup_virtual_defs su = extract_virtual_field_defs (su_env su) (su_is_string_map su) (su_resource_type su) ''allow_zero''"

text \<open>The name and the document, both empty when the type has no metadata.\<close>

definition compile_schema_document :: "'m schema_setup \<Rightarrow> 'm resource_metadata option \<times> dict" where
  "compile_schema_document su =
     (let meta = setup_metadata su
      in if mt_name meta = [] then (None, [])
         else (let types = su_range su (collect_relation_resource_types (su_env su) (su_resource_type su));
                   d = su_openapi su (meta # related_metadata (su_metadata su) [mt_name meta] types)
               in (Some meta, if d = [] then []
                    else apply_admin_extensions su meta
                           (annotate_virtual_fields_in_schema (su_kind su) (setup_virtual_defs su) (mt_name meta) d))))"

datatype schema_answer = SchemaStatus nat | SchemaDocument dict

definition schema_response :: "'m schema_setup \<Rightarrow> schema_answer" where
  "schema_response su =
     (case compile_schema_document su of
        (None, d) \<Rightarrow> SchemaStatus 404
      | (Some meta, d) \<Rightarrow> if d = [] then SchemaStatus 204 else SchemaDocument d)"

text \<open>The handler: the context factory, and then the response, which depends on nothing of the request.\<close>

definition schema_handler ::
  "('e, 'r, 'v, 'w, 'h, 'err, 'a) controller \<Rightarrow> 'm schema_setup \<Rightarrow> http_request \<Rightarrow> (('e, 'r, 'v, 'w) world, schema_answer) state" where
  "schema_handler c su hr = do {
     _ \<leftarrow> apply_context_factory c hr;
     State_Monad.return (schema_response su)
   }"

definition refresh_schema_registration ::
  "'l listener_calls \<Rightarrow> go_time \<Rightarrow> 'm schema_setup \<Rightarrow> 'l schema_registry \<Rightarrow>
   ('l schema_registry \<times> ('l \<times> schema_entry) list) option" where
  "refresh_schema_registration calls now su r =
     (case compile_schema_document su of
        (None, d) \<Rightarrow> Some (r, [])
      | (Some meta, d) \<Rightarrow>
          if d = [] then Some (r, [])
          else map_option snd (register_schema_entry calls now
            \<lparr>se_resource = mt_name meta, se_plural = mt_plural meta, se_document = Some d, se_updated_at = zero_time\<rparr> r))"

section \<open>What a document is extended by\<close>

lemma nested_dict_put [simp]:
  "nested_dict k (put k' v d) = (if k = k' then dict_value (Some v) else nested_dict k d)"
  by (simp add: nested_dict_def)

lemma dict_value_dict [simp]: "dict_value (Some (DocDict m)) = Some m"
  by (simp add: dict_value_def)

definition schema_at :: "string \<Rightarrow> dict \<Rightarrow> dict option" where
  "schema_at name d = Option.bind (nested_dict ''components'' d) (\<lambda>c. Option.bind (nested_dict ''schemas'' c) (nested_dict name))"











text \<open>The document the aggregator makes for a setup.\<close>

definition plain_document :: "'m schema_setup \<Rightarrow> dict" where
  "plain_document su =
     (let meta = setup_metadata su;
          types = su_range su (collect_relation_resource_types (su_env su) (su_resource_type su))
      in su_openapi su (meta # related_metadata (su_metadata su) [mt_name meta] types))"

lemma compiled_document:
  assumes "compile_schema_document su = (Some meta, d)" "d \<noteq> []"
  shows "meta = setup_metadata su \<and> mt_name meta \<noteq> [] \<and>
    d = update_schema (mt_name meta) (admin_schema su)
          (update_schema (mt_name meta) (annotate_schema (su_kind su) (setup_virtual_defs su)) (plain_document su))"
  using assms
  by (auto simp: compile_schema_document_def plain_document_def Let_def apply_admin_extensions_def
      annotate_virtual_fields_in_schema_def split: if_splits)


section \<open>The registry holds what is served\<close>

text \<open>
  C40 (equivalence). The registry and the schema route agree: once a registration has returned, the registry
  answers the name of the resource with the document the route serves, as JSON decodes it; where the route
  serves none, the registry is left as it is and nobody is told.
\<close>

theorem registry_holds_served_document:
  assumes "refresh_schema_registration calls now su r = Some (r', told)"
    and "trim_space (mt_name (setup_metadata su)) = mt_name (setup_metadata su)"
  shows "case schema_response su of
      SchemaStatus status \<Rightarrow> r' = r \<and> told = []
    | SchemaDocument d \<Rightarrow> map_option se_document (get_schema (mt_name (setup_metadata su)) r') = Some (decode_fields d)"
proof -
  obtain m d where c: "compile_schema_document su = (m, d)" by fastforce
  show ?thesis
  proof (cases "m \<noteq> None \<and> d \<noteq> []")
    case True
    then obtain meta where m: "m = Some meta" by blast
    from compiled_document [OF c [unfolded m]] True have meta: "meta = setup_metadata su" "mt_name meta \<noteq> []" by blast+
    let ?e = "\<lparr>se_resource = mt_name meta, se_plural = mt_plural meta, se_document = Some d, se_updated_at = zero_time\<rparr>"
    from assms(1) c m True have "\<exists>ok. register_schema_entry calls now ?e r = Some (ok, r', told)"
      by (auto simp: refresh_schema_registration_def)
    moreover have "registrable ?e" using True meta assms(2) by (simp add: registrable_def)
    ultimately have "sr_entries r' = put (mt_name meta) (stamped now ?e) (sr_entries r)"
      using assms(2) meta(1) by (auto simp: register_schema_entry_eq split: if_splits)
    then have "map_option se_document (get_schema (mt_name meta) r') = Some (decode_fields d)"
      by (simp add: get_schema_def) (simp add: stamped_def clone_schema_document_def)
    with c m True meta(1) show ?thesis by (simp add: schema_response_def)
  next
    case False
    with assms(1) c show ?thesis
      by (cases m) (auto simp: schema_response_def refresh_schema_registration_def)
  qed
qed

section \<open>Actions are documented\<close>

lemma resolve_documented_fst:
  "map fst (resolve_documented kebab as resource resources) = resolve_actions kebab (map fst as) resource resources"
  by (induction as) (auto simp: resolve_documented_def resolve_actions_def List.map_filter_simps split: option.split)

definition definition_key :: "route_definition \<Rightarrow> string" where
  "definition_key d = rd_method d @ '' '' @ rd_path d"

lemma route_meta_lookup:
  "distinct (map definition_key defs) \<Longrightarrow> d \<in> set defs \<Longrightarrow> map_of (route_meta defs) (definition_key d) = Some d"
proof -
  have "map_of (fold (\<lambda>d. put (definition_key d) d) defs m) (definition_key d) = Some d"
    if "distinct (map definition_key defs)" "d \<in> set defs" for m
    using that
  proof (induction defs arbitrary: m)
    case (Cons x defs)
    show ?case
    proof (cases "d \<in> set defs")
      case False
      have "definition_key d \<notin> set (map definition_key defs) \<Longrightarrow>
          map_of (fold (\<lambda>d. put (definition_key d) d) defs m) (definition_key d) = map_of m (definition_key d)" for m
        by (induction defs arbitrary: m) auto
      with False Cons.prems show ?thesis by auto
    qed (use Cons in simp)
  qed simp
  then show "distinct (map definition_key defs) \<Longrightarrow> d \<in> set defs \<Longrightarrow> ?thesis"
    by (simp add: route_meta_def definition_key_def)
qed

text \<open>
  Every action is documented: if no two definitions have the same method and path, the route of
  each action that is registered is told the documentation of this action.
\<close>

theorem actions_documented:
  fixes c :: "('e, 'r, 'v, 'w, 'h, 'err, 'a) controller"
  assumes "(a, x) \<in> set (resolve_documented kebab as resource resources)" "routable (ad_method (ra_descriptor a))"
    and "distinct (map definition_key (mt_routes (get_metadata zero metadata
      (map (\<lambda>(r, x). action_route_def r x) (resolve_documented kebab as resource resources)))))"
  shows "(action_route a, definition_calls (action_route_def a x)) \<in>
    set (fst (register_documented_routes kebab resource resources configured rc as zero metadata c))"
proof -
  let ?defs = "mt_routes (get_metadata zero metadata
      (map (\<lambda>(r, x). action_route_def r x) (resolve_documented kebab as resource resources)))"
  have "action_route_def a x \<in> set ?defs"
    using assms(1) by (force simp: get_metadata_def split: option.split)
  from route_meta_lookup [OF assms(3) this]
  have calls: "apply_meta ?defs (ad_method (ra_descriptor a)) (ad_path (ra_descriptor a)) = definition_calls (action_route_def a x)"
    by (simp add: apply_meta_def definition_key_def action_route_def_def)
  have "a \<in> set (resolve_actions kebab (map fst as) resource resources)"
    using assms(1) by (force simp: resolve_documented_fst [symmetric])
  then have "action_route a \<in> set (fst (register_routes kebab resource resources configured rc (map fst as) c))"
    using assms(2) by (simp add: register_routes_def fold_actions Let_def)
  moreover have "rt_method (action_route a) = ad_method (ra_descriptor a)" "rt_path (action_route a) = ad_path (ra_descriptor a)"
    "rt_handler (action_route a) \<noteq> SchemaRoute"
    by (simp_all add: action_route_def)
  ultimately show ?thesis
    by (force simp: register_documented_routes_def Let_def calls split: prod.split)
qed

section \<open>A sample\<close>

definition sample_struct :: "string \<Rightarrow> string \<Rightarrow> string \<Rightarrow> string \<Rightarrow> go_type \<Rightarrow> struct_field" where
  "sample_struct name crud bun json t =
     \<lparr>sf_name = name, sf_exported = True, sf_crud = crud, sf_bun = bun, sf_json = json, sf_type = t\<rparr>"

definition sample_types :: type_env where
  "sample_types =
     [(''Article'', [sample_struct ''Data'' [] ''data'' ''data'' (TOther ''map''),
        sample_struct ''Slug'' ''virtual:Data'' ''-'' ''slug'' (TPointer (TOther ''string'')),
        sample_struct ''Author'' [] ''rel:belongs-to'' ''author'' (TPointer (TStruct ''User''))]),
      (''User'', [sample_struct ''Articles'' [] ''rel:has-many'' ''articles'' (TSlice (TPointer (TStruct ''Article'')))])]"

definition sample_meta :: "string \<Rightarrow> unit resource_metadata" where
  "sample_meta name = \<lparr>mt_name = name, mt_plural = name @ ''s'', mt_schema_name = name, mt_routes = [], mt_rest = ()\<rparr>"

definition sample_openapi :: "unit resource_metadata list \<Rightarrow> dict" where
  "sample_openapi ms = [(''openapi'', DocText ''3.0.3''), (''components'', DocDict [(''schemas'',
     DocDict (map (\<lambda>m. (mt_name m, DocDict [(''type'', DocText ''object'')])) ms))])]"

definition sample_setup :: "unit schema_setup" where
  "sample_setup = \<lparr>su_env = sample_types, su_is_string_map = (\<lambda>t. t = TOther ''map''),
     su_kind = (\<lambda>n. if n = ''map'' then KindMap else KindString), su_resource_type = TPointer (TStruct ''Article''),
     su_range = (\<lambda>ts. ts),
     su_metadata = (\<lambda>t. if t = TStruct ''User'' then Some (sample_meta ''user'') else Some (sample_meta ''article'')),
     su_zero = (), su_openapi = sample_openapi, su_actions = [], su_action_defs = [],
     su_scope = \<lparr>as_level = ''tenant'', as_description = [], as_claims = [''read''], as_roles = [], as_labels = []\<rparr>,
     su_menu = \<lparr>am_group = [], am_label = [], am_icon = [], am_order = 0, am_path = [], am_hidden = False\<rparr>, su_hints = []\<rparr>"

lemma sample_related: "set (collect_relation_resource_types sample_types (TStruct ''Article'')) = {''User'', ''Article''}"
proof -
  have c: "relation_child (sample_struct ''Data'' [] ''data'' ''data'' (TOther ''map'')) = None"
    "relation_child (sample_struct ''Slug'' ''virtual:Data'' ''-'' ''slug'' (TPointer (TOther ''string''))) = None"
    "relation_child (sample_struct ''Author'' [] ''rel:belongs-to'' ''author'' (TPointer (TStruct ''User''))) = Some ''User''"
    "relation_child (sample_struct ''Articles'' [] ''rel:has-many'' ''articles'' (TSlice (TPointer (TStruct ''Article'')))) = Some ''Article''"
    by code_simp+
  show ?thesis
    by (simp add: collect_relation_resource_types_def sample_types_def struct_fields_def
        collect_relation_types.simps(3) c Let_def insert_commute)
qed

lemma sample_meta_setup: "setup_metadata sample_setup = sample_meta ''article''"
  by (simp add: setup_metadata_def sample_setup_def get_metadata_def sample_meta_def)


lemma sample_plain: "schema_at ''article'' (plain_document sample_setup) = Some [(''type'', DocText ''object'')]"
  by (simp add: plain_document_def sample_meta_setup Let_def)
    (simp add: sample_setup_def sample_openapi_def sample_meta_def schema_at_def nested_dict_def dict_value_def)

lemma sample_compiled: "\<exists>d. compile_schema_document sample_setup = (Some (sample_meta ''article''), d) \<and> d \<noteq> [] \<and> schema_response sample_setup = SchemaDocument d"
proof -
  have keep: "update_nested key f d \<noteq> []" if "d \<noteq> []" for key f d
    using that by (simp add: update_nested_def split: option.split)
  have "plain_document sample_setup \<noteq> []" using sample_plain by (auto simp: schema_at_def nested_dict_def dict_value_def)
  moreover have "mt_name (sample_meta ''article'') = ''article''" by (simp add: sample_meta_def)
  ultimately obtain d where d: "compile_schema_document sample_setup = (Some (sample_meta ''article''), d)" "d \<noteq> []"
    by (simp add: compile_schema_document_def sample_meta_setup plain_document_def Let_def apply_admin_extensions_def
        annotate_virtual_fields_in_schema_def update_schema_def keep)
  then show ?thesis by (intro exI conjI) (simp_all add: schema_response_def)
qed


theorem registry_holds_served_document_witness:
  "\<exists>d r'. schema_response sample_setup = SchemaDocument d \<and>
     refresh_schema_registration (\<lambda>l e. []) zero_time sample_setup (empty_registry :: string schema_registry) = Some (r', []) \<and>
     map_option se_document (get_schema ''article'' r') = Some (decode_fields d)"
proof -
  obtain d where d: "compile_schema_document sample_setup = (Some (sample_meta ''article''), d)" "d \<noteq> []"
      "schema_response sample_setup = SchemaDocument d"
    using sample_compiled by blast
  have trimmed: "trim_space (mt_name (setup_metadata sample_setup)) = mt_name (setup_metadata sample_setup)"
    "mt_name (setup_metadata sample_setup) = ''article''"
    unfolding sample_meta_setup by code_simp+
  obtain r' where r: "refresh_schema_registration (\<lambda>l e. []) zero_time sample_setup (empty_registry :: string schema_registry) = Some (r', [])"
    using d trimmed by (auto simp: refresh_schema_registration_def register_schema_entry_eq empty_registry_def registrable_def sample_meta_setup)
  from registry_holds_served_document [OF r trimmed(1)] d(3) trimmed(2) r show ?thesis by auto
qed

definition sample_action :: "nat documented_action" where
  "sample_action =
     (\<lparr>an_name = ''ban'', an_method = ''post'', an_target = TargetResource, an_path = [], an_handler = Some 0\<rparr>,
      \<lparr>ax_summary = ''Ban a user'', ax_description = [], ax_tags = [''admin''], ax_parameters = [], ax_request_body = None,
       ax_responses = [(200, ''Banned'', [])], ax_security = []\<rparr>)"

theorem actions_documented_witness:
  "\<forall>c :: ('e, 'r, 'v, 'w, 'h, 'err, 'a) controller. \<exists>route. rt_path route = ''/user/:id/actions/ban'' \<and>
    (route, [DocSummary ''Ban a user'', DocTags [''admin''], DocResponse (200, ''Banned'', [])]) \<in>
      set (fst (register_documented_routes (\<lambda>name. name) ''user'' ''users'' [] [] [sample_action] () (Some (sample_meta ''user'')) c))"
proof
  fix c :: "('e, 'r, 'v, 'w, 'h, 'err, 'a) controller"
  let ?x = "snd sample_action"
  have upper: "to_upper ''post'' = ''POST''" by code_simp
  obtain a where a: "resolve_documented (\<lambda>name. name) [sample_action] ''user'' ''users'' = [(a, ?x)]"
    "ra_descriptor a = \<lparr>ad_name = ''ban'', ad_slug = ''ban'', ad_method = ''POST'', ad_target = TargetResource, ad_path = ''/user/:id/actions/ban''\<rparr>"
    by (simp add: resolve_documented_def resolve_action_def sample_action_def List.map_filter_simps Let_def trim_space_def
        trim_left_def is_space_def upper)
  have "routable (ad_method (ra_descriptor a))" by (simp add: a(2) routable_def)
  from actions_documented [of a ?x "\<lambda>name. name" "[sample_action]" "''user''" "''users''" "()" "Some (sample_meta ''user'')" "[]" "[]" c,
      OF _ this] a(1)
  have "(action_route a, definition_calls (action_route_def a ?x)) \<in>
      set (fst (register_documented_routes (\<lambda>name. name) ''user'' ''users'' [] [] [sample_action] () (Some (sample_meta ''user'')) c))"
    by (simp add: get_metadata_def sample_meta_def)
  moreover have "definition_calls (action_route_def a ?x) = [DocSummary ''Ban a user'', DocTags [''admin''], DocResponse (200, ''Banned'', [])]"
    by (simp add: definition_calls_def action_route_def_def sample_action_def)
  moreover have "rt_path (action_route a) = ''/user/:id/actions/ban''" by (simp add: action_route_def a(2))
  ultimately show "\<exists>route. rt_path route = ''/user/:id/actions/ban'' \<and>
    (route, [DocSummary ''Ban a user'', DocTags [''admin''], DocResponse (200, ''Banned'', [])]) \<in>
      set (fst (register_documented_routes (\<lambda>name. name) ''user'' ''users'' [] [] [sample_action] () (Some (sample_meta ''user'')) c))"
    by auto
qed

end
