(* ===== verification/Activity_Sink.thy ===== *)
theory Activity_Sink
  imports Activity
begin

text \<open>
  The activity hook that forwards events to the sink of go-users (\<open>pkg/activity/usersink\<close>). The sink and
  \<open>uuid.Parse\<close> are parameters. The lemmas show what an emitted event is logged as.
\<close>

text \<open>The record of the sink, with identifiers of type \<open>'u\<close>.\<close>

record 'u activity_record =
  ar_actor_id :: 'u
  ar_user_id :: 'u
  ar_tenant_id :: 'u
  ar_verb :: string
  ar_object_type :: string
  ar_object_id :: string
  ar_channel :: string
  ar_data :: "(string, meta_value) gomap"
  ar_occurred_at :: nat

text \<open>\<open>uuid.Parse\<close>, and the nil identifier.\<close>

type_synonym 'u uuid_parser = "(string \<Rightarrow> 'u option) \<times> 'u"

definition parse_uuid :: "'u uuid_parser \<Rightarrow> string \<Rightarrow> 'u" where
  "parse_uuid uuid input = (case fst uuid (trim_space input) of None \<Rightarrow> snd uuid | Some u \<Rightarrow> u)"

definition record_data :: "activity_event \<Rightarrow> (string, meta_value) gomap" where
  "record_data e =
     (let d1 = maps_copy [] (ae_metadata e);
          d2 = (if ae_definition_code e \<noteq> [] then put ''definition_code'' (MString (ae_definition_code e)) d1 else d1)
      in if ae_recipients e \<noteq> [] then put ''recipients'' (MStrings (ae_recipients e)) d2 else d2)"

definition activity_record_of :: "'u uuid_parser \<Rightarrow> nat \<Rightarrow> activity_event \<Rightarrow> 'u activity_record" where
  "activity_record_of uuid now e =
     \<lparr>ar_actor_id = parse_uuid uuid (ae_actor_id e), ar_user_id = parse_uuid uuid (ae_user_id e),
      ar_tenant_id = parse_uuid uuid (ae_tenant_id e), ar_verb = ae_verb e, ar_object_type = ae_object_type e,
      ar_object_id = ae_object_id e, ar_channel = ae_channel e, ar_data = record_data e,
      ar_occurred_at = (case ae_occurred_at e of None \<Rightarrow> now | Some t \<Rightarrow> t)\<rparr>"

text \<open>\<open>Hook.Notify\<close>; a nil sink is \<open>None\<close>.\<close>

definition sink_notify ::
  "'u uuid_parser \<Rightarrow> nat \<Rightarrow> ('e user_context \<Rightarrow> 'u activity_record \<Rightarrow> ('s, 'err option) state) option \<Rightarrow>
   'e user_context option \<Rightarrow> activity_event \<Rightarrow> ('s, 'err option) state" where
  "sink_notify uuid now sink ctx event =
     (case sink of
        None \<Rightarrow> State_Monad.return None
      | Some log \<Rightarrow>
          (let e = normalize_event now event
           in if \<not> complete_event e then State_Monad.return None
              else log (case ctx of None \<Rightarrow> background | Some c \<Rightarrow> c) (activity_record_of uuid now e)))"

lemma normalize_event_idem [simp]: "normalize_event now (normalize_event now' e) = normalize_event now' e"
  by (cases e) (simp add: normalize_event_def split: option.split)

text \<open>
  An event that an emitter sends to the sink is logged once, as it has been normalised, in the channel of
  the emitter when it names none.
\<close>

lemma emitted_event_logged:
  assumes "emitter_enabled (Some em)" "em_hooks em = [Some h]"
    and "e = normalize_event now (if trim_space (ae_channel event) = [] \<and> em_channel em \<noteq> []
           then event\<lparr>ae_channel := em_channel em\<rparr> else event)"
    and "complete_event e"
  shows "emit_event (\<lambda>h ctx. sink_notify uuid now (Some log) (Some ctx)) now (Some em) (Some ctx) event =
    do { err \<leftarrow> log ctx (activity_record_of uuid now e);
         State_Monad.return (case err of None \<Rightarrow> [] | Some x \<Rightarrow> [x]) }"
proof -
  have norm: "normalize_event now e = e" using assms(3) by simp
  show ?thesis
    using assms(1,2,4) norm
    by (simp add: emit_event_def notify_def assms(3) [symmetric] sink_notify_def)
qed

text \<open>
  The code and the recipients of the event are found in the data of the record, where they take the place of
  metadata under their names.
\<close>

lemma record_data_lookup:
  "map_of (record_data e) k =
     (if k = ''recipients'' \<and> ae_recipients e \<noteq> [] then Some (MStrings (ae_recipients e))
      else if k = ''definition_code'' \<and> ae_definition_code e \<noteq> [] then Some (MString (ae_definition_code e))
      else map_of (maps_copy [] (ae_metadata e)) k)"
  by (simp add: record_data_def Let_def del: Some_eq_map_of_iff map_of_eq_Some_iff)

end
