(* ===== verification/Gql_Formatter.thy ===== *)
theory Gql_Formatter
  imports Go_Parsing "HOL-Library.Multiset" "HOL-Library.Product_Lexorder"
begin

text \<open>
  The formatter of the GraphQL generator (\<open>gql/internal/formatter\<close>): it turns the metadata of the schemas into
  the entities, fields, relations and unions the templates render. The lemmas show that the document does
  not depend on the order in which Go ranges over its maps - under a condition on the names that is
  needed - how the fields are ordered, and that versioned names can be read back.
\<close>

section \<open>Scalar types\<close>

text \<open>
  A property as the router library describes it, less its example value, which nothing reads. A value of its tag data is of
  type \<open>any\<close>; \<open>TagOther\<close> is a value of another type with its \<open>%v\<close> text.
\<close>

datatype tag_value =
    TagNil
  | TagString string
  | TagStrings "string list"
  | TagAnys "tag_value list"
  | TagStrMap "(string \<times> string) list"
  | TagMap "(string \<times> tag_value) list"
  | TagOther string

datatype property_info =
  PropertyInfo (pi_type: string) (pi_format: string) (pi_original_type: string) (pi_description: string)
    (pi_required: bool) (pi_nullable: bool) (pi_read_only: bool) (pi_write_only: bool)
    (pi_related_schema: string) (pi_items: "property_info option") (pi_tags: "(string \<times> tag_value) list")
    (pi_relation_name: string) (pi_properties: "(string \<times> property_info) list")

record type_ref =
  ty_type :: string
  ty_format :: string
  ty_go_type :: string

record type_mapping =
  tm_defaults :: "(string, string) gomap"
  tm_overrides :: "(string, string) gomap"

definition make_type_key :: "string \<Rightarrow> string \<Rightarrow> string \<Rightarrow> string" where
  "make_type_key t f g = to_lower t @ ''|'' @ to_lower f @ ''|'' @ to_lower g"

definition default_type_mapping :: type_mapping where
  "default_type_mapping =
     \<lparr>tm_defaults =
        [(make_type_key ''string'' ''uuid'' [], ''UUID''), (make_type_key ''string'' ''date-time'' [], ''Time''),
         (make_type_key ''string'' ''date'' [], ''Date''), (make_type_key ''string'' [] [], ''String''),
         (make_type_key ''integer'' [] [], ''Int''), (make_type_key ''number'' [] [], ''Float''),
         (make_type_key ''boolean'' [] [], ''Boolean''), (make_type_key ''object'' [] [], ''JSON'')],
      tm_overrides = []\<rparr>"

definition type_ref_from_property :: "property_info \<Rightarrow> type_ref" where
  "type_ref_from_property p =
     \<lparr>ty_type = to_lower (pi_type p), ty_format = to_lower (pi_format p), ty_go_type = to_lower (pi_original_type p)\<rparr>"

text \<open>The first key of a list that has a value other than the empty one, and the first that has any.\<close>

fun first_non_empty_value :: "(string, string) gomap \<Rightarrow> string list \<Rightarrow> string option" where
  "first_non_empty_value m [] = None"
| "first_non_empty_value m (k # ks) =
     (case map_of m k of
        Some v \<Rightarrow> if v \<noteq> [] then Some v else first_non_empty_value m ks
      | None \<Rightarrow> first_non_empty_value m ks)"

fun first_value :: "(string, string) gomap \<Rightarrow> string list \<Rightarrow> string option" where
  "first_value m [] = None"
| "first_value m (k # ks) = (case map_of m k of Some v \<Rightarrow> Some v | None \<Rightarrow> first_value m ks)"

definition resolve_scalar :: "type_mapping \<Rightarrow> property_info \<Rightarrow> string" where
  "resolve_scalar m prop =
     (let r = type_ref_from_property prop; t = ty_type r; f = ty_format r; g = ty_go_type r
      in case first_non_empty_value (tm_overrides m)
             [make_type_key t f g, make_type_key [] [] g, make_type_key t f [], make_type_key t [] g, make_type_key t [] []] of
           Some scalar \<Rightarrow> scalar
         | None \<Rightarrow>
             (case first_value (tm_defaults m) [make_type_key t f [], make_type_key t [] []] of
                Some scalar \<Rightarrow> scalar
              | None \<Rightarrow>
                  (case map_of (tm_defaults m) (make_type_key ''string'' [] []) of
                     Some scalar \<Rightarrow> scalar | None \<Rightarrow> ''String'')))"

definition with_overrides :: "(type_ref \<times> string) list \<Rightarrow> type_mapping \<Rightarrow> type_mapping" where
  "with_overrides overrides m =
     (if overrides = [] then m
      else m\<lparr>tm_overrides :=
             fold (\<lambda>(r, scalar) o'. put (make_type_key (to_lower (ty_type r)) (to_lower (ty_format r)) (to_lower (ty_go_type r))) scalar o')
               overrides (maps_copy [] (tm_overrides m))\<rparr>)"

section \<open>Options\<close>

record formatter_options =
  fo_field_namer :: "string \<Rightarrow> string"
  fo_type_namer :: "string \<Rightarrow> string"
  fo_mapping :: type_mapping
  fo_pinned :: "string list"

text \<open>\<open>camel\<close> and \<open>pascal\<close> are \<open>strcase.ToCamel\<close> and \<open>strcase.ToPascal\<close>.\<close>

definition default_formatter_options :: "(string \<Rightarrow> string) \<Rightarrow> (string \<Rightarrow> string) \<Rightarrow> formatter_options" where
  "default_formatter_options camel pascal =
     \<lparr>fo_field_namer = camel, fo_type_namer = pascal, fo_mapping = default_type_mapping,
      fo_pinned = [''id'', ''created_at'', ''updated_at'']\<rparr>"

type_synonym formatter_option = "formatter_options \<Rightarrow> formatter_options"

definition with_field_namer :: "(string \<Rightarrow> string) option \<Rightarrow> formatter_option" where
  "with_field_namer namer o' = (case namer of None \<Rightarrow> o' | Some f \<Rightarrow> o'\<lparr>fo_field_namer := f\<rparr>)"

definition with_type_namer :: "(string \<Rightarrow> string) option \<Rightarrow> formatter_option" where
  "with_type_namer namer o' = (case namer of None \<Rightarrow> o' | Some f \<Rightarrow> o'\<lparr>fo_type_namer := f\<rparr>)"

definition with_pinned_fields :: "string list \<Rightarrow> formatter_option" where
  "with_pinned_fields names o' = o'\<lparr>fo_pinned := names\<rparr>"

definition with_type_mappings :: "(type_ref \<times> string) list \<Rightarrow> formatter_option" where
  "with_type_mappings overrides o' =
     (if overrides = [] then o' else o'\<lparr>fo_mapping := with_overrides overrides (fo_mapping o')\<rparr>)"

definition with_scalar_override :: "type_ref \<Rightarrow> string \<Rightarrow> formatter_option" where
  "with_scalar_override r scalar o' = o'\<lparr>fo_mapping := with_overrides [(r, scalar)] (fo_mapping o')\<rparr>"

section \<open>Names\<close>

text \<open>\<open>strings.LastIndex\<close> with the parts before and after the byte.\<close>

definition split_last :: "char \<Rightarrow> string \<Rightarrow> (string \<times> string) option" where
  "split_last c s =
     (if c \<in> set s then Some (rev (tl (dropWhile (\<lambda>x. x \<noteq> c) (rev s))), rev (takeWhile (\<lambda>x. x \<noteq> c) (rev s)))
      else None)"

definition trim_prefix :: "string \<Rightarrow> string \<Rightarrow> string" where
  "trim_prefix p s = (if prefix p s then drop (length p) s else s)"

definition is_digit :: "char \<Rightarrow> bool" where
  "is_digit c \<longleftrightarrow> CHR ''0'' \<le> c \<and> c \<le> CHR ''9''"

definition is_semantic_version :: "string \<Rightarrow> bool" where
  "is_semantic_version version =
     (let parts = split_on CHR ''.'' version
      in \<not> (parts = [] \<or> length parts > 3) \<and> list_all (\<lambda>p. p \<noteq> [] \<and> list_all is_digit p) parts)"

definition parse_versioned_name :: "string \<Rightarrow> string \<times> string \<times> bool" where
  "parse_versioned_name raw =
     (let trimmed = trim_space raw
      in if trimmed = [] then ([], [], False)
         else case split_last CHR ''@'' trimmed of
           None \<Rightarrow> (trimmed, [], False)
         | Some (before, after) \<Rightarrow>
             (if before = [] \<or> after = [] then (trimmed, [], False)
              else (let base = trim_space before;
                        version = trim_prefix ''v'' (to_lower (trim_space after))
                    in if base = [] \<or> version = [] \<or> \<not> is_semantic_version version then (trimmed, [], False)
                       else (base, version, True))))"

definition format_version_suffix :: "string \<Rightarrow> string" where
  "format_version_suffix v0 =
     (let version = trim_prefix ''v'' (to_lower (trim_space v0))
      in if version = [] then [] else ''V'' @ map (\<lambda>c. if c = CHR ''.'' then CHR ''_'' else c) version)"

definition format_type_name :: "string \<Rightarrow> formatter_options \<Rightarrow> string" where
  "format_type_name raw opts =
     (case parse_versioned_name raw of
        (base, version, ok) \<Rightarrow>
          (if \<not> ok then fo_type_namer opts raw
           else (let suf = format_version_suffix version
                 in if suf = [] then fo_type_namer opts base else fo_type_namer opts base @ suf)))"

definition has_suffix :: "string \<Rightarrow> string \<Rightarrow> bool" where "has_suffix s suf = suffix suf s"

definition singularize :: "string \<Rightarrow> string" where
  "singularize name =
     (let trimmed = trim_space name; lower = to_lower trimmed; n = length trimmed
      in if trimmed = [] then name
         else if has_suffix lower ''ies'' \<and> n > 3 then take (n - 3) trimmed @ ''y''
         else if has_suffix lower ''ses'' \<and> n > 3 then take (n - 2) trimmed
         else if has_suffix lower ''s'' \<and> \<not> has_suffix lower ''ss'' \<and> n > 1 then take (n - 1) trimmed
         else trimmed)"

definition format_label :: "string \<Rightarrow> (string \<Rightarrow> string) \<Rightarrow> string" where
  "format_label label namer = (if label = [] then label else namer label)"

fun first_non_empty :: "string list \<Rightarrow> string" where
  "first_non_empty [] = []"
| "first_non_empty (v # vs) = (if trim_space v \<noteq> [] then v else first_non_empty vs)"

section \<open>Relations\<close>

record relationship_info =
  ri_related_schema :: string
  ri_related_type_name :: string
  ri_cardinality :: string
  ri_is_slice :: bool
  ri_source_field :: string
  ri_source_column :: string
  ri_target_column :: string
  ri_foreign_key :: string
  ri_inverse :: string
  ri_relation_type :: string
  ri_pivot_table :: string
  ri_source_pivot_column :: string
  ri_target_pivot_column :: string
  ri_target_table :: string

record schema_metadata =
  sm_name :: string
  sm_description :: string
  sm_label_field :: string
  sm_properties :: "(string, property_info) gomap"
  sm_required :: "string list"
  sm_relationships :: "(string, relationship_info option) gomap"
  sm_relation_aliases :: "(string, string) gomap"

record relation =
  rl_name :: string
  rl_original_name :: string
  rl_key :: string
  rl_alias_for :: string
  rl_type :: string
  rl_cardinality :: string
  rl_info :: relationship_info
  rl_related_schema :: string
  rl_is_list :: bool
  rl_nullable :: bool

definition relationship_at :: "schema_metadata \<Rightarrow> string \<Rightarrow> relationship_info option" where
  "relationship_at s name = (case map_of (sm_relationships s) name of Some (Some r) \<Rightarrow> Some r | _ \<Rightarrow> None)"

definition lookup_relation :: "string \<Rightarrow> schema_metadata \<Rightarrow> (string \<times> relationship_info \<times> bool) option" where
  "lookup_relation name s =
     (case relationship_at s name of
        Some r \<Rightarrow> Some (name, r, False)
      | None \<Rightarrow>
          (case map_of (sm_relation_aliases s) name of
             None \<Rightarrow> None
           | Some relName \<Rightarrow> map_option (\<lambda>r. (relName, r, True)) (relationship_at s relName)))"

definition build_relation :: "string \<Rightarrow> string \<Rightarrow> relationship_info \<Rightarrow> property_info \<Rightarrow> bool \<Rightarrow> formatter_options \<Rightarrow> relation" where
  "build_relation name relKey r prop isAlias opts =
     (let target = first_non_empty [ri_related_schema r, ri_related_type_name r, pi_related_schema prop, relKey];
          card0 = to_lower (ri_cardinality r);
          card1 = (if card0 = [] then (if ri_is_slice r \<or> pi_items prop \<noteq> None then ''many'' else ''one'') else card0);
          isMany = contains_sub card1 ''many''
      in \<lparr>rl_name = fo_field_namer opts name, rl_original_name = name, rl_key = relKey,
          rl_alias_for = (if isAlias \<and> relKey \<noteq> [] then relKey else []),
          rl_type = format_type_name target opts, rl_cardinality = (if isMany then ''many'' else card1), rl_info = r,
          rl_related_schema = target, rl_is_list = (ri_is_slice r \<or> pi_items prop \<noteq> None \<or> isMany),
          rl_nullable = pi_nullable prop\<rparr>)"

definition collect_relations :: "(string, relation) gomap \<Rightarrow> relation list" where
  "collect_relations relations = sort_key rl_name (map snd relations)"

section \<open>Unions\<close>

record union_type =
  un_name :: string
  un_types :: "string list"
  un_type_map :: "(string, string) gomap"
  un_entries :: "(string \<times> string) list"
  un_source_entity :: string
  un_source_field :: string

definition tag_at :: "property_info \<Rightarrow> string \<Rightarrow> tag_value" where
  "tag_at p key = (case map_of (pi_tags p) key of Some v \<Rightarrow> v | None \<Rightarrow> TagNil)"

definition union_members :: "property_info \<Rightarrow> string list" where
  "union_members prop =
     (case tag_at prop ''x-gql-union-members'' of
        TagStrings ts \<Rightarrow> ts
      | TagAnys vs \<Rightarrow> List.map_filter (\<lambda>v. case v of TagString t \<Rightarrow> if trim_space t \<noteq> [] then Some t else None | _ \<Rightarrow> None) vs
      | _ \<Rightarrow> [])"

text \<open>\<open>%v\<close> of the values that are no strings; \<open>sprint\<close> prints the composite ones.\<close>

definition tag_text :: "(tag_value \<Rightarrow> string) \<Rightarrow> tag_value \<Rightarrow> string" where
  "tag_text sprint v = (case v of TagOther t \<Rightarrow> t | _ \<Rightarrow> sprint v)"

definition to_string_map :: "(tag_value \<Rightarrow> string) \<Rightarrow> (string \<times> tag_value) list \<Rightarrow> (string, string) gomap" where
  "to_string_map sprint raw =
     fold (\<lambda>(key, v) out.
       if key = [] \<or> v = TagNil then out
       else case v of
         TagString t \<Rightarrow> (if trim_space t \<noteq> [] then put key t out else out)
       | _ \<Rightarrow> put key (trim_space (tag_text sprint v)) out) raw []"

definition tag_string_map :: "(tag_value \<Rightarrow> string) \<Rightarrow> tag_value \<Rightarrow> (string, string) gomap" where
  "tag_string_map sprint v =
     (case v of TagStrMap m \<Rightarrow> maps_copy [] m | TagMap m \<Rightarrow> to_string_map sprint m | _ \<Rightarrow> [])"

definition union_discriminators :: "(tag_value \<Rightarrow> string) \<Rightarrow> property_info \<Rightarrow> (string, string) gomap" where
  "union_discriminators sprint prop = tag_string_map sprint (tag_at prop ''x-gql-union-discriminator-map'')"

definition union_overrides :: "(tag_value \<Rightarrow> string) \<Rightarrow> property_info \<Rightarrow> (string, string) gomap" where
  "union_overrides sprint prop = tag_string_map sprint (tag_at prop ''x-gql-union-type-map'')"

definition normalize_discriminator_key :: "string \<Rightarrow> string" where
  "normalize_discriminator_key v = to_lower (trim_space v)"

definition build_union_type_map :: "(tag_value \<Rightarrow> string) \<Rightarrow> property_info \<Rightarrow> formatter_options \<Rightarrow> (string, string) gomap" where
  "build_union_type_map sprint prop opts =
     (let out1 = fold (\<lambda>(key, schemaName) out.
             if normalize_discriminator_key key = [] \<or> schemaName = [] then out
             else put (normalize_discriminator_key key) (format_type_name schemaName opts) out)
           (union_discriminators sprint prop) []
      in fold (\<lambda>(key, v) out.
             if normalize_discriminator_key key = [] \<or> trim_space v = [] then out
             else put (normalize_discriminator_key key) (trim_space v) out)
           (union_overrides sprint prop) out1)"

definition union_type_map_entries :: "(string, string) gomap \<Rightarrow> (string \<times> string) list" where
  "union_type_map_entries m = map (\<lambda>k. (k, the (map_of m k))) (sort_strings (map fst m))"

definition build_union :: "(tag_value \<Rightarrow> string) \<Rightarrow> string \<Rightarrow> string \<Rightarrow> property_info \<Rightarrow> formatter_options \<Rightarrow> union_type option" where
  "build_union sprint schemaName propName prop opts =
     (let members = union_members prop
      in if members = [] then None
         else (let typeMap = build_union_type_map sprint prop opts
               in Some \<lparr>un_name = format_type_name schemaName opts @ fo_type_namer opts (singularize propName),
                    un_types = sort_strings (remdups (map (\<lambda>m. format_type_name m opts) (filter (\<lambda>m. m \<noteq> []) members))),
                    un_type_map = typeMap, un_entries = union_type_map_entries typeMap,
                    un_source_entity = format_type_name schemaName opts, un_source_field = fo_field_namer opts propName\<rparr>))"

text \<open>The union of two unions of the same name; the later one wins where both map a key.\<close>

definition join_unions :: "union_type \<Rightarrow> union_type \<Rightarrow> union_type" where
  "join_unions existing u =
     (let mergedMap = maps_copy (maps_copy [] (un_type_map existing)) (filter (\<lambda>(k, v). trim_space v \<noteq> []) (un_type_map u))
      in existing\<lparr>un_types := sort_strings (remdups (un_types existing @ un_types u)),
           un_type_map := mergedMap, un_entries := union_type_map_entries mergedMap,
           un_source_entity := (if un_source_entity existing = [] then un_source_entity u else un_source_entity existing),
           un_source_field := (if un_source_field existing = [] then un_source_field u else un_source_field existing)\<rparr>)"

definition merge_union :: "union_type \<Rightarrow> (string, union_type) gomap \<Rightarrow> (string, union_type) gomap" where
  "merge_union u registry =
     (if un_name u = [] then registry
      else case map_of registry (un_name u) of
        None \<Rightarrow> put (un_name u) u registry
      | Some existing \<Rightarrow> put (un_name u) (join_unions existing u) registry)"

definition collect_unions :: "(string, union_type) gomap \<Rightarrow> union_type list" where
  "collect_unions registry = sort_key un_name (map snd registry)"

section \<open>Fields\<close>

record gql_field =
  fd_name :: string
  fd_original_name :: string
  fd_type :: string
  fd_is_list :: bool
  fd_nullable :: bool
  fd_description :: string
  fd_go_type :: string
  fd_required :: bool
  fd_read_only :: bool
  fd_write_only :: bool
  fd_omit :: bool
  fd_relation :: "relation option"

definition build_field :: "string \<Rightarrow> property_info \<Rightarrow> schema_metadata \<Rightarrow> string list \<Rightarrow> formatter_options \<Rightarrow> gql_field" where
  "build_field name prop s required opts =
     (let base = (case pi_items prop of Some i \<Rightarrow> i | None \<Rightarrow> prop);
          rel = map_option (\<lambda>(relKey, r, isAlias). build_relation name relKey r base isAlias opts) (lookup_relation name s)
      in \<lparr>fd_name = fo_field_namer opts name, fd_original_name = name,
          fd_type = (case rel of
               Some r \<Rightarrow> if rl_type r \<noteq> [] then rl_type r else resolve_scalar (fo_mapping opts) base
             | None \<Rightarrow> resolve_scalar (fo_mapping opts) base),
          fd_is_list = (case rel of Some r \<Rightarrow> rl_is_list r | None \<Rightarrow> pi_items prop \<noteq> None),
          fd_nullable = pi_nullable prop, fd_description = pi_description prop, fd_go_type = pi_original_type prop,
          fd_required = (pi_required prop \<or> to_lower name \<in> set required \<or> equal_fold name ''id''),
          fd_read_only = pi_read_only prop, fd_write_only = pi_write_only prop, fd_omit = False, fd_relation = rel\<rparr>)"

text \<open>The index of a pinned name, of its last occurrence; a name that is not pinned comes after all that are.\<close>

definition pinned_index :: "string list \<Rightarrow> string \<Rightarrow> nat option" where
  "pinned_index pinned name =
     map_of (rev (zip (map to_lower pinned) [0..<length pinned])) (to_lower name)"

text \<open>The comparison of \<open>orderFields\<close>, and the stable sort by it.\<close>

definition field_before :: "string list \<Rightarrow> gql_field \<Rightarrow> gql_field \<Rightarrow> bool" where
  "field_before pinned f g =
     (case (pinned_index pinned (fd_original_name f), pinned_index pinned (fd_original_name g)) of
        (Some i, Some j) \<Rightarrow> if i \<noteq> j then i < j else fd_name f < fd_name g
      | (Some i, None) \<Rightarrow> True
      | (None, Some j) \<Rightarrow> False
      | (None, None) \<Rightarrow> fd_name f < fd_name g)"

definition field_rank :: "string list \<Rightarrow> gql_field \<Rightarrow> nat \<times> string" where
  "field_rank pinned f =
     (case pinned_index pinned (fd_original_name f) of Some i \<Rightarrow> i | None \<Rightarrow> length pinned, fd_name f)"

definition order_fields :: "string list \<Rightarrow> gql_field list \<Rightarrow> gql_field list" where
  "order_fields pinned fs = sort_key (field_rank pinned) fs"

section \<open>Documents\<close>

record entity =
  en_name :: string
  en_raw_name :: string
  en_description :: string
  en_label_field :: string
  en_fields :: "gql_field list"
  en_relationships :: "relation list"

record gql_document =
  do_entities :: "entity list"
  do_unions :: "union_type list"

text \<open>The field of a property, with the type of its union if it has one.\<close>

definition property_field :: "(tag_value \<Rightarrow> string) \<Rightarrow> schema_metadata \<Rightarrow> formatter_options \<Rightarrow> string \<times> property_info \<Rightarrow> gql_field" where
  "property_field sprint s opts = (\<lambda>(name, prop).
     let field = build_field name prop s (map to_lower (sm_required s)) opts
     in case build_union sprint (sm_name s) name prop opts of None \<Rightarrow> field | Some u \<Rightarrow> field\<lparr>fd_type := un_name u\<rparr>)"

definition format_schema :: "(tag_value \<Rightarrow> string) \<Rightarrow> schema_metadata \<Rightarrow> formatter_options \<Rightarrow> entity \<times> union_type list" where
  "format_schema sprint s opts =
     (let entity = \<lparr>en_name = format_type_name (sm_name s) opts, en_raw_name = sm_name s, en_description = sm_description s,
                     en_label_field = format_label (sm_label_field s) (fo_field_namer opts), en_fields = [], en_relationships = []\<rparr>
      in if sm_properties s = [] then (entity, [])
         else (let fs = map (property_field sprint s opts) (sm_properties s);
                   unions = List.map_filter (\<lambda>(name, prop). build_union sprint (sm_name s) name prop opts) (sm_properties s);
                   relations = List.map_filter (\<lambda>f. map_option (Pair (fd_original_name f)) (fd_relation f)) fs
               in (entity\<lparr>en_fields := order_fields (fo_pinned opts) fs, en_relationships := collect_relations relations\<rparr>,
                   unions)))"

definition merge_all_unions ::
  "(entity \<times> union_type list) list \<Rightarrow> (string, union_type) gomap \<Rightarrow> (string, union_type) gomap" where
  "merge_all_unions formatted registry =
     fold (\<lambda>(e, unions) reg. fold merge_union unions reg) formatted registry"

definition format_schemas ::
  "(tag_value \<Rightarrow> string) \<Rightarrow> formatter_options \<Rightarrow> formatter_option option list \<Rightarrow> schema_metadata list \<Rightarrow> gql_document" where
  "format_schemas sprint defaults options schemas =
     (let opts = fold (\<lambda>opt o'. case opt of None \<Rightarrow> o' | Some f \<Rightarrow> f o') options defaults;
          formatted = map (\<lambda>s. format_schema sprint s opts) schemas
      in \<lparr>do_entities = sort_key en_name (map fst formatted),
          do_unions = collect_unions (merge_all_unions formatted [])\<rparr>)"


section \<open>The order of the fields\<close>

lemma pinned_index_bound: "pinned_index pinned name = Some i \<Longrightarrow> i < length pinned"
  by (auto simp: pinned_index_def dest!: map_of_SomeD set_zip_rightD)

lemma field_before_rank: "field_before pinned f g \<longleftrightarrow> field_rank pinned f < field_rank pinned g"
  by (auto simp: field_before_def field_rank_def less_prod_def' dest: pinned_index_bound split: option.split)

text \<open>
  The fields of an entity are its properties, each once, in the order the comparison of the
  code asks for: no field stands after one it should stand before. So pinned fields come first, in the order
  of their pins, and the others by their display names.
\<close>

theorem entity_fields_ordered:
  "mset (en_fields (fst (format_schema sprint s opts))) = mset (map (property_field sprint s opts) (sm_properties s)) \<and>
   sorted_wrt (\<lambda>f g. \<not> field_before (fo_pinned opts) g f) (en_fields (fst (format_schema sprint s opts)))"
proof -
  have "sorted_wrt (\<lambda>f g. \<not> field_before p g f) (order_fields p fs)" for p fs
    using sorted_sort_key [of "field_rank p" fs]
    by (simp add: order_fields_def sorted_map field_before_rank not_less)
  then show ?thesis by (simp add: format_schema_def Let_def order_fields_def)
qed

section \<open>The order of the maps\<close>

text \<open>Sorting by a key on which no two elements agree does not see the order of its input.\<close>

lemma sort_key_permuted:
  assumes "mset xs = mset ys" "inj_on f (set xs)" "distinct xs"
  shows "sort_key f xs = sort_key f ys"
proof (rule map_sorted_distinct_set_unique [where f = f])
  show "inj_on f (set (sort_key f xs) \<union> set (sort_key f ys))"
    using assms(1,2) by (metis Un_absorb set_sort set_mset_mset)
  show "sorted (map f (sort_key f xs))" "sorted (map f (sort_key f ys))" by simp_all
  show "set (sort_key f xs) = set (sort_key f ys)" using assms(1) by (metis set_sort set_mset_mset)
  show "distinct (map f (sort_key f xs))" using assms(2,3) by (simp add: distinct_map)
  have "distinct ys" "inj_on f (set ys)" using assms mset_eq_imp_distinct_iff by (metis set_mset_mset)+
  then show "distinct (map f (sort_key f ys))" by (simp add: distinct_map)
qed

lemma map_filter_permuted: "mset xs = mset ys \<Longrightarrow> mset (List.map_filter f xs) = mset (List.map_filter f ys)"
  by (simp add: List.map_filter_def mset_filter)

definition registered :: "union_type option \<Rightarrow> union_type \<Rightarrow> union_type option" where
  "registered old u = Some (case old of None \<Rightarrow> u | Some existing \<Rightarrow> join_unions existing u)"

lemma merge_union_lookup:
  "map_of (merge_union u registry) n =
     (if un_name u = n \<and> n \<noteq> [] then registered (map_of registry n) u else map_of registry n)"
  by (auto simp: merge_union_def registered_def split: option.split)

lemma merge_unions_lookup:
  "map_of (fold merge_union us registry) n =
     fold (\<lambda>u old. registered old u) (filter (\<lambda>u. un_name u = n \<and> n \<noteq> []) us) (map_of registry n)"
  by (induction us arbitrary: registry) (auto simp: merge_union_lookup)

lemma merge_unions_wf: "wf_map registry \<Longrightarrow> wf_map (fold merge_union us registry)"
  by (induction us arbitrary: registry) (auto simp: merge_union_def split: option.split)

definition registry_named :: "(string, union_type) gomap \<Rightarrow> bool" where
  "registry_named registry \<longleftrightarrow> (\<forall>(n, u) \<in> set registry. un_name u = n)"

lemma merge_union_named:
  assumes "registry_named registry"
  shows "registry_named (merge_union u registry)"
proof -
  have put: "registry_named (put n v registry)" if "registry_named registry" "un_name v = n" for n v registry
    using that by (induction registry) (auto simp: registry_named_def put_def)
  show ?thesis
  proof (cases "map_of registry (un_name u)")
    case None
    then show ?thesis using put [OF assms refl] by (simp add: merge_union_def assms)
  next
    case (Some e)
    then have "un_name e = un_name u" using assms by (auto simp: registry_named_def dest: map_of_SomeD)
    then have "un_name (join_unions e u) = un_name u" by (simp add: join_unions_def Let_def)
    from put [OF assms this] show ?thesis by (simp add: merge_union_def Some assms)
  qed
qed

lemma merge_unions_named: "registry_named registry \<Longrightarrow> registry_named (fold merge_union us registry)"
  by (induction us arbitrary: registry) (simp_all add: merge_union_named)

lemma collect_unions_cong:
  assumes "wf_map r" "wf_map r'" "registry_named r" "registry_named r'" "map_of r = map_of r'"
  shows "collect_unions r = collect_unions r'"
proof -
  have named: "map un_name (map snd q) = map fst q" if "registry_named q" for q
    using that by (auto simp: registry_named_def)
  have "set r = set r'" using assms(1,2,5) by (metis map_of_inject_set)
  moreover have "distinct r" "distinct r'" using assms(1,2) by (auto simp: distinct_map)
  ultimately have "mset (map snd r) = mset (map snd r')" by (metis mset_map set_eq_iff_mset_eq_distinct)
  moreover have "distinct (map un_name (map snd r))" using assms(1) by (simp only: named [OF assms(3)])
  then have "inj_on un_name (set (map snd r))" "distinct (map snd r)" using distinct_map by blast+
  ultimately show ?thesis unfolding collect_unions_def by (rule sort_key_permuted)
qed

text \<open>A schema whose properties have different display names, and different union names.\<close>

definition schema_unions :: "(tag_value \<Rightarrow> string) \<Rightarrow> schema_metadata \<Rightarrow> formatter_options \<Rightarrow> union_type list" where
  "schema_unions sprint s opts =
     List.map_filter (\<lambda>(name, prop). build_union sprint (sm_name s) name prop opts) (sm_properties s)"

definition clear_names :: "(tag_value \<Rightarrow> string) \<Rightarrow> formatter_options \<Rightarrow> schema_metadata \<Rightarrow> bool" where
  "clear_names sprint opts s \<longleftrightarrow>
     distinct (map (\<lambda>(name, prop). fo_field_namer opts name) (sm_properties s)) \<and>
     distinct (map un_name (schema_unions sprint s opts))"

definition reordered :: "schema_metadata \<Rightarrow> schema_metadata \<Rightarrow> bool" where
  "reordered s s' \<longleftrightarrow> (\<exists>ps. s' = s\<lparr>sm_properties := ps\<rparr> \<and> mset ps = mset (sm_properties s))"

lemma property_field_names:
  "fd_name (property_field sprint s opts p) = fo_field_namer opts (fst p)"
  "fd_original_name (property_field sprint s opts p) = fst p"
  by (simp_all add: property_field_def build_field_def Let_def split: prod.split option.split)

lemma build_relation_name: "rl_name (build_relation n k r b a opts) = fo_field_namer opts n"
  by (simp add: build_relation_def Let_def)

lemma property_field_relation:
  "fd_relation (property_field sprint s opts p) = Some r \<Longrightarrow> rl_name r = fo_field_namer opts (fst p)"
  by (auto simp: property_field_def build_field_def build_relation_name Let_def split: prod.splits option.splits)

lemma build_field_reordered: "build_field n p (s\<lparr>sm_properties := ps\<rparr>) = build_field n p s"
proof -
  have r: "relationship_at (s\<lparr>sm_properties := ps\<rparr>) = relationship_at s"
    by (simp add: relationship_at_def fun_eq_iff)
  have "lookup_relation n (s\<lparr>sm_properties := ps\<rparr>) = lookup_relation n s"
    unfolding lookup_relation_def r by (simp cong: option.case_cong)
  then show ?thesis by (simp add: build_field_def fun_eq_iff)
qed

lemma property_field_reordered: "property_field sprint (s\<lparr>sm_properties := ps\<rparr>) opts = property_field sprint s opts"
  by (simp add: property_field_def build_field_reordered)

lemma map_filter_named:
  assumes "\<And>x y. h x = Some y \<Longrightarrow> g y = k x"
  shows "map g (List.map_filter h xs) = map k (filter (\<lambda>x. h x \<noteq> None) xs)"
  using assms by (induction xs) (auto simp: List.map_filter_simps split: option.split)

lemma mset_short:
  assumes "mset xs = mset ys" "length xs \<le> 1"
  shows "xs = ys"
proof -
  have "length ys = length xs" using assms(1) by (metis size_mset)
  with assms show ?thesis by (cases xs; cases ys) auto
qed

lemma filter_named_permuted:
  assumes "mset xs = mset ys" "distinct (map f xs)"
  shows "filter (\<lambda>x. f x = n) xs = filter (\<lambda>x. f x = n) ys"
proof -
  have "length (filter (\<lambda>x. f x = n) xs) \<le> 1"
    using assms(2)
  proof (induction xs)
    case (Cons x xs)
    then have "f x \<noteq> f y" if "y \<in> set xs" for y using that by auto
    then have "filter (\<lambda>y. f y = n) xs = []" if "f x = n" using that by (metis (mono_tags) filter_False)
    with Cons show ?case by (cases "f x = n") simp_all
  qed simp
  moreover have "mset (filter (\<lambda>x. f x = n) xs) = mset (filter (\<lambda>x. f x = n) ys)"
    using assms(1) by (simp add: mset_filter)
  ultimately show ?thesis by (rule mset_short [rotated])
qed

lemma entity_reordered:
  assumes "clear_names sprint opts s" "mset ps = mset (sm_properties s)"
  shows "fst (format_schema sprint (s\<lparr>sm_properties := ps\<rparr>) opts) = fst (format_schema sprint s opts)"
proof -
  let ?F = "\<lambda>ps. map (property_field sprint s opts) ps"
  let ?R = "\<lambda>ps. List.map_filter (\<lambda>f. map_option (Pair (fd_original_name f)) (fd_relation f)) (?F ps)"
  have names: "map fd_name (?F (sm_properties s)) = map (\<lambda>(name, prop). fo_field_namer opts name) (sm_properties s)"
    by (simp add: property_field_names split_def)
  with assms(1) have d: "distinct (map fd_name (?F (sm_properties s)))" by (simp only: clear_names_def)
  then have inj: "inj_on fd_name (set (?F (sm_properties s)))" "distinct (?F (sm_properties s))"
    by (simp_all only: distinct_map)
  from inj(1) have "inj_on (field_rank (fo_pinned opts)) (set (?F (sm_properties s)))"
    by (auto simp: inj_on_def field_rank_def)
  then have fs: "order_fields (fo_pinned opts) (?F ps) = order_fields (fo_pinned opts) (?F (sm_properties s))"
    unfolding order_fields_def using assms(2) inj(2)
    by (intro sort_key_permuted [symmetric]) simp_all
  have "map (rl_name \<circ> snd) (?R (sm_properties s)) =
      map fd_name (filter (\<lambda>f. map_option (Pair (fd_original_name f)) (fd_relation f) \<noteq> None) (?F (sm_properties s)))"
    by (simp add: List.map_filter_def filter_map o_def property_field_names)
      (auto simp: property_field_relation)
  moreover have "distinct (map fd_name (filter Q (?F (sm_properties s))))" for Q
    using d by (rule distinct_map_filter)
  ultimately have "distinct (map rl_name (map snd (?R (sm_properties s))))" by simp
  then have "inj_on rl_name (set (map snd (?R (sm_properties s))))" "distinct (map snd (?R (sm_properties s)))"
    by (simp_all only: distinct_map)
  moreover have "mset (?F (sm_properties s)) = mset (?F ps)" using assms(2) by simp
  then have "mset (?R (sm_properties s)) = mset (?R ps)" by (rule map_filter_permuted)
  then have "mset (map snd (?R (sm_properties s))) = mset (map snd (?R ps))" by (simp only: mset_map)
  ultimately have "collect_relations (?R ps) = collect_relations (?R (sm_properties s))"
    unfolding collect_relations_def by (intro sort_key_permuted [symmetric])
  moreover have "ps = [] \<longleftrightarrow> sm_properties s = []" using assms(2) by auto
  ultimately show ?thesis
    using fs by (simp add: format_schema_def property_field_reordered Let_def)
qed

lemma unions_reordered:
  assumes "clear_names sprint opts s" "mset ps = mset (sm_properties s)"
  shows "filter (\<lambda>u. un_name u = n \<and> Q) (snd (format_schema sprint (s\<lparr>sm_properties := ps\<rparr>) opts)) =
    filter (\<lambda>u. un_name u = n \<and> Q) (snd (format_schema sprint s opts))"
proof -
  let ?U = "\<lambda>ps. List.map_filter (\<lambda>(name, prop). build_union sprint (sm_name s) name prop opts) ps"
  have unions: "snd (format_schema sprint (s\<lparr>sm_properties := qs\<rparr>) opts) = ?U qs" for qs
    by (simp add: format_schema_def Let_def List.map_filter_simps)
  have "snd (format_schema sprint s opts) = ?U (sm_properties s)"
    using unions [of "sm_properties s"] by simp
  moreover have "mset (?U (sm_properties s)) = mset (?U ps)" using assms(2) by (intro map_filter_permuted) simp
  moreover have "distinct (map un_name (?U (sm_properties s)))"
    using assms(1) by (simp add: clear_names_def schema_unions_def)
  ultimately show ?thesis
    using filter_named_permuted [of "?U (sm_properties s)" "?U ps" un_name n] by (cases Q) (simp_all add: unions)
qed

lemma merged_reordered:
  assumes "list_all2 reordered ss ss'" "list_all (clear_names sprint opts) ss" "map_of r = map_of r'"
  shows "map_of (merge_all_unions (map (\<lambda>s. format_schema sprint s opts) ss) r) =
    map_of (merge_all_unions (map (\<lambda>s. format_schema sprint s opts) ss') r')"
  using assms
proof (induction ss ss' arbitrary: r r' rule: list_all2_induct)
  case (Cons s ss s' ss')
  from Cons(1) obtain ps where s': "s' = s\<lparr>sm_properties := ps\<rparr>" and ps: "mset ps = mset (sm_properties s)"
    unfolding reordered_def by blast
  have "map_of (fold merge_union (snd (format_schema sprint s opts)) r) n =
      map_of (fold merge_union (snd (format_schema sprint s' opts)) r') n" for n
    using Cons.prems unions_reordered [OF _ ps, of sprint opts n]
    by (simp add: merge_unions_lookup s')
  then have "map_of (fold merge_union (snd (format_schema sprint s opts)) r) =
      map_of (fold merge_union (snd (format_schema sprint s' opts)) r')" by (rule ext)
  from Cons.IH [OF _ this] Cons.prems show ?case by (simp add: merge_all_unions_def case_prod_beta)
qed (simp add: merge_all_unions_def)

lemma merged_ok:
  assumes "wf_map r" "registry_named r"
  shows "wf_map (merge_all_unions fs r) \<and>
    registry_named (merge_all_unions fs r)"
  using assms by (induction fs arbitrary: r) (simp_all add: merge_unions_wf merge_unions_named merge_all_unions_def case_prod_beta)

text \<open>
  C29 (invariant). The document is deterministic: as long as the properties of each schema have different
  display names and give different union names, it does not depend on the order in which Go ranges over the
  properties of a schema, which differs from run to run.
\<close>

theorem document_order_independent:
  assumes "list_all2 reordered ss ss'"
    and "list_all (clear_names sprint (fold (\<lambda>opt o'. case opt of None \<Rightarrow> o' | Some f \<Rightarrow> f o') options defaults)) ss"
  shows "format_schemas sprint defaults options ss = format_schemas sprint defaults options ss'"
proof -
  define opts where "opts = fold (\<lambda>opt o'. case opt of None \<Rightarrow> o' | Some f \<Rightarrow> f o') options defaults"
  have clear: "list_all (clear_names sprint opts) ss" using assms(2) by (simp only: opts_def)
  have "map (\<lambda>s. fst (format_schema sprint s opts)) ss = map (\<lambda>s. fst (format_schema sprint s opts)) ss'"
    using assms(1) clear
  proof (induction rule: list_all2_induct)
    case (Cons s ss s' ss')
    then show ?case using entity_reordered [of sprint opts s] by (auto simp: reordered_def)
  qed simp
  moreover have "collect_unions (merge_all_unions (map (\<lambda>s. format_schema sprint s opts) ss) []) =
      collect_unions (merge_all_unions (map (\<lambda>s. format_schema sprint s opts) ss') [])"
  proof (rule collect_unions_cong)
    have start: "wf_map ([] :: (string, union_type) gomap)" "registry_named []" by (simp_all add: registry_named_def)
    show "wf_map (merge_all_unions fs [])" "registry_named (merge_all_unions fs [])" for fs :: "(entity \<times> union_type list) list"
      using merged_ok [OF start] by simp_all
    show "wf_map (merge_all_unions fs [])" "registry_named (merge_all_unions fs [])" for fs :: "(entity \<times> union_type list) list"
      using merged_ok [OF start] by simp_all
    show "map_of (merge_all_unions (map (\<lambda>s. format_schema sprint s opts) ss) []) =
        map_of (merge_all_unions (map (\<lambda>s. format_schema sprint s opts) ss') [])"
      by (rule merged_reordered [OF assms(1) clear refl])
  qed
  ultimately show ?thesis by (simp add: format_schemas_def opts_def [symmetric] Let_def o_def)
qed

text \<open>A schema with a union of two members, and names as a formatter that keeps them.\<close>

definition plain_property :: "string \<Rightarrow> property_info" where
  "plain_property t = PropertyInfo t [] [] [] False False False False [] None [] [] []"

definition block_property :: property_info where
  "block_property = PropertyInfo ''array'' [] [] [] False False False False [] None
     [(''x-gql-union-members'', TagStrings [''text'', ''image'', ''text''])] [] []"

definition page_schema :: "(string, property_info) gomap \<Rightarrow> schema_metadata" where
  "page_schema ps =
     \<lparr>sm_name = ''page@v1.2'', sm_description = [], sm_label_field = [], sm_properties = ps, sm_required = [''title''],
      sm_relationships = [], sm_relation_aliases = []\<rparr>"

definition page_properties :: "(string, property_info) gomap" where
  "page_properties = [(''title'', plain_property ''string''), (''id'', plain_property ''string''), (''blocks'', block_property)]"

definition plain_options :: formatter_options where
  "plain_options = default_formatter_options (\<lambda>s. s) (\<lambda>s. s)"

theorem document_order_independent_witness:
  "format_schemas (\<lambda>v. []) plain_options [] [page_schema page_properties] =
   format_schemas (\<lambda>v. []) plain_options [] [page_schema (rev page_properties)]"
proof (rule document_order_independent)
  show "list_all2 reordered [page_schema page_properties] [page_schema (rev page_properties)]"
    by (simp add: reordered_def page_schema_def)
  have "clear_names (\<lambda>v. []) plain_options (page_schema page_properties)" by code_simp
  then show "list_all (clear_names (\<lambda>v. []) (fold (\<lambda>opt o'. case opt of None \<Rightarrow> o' | Some f \<Rightarrow> f o') [] plain_options))
      [page_schema page_properties]" by simp
qed

text \<open>
  The condition is needed: two properties with one display name are given in the order the map is ranged over.
\<close>

lemma same_display_name_depends_on_order:
  "let opts = plain_options\<lparr>fo_field_namer := filter (\<lambda>c. c \<noteq> CHR ''_'')\<rparr>;
       ps = [(''user_id'', plain_property ''string''), (''userid'', plain_property ''integer'')]
   in map fd_type (en_fields (fst (format_schema (\<lambda>v. []) (page_schema ps) opts))) = [''String'', ''Int''] \<and>
      map fd_type (en_fields (fst (format_schema (\<lambda>v. []) (page_schema (rev ps)) opts))) = [''Int'', ''String'']"
  by code_simp


section \<open>Versioned names\<close>

lemma version_chars:
  assumes "is_semantic_version v"
  shows "v \<noteq> []" "c \<in> set v \<Longrightarrow> is_digit c \<or> c = CHR ''.''"
proof -
  have parts: "\<forall>p \<in> set (split_on CHR ''.'' v). p \<noteq> [] \<and> (\<forall>c \<in> set p. is_digit c)"
    using assms by (simp add: is_semantic_version_def Let_def list_all_iff)
  then show "v \<noteq> []" by (auto simp: split_on_def)
  have "set v \<subseteq> insert CHR ''.'' (\<Union> (set ` set (split_on CHR ''.'' v)))"
    using set_join [of "[CHR ''.'']" "split_on CHR ''.'' v"] by (simp add: join_split_on)
  with parts show "c \<in> set v \<Longrightarrow> is_digit c \<or> c = CHR ''.''" by blast
qed

lemma digit_code: "is_digit c \<longleftrightarrow> (of_char c :: nat) \<in> {48..57}"
  by (auto simp: is_digit_def less_eq_char_def)

lemma version_char_plain:
  assumes "is_digit c \<or> c = CHR ''.''"
  shows "lower_char c = c" "\<not> is_space c" "c \<noteq> CHR ''@''" "c \<noteq> CHR ''v''" "c \<noteq> CHR ''_''"
  using assms by (auto simp: lower_char_def is_space_code digit_code)

lemma version_plain:
  assumes "is_semantic_version v"
  shows "to_lower v = v" "CHR ''@'' \<notin> set v" "trim_prefix ''v'' v = v" "trim_space v = v" "is_trimmed v"
proof -
  note c = version_chars(2) [OF assms] version_chars(1) [OF assms]
  show "to_lower v = v" using c(1) by (simp add: to_lower_def version_char_plain map_idI)
  show "CHR ''@'' \<notin> set v" using c(1) version_char_plain(3) by blast
  show "trim_prefix ''v'' v = v"
  proof (cases v)
    case (Cons x xs)
    then have "x \<noteq> CHR ''v''" using c(1) [of x] version_char_plain(4) by simp
    with Cons show ?thesis by (simp add: trim_prefix_def)
  qed (simp add: trim_prefix_def)
  show "is_trimmed v" using c(1) [OF hd_in_set] c(1) [OF last_in_set] c(2) by (auto simp: is_trimmed_def version_char_plain)
  then show "trim_space v = v" by (rule trim_space_id)
qed

lemma split_last_at:
  assumes "c \<notin> set post"
  shows "split_last c (pre @ c # post) = Some (pre, post)"
proof -
  have "dropWhile (\<lambda>x. x \<noteq> c) (rev post @ c # rev pre) = c # rev pre"
    "takeWhile (\<lambda>x. x \<noteq> c) (rev post @ c # rev pre) = rev post"
    using assms by (auto simp: dropWhile_append takeWhile_append)
  then show ?thesis by (simp add: split_last_def)
qed

lemma parse_versioned:
  assumes "is_trimmed base" "base \<noteq> []" "is_semantic_version v"
  shows "parse_versioned_name (base @ ''@v'' @ v) = (base, v, True)"
proof -
  note v = version_plain [OF assms(3)] version_chars(1) [OF assms(3)]
  have vv: "CHR ''@'' \<notin> set (CHR ''v'' # v)" using v(2) by simp
  have tv: "is_trimmed (CHR ''v'' # v)" using v(5,6) by (simp add: is_trimmed_def is_space_code)
  have "is_trimmed (base @ ''@v'' @ v)" using assms(1,2) v(5,6) by (simp add: is_trimmed_def)
  then have t: "trim_space (base @ ''@v'' @ v) = base @ CHR ''@'' # CHR ''v'' # v" by (simp add: trim_space_id)
  have low: "to_lower (CHR ''v'' # v) = CHR ''v'' # v" using v(1) by (simp add: to_lower_def lower_char_def)
  show ?thesis
    unfolding parse_versioned_name_def t Let_def split_last_at [OF vv]
    using assms v by (simp add: trim_space_id [OF tv] trim_space_id low trim_prefix_def)
qed

text \<open>
  C30 (roundtrip). A versioned name can be read back: the name of a schema, followed by its semantic
  version, is split into exactly the two; and two versions of one schema never get the same type name,
  nor does a version the name of the schema without one.
\<close>

theorem versioned_names_roundtrip:
  assumes "is_trimmed base" "base \<noteq> []" "is_semantic_version v" "is_semantic_version w"
  shows "parse_versioned_name (base @ ''@v'' @ v) = (base, v, True) \<and>
    (format_type_name (base @ ''@v'' @ v) opts = format_type_name (base @ ''@v'' @ w) opts \<longrightarrow> v = w) \<and>
    format_type_name (base @ ''@v'' @ v) opts \<noteq> fo_type_namer opts base"
proof -
  let ?u = "map (\<lambda>c. if c = CHR ''.'' then CHR ''_'' else c)"
  have name: "format_type_name (base @ ''@v'' @ x) opts = fo_type_namer opts base @ ''V'' @ ?u x"
    if "is_semantic_version x" for x
    using that version_plain [OF that] version_chars(1) [OF that]
    unfolding format_type_name_def parse_versioned [OF assms(1,2) that]
    by (simp add: format_version_suffix_def Let_def)
  have inj: "x = y" if "?u x = ?u y" "CHR ''_'' \<notin> set x" "CHR ''_'' \<notin> set y" for x y :: string
    using that
  proof (induction x arbitrary: y)
    case (Cons a x)
    then show ?case by (cases y) (auto split: if_splits)
  qed simp
  have "CHR ''_'' \<notin> set v" "CHR ''_'' \<notin> set w"
    using version_chars(2) [OF assms(3)] version_chars(2) [OF assms(4)] version_char_plain(5) by blast+
  then show ?thesis
    unfolding name [OF assms(3)] name [OF assms(4)] parse_versioned [OF assms(1-3)] using inj [of v w] by simp
qed

theorem versioned_names_roundtrip_witness:
  "parse_versioned_name ''page@v1.2'' = (''page'', ''1.2'', True) \<and>
   format_type_name ''page@v1.2'' plain_options \<noteq> format_type_name ''page@v12'' plain_options"
proof -
  have "is_trimmed ''page''" "is_semantic_version ''1.2''" "is_semantic_version ''12''" by code_simp+
  from versioned_names_roundtrip [OF this(1) _ this(2,3), of plain_options] show ?thesis by simp
qed

end
