(* ===== verification/Gql_Overlay.thy ===== *)
theory Gql_Overlay
  imports Gql_Formatter
begin

text \<open>
  Overlays of the generated GraphQL schema (\<open>gql/internal/overlay\<close>) and the resolver hooks made from them
  (\<open>gql/internal/hooks\<close>). The lemmas show that merging is an update by name, which of the hook snippets an
  operation gets, and that a configured authentication guard is never lost.
\<close>

section \<open>Overlays\<close>

record gql_scalar =
  gs_name :: string
  gs_description :: string
  gs_go_type :: string

record enum_value =
  ev_name :: string
  ev_description :: string

record gql_enum =
  ge_name :: string
  ge_description :: string
  ge_values :: "enum_value list"

text \<open>A field of an input, and an argument of an operation, have the same parts.\<close>

record gql_argument =
  ga_name :: string
  ga_type :: string
  ga_description :: string
  ga_list :: bool
  ga_required :: bool

record gql_input =
  gi_name :: string
  gi_description :: string
  gi_fields :: "gql_argument list"

record gql_operation =
  go_name :: string
  go_description :: string
  go_return_type :: string
  go_list :: bool
  go_required :: bool
  go_args :: "gql_argument list"

record gql_subscription = gql_operation +
  gu_entity :: string
  gu_event :: string
  gu_topic :: string
  gu_events :: "string list"

record hook_set =
  hs_imports :: "string list"
  hs_auth_guard :: string
  hs_scope_guard :: string
  hs_preload :: string
  hs_wrap_repo :: string
  hs_error_handler :: string

record entity_hooks =
  eh_imports :: "string list"
  eh_all :: hook_set
  eh_operations :: "(string, hook_set) gomap"

record overlay_hooks =
  oh_imports :: "string list"
  oh_default :: hook_set
  oh_entities :: "(string, entity_hooks) gomap"

record overlay =
  ov_scalars :: "gql_scalar list"
  ov_enums :: "gql_enum list"
  ov_inputs :: "gql_input list"
  ov_queries :: "gql_operation list"
  ov_mutations :: "gql_operation list"
  ov_subscriptions :: "gql_subscription list"
  ov_hooks :: overlay_hooks

definition zero_hook_set :: hook_set where
  "zero_hook_set = \<lparr>hs_imports = [], hs_auth_guard = [], hs_scope_guard = [], hs_preload = [], hs_wrap_repo = [],
     hs_error_handler = []\<rparr>"

definition zero_entity_hooks :: entity_hooks where
  "zero_entity_hooks = \<lparr>eh_imports = [], eh_all = zero_hook_set, eh_operations = []\<rparr>"

section \<open>Merging\<close>

text \<open>
  The loops of the four merges: the result, and the index in it of the last item of every name. They
  differ only in the type of the items.
\<close>

definition note_item :: "('a \<Rightarrow> string) \<Rightarrow> 'a \<Rightarrow> 'a list \<times> (string, nat) gomap \<Rightarrow> 'a list \<times> (string, nat) gomap" where
  "note_item name x = (\<lambda>(res, seen). (res @ [x], put (name x) (length res) seen))"

definition merge_item :: "('a \<Rightarrow> string) \<Rightarrow> 'a \<Rightarrow> 'a list \<times> (string, nat) gomap \<Rightarrow> 'a list \<times> (string, nat) gomap" where
  "merge_item name x = (\<lambda>(res, seen).
     case map_of seen (name x) of Some i \<Rightarrow> (res[i := x], seen) | None \<Rightarrow> note_item name x (res, seen))"

definition merge_named :: "('a \<Rightarrow> string) \<Rightarrow> 'a list \<Rightarrow> 'a list \<Rightarrow> 'a list" where
  "merge_named name base extra = fst (fold (merge_item name) extra (fold (note_item name) base ([], [])))"

definition merge_scalars :: "gql_scalar list \<Rightarrow> gql_scalar list \<Rightarrow> gql_scalar list" where
  "merge_scalars = merge_named gs_name"

definition merge_enums :: "gql_enum list \<Rightarrow> gql_enum list \<Rightarrow> gql_enum list" where
  "merge_enums = merge_named ge_name"

definition merge_inputs :: "gql_input list \<Rightarrow> gql_input list \<Rightarrow> gql_input list" where
  "merge_inputs = merge_named gi_name"

definition merge_subscriptions :: "gql_subscription list \<Rightarrow> gql_subscription list \<Rightarrow> gql_subscription list" where
  "merge_subscriptions = merge_named go_name"

definition merge_hook_set :: "hook_set \<Rightarrow> hook_set \<Rightarrow> hook_set" where
  "merge_hook_set base extra =
     (let pick = (\<lambda>sel. if sel extra \<noteq> ([] :: string) then sel extra else sel base)
      in \<lparr>hs_imports = hs_imports base @ hs_imports extra, hs_auth_guard = pick hs_auth_guard,
          hs_scope_guard = pick hs_scope_guard, hs_preload = pick hs_preload, hs_wrap_repo = pick hs_wrap_repo,
          hs_error_handler = pick hs_error_handler\<rparr>)"

definition merge_entity_hooks :: "entity_hooks \<Rightarrow> entity_hooks \<Rightarrow> entity_hooks" where
  "merge_entity_hooks current hooks =
     \<lparr>eh_imports = eh_imports current @ eh_imports hooks, eh_all = merge_hook_set (eh_all current) (eh_all hooks),
      eh_operations = fold (\<lambda>(op, s) m.
          put op (merge_hook_set (case map_of m op of None \<Rightarrow> zero_hook_set | Some old \<Rightarrow> old) s) m)
        (eh_operations hooks) (eh_operations current)\<rparr>"

definition merge_hooks :: "overlay_hooks \<Rightarrow> overlay_hooks \<Rightarrow> overlay_hooks" where
  "merge_hooks base extra =
     \<lparr>oh_imports = oh_imports base @ oh_imports extra, oh_default = merge_hook_set (oh_default base) (oh_default extra),
      oh_entities = fold (\<lambda>(name, hooks) m.
          put name (merge_entity_hooks (case map_of m name of None \<Rightarrow> zero_entity_hooks | Some c \<Rightarrow> c) hooks) m)
        (oh_entities extra) (maps_copy [] (oh_entities base))\<rparr>"

definition merge_overlays :: "overlay \<Rightarrow> overlay \<Rightarrow> overlay" where
  "merge_overlays base extra =
     \<lparr>ov_scalars = merge_scalars (ov_scalars base) (ov_scalars extra),
      ov_enums = merge_enums (ov_enums base) (ov_enums extra),
      ov_inputs = merge_inputs (ov_inputs base) (ov_inputs extra),
      ov_queries = ov_queries base @ ov_queries extra, ov_mutations = ov_mutations base @ ov_mutations extra,
      ov_subscriptions = merge_subscriptions (ov_subscriptions base) (ov_subscriptions extra),
      ov_hooks = merge_hooks (ov_hooks base) (ov_hooks extra)\<rparr>"

section \<open>Resolver hooks\<close>

record hook_options =
  ho_overlay :: overlay_hooks
  ho_auth_package :: string
  ho_auth_guard :: string
  ho_auth_fail :: string

record template_hook_set =
  th_auth_guard :: string
  th_scope_guard :: string
  th_preload :: string
  th_wrap_repo :: string
  th_error_handler :: string

record template_entity_hooks =
  te_get :: template_hook_set
  te_list :: template_hook_set
  te_create :: template_hook_set
  te_update :: template_hook_set
  te_delete :: template_hook_set

record template_hooks =
  tp_imports :: "string list"
  tp_entities :: "(string, template_entity_hooks) gomap"

definition no_template_hooks :: template_hook_set where
  "no_template_hooks = \<lparr>th_auth_guard = [], th_scope_guard = [], th_preload = [], th_wrap_repo = [], th_error_handler = []\<rparr>"

definition merge_template_hooks :: "template_hook_set \<Rightarrow> template_hook_set \<Rightarrow> template_hook_set" where
  "merge_template_hooks base extra =
     (let pick = (\<lambda>sel. if sel extra \<noteq> ([] :: string) then sel extra else sel base)
      in \<lparr>th_auth_guard = pick th_auth_guard, th_scope_guard = pick th_scope_guard, th_preload = pick th_preload,
          th_wrap_repo = pick th_wrap_repo, th_error_handler = pick th_error_handler\<rparr>)"

definition to_template_hook_set :: "hook_set \<Rightarrow> template_hook_set" where
  "to_template_hook_set s =
     \<lparr>th_auth_guard = trim_space (hs_auth_guard s), th_scope_guard = trim_space (hs_scope_guard s),
      th_preload = trim_space (hs_preload s), th_wrap_repo = trim_space (hs_wrap_repo s),
      th_error_handler = trim_space (hs_error_handler s)\<rparr>"

definition apply_hook_set_to_all :: "hook_set \<Rightarrow> template_entity_hooks \<Rightarrow> template_entity_hooks" where
  "apply_hook_set_to_all s t =
     (let merge = (\<lambda>old. merge_template_hooks old (to_template_hook_set s))
      in \<lparr>te_get = merge (te_get t), te_list = merge (te_list t), te_create = merge (te_create t),
          te_update = merge (te_update t), te_delete = merge (te_delete t)\<rparr>)"

definition normalize_op :: "string \<Rightarrow> string" where
  "normalize_op name =
     (let n = to_lower (trim_space name)
      in if n \<in> {''get'', ''show''} then ''get''
         else if n \<in> {''list'', ''index''} then ''list''
         else if n = ''create'' then ''create''
         else if n = ''update'' then ''update''
         else if n \<in> {''delete'', ''destroy'', ''remove''} then ''delete''
         else n)"

definition apply_hook :: "string \<Rightarrow> hook_set \<Rightarrow> template_entity_hooks \<Rightarrow> template_entity_hooks" where
  "apply_hook op s t =
     (let merge = (\<lambda>old. merge_template_hooks old (to_template_hook_set s))
      in if op = ''get'' then t\<lparr>te_get := merge (te_get t)\<rparr>
         else if op = ''list'' then t\<lparr>te_list := merge (te_list t)\<rparr>
         else if op = ''create'' then t\<lparr>te_create := merge (te_create t)\<rparr>
         else if op = ''update'' then t\<lparr>te_update := merge (te_update t)\<rparr>
         else if op = ''delete'' then t\<lparr>te_delete := merge (te_delete t)\<rparr>
         else t)"

definition newline :: string where "newline = [CHR 0x0A]"
definition tab :: string where "tab = [CHR 0x09]"

definition build_auth_snippet :: "string \<Rightarrow> string \<Rightarrow> string \<Rightarrow> string" where
  "build_auth_snippet op0 guard0 fail0 =
     (let op = normalize_op op0; guard = trim_space guard0; fail = trim_space fail0
      in if guard = [] \<or> fail = [] then []
         else ''user, ok := '' @ guard @ newline @ ''if !ok || user == nil {'' @ newline @ tab @ ''return '' @
              (if op = ''delete'' then ''false'' else ''nil'') @ '', '' @ fail @ newline @ ''}'' @ newline @ ''_ = user'')"

definition build_auth_defaults :: "hook_options \<Rightarrow> template_entity_hooks \<times> string list" where
  "build_auth_defaults opts =
     (if trim_space (ho_auth_guard opts) = []
      then (\<lparr>te_get = no_template_hooks, te_list = no_template_hooks, te_create = no_template_hooks,
             te_update = no_template_hooks, te_delete = no_template_hooks\<rparr>, [])
      else (let given = trim_space (ho_auth_fail opts);
                fail = (if given = [] then ''errors.New('' @ [CHR 0x22] @ ''unauthorized'' @ [CHR 0x22] @ '')'' else given);
                imports = (if given = [] then [''errors''] else []) @
                  (if ho_auth_package opts \<noteq> [] then [ho_auth_package opts] else []);
                snippet = (\<lambda>op. no_template_hooks\<lparr>th_auth_guard := build_auth_snippet op (ho_auth_guard opts) fail\<rparr>)
            in (\<lparr>te_get = snippet ''get'', te_list = snippet ''list'', te_create = snippet ''create'',
                 te_update = snippet ''update'', te_delete = snippet ''delete''\<rparr>, imports)))"

fun dedupe_strings_from :: "string list \<Rightarrow> string list \<Rightarrow> string list" where
  "dedupe_strings_from seen [] = []"
| "dedupe_strings_from seen (v # vs) =
     (let key = trim_space v
      in if key = [] \<or> key \<in> set seen then dedupe_strings_from seen vs
         else key # dedupe_strings_from (key # seen) vs)"

definition dedupe_strings :: "string list \<Rightarrow> string list" where
  "dedupe_strings values = dedupe_strings_from [] values"

definition base_operation_hooks :: "hook_options \<Rightarrow> template_entity_hooks \<times> string list" where
  "base_operation_hooks opts =
     (case build_auth_defaults opts of
        (auth, authImports) \<Rightarrow>
          (apply_hook_set_to_all (oh_default (ho_overlay opts)) auth,
           dedupe_strings (oh_imports (ho_overlay opts) @ authImports @ hs_imports (oh_default (ho_overlay opts)))))"

text \<open>Found by the name of the type, the raw name, or a name that differs only in case.\<close>

definition find_entity_hooks :: "(string, entity_hooks) gomap \<Rightarrow> entity \<Rightarrow> entity_hooks option" where
  "find_entity_hooks entities e =
     (case map_of entities (en_name e) of
        Some h \<Rightarrow> Some h
      | None \<Rightarrow>
          (case map_of entities (en_raw_name e) of
             Some h \<Rightarrow> Some h
           | None \<Rightarrow> map_option snd (find (\<lambda>(name, h). to_lower name = to_lower (en_raw_name e)) entities)))"

definition apply_operations :: "(string, hook_set) gomap \<Rightarrow> template_entity_hooks \<Rightarrow> template_entity_hooks" where
  "apply_operations operations t = fold (\<lambda>(opName, s). apply_hook (normalize_op opName) s) operations t"

definition build_entity_hooks :: "overlay_hooks \<Rightarrow> template_entity_hooks \<Rightarrow> entity \<Rightarrow> template_entity_hooks \<times> string list" where
  "build_entity_hooks ov defaults e =
     (case find_entity_hooks (oh_entities ov) e of
        None \<Rightarrow> (defaults, [])
      | Some h \<Rightarrow>
          (apply_operations (eh_operations h) (apply_hook_set_to_all (eh_all h) defaults),
           eh_imports h @ hs_imports (eh_all h) @ concat (map (\<lambda>(op, s). hs_imports s) (eh_operations h))))"

definition build_hooks :: "entity list \<Rightarrow> hook_options \<Rightarrow> template_hooks" where
  "build_hooks entities opts =
     (case base_operation_hooks opts of
        (defaults, baseImports) \<Rightarrow>
          (let built = fold (\<lambda>e (imports, m).
                  case build_entity_hooks (ho_overlay opts) defaults e of
                    (h, found) \<Rightarrow> (imports @ found, put (en_name e) h m)) entities (dedupe_strings baseImports, [])
           in \<lparr>tp_imports = sort_strings (dedupe_strings (fst built)), tp_entities = snd built\<rparr>))"

section \<open>Merging is an update by name\<close>

text \<open>The reference: replace the item of the same name, or append.\<close>

definition upsert_named :: "('a \<Rightarrow> string) \<Rightarrow> 'a \<Rightarrow> 'a list \<Rightarrow> 'a list" where
  "upsert_named name x xs =
     (if name x \<in> name ` set xs then map (\<lambda>y. if name y = name x then x else y) xs else xs @ [x])"

definition indexed :: "('a \<Rightarrow> string) \<Rightarrow> 'a list \<times> (string, nat) gomap \<Rightarrow> bool" where
  "indexed name = (\<lambda>(res, seen). distinct (map name res) \<and>
     (\<forall>n i. map_of seen n = Some i \<longleftrightarrow> i < length res \<and> name (res ! i) = n))"

lemma indexed_note:
  assumes "indexed name (res, seen)" "name x \<notin> name ` set res"
  shows "indexed name (note_item name x (res, seen))"
proof -
  have "name (res ! i) \<noteq> name x" if "i < length res" for i
    using assms(2) that by (metis image_eqI nth_mem)
  with assms show ?thesis by (auto simp: indexed_def note_item_def nth_append less_Suc_eq)
qed

lemma indexed_merge:
  assumes "indexed name (res, seen)"
  shows "fst (merge_item name x (res, seen)) = upsert_named name x res \<and> indexed name (merge_item name x (res, seen))"
proof (cases "map_of seen (name x)")
  case None
  with assms have "\<not> (i < length res \<and> name (res ! i) = name x)" for i by (simp add: indexed_def) (metis option.distinct(1))
  then have "name x \<notin> name ` set res" by (metis image_iff in_set_conv_nth)
  with None assms show ?thesis
    using indexed_note [OF assms] by (simp add: merge_item_def note_item_def upsert_named_def)
next
  case (Some i)
  with assms have i: "i < length res" "name (res ! i) = name x" and d: "distinct (map name res)"
    by (auto simp: indexed_def)
  have j: "name (res ! j) = name x \<longleftrightarrow> j = i" if "j < length res" for j
    using d i that by (metis distinct_conv_nth length_map nth_map)
  then have "res[i := x] = map (\<lambda>y. if name y = name x then x else y) res"
    by (auto simp: nth_list_update intro!: nth_equalityI)
  moreover have "name x \<in> name ` set res" using i by (metis image_eqI nth_mem)
  ultimately have up: "upsert_named name x res = res[i := x]" by (simp add: upsert_named_def)
  have "map name (res[i := x]) = map name res" using i by (metis list_update_id map_update)
  moreover have "name (res[i := x] ! j) = name (res ! j)" if "j < length res" for j
    using that i by (cases "j = i") simp_all
  ultimately have "indexed name (res[i := x], seen)"
    using assms by (auto simp: indexed_def)
  then show ?thesis using Some up by (simp add: merge_item_def)
qed

lemma indexed_base:
  assumes "distinct (map name xs)"
  shows "fold (note_item name) xs ([], []) = (xs, snd (fold (note_item name) xs ([], []))) \<and>
    indexed name (fold (note_item name) xs ([], []))"
  using assms
proof (induction xs rule: rev_induct)
  case (snoc x xs)
  define seen where "seen = snd (fold (note_item name) xs ([], []))"
  from snoc have f: "fold (note_item name) xs ([], []) = (xs, seen)" and i: "indexed name (xs, seen)"
    by (simp_all add: seen_def)
  have "name x \<notin> name ` set xs" using snoc.prems by auto
  with indexed_note [OF i] show ?case by (simp add: f) (simp add: note_item_def)
qed (simp add: indexed_def)

lemma merge_named_upserts:
  assumes "distinct (map name base)"
  shows "merge_named name base extra = fold (upsert_named name) extra base"
proof -
  have "fst (fold (merge_item name) extra st) = fold (upsert_named name) extra (fst st)" if "indexed name st" for st
    using that
  proof (induction extra arbitrary: st)
    case (Cons x extra)
    obtain res seen where st: "st = (res, seen)" by (cases st)
    show ?case using Cons.IH indexed_merge [OF Cons.prems [unfolded st]] by (simp add: st)
  qed simp
  from this [OF conjunct2 [OF indexed_base [OF assms]]] indexed_base [OF assms] show ?thesis
    by (metis fst_conv merge_named_def)
qed

lemma upsert_find:
  "find (\<lambda>y. name y = n) (upsert_named name x xs) = (if name x = n then Some x else find (\<lambda>y. name y = n) xs)"
proof -
  have "find (\<lambda>y. name y = n) (map (\<lambda>y. if name y = name x then x else y) xs) =
      (if name x = n then (if n \<in> name ` set xs then Some x else None) else find (\<lambda>y. name y = n) xs)"
    by (induction xs) auto
  moreover have "find (\<lambda>y. name y = n) (xs @ [x]) =
      (case find (\<lambda>y. name y = n) xs of Some y \<Rightarrow> Some y | None \<Rightarrow> if name x = n then Some x else None)"
    by (induction xs) auto
  moreover have "find (\<lambda>y. name y = n) xs = None" if "n \<notin> name ` set xs"
    using that by (auto simp: find_None_iff)
  ultimately show ?thesis by (auto simp: upsert_named_def split: option.split)
qed

lemma upsert_names:
  "map name (upsert_named name x xs) = (if name x \<in> name ` set xs then map name xs else map name xs @ [name x])"
  by (auto simp: upsert_named_def)

text \<open>
  Merging two overlays is an update by name: the merged list finds a name as its last
  definition in the extra list, or else as the base list does; the names of the base keep their places,
  new names follow in the order of their first definition, and no name is there twice.
\<close>

theorem merge_updates_by_name:
  assumes "distinct (map name base)"
  shows "find (\<lambda>y. name y = n) (merge_named name base extra) =
      (case find (\<lambda>y. name y = n) (rev extra) of Some y \<Rightarrow> Some y | None \<Rightarrow> find (\<lambda>y. name y = n) base) \<and>
    map name (merge_named name base extra) =
      map name base @ rev (remdups (filter (\<lambda>m. m \<notin> name ` set base) (rev (map name extra)))) \<and>
    distinct (map name (merge_named name base extra))"
proof -
  have "find (\<lambda>y. name y = n) (fold (upsert_named name) extra base) =
      (case find (\<lambda>y. name y = n) (rev extra) of Some y \<Rightarrow> Some y | None \<Rightarrow> find (\<lambda>y. name y = n) base)"
    by (induction extra rule: rev_induct) (auto simp: upsert_find)
  moreover have "map name (fold (upsert_named name) extra base) =
      map name base @ rev (remdups (filter (\<lambda>m. m \<notin> name ` set base) (rev (map name extra)))) \<and>
    distinct (map name (fold (upsert_named name) extra base))"
  proof (induction extra rule: rev_induct)
    case (snoc x extra)
    let ?xs = "fold (upsert_named name) extra base"
    have "name ` set ?xs = set (map name ?xs)" by simp
    also have "\<dots> = name ` set base \<union> name ` set extra" unfolding conjunct1 [OF snoc.IH] by auto
    finally have names: "name ` set ?xs = name ` set base \<union> name ` set extra" .
    show ?case
    proof (cases "name x \<in> name ` set ?xs")
      case True
      with names snoc.IH show ?thesis by (auto simp: upsert_names)
    next
      case False
      with names snoc.IH show ?thesis by (auto simp: upsert_names)
    qed
  qed (use assms in simp)
  ultimately show ?thesis unfolding merge_named_upserts [OF assms] by blast
qed


definition named :: "string \<Rightarrow> string \<Rightarrow> gql_scalar" where
  "named n d = \<lparr>gs_name = n, gs_description = d, gs_go_type = []\<rparr>"

theorem merge_updates_by_name_witness:
  "merge_scalars [named ''UUID'' [], named ''Time'' []] [named ''Date'' [], named ''UUID'' ''an id'', named ''Date'' ''a day''] =
     [named ''UUID'' ''an id'', named ''Time'' [], named ''Date'' ''a day''] \<and>
   find (\<lambda>y. gs_name y = ''Date'') (merge_scalars [named ''UUID'' [], named ''Time'' []]
     [named ''Date'' [], named ''UUID'' ''an id'', named ''Date'' ''a day'']) = Some (named ''Date'' ''a day'')"
proof
  show "merge_scalars [named ''UUID'' [], named ''Time'' []] [named ''Date'' [], named ''UUID'' ''an id'', named ''Date'' ''a day''] =
      [named ''UUID'' ''an id'', named ''Time'' [], named ''Date'' ''a day'']" by code_simp
  have "distinct (map gs_name [named ''UUID'' [], named ''Time'' []])" by (simp add: named_def)
  from merge_updates_by_name [OF this, of "''Date''" "[named ''Date'' [], named ''UUID'' ''an id'', named ''Date'' ''a day'']"]
  show "find (\<lambda>y. gs_name y = ''Date'') (merge_scalars [named ''UUID'' [], named ''Time'' []]
      [named ''Date'' [], named ''UUID'' ''an id'', named ''Date'' ''a day'']) = Some (named ''Date'' ''a day'')"
    by (simp add: merge_scalars_def named_def)
qed

section \<open>Which snippet an operation gets\<close>

definition crud_ops :: "string list" where
  "crud_ops = [''get'', ''list'', ''create'', ''update'', ''delete'']"

definition hooks_of :: "string \<Rightarrow> template_entity_hooks \<Rightarrow> template_hook_set" where
  "hooks_of op t =
     (if op = ''get'' then te_get t else if op = ''list'' then te_list t else if op = ''create'' then te_create t
      else if op = ''update'' then te_update t else te_delete t)"

text \<open>The five snippets of a hook set, each with its place in a template.\<close>

definition hook_slots :: "((hook_set \<Rightarrow> string) \<times> (template_hook_set \<Rightarrow> string)) list" where
  "hook_slots = [(hs_auth_guard, th_auth_guard), (hs_scope_guard, th_scope_guard), (hs_preload, th_preload),
     (hs_wrap_repo, th_wrap_repo), (hs_error_handler, th_error_handler)]"

lemma hook_slot:
  assumes "(h, t) \<in> set hook_slots"
  shows "t (merge_template_hooks b e) = (if t e \<noteq> [] then t e else t b)"
    and "t (to_template_hook_set s) = trim_space (h s)"
  using assms by (auto simp: hook_slots_def merge_template_hooks_def to_template_hook_set_def Let_def)

lemma hooks_of_apply_all:
  "hooks_of op (apply_hook_set_to_all s t) = merge_template_hooks (hooks_of op t) (to_template_hook_set s)"
  by (simp add: hooks_of_def apply_hook_set_to_all_def Let_def)

lemma hooks_of_apply:
  assumes "op \<in> set crud_ops"
  shows "hooks_of op (apply_hook op' s t) =
    (if op' = op then merge_template_hooks (hooks_of op t) (to_template_hook_set s) else hooks_of op t)"
  using assms by (auto simp: hooks_of_def apply_hook_def crud_ops_def Let_def)

text \<open>The snippet the sets of an entity's operations have for an operation.\<close>

definition op_snippet :: "(hook_set \<Rightarrow> string) \<Rightarrow> string \<Rightarrow> (string, hook_set) gomap \<Rightarrow> string" where
  "op_snippet h op operations =
     (case find (\<lambda>(n, s). normalize_op n = op) operations of None \<Rightarrow> [] | Some (n, s) \<Rightarrow> trim_space (h s))"

lemma apply_operations_slot:
  assumes "op \<in> set crud_ops" "(h, t) \<in> set hook_slots" "distinct (map (\<lambda>(n, s). normalize_op n) operations)"
  shows "t (hooks_of op (apply_operations operations x)) =
    (if op_snippet h op operations \<noteq> [] then op_snippet h op operations else t (hooks_of op x))"
  using assms(3)
proof (induction operations arbitrary: x)
  case (Cons e operations)
  obtain n s where e: "e = (n, s)" by (cases e)
  show ?case
  proof (cases "normalize_op n = op")
    case True
    with Cons.prems e have "\<forall>x \<in> set operations. \<not> (case x of (m, s) \<Rightarrow> normalize_op m = op)" by force
    then have "find (\<lambda>(m, s). normalize_op m = op) operations = None"
      unfolding find_None_iff by blast
    with Cons True e show ?thesis
      by (simp add: apply_operations_def hooks_of_apply [OF assms(1)] hook_slot [OF assms(2)] op_snippet_def)
  next
    case False
    with Cons e show ?thesis
      by (simp add: apply_operations_def hooks_of_apply [OF assms(1)] op_snippet_def)
  qed
qed (simp add: apply_operations_def op_snippet_def)

fun first_snippet :: "string list \<Rightarrow> string" where
  "first_snippet [] = []"
| "first_snippet (t # ts) = (if t \<noteq> [] then t else first_snippet ts)"

definition operation_hooks :: "hook_options \<Rightarrow> entity \<Rightarrow> template_entity_hooks" where
  "operation_hooks opts e = fst (build_entity_hooks (ho_overlay opts) (fst (base_operation_hooks opts)) e)"

lemma base_slot:
  assumes "(h, t) \<in> set hook_slots"
  shows "t (hooks_of op (fst (base_operation_hooks opts))) =
    first_snippet [trim_space (h (oh_default (ho_overlay opts))), t (hooks_of op (fst (build_auth_defaults opts)))]"
  by (simp add: base_operation_hooks_def hooks_of_apply_all hook_slot [OF assms] split: prod.split)

text \<open>
  The snippet an operation of an entity gets is the first there is of: the one its
  overlay gives for that operation under any of its names, the one it gives for all operations, the
  default of the overlay, and the authentication guard of the command line; the operations of the overlay
  must have different normalised names.
\<close>

theorem hook_precedence:
  assumes "op \<in> set crud_ops" "(h, t) \<in> set hook_slots"
    and "find_entity_hooks (oh_entities (ho_overlay opts)) e = Some hooks"
    and "distinct (map (\<lambda>(n, s). normalize_op n) (eh_operations hooks))"
  shows "t (hooks_of op (operation_hooks opts e)) =
    first_snippet [op_snippet h op (eh_operations hooks), trim_space (h (eh_all hooks)),
      trim_space (h (oh_default (ho_overlay opts))), t (hooks_of op (fst (build_auth_defaults opts)))]"
  using assms
  by (simp add: operation_hooks_def build_entity_hooks_def apply_operations_slot [OF assms(1,2,4)] hooks_of_apply_all
      hook_slot [OF assms(2)] base_slot [OF assms(2)])

section \<open>Operations stay guarded\<close>

definition guarded :: "template_entity_hooks \<Rightarrow> bool" where
  "guarded t \<longleftrightarrow> list_all (\<lambda>op. th_auth_guard (hooks_of op t) \<noteq> []) crud_ops"

lemma auth_slot: "(hs_auth_guard, th_auth_guard) \<in> set hook_slots"
  by (simp add: hook_slots_def)

lemma guarded_apply_all: "guarded t \<Longrightarrow> guarded (apply_hook_set_to_all s t)"
  by (simp add: guarded_def hooks_of_apply_all hook_slot [OF auth_slot] list_all_iff)

lemma guarded_apply: "guarded t \<Longrightarrow> guarded (apply_hook op s t)"
  by (auto simp: guarded_def list_all_iff hooks_of_apply hook_slot [OF auth_slot])

lemma guarded_operations: "guarded t \<Longrightarrow> guarded (apply_operations operations t)"
  by (induction operations arbitrary: t) (auto simp: apply_operations_def guarded_apply)

lemma guarded_defaults:
  assumes "trim_space (ho_auth_guard opts) \<noteq> []"
  shows "guarded (fst (base_operation_hooks opts))"
proof -
  have snippet: "build_auth_snippet op (ho_auth_guard opts) fail \<noteq> []" if "trim_space fail \<noteq> []" for op fail
    using assms that by (simp add: build_auth_snippet_def Let_def)
  have "trim_space (''errors.New('' @ [CHR 0x22] @ ''unauthorized'' @ [CHR 0x22] @ '')'') \<noteq> []" by code_simp
  note snippet [OF this]
  moreover have "build_auth_snippet op (ho_auth_guard opts) (trim_space (ho_auth_fail opts)) \<noteq> []"
    if "trim_space (ho_auth_fail opts) \<noteq> []" for op using snippet that by simp
  ultimately have "guarded (fst (build_auth_defaults opts))"
    using assms by (auto simp: guarded_def crud_ops_def hooks_of_def build_auth_defaults_def Let_def)
  then show ?thesis by (auto simp: base_operation_hooks_def intro: guarded_apply_all split: prod.split)
qed

lemma guarded_entity:
  assumes "guarded defaults"
  shows "guarded (fst (build_entity_hooks ov defaults e))"
  using assms
  by (simp add: build_entity_hooks_def guarded_operations guarded_apply_all split: option.split)

lemma built_entities:
  assumes "\<And>e. P (fst (build_entity_hooks ov defaults e))" "list_all (\<lambda>(n, h). P h) m"
  shows "list_all (\<lambda>(n, h). P h) (snd (fold (\<lambda>e (imports, m). case build_entity_hooks ov defaults e of
      (h, found) \<Rightarrow> (imports @ found, put (en_name e) h m)) es (i, m))) \<and>
    keys (snd (fold (\<lambda>e (imports, m). case build_entity_hooks ov defaults e of
      (h, found) \<Rightarrow> (imports @ found, put (en_name e) h m)) es (i, m))) = en_name ` set es \<union> keys m"
  using assms(2)
proof (induction es arbitrary: i m)
  case (Cons e es)
  obtain h found where e: "build_entity_hooks ov defaults e = (h, found)" by (cases "build_entity_hooks ov defaults e")
  have "list_all (\<lambda>(n, h). P h) (put (en_name e) h m)"
    using Cons.prems assms(1) [of e] e by (induction m) (auto simp: put_def)
  from Cons.IH [OF this, of "i @ found"] show ?case by (auto simp: e)
qed simp

text \<open>
  C28 (safety). With an authentication guard on the command line, no operation of any entity is left
  unguarded: every entity has hooks, and whatever the overlay says - it can replace the guard, not remove
  it - each of the five operations has a guard snippet.
\<close>

theorem operations_stay_guarded:
  assumes "trim_space (ho_auth_guard opts) \<noteq> []"
  shows "list_all (\<lambda>(name, h). guarded h) (tp_entities (build_hooks entities opts)) \<and>
    keys (tp_entities (build_hooks entities opts)) = en_name ` set entities"
proof -
  obtain defaults found where base: "base_operation_hooks opts = (defaults, found)"
    by (cases "base_operation_hooks opts")
  then have "guarded defaults" using guarded_defaults [OF assms] by simp
  from built_entities [where P = guarded, OF guarded_entity [OF this], of "[]"] show ?thesis
    by (simp add: build_hooks_def base Let_def)
qed

definition plain_entity :: "string \<Rightarrow> entity" where
  "plain_entity n = \<lparr>en_name = n, en_raw_name = n, en_description = [], en_label_field = [], en_fields = [], en_relationships = []\<rparr>"

definition sample_hook_options :: hook_options where
  "sample_hook_options =
     \<lparr>ho_overlay = \<lparr>oh_imports = [], oh_default = zero_hook_set,
        oh_entities = [(''user'', zero_entity_hooks\<lparr>eh_all := zero_hook_set\<lparr>hs_auth_guard := ''member(ctx)''\<rparr>,
          eh_operations := [(''Remove'', zero_hook_set\<lparr>hs_auth_guard := '' admin(ctx) ''\<rparr>)]\<rparr>)]\<rparr>,
      ho_auth_package = ''auth'', ho_auth_guard = ''auth.User(ctx)'', ho_auth_fail = []\<rparr>"

theorem operations_stay_guarded_witness:
  "list_all (\<lambda>(name, h). guarded h) (tp_entities (build_hooks [plain_entity ''User'', plain_entity ''Post''] sample_hook_options))"
proof -
  have "trim_space (ho_auth_guard sample_hook_options) \<noteq> []" by code_simp
  from operations_stay_guarded [OF this] show ?thesis by blast
qed

theorem hook_precedence_witness:
  "th_auth_guard (hooks_of ''delete'' (operation_hooks sample_hook_options (plain_entity ''User''))) = ''admin(ctx)'' \<and>
   th_auth_guard (hooks_of ''get'' (operation_hooks sample_hook_options (plain_entity ''User''))) = ''member(ctx)''"
proof -
  obtain hooks where hooks: "find_entity_hooks (oh_entities (ho_overlay sample_hook_options)) (plain_entity ''User'') = Some hooks"
    and h: "hooks = zero_entity_hooks\<lparr>eh_all := zero_hook_set\<lparr>hs_auth_guard := ''member(ctx)''\<rparr>,
      eh_operations := [(''Remove'', zero_hook_set\<lparr>hs_auth_guard := '' admin(ctx) ''\<rparr>)]\<rparr>"
  proof -
    have "find_entity_hooks [(''user'', h)] (plain_entity ''User'') = Some h" for h
    proof -
      have "to_lower ''user'' = to_lower ''User''" by code_simp
      then show ?thesis by (simp add: find_entity_hooks_def plain_entity_def)
    qed
    with that show thesis by (simp add: sample_hook_options_def)
  qed
  have d: "distinct (map (\<lambda>(n, s). normalize_op n) (eh_operations hooks))" by (simp add: h)
  have "op_snippet hs_auth_guard ''delete'' (eh_operations hooks) = ''admin(ctx)''"
    "op_snippet hs_auth_guard ''get'' (eh_operations hooks) = []" "trim_space (hs_auth_guard (eh_all hooks)) = ''member(ctx)''"
    unfolding h by code_simp+
  moreover have "''delete'' \<in> set crud_ops" "''get'' \<in> set crud_ops" by (simp_all add: crud_ops_def)
  ultimately show ?thesis
    using hook_precedence [OF _ auth_slot hooks d] by simp
qed

end
