(* ===== verification/Go_Paths.thy ===== *)
theory Go_Paths
  imports Go_Strings
begin

text \<open>
  What the generator uses of Go's \<open>path\<close> and \<open>path/filepath\<close>, on a Unix system: \<open>Clean\<close>, \<open>Join\<close>, \<open>Dir\<close>, \<open>Rel\<close>
  and \<open>Match\<close>. The lemmas show that the parents of a path come to an end, and what a pattern without special
  characters matches; and with them that the search for a \<open>go.mod\<close> ends.
\<close>

section \<open>Paths\<close>

text \<open>\<open>Clean\<close> works on the elements between the slashes, with those that remain as a stack.\<close>

definition push_element :: "bool \<Rightarrow> string \<Rightarrow> string list \<Rightarrow> string list" where
  "push_element isRooted e stack =
     (if e = [] \<or> e = ''.'' then stack
      else if e = ''..'' then
        (case stack of
           upper # below \<Rightarrow> if upper \<noteq> ''..'' then below else e # stack
         | [] \<Rightarrow> if isRooted then [] else [e])
      else e # stack)"

definition rooted :: "string \<Rightarrow> bool" where
  "rooted p \<longleftrightarrow> p \<noteq> [] \<and> hd p = CHR ''/''"

definition path_elements :: "string \<Rightarrow> string list" where
  "path_elements p = rev (fold (push_element (rooted p)) (split_on CHR ''/'' p) [])"

definition clean_path :: "string \<Rightarrow> string" where
  "clean_path p =
     (let es = path_elements p
      in if rooted p then CHR ''/'' # join ''/'' es else if es = [] then ''.'' else join ''/'' es)"

definition path_join :: "string list \<Rightarrow> string" where
  "path_join ps = (case dropWhile (\<lambda>p. p = []) ps of [] \<Rightarrow> [] | qs \<Rightarrow> clean_path (join ''/'' qs))"

text \<open>The text up to and with the last slash.\<close>

definition up_to_slash :: "string \<Rightarrow> string" where
  "up_to_slash p = rev (dropWhile (\<lambda>c. c \<noteq> CHR ''/'') (rev p))"

definition path_dir :: "string \<Rightarrow> string" where
  "path_dir p = clean_path (up_to_slash p)"

fun strip_common :: "string list \<Rightarrow> string list \<Rightarrow> string list \<times> string list" where
  "strip_common (b # bs) (t # ts) = (if b = t then strip_common bs ts else (b # bs, t # ts))"
| "strip_common bs ts = (bs, ts)"

text \<open>\<open>Rel\<close>; \<open>None\<close> is its error. An element \<open>..\<close> of the base cannot be undone.\<close>

definition path_rel :: "string \<Rightarrow> string \<Rightarrow> string option" where
  "path_rel base target =
     (if clean_path base = clean_path target then Some ''.''
      else if rooted base \<noteq> rooted target then None
      else (case strip_common (path_elements base) (path_elements target) of
              (bs, ts) \<Rightarrow>
                if bs \<noteq> [] \<and> hd bs = ''..'' then None
                else Some (join ''/'' (map (\<lambda>b. ''..'') bs @ ts))))"

section \<open>The parents of a path come to an end\<close>

definition elements_size :: "string list \<Rightarrow> nat" where
  "elements_size es = sum_list (map (\<lambda>e. Suc (length e)) es)"

lemma elements_size_simps [simp]:
  "elements_size [] = 0" "elements_size (e # es) = Suc (length e) + elements_size es"
  "elements_size (es @ fs) = elements_size es + elements_size fs" "elements_size (rev es) = elements_size es"
  by (simp_all add: elements_size_def rev_map [symmetric])

lemma elements_size_split: "elements_size (split_on c p) = Suc (length p)"
proof -
  have "elements_size (split_by P p) = Suc (length p)" for P
  proof (induction p)
    case (Cons x p)
    then show ?case by (cases "split_by P p") auto
  qed simp
  then show ?thesis by (simp add: split_on_def)
qed

lemma length_join: "es \<noteq> [] \<Longrightarrow> Suc (length (join ''/'' es)) = elements_size es"
proof (induction "''/''" es rule: join.induct)
  case (3 x y zs)
  then show ?case by simp
qed simp_all

lemma push_element_size: "elements_size (push_element r e stack) \<le> elements_size stack + elements_size [e]"
  by (auto simp: push_element_def split: list.splits)

lemma fold_push_size: "elements_size (fold (push_element r) es stack) \<le> elements_size stack + elements_size es"
proof (induction es arbitrary: stack)
  case (Cons e es)
  from Cons [of "push_element r e stack"] push_element_size [of r e stack] show ?case by simp
qed simp

lemma split_rooted: "rooted p \<Longrightarrow> split_on CHR ''/'' p = [] # split_on CHR ''/'' (tl p)"
  by (cases p) (auto simp: rooted_def split_on_def)

lemma push_empty [simp]: "push_element r [] stack = stack"
  by (simp add: push_element_def)

lemma path_elements_size: "elements_size (path_elements p) + of_bool (rooted p) \<le> Suc (length p)"
proof (cases "rooted p")
  case True
  then have "path_elements p = rev (fold (push_element True) (split_on CHR ''/'' (tl p)) [])" "p \<noteq> []"
    by (auto simp: path_elements_def split_rooted rooted_def)
  with fold_push_size [of True "split_on CHR ''/'' (tl p)" "[]"] show ?thesis
    by (cases p) (simp_all add: elements_size_split)
next
  case False
  with fold_push_size [of False "split_on CHR ''/'' p" "[]"] show ?thesis
    by (simp add: path_elements_def elements_size_split)
qed

lemma clean_path_length:
  assumes "elements_size (path_elements p) + of_bool (rooted p) \<le> Suc n" "n \<noteq> 0"
  shows "length (clean_path p) \<le> n"
proof (cases "path_elements p = []")
  case True
  with assms show ?thesis by (auto simp: clean_path_def)
next
  case False
  from length_join [OF this] assms False show ?thesis by (auto simp: clean_path_def Let_def split: if_splits)
qed

lemma split_on_snoc: "split_on c (p @ [c]) = split_on c p @ [[]]"
proof -
  have "split_by (\<lambda>x. x = c) (p @ [c]) = split_by (\<lambda>x. x = c) p @ [[]]"
  proof (induction p)
    case (Cons x p)
    obtain w ws where "split_by (\<lambda>x. x = c) p = w # ws" by (cases "split_by (\<lambda>x. x = c) p") auto
    with Cons show ?case by simp
  qed simp
  then show ?thesis by (simp add: split_on_def)
qed

lemma path_elements_snoc: "p \<noteq> [] \<Longrightarrow> path_elements (p @ ''/'') = path_elements p"
  by (simp add: path_elements_def split_on_snoc rooted_def)

lemma clean_path_snoc: "p \<noteq> [] \<Longrightarrow> clean_path (p @ ''/'') = clean_path p"
  by (simp add: clean_path_def path_elements_snoc rooted_def)

lemma clean_path_shorter: "p \<noteq> [] \<Longrightarrow> length (clean_path p) \<le> length p"
  using clean_path_length [OF path_elements_size] by simp

definition path_size :: "string \<Rightarrow> nat" where
  "path_size p = (if p = ''.'' then 0 else Suc (length p))"

lemma path_dir_shorter:
  assumes "path_dir p \<noteq> p"
  shows "path_size (path_dir p) < path_size p"
proof (cases "CHR ''/'' \<in> set p")
  case False
  then have "up_to_slash p = []" by (auto simp: up_to_slash_def dropWhile_eq_Nil_conv)
  then have "path_dir p = ''.''" by (simp add: path_dir_def clean_path_def path_elements_def rooted_def split_on_def)
  with assms show ?thesis by (auto simp: path_size_def)
next
  case True
  then obtain pre post where p: "p = pre @ ''/'' @ post" "CHR ''/'' \<notin> set post"
    using split_list_last [OF True] by auto
  then have up: "up_to_slash p = pre @ ''/''"
    by (auto simp: up_to_slash_def dropWhile_append3)
  show ?thesis
  proof (cases "pre = []")
    case True
    with up have "path_dir p = ''/''"
      by (simp add: path_dir_def clean_path_def path_elements_def rooted_def split_on_def)
    with assms p True show ?thesis by (cases post) (auto simp: path_size_def)
  next
    case False
    with up have "path_dir p = clean_path pre" by (simp add: path_dir_def clean_path_snoc)
    with clean_path_shorter [OF False] p False show ?thesis by (cases pre) (auto simp: path_size_def)
  qed
qed

section \<open>The module of a directory\<close>

text \<open>
  \<open>rd\<close> is \<open>os.ReadFile\<close>, and \<open>module_of\<close> the module path \<open>modfile.Parse\<close> finds in a file; both give \<open>None\<close> for an error.
  The search ends at the first directory that is its own parent.
\<close>

definition module_at :: "(string \<Rightarrow> string option) \<Rightarrow> (string \<Rightarrow> string option) \<Rightarrow> string \<Rightarrow> string option" where
  "module_at rd module_of dir = Option.bind (rd (path_join [dir, ''go.mod''])) module_of"

function search_module :: "(string \<Rightarrow> string option) \<Rightarrow> (string \<Rightarrow> string option) \<Rightarrow> string \<Rightarrow> (string \<times> string) option" where
  "search_module rd module_of dir =
     (case module_at rd module_of dir of
        Some m \<Rightarrow> Some (m, dir)
      | None \<Rightarrow> if path_dir dir = dir then None else search_module rd module_of (path_dir dir))"
  by pat_completeness auto
termination by (relation "measure (\<lambda>(rd, module_of, dir). path_size dir)") (auto simp: path_dir_shorter)

declare search_module.simps [simp del]

section \<open>Patterns\<close>

text \<open>The grammar of \<open>path.Match\<close>; a pattern that does not follow it is an error.\<close>

datatype glob = GlobStar | GlobAny | GlobClass bool "(char \<times> char) list" | GlobChar char

definition glob_escape :: "string \<Rightarrow> (char \<times> string) option" where
  "glob_escape s =
     (case s of
        [] \<Rightarrow> None
      | c # cs \<Rightarrow>
          if c = CHR ''-'' \<or> c = CHR '']'' then None
          else if c = CHR 0x5C then (case cs of [] \<Rightarrow> None | d # ds \<Rightarrow> if ds = [] then None else Some (d, ds))
          else if cs = [] then None else Some (c, cs))"

lemma glob_escape_shorter: "glob_escape s = Some (c, t) \<Longrightarrow> length t < length s"
  by (auto simp: glob_escape_def split: list.splits if_splits)

definition glob_range :: "string \<Rightarrow> ((char \<times> char) \<times> string) option" where
  "glob_range s =
     (case glob_escape s of
        None \<Rightarrow> None
      | Some (lo, t) \<Rightarrow>
          if prefix ''-'' t then map_option (\<lambda>(hi, u). ((lo, hi), u)) (glob_escape (tl t)) else Some ((lo, lo), t))"

lemma glob_range_shorter: "glob_range s = Some (r, t) \<Longrightarrow> length t < length s"
proof -
  assume r: "glob_range s = Some (r, t)"
  then obtain lo u where u: "glob_escape s = Some (lo, u)" by (auto simp: glob_range_def split: option.splits)
  then have "length u < length s" by (rule glob_escape_shorter)
  with r u glob_escape_shorter [of "tl u"] show ?thesis
    by (fastforce simp: glob_range_def split: if_splits)
qed

function glob_ranges :: "bool \<Rightarrow> string \<Rightarrow> ((char \<times> char) list \<times> string) option" where
  "glob_ranges some s =
     (if some \<and> prefix '']'' s then Some ([], tl s)
      else (case glob_range s of
              None \<Rightarrow> None
            | Some (r, t) \<Rightarrow> map_option (\<lambda>(rs, u). (r # rs, u)) (glob_ranges True t)))"
  by pat_completeness auto
termination by (relation "measure (length \<circ> snd)") (auto dest: glob_range_shorter)

declare glob_ranges.simps [simp del]

lemma glob_ranges_shorter: "glob_ranges some s = Some (rs, t) \<Longrightarrow> length t < length s"
proof (induction some s arbitrary: rs t rule: glob_ranges.induct)
  case (1 some s)
  show ?case
  proof (cases "some \<and> prefix '']'' s")
    case True
    with 1(2) have "t = tl s" "s \<noteq> []" by (auto simp: glob_ranges.simps [of True s])
    then show ?thesis by (cases s) auto
  next
    case False
    with 1(2) obtain r u rs' where u: "glob_range s = Some (r, u)" "glob_ranges True u = Some (rs', t)"
      by (auto simp: glob_ranges.simps [of some s] split: option.splits)
    from 1(1) [OF False u(1) refl u(2)] glob_range_shorter [OF u(1)] show ?thesis by simp
  qed
qed

function parse_glob :: "string \<Rightarrow> glob list option" where
  "parse_glob [] = Some []"
| "parse_glob (c # cs) =
     (if c = CHR ''*'' then map_option (Cons GlobStar) (parse_glob cs)
      else if c = CHR ''?'' then map_option (Cons GlobAny) (parse_glob cs)
      else if c = CHR ''['' then
        (let negated = prefix ''^'' cs
         in case glob_ranges False (if negated then tl cs else cs) of
              None \<Rightarrow> None
            | Some (rs, t) \<Rightarrow> map_option (Cons (GlobClass negated rs)) (parse_glob t))
      else if c = CHR 0x5C then
        (case cs of [] \<Rightarrow> None | d # ds \<Rightarrow> map_option (Cons (GlobChar d)) (parse_glob ds))
      else map_option (Cons (GlobChar c)) (parse_glob cs))"
  by pat_completeness auto
termination by (relation "measure length") (auto dest!: glob_ranges_shorter split: if_splits)

definition in_ranges :: "char \<Rightarrow> (char \<times> char) list \<Rightarrow> bool" where
  "in_ranges c rs \<longleftrightarrow> list_ex (\<lambda>(lo, hi). (of_char lo :: nat) \<le> of_char c \<and> (of_char c :: nat) \<le> of_char hi) rs"

fun glob_matches :: "glob list \<Rightarrow> string \<Rightarrow> bool" where
  "glob_matches [] s \<longleftrightarrow> s = []"
| "glob_matches (GlobStar # gs) [] \<longleftrightarrow> glob_matches gs []"
| "glob_matches (GlobStar # gs) (c # cs) \<longleftrightarrow>
     glob_matches gs (c # cs) \<or> c \<noteq> CHR ''/'' \<and> glob_matches (GlobStar # gs) cs"
| "glob_matches (g # gs) [] \<longleftrightarrow> False"
| "glob_matches (GlobAny # gs) (c # cs) \<longleftrightarrow> c \<noteq> CHR ''/'' \<and> glob_matches gs cs"
| "glob_matches (GlobClass negated rs # gs) (c # cs) \<longleftrightarrow> in_ranges c rs \<noteq> negated \<and> glob_matches gs cs"
| "glob_matches (GlobChar d # gs) (c # cs) \<longleftrightarrow> c = d \<and> glob_matches gs cs"

text \<open>\<open>path.Match\<close> with no error and a match.\<close>

definition path_match :: "string \<Rightarrow> string \<Rightarrow> bool" where
  "path_match pattern name = (case parse_glob pattern of None \<Rightarrow> False | Some gs \<Rightarrow> glob_matches gs name)"

definition plain_pattern :: "string \<Rightarrow> bool" where
  "plain_pattern p \<longleftrightarrow> list_all (\<lambda>c. c \<notin> {CHR ''*'', CHR ''?'', CHR ''['', CHR 0x5C}) p"

lemma parse_plain: "plain_pattern p \<Longrightarrow> parse_glob p = Some (map GlobChar p)"
  by (induction p) (auto simp: plain_pattern_def)

lemma matches_chars: "glob_matches (map GlobChar p) s \<longleftrightarrow> s = p"
proof (induction p arbitrary: s)
  case (Cons c p)
  then show ?case by (cases s) auto
qed simp

lemma match_plain: "plain_pattern p \<Longrightarrow> path_match p s \<longleftrightarrow> s = p"
  by (simp add: path_match_def parse_plain matches_chars)

text \<open>\<open>*\<close> matches what has no slash; so a prefix followed by a star matches every such continuation.\<close>

lemma star_matches: "glob_matches [GlobStar] s \<longleftrightarrow> CHR ''/'' \<notin> set s"
  by (induction s) auto

lemma match_star_suffix: "plain_pattern p \<Longrightarrow> path_match (p @ ''*'') s \<longleftrightarrow> (\<exists>t. s = p @ t \<and> CHR ''/'' \<notin> set t)"
proof -
  assume "plain_pattern p"
  then have "parse_glob (p @ ''*'') = Some (map GlobChar p @ [GlobStar])"
    by (induction p) (auto simp: plain_pattern_def)
  moreover have "glob_matches (map GlobChar p @ [GlobStar]) s \<longleftrightarrow> (\<exists>t. s = p @ t \<and> CHR ''/'' \<notin> set t)"
  proof (induction p arbitrary: s)
    case Nil
    show ?case by (simp add: star_matches)
  next
    case (Cons c p)
    show ?case by (cases s) (auto simp: Cons)
  qed
  ultimately show ?thesis by (simp add: path_match_def)
qed

end
