(* ===== verification/Gql_Templates.thy ===== *)
theory Gql_Templates
  imports Gql_Overlay Go_Paths
begin

text \<open>
  The data the templates of the generator see, and what happens to the text they produce
  (\<open>gql/internal/templates/templates.go\<close>). The template engine (go-template) and \<open>format.Source\<close> are
  parameters. The lemmas show that the whitespace hook yields a normal form and keeps every line.
\<close>

section \<open>The context\<close>

text \<open>\<open>TemplateScalar\<close>, \<open>TemplateEnum\<close>, \<open>TemplateInput\<close> and \<open>TemplateArgument\<close> have the parts of their overlay counterparts.\<close>

type_synonym template_scalar = gql_scalar
type_synonym template_enum = gql_enum
type_synonym template_input = gql_input
type_synonym template_argument = gql_argument

record template_operation =
  tn_name :: string
  tn_return_type :: string
  tn_list :: bool
  tn_required :: bool
  tn_args :: "template_argument list"
  tn_description :: string
  tn_signature :: string

record template_subscription = template_operation +
  tn_entity :: string
  tn_event :: string
  tn_topic :: string
  tn_method_name :: string

record gql_model_field =
  mf_name :: string
  mf_json_name :: string
  mf_go_type :: string

record model_struct =
  ms_name :: string
  ms_description :: string
  ms_fields :: "gql_model_field list"

record model_enum =
  me_name :: string
  me_values :: "string list"

record criteria_field =
  cr_field :: string
  cr_column :: string
  cr_relation :: string
  cr_relation_type :: string
  cr_pivot_table :: string
  cr_source_column :: string
  cr_target_column :: string
  cr_source_pivot :: string
  cr_target_pivot :: string
  cr_target_table :: string

record dataloader_field =
  df_name :: string
  df_field_name :: string
  df_column :: string
  df_go_type :: string

record dataloader_relation =
  dr_name :: string
  dr_field_name :: string
  dr_target :: string
  dr_target_field :: string
  dr_relation_type :: string
  dr_is_list :: bool
  dr_source_column :: string
  dr_target_column :: string
  dr_source_field :: string
  dr_source_field_key :: dataloader_field
  dr_target_field_key :: dataloader_field
  dr_pivot_table :: string
  dr_source_pivot :: string
  dr_target_pivot :: string
  dr_target_table :: string

text \<open>Less \<open>IsRelation\<close>, which nothing sets or reads.\<close>

record dataloader_entity =
  de_name :: string
  de_model_name :: string
  de_pk :: dataloader_field
  de_relations :: "dataloader_relation list"
  de_resolver :: string

record template_context =
  tc_notice :: string
  tc_entities :: "entity list"
  tc_unions :: "union_type list"
  tc_model_package :: string
  tc_resolver_package :: string
  tc_dataloader_package :: string
  tc_schema_path :: string
  tc_policy_hook :: string
  tc_emit_dataloader :: bool
  tc_emit_subscriptions :: bool
  tc_auth_package :: string
  tc_auth_enabled :: bool
  tc_has_auth_guard :: bool
  tc_auth_import_required :: bool
  tc_needs_errors_import :: bool
  tc_scalars :: "template_scalar list"
  tc_enums :: "template_enum list"
  tc_inputs :: "template_input list"
  tc_queries :: "template_operation list"
  tc_mutations :: "template_operation list"
  tc_subscriptions :: "template_subscription list"
  tc_model_structs :: "model_struct list"
  tc_model_enums :: "model_enum list"
  tc_model_imports :: "string list"
  tc_criteria :: "(string, criteria_field list) gomap"
  tc_hooks :: template_hooks
  tc_resolver_entities :: "(entity \<times> template_entity_hooks) list"
  tc_dataloader_entities :: "dataloader_entity list"

definition new_context :: "gql_document \<Rightarrow> template_context" where
  "new_context d =
     \<lparr>tc_notice = ''Code generated by graphqlgen. DO NOT EDIT.'', tc_entities = do_entities d, tc_unions = do_unions d,
      tc_model_package = ''graph/model'', tc_resolver_package = ''graph/resolvers'',
      tc_dataloader_package = ''graph/dataloader'', tc_schema_path = ''graph/schema.graphql'', tc_policy_hook = [],
      tc_emit_dataloader = False, tc_emit_subscriptions = False, tc_auth_package = [], tc_auth_enabled = False,
      tc_has_auth_guard = False, tc_auth_import_required = False, tc_needs_errors_import = False, tc_scalars = [],
      tc_enums = [], tc_inputs = [], tc_queries = [], tc_mutations = [], tc_subscriptions = [], tc_model_structs = [],
      tc_model_enums = [], tc_model_imports = [], tc_criteria = [], tc_hooks = \<lparr>tp_imports = [], tp_entities = []\<rparr>,
      tc_resolver_entities = [], tc_dataloader_entities = []\<rparr>"

section \<open>The hooks of the renderer\<close>

text \<open>
  The loop over the lines, with the number of blank lines it has seen since the last other line: the lines
  it keeps, and the number of blank lines at the end.
\<close>

definition blanks_before :: "bool \<Rightarrow> nat \<Rightarrow> string \<Rightarrow> nat" where
  "blanks_before dropBeforeBrace blank l =
     (if dropBeforeBrace \<and> trim_space l = ''}'' \<and> blank > 0 then 0 else if blank > 1 then 1 else blank)"

fun kept_lines :: "bool \<Rightarrow> nat \<Rightarrow> string list \<Rightarrow> string list \<times> nat" where
  "kept_lines dropBeforeBrace blank [] = ([], blank)"
| "kept_lines dropBeforeBrace blank (l # ls) =
     (if trim_space l = [] then kept_lines dropBeforeBrace (Suc blank) ls
      else case kept_lines dropBeforeBrace 0 ls of
             (out, m) \<Rightarrow> (replicate (blanks_before dropBeforeBrace blank l) [] @ l # out, m))"

definition trim_newlines :: "string \<Rightarrow> string" where
  "trim_newlines s = rev (dropWhile (\<lambda>c. c = CHR 0x0A) (rev s))"

definition normalize_whitespace :: "bool \<Rightarrow> string \<Rightarrow> string" where
  "normalize_whitespace dropBeforeBrace input =
     (case kept_lines dropBeforeBrace 0 (split_on CHR 0x0A input) of
        (out, blank) \<Rightarrow>
          (let hadTrailingNewline = suffix newline input;
               result = trim_newlines (join newline out)
           in if blank > 1 \<and> hadTrailingNewline then result @ newline @ newline
              else if hadTrailingNewline then result @ newline
              else result))"

definition whitespace_hook :: "string \<Rightarrow> string \<Rightarrow> string" where
  "whitespace_hook template output = normalize_whitespace (template = ''schema.tpl'') output"

text \<open>\<open>source\<close> is \<open>format.Source\<close>; \<open>None\<close> is its error.\<close>

definition gofmt_hook :: "(string \<Rightarrow> string option) \<Rightarrow> string \<Rightarrow> string \<Rightarrow> string" where
  "gofmt_hook source template output =
     (if template \<in> {''models_gen.tpl'', ''resolver_gen.tpl'', ''dataloader.tpl''}
      then (case source output of None \<Rightarrow> output | Some formatted \<Rightarrow> formatted) else output)"

definition trailing_newline_hook :: "string \<Rightarrow> string \<Rightarrow> string" where
  "trailing_newline_hook template output =
     (if template \<in> {''models_custom.tpl'', ''resolver_custom.tpl''}
      then (if suffix newline output then output else output @ newline)
      else trim_newlines output @ newline)"

text \<open>
  The renderer \<open>NewRendererWithBaseDir\<close> builds: the engine made for the directory, with the three hooks in the
  order of their registration if it takes hooks.
\<close>

record ('c, 'x) engine =
  eg_render :: "string \<Rightarrow> 'c \<Rightarrow> 'x + string"
  eg_hookable :: bool

definition render_template :: "(string \<Rightarrow> string option) \<Rightarrow> ('c, 'x) engine \<Rightarrow> string \<Rightarrow> 'c \<Rightarrow> 'x + string" where
  "render_template source eng template ctx =
     (case eg_render eng template ctx of
        Inl x \<Rightarrow> Inl x
      | Inr output \<Rightarrow>
          Inr (if eg_hookable eng
               then trailing_newline_hook template (gofmt_hook source template (whitespace_hook template output))
               else output))"

section \<open>The whitespace hook yields a normal form\<close>

text \<open>Lines as the hook leaves them: a blank line is empty, it is followed by another line, and that is not a closing brace.\<close>

fun tidy :: "bool \<Rightarrow> string list \<Rightarrow> bool" where
  "tidy d [] \<longleftrightarrow> True"
| "tidy d (l # ls) \<longleftrightarrow>
     (trim_space l = [] \<longrightarrow> l = [] \<and> ls \<noteq> [] \<and> trim_space (hd ls) \<noteq> [] \<and> (d \<longrightarrow> trim_space (hd ls) \<noteq> ''}'')) \<and> tidy d ls"

lemma blanks_before_simps [simp]:
  "n = 0 \<Longrightarrow> blanks_before d n l = 0" "d \<Longrightarrow> trim_space l = ''}'' \<Longrightarrow> blanks_before d n l = 0"
  "n \<noteq> 0 \<Longrightarrow> \<not> (d \<and> trim_space l = ''}'') \<Longrightarrow> blanks_before d n l = 1"
  by (auto simp: blanks_before_def)

lemma tidy_blanks: "trim_space l \<noteq> [] \<Longrightarrow> tidy d ls \<Longrightarrow> tidy d (replicate (blanks_before d n l) [] @ l # ls)"
  by (cases "n = 0"; cases "d \<and> trim_space l = ''}''") auto

lemma kept_lines_tidy: "tidy d (fst (kept_lines d n ls))"
  by (induction d n ls rule: kept_lines.induct) (auto simp: tidy_blanks split: prod.split)

lemma kept_lines_free:
  "list_all (\<lambda>l. CHR 0x0A \<notin> set l) ls \<Longrightarrow> list_all (\<lambda>l. CHR 0x0A \<notin> set l) (fst (kept_lines d n ls))"
  by (induction d n ls rule: kept_lines.induct) (auto simp: list_all_iff split: prod.splits)

lemma kept_lines_nonblank:
  "filter (\<lambda>l. trim_space l \<noteq> []) (fst (kept_lines d n ls)) = filter (\<lambda>l. trim_space l \<noteq> []) ls"
  by (induction d n ls rule: kept_lines.induct) (auto split: prod.splits)

lemma kept_lines_last: "fst (kept_lines d n ls) \<noteq> [] \<Longrightarrow> trim_space (last (fst (kept_lines d n ls))) \<noteq> []"
  by (induction d n ls rule: kept_lines.induct) (auto split: prod.splits if_splits)

text \<open>Tidy lines, followed by some blank ones, are kept.\<close>

lemma kept_lines_blank: "kept_lines d n (replicate k []) = ([], n + k)"
  by (induction k arbitrary: n) auto

lemma kept_lines_id:
  assumes "tidy d ls" "ls \<noteq> [] \<Longrightarrow> trim_space (last ls) \<noteq> []"
    and "n = 0 \<or> n = 1 \<and> ls \<noteq> [] \<and> trim_space (hd ls) \<noteq> [] \<and> (d \<longrightarrow> trim_space (hd ls) \<noteq> ''}'')"
  shows "kept_lines d n (ls @ replicate k []) = (replicate n [] @ ls, k)"
  using assms
proof (induction ls arbitrary: n)
  case Nil
  then show ?case by (simp add: kept_lines_blank)
next
  case (Cons l ls)
  show ?case
  proof (cases "trim_space l = []")
    case True
    with Cons.prems have "n = 0" "l = []" "ls \<noteq> []" by auto
    with Cons True show ?thesis by simp
  next
    case False
    have "kept_lines d 0 (ls @ replicate k []) = (replicate 0 [] @ ls, k)"
      by (rule Cons.IH) (use Cons.prems in \<open>auto split: if_splits\<close>)
    with Cons.prems False show ?thesis by auto
  qed
qed

text \<open>The lines of a text whose lines are given, with the newlines at its end.\<close>

definition laid_out :: "string list \<Rightarrow> nat \<Rightarrow> string" where
  "laid_out ls k = join newline ls @ concat (replicate k newline)"

lemma laid_out_Suc: "laid_out ls (Suc k) = laid_out ls k @ [CHR 0x0A]"
  by (induction k) (simp_all add: laid_out_def newline_def replicate_append_same)

lemma split_laid_out:
  assumes "list_all (\<lambda>l. CHR 0x0A \<notin> set l) ls" "ls \<noteq> []"
  shows "split_on CHR 0x0A (laid_out ls k) = ls @ replicate k []"
proof (induction k)
  case 0
  from assms show ?case by (simp add: laid_out_def newline_def split_on_join list_all_iff)
next
  case (Suc k)
  then show ?case by (simp add: laid_out_Suc split_on_snoc replicate_append_same)
qed

lemma join_last:
  assumes "ls \<noteq> []" "last ls \<noteq> []"
  shows "join sep ls \<noteq> [] \<and> last (join sep ls) = last (last ls)"
  using assms by (induction sep ls rule: join.induct) auto

lemma nonblank_line: "trim_space l \<noteq> [] \<Longrightarrow> l \<noteq> []" by auto

lemma trim_newlines_join:
  assumes "list_all (\<lambda>l. CHR 0x0A \<notin> set l) ls" "ls \<noteq> [] \<Longrightarrow> trim_space (last ls) \<noteq> []"
  shows "trim_newlines (join newline ls) = join newline ls"
    and "ls \<noteq> [] \<Longrightarrow> suffix newline (laid_out ls k) \<longleftrightarrow> k > 0"
proof -
  have l: "join newline ls \<noteq> []" "last (join newline ls) \<noteq> CHR 0x0A" if "ls \<noteq> []"
  proof -
    have ne: "last ls \<noteq> []" by (rule nonblank_line [OF assms(2) [OF that]])
    with assms(1) that have "last (last ls) \<noteq> CHR 0x0A" by (metis last_in_set list_all_iff)
    with join_last [OF that ne, of newline] show "join newline ls \<noteq> []" "last (join newline ls) \<noteq> CHR 0x0A" by auto
  qed
  show "trim_newlines (join newline ls) = join newline ls"
  proof (cases "ls = []")
    case False
    with l have "rev (join newline ls) \<noteq> []" "hd (rev (join newline ls)) \<noteq> CHR 0x0A" by (auto simp: hd_rev)
    then show ?thesis by (simp add: trim_newlines_def dropWhile_id)
  qed (simp add: trim_newlines_def)
  show "suffix newline (laid_out ls k) \<longleftrightarrow> k > 0" if "ls \<noteq> []"
  proof (cases k)
    case 0
    with l [OF that] show ?thesis by (auto simp: laid_out_def newline_def suffix_def)
  next
    case (Suc n)
    then show ?thesis by (simp add: laid_out_Suc newline_def suffix_def)
  qed
qed

definition end_lines :: "bool \<Rightarrow> nat \<Rightarrow> nat" where
  "end_lines had k = (if k > 1 \<and> had then 2 else if had then 1 else 0)"

lemma normalized_as_laid_out:
  assumes "kept_lines d 0 (split_on CHR 0x0A s) = (out, k)"
  shows "normalize_whitespace d s = laid_out out (end_lines (suffix newline s) k)"
    and "list_all (\<lambda>l. CHR 0x0A \<notin> set l) out" "tidy d out" "out \<noteq> [] \<Longrightarrow> trim_space (last out) \<noteq> []"
    and "filter (\<lambda>l. trim_space l \<noteq> []) out = filter (\<lambda>l. trim_space l \<noteq> []) (split_on CHR 0x0A s)"
proof -
  have "list_all (\<lambda>l. CHR 0x0A \<notin> set l) (split_on CHR 0x0A s)" by (auto simp: list_all_iff dest: split_on_free)
  from kept_lines_free [OF this, of d 0] show free: "list_all (\<lambda>l. CHR 0x0A \<notin> set l) out" by (simp add: assms)
  from kept_lines_tidy [of d 0 "split_on CHR 0x0A s"] show "tidy d out" by (simp add: assms)
  from kept_lines_last [of d 0 "split_on CHR 0x0A s"] show last: "out \<noteq> [] \<Longrightarrow> trim_space (last out) \<noteq> []"
    by (simp add: assms)
  from kept_lines_nonblank [of d 0 "split_on CHR 0x0A s"]
  show "filter (\<lambda>l. trim_space l \<noteq> []) out = filter (\<lambda>l. trim_space l \<noteq> []) (split_on CHR 0x0A s)" by (simp add: assms)
  show "normalize_whitespace d s = laid_out out (end_lines (suffix newline s) k)"
    by (simp add: normalize_whitespace_def assms trim_newlines_join(1) [OF free last] end_lines_def laid_out_def
        numeral_2_eq_2)
qed

lemma all_blank_kept: "list_all (\<lambda>l. trim_space l = []) ls \<Longrightarrow> kept_lines d n ls = ([], n + length ls)"
  by (induction ls arbitrary: n) auto

lemma laid_out_twice:
  assumes "list_all (\<lambda>l. CHR 0x0A \<notin> set l) out" "tidy d out" "out \<noteq> [] \<Longrightarrow> trim_space (last out) \<noteq> []" "out \<noteq> []" "j \<le> 2"
  shows "normalize_whitespace d (laid_out out j) = laid_out out j"
proof -
  have "kept_lines d 0 (split_on CHR 0x0A (laid_out out j)) = (out, j)"
    using kept_lines_id [OF assms(2,3), of 0 j] by (simp add: split_laid_out [OF assms(1,4)])
  from normalized_as_laid_out(1) [OF this] trim_newlines_join(2) [OF assms(1,3,4), of j] assms(5) show ?thesis
    by (auto simp: end_lines_def le_Suc_eq numeral_2_eq_2)
qed

text \<open>
  The whitespace hook yields a normal form and loses nothing: normalising a text again
  changes nothing, and the lines that are not blank are those of the input, in their order.
\<close>

theorem whitespace_normal_form:
  "normalize_whitespace d (normalize_whitespace d s) = normalize_whitespace d s \<and>
   filter (\<lambda>l. trim_space l \<noteq> []) (split_on CHR 0x0A (normalize_whitespace d s)) =
     filter (\<lambda>l. trim_space l \<noteq> []) (split_on CHR 0x0A s)"
proof -
  obtain out k where k: "kept_lines d 0 (split_on CHR 0x0A s) = (out, k)" by fastforce
  note n = normalized_as_laid_out [OF k]
  have j: "end_lines h m \<le> 2" for h m by (simp add: end_lines_def)
  show ?thesis
  proof (cases "out = []")
    case False
    with laid_out_twice [OF n(2,3,4) False j] split_laid_out [OF n(2) False] n(5) show ?thesis
      by (simp add: n(1) filter_replicate)
  next
    case True
    with n(5) have b: "list_all (\<lambda>l. trim_space l = []) (split_on CHR 0x0A s)"
      by (simp add: list_all_iff filter_empty_conv eq_commute [of "[]"])
    then have "k = length (split_on CHR 0x0A s)" using all_blank_kept [OF b, of d 0] k by simp
    moreover have "length (split_on CHR 0x0A s) > 1" if suf: "suffix newline s"
    proof -
      obtain p where "s = p @ [CHR 0x0A]" using suf by (auto simp: suffix_def newline_def)
      then show ?thesis by (simp add: split_on_snoc) (simp add: split_on_def)
    qed
    ultimately have "normalize_whitespace d s \<in> {[], newline @ newline}"
      using n(1) True by (auto simp: end_lines_def laid_out_def numeral_2_eq_2)
    moreover have "kept_lines d 0 (split_on CHR 0x0A []) = ([], 1)"
      "kept_lines d 0 (split_on CHR 0x0A (newline @ newline)) = ([], 3)"
      by (simp_all add: split_on_def newline_def)
    note normalized_as_laid_out(1) [OF this(1)] normalized_as_laid_out(1) [OF this(2)]
    ultimately show ?thesis using n(5) True
      by (auto simp: end_lines_def laid_out_def numeral_2_eq_2 newline_def suffix_def split_on_def)
  qed
qed

end
