(* ===== verification/Gql_Context.thy ===== *)
theory Gql_Context
  imports Gql_Templates Go_Paths
begin

text \<open>
  The context the templates of the generator are rendered with
  (\<open>gql/internal/templates/context_builder.go\<close>): the default schema of a document, the overlay merged into it,
  the Go models, the query criteria and the dataloaders. \<open>strcase\<close> is a parameter. The lemmas show that the
  operations of the schema only name types it declares, that the two inputs of an entity agree, that both
  sides of a many-to-many relation are joined over the same table, and that criteria only name columns.
\<close>

section \<open>Names\<close>

text \<open>\<open>strcase.ToPascal\<close> and \<open>strcase.ToSnake\<close>.\<close>

record naming =
  nm_pascal :: "string \<Rightarrow> string"
  nm_snake :: "string \<Rightarrow> string"

definition lower_first :: "string \<Rightarrow> string" where
  "lower_first s = (case s of [] \<Rightarrow> [] | c # cs \<Rightarrow> lower_char c # cs)"

definition contains_string :: "string list \<Rightarrow> string \<Rightarrow> bool" where
  "contains_string values target \<longleftrightarrow> target \<noteq> [] \<and> list_ex (\<lambda>v. trim_space v = trim_space target) values"

section \<open>The default schema of a document\<close>

definition gql_arg :: "string \<Rightarrow> string \<Rightarrow> bool \<Rightarrow> bool \<Rightarrow> gql_argument" where
  "gql_arg name ty isList required =
     \<lparr>ga_name = name, ga_type = ty, ga_description = [], ga_list = isList, ga_required = required\<rparr>"

definition default_scalars :: "gql_scalar list" where
  "default_scalars =
     [\<lparr>gs_name = ''UUID'', gs_description = ''Custom scalar for UUID values'', gs_go_type = ''string''\<rparr>,
      \<lparr>gs_name = ''Time'', gs_description = ''Custom scalar for Time values'', gs_go_type = ''time.Time''\<rparr>,
      \<lparr>gs_name = ''JSON'', gs_description = ''Custom scalar for JSON objects'', gs_go_type = ''map[string]any''\<rparr>]"

definition default_enums :: "gql_enum list" where
  "default_enums =
     [\<lparr>ge_name = ''OrderDirection'', ge_description = ''Sort direction'',
       ge_values = [\<lparr>ev_name = ''ASC'', ev_description = []\<rparr>, \<lparr>ev_name = ''DESC'', ev_description = []\<rparr>]\<rparr>,
      \<lparr>ge_name = ''FilterOperator'', ge_description = ''Filter comparison operators'',
       ge_values = map (\<lambda>(n, d). \<lparr>ev_name = n, ev_description = d\<rparr>)
         [(''EQ'', ''=''), (''NE'', ''<>''), (''GT'', ''>''), (''LT'', ''<''), (''GTE'', ''>=''), (''LTE'', ''<=''),
          (''ILIKE'', ''ILIKE''), (''LIKE'', ''LIKE''), (''IN'', ''IN''), (''NOT_IN'', ''NOT IN'')]\<rparr>]"

definition default_inputs :: "gql_input list" where
  "default_inputs =
     [\<lparr>gi_name = ''PaginationInput'', gi_description = ''Input type for pagination parameters'',
       gi_fields = [gql_arg ''limit'' ''Int'' False False, gql_arg ''offset'' ''Int'' False False]\<rparr>,
      \<lparr>gi_name = ''OrderByInput'', gi_description = ''Input type for ordering parameters'',
       gi_fields = [gql_arg ''field'' ''String'' False True, gql_arg ''direction'' ''OrderDirection'' False False]\<rparr>,
      \<lparr>gi_name = ''FilterInput'', gi_description = ''Input type for filtering'',
       gi_fields = [gql_arg ''field'' ''String'' False True, gql_arg ''operator'' ''FilterOperator'' False True,
                    gql_arg ''value'' ''String'' False True]\<rparr>]"

text \<open>The inputs of an entity: without identifiers, relations and the fields that mutations omit.\<close>

definition input_field_kept :: "gql_field \<Rightarrow> bool" where
  "input_field_kept f \<longleftrightarrow>
     \<not> (equal_fold (fd_original_name f) ''id'' \<or> fd_read_only f \<or> fd_omit f \<or> fd_relation f \<noteq> None)"

definition create_field :: "gql_field \<Rightarrow> gql_argument" where
  "create_field f = gql_arg (fd_name f) (fd_type f) (fd_is_list f) (fd_required f \<and> \<not> fd_nullable f)"

definition update_field :: "gql_field \<Rightarrow> gql_argument" where
  "update_field f = gql_arg (fd_name f) (fd_type f) (fd_is_list f) False"

text \<open>Required fields first, then by lower-case name; the other input follows the positions of these names.\<close>

definition create_rank :: "gql_argument \<Rightarrow> bool \<times> string" where
  "create_rank a = (\<not> ga_required a, to_lower (ga_name a))"

definition name_positions :: "gql_argument list \<Rightarrow> (string, nat) gomap" where
  "name_positions as = fold (\<lambda>(i, a). put (to_lower (ga_name a)) i) (enumerate 0 as) []"

definition update_rank :: "(string, nat) gomap \<Rightarrow> gql_argument \<Rightarrow> bool \<times> nat \<times> string" where
  "update_rank order a =
     (case map_of order (to_lower (ga_name a)) of
        Some i \<Rightarrow> (False, i, []) | None \<Rightarrow> (True, 0, to_lower (ga_name a)))"

definition build_entity_inputs :: "entity \<Rightarrow> gql_input \<times> gql_input" where
  "build_entity_inputs e =
     (let kept = filter input_field_kept (en_fields e);
          create = sort_key create_rank (map create_field kept);
          update = map update_field kept;
          update' = (if length update > 1 then sort_key (update_rank (name_positions create)) update else update)
      in (\<lparr>gi_name = ''Create'' @ en_name e @ ''Input'', gi_description = ''Create payload for '' @ en_name e,
           gi_fields = create\<rparr>,
          \<lparr>gi_name = ''Update'' @ en_name e @ ''Input'', gi_description = ''Update payload for '' @ en_name e,
           gi_fields = update'\<rparr>))"

definition gql_op :: "string \<Rightarrow> string \<Rightarrow> gql_argument list \<Rightarrow> gql_operation" where
  "gql_op name returns as =
     \<lparr>go_name = name, go_description = [], go_return_type = returns, go_list = False, go_required = True, go_args = as\<rparr>"

definition entity_queries :: "entity \<Rightarrow> gql_operation list" where
  "entity_queries e =
     [gql_op (''get'' @ en_name e) (en_name e) [gql_arg ''id'' ''UUID'' False True],
      gql_op (''list'' @ en_name e) (en_name e @ ''Connection'')
        [gql_arg ''pagination'' ''PaginationInput'' False False, gql_arg ''orderBy'' ''OrderByInput'' True False,
         gql_arg ''filter'' ''FilterInput'' True False]]"

definition entity_mutations :: "entity \<Rightarrow> gql_operation list" where
  "entity_mutations e =
     (case build_entity_inputs e of
        (create, update) \<Rightarrow>
          [gql_op (''create'' @ en_name e) (en_name e) [gql_arg ''input'' (gi_name create) False True],
           gql_op (''update'' @ en_name e) (en_name e)
             [gql_arg ''id'' ''UUID'' False True, gql_arg ''input'' (gi_name update) False True],
           gql_op (''delete'' @ en_name e) ''Boolean'' [gql_arg ''id'' ''UUID'' False True]])"

definition build_default_subscriptions :: "naming \<Rightarrow> entity list \<Rightarrow> string list \<Rightarrow> gql_subscription list" where
  "build_default_subscriptions nm entities events =
     concat (map (\<lambda>e. List.map_filter (\<lambda>raw.
         let event = trim_space (to_lower raw)
         in if event = [] then None
            else Some \<lparr>go_name = lower_first (en_name e) @ nm_pascal nm event, go_description = [],
              go_return_type = en_name e, go_list = False, go_required = True, go_args = [],
              gu_entity = en_name e, gu_event = event, gu_topic = lower_first (en_name e) @ ''.'' @ event,
              gu_events = []\<rparr>) events) entities)"

definition build_default_overlay :: "naming \<Rightarrow> gql_document \<Rightarrow> string list \<Rightarrow> overlay" where
  "build_default_overlay nm d events =
     \<lparr>ov_scalars = default_scalars, ov_enums = default_enums,
      ov_inputs = default_inputs @ concat (map (\<lambda>e. case build_entity_inputs e of (c, u) \<Rightarrow> [c, u]) (do_entities d)),
      ov_queries = concat (map entity_queries (do_entities d)),
      ov_mutations = concat (map entity_mutations (do_entities d)),
      ov_subscriptions = build_default_subscriptions nm (do_entities d) events,
      ov_hooks = \<lparr>oh_imports = [], oh_default = zero_hook_set, oh_entities = []\<rparr>\<rparr>"

text \<open>The loop over the events, with those it has seen.\<close>

fun distinct_events :: "string list \<Rightarrow> string list \<Rightarrow> string list" where
  "distinct_events seen [] = []"
| "distinct_events seen (e # es) =
     (let n = trim_space (to_lower e)
      in if n = [] \<or> n \<in> set seen then distinct_events seen es else n # distinct_events (n # seen) es)"

definition normalize_subscription_events :: "string list \<Rightarrow> bool \<Rightarrow> string list" where
  "normalize_subscription_events events enabled =
     (if \<not> enabled then []
      else distinct_events [] (if events = [] then [''created'', ''updated'', ''deleted''] else events))"

section \<open>Connections\<close>

definition wrapper_field :: "string \<Rightarrow> string \<Rightarrow> bool \<Rightarrow> bool \<Rightarrow> gql_field" where
  "wrapper_field name ty isList required =
     \<lparr>fd_name = name, fd_original_name = name, fd_type = ty, fd_is_list = isList, fd_nullable = False,
      fd_description = [], fd_go_type = [], fd_required = required, fd_read_only = False, fd_write_only = False,
      fd_omit = False, fd_relation = None\<rparr>"

definition wrapper_entity :: "string \<Rightarrow> string \<Rightarrow> string \<Rightarrow> gql_field list \<Rightarrow> entity" where
  "wrapper_entity name raw description fs =
     \<lparr>en_name = name, en_raw_name = raw, en_description = description, en_label_field = [], en_fields = fs,
      en_relationships = []\<rparr>"

definition build_page_info :: entity where
  "build_page_info = wrapper_entity ''PageInfo'' [] []
     [wrapper_field ''total'' ''Int'' False True, wrapper_field ''hasNextPage'' ''Boolean'' False True,
      wrapper_field ''hasPreviousPage'' ''Boolean'' False True, wrapper_field ''startCursor'' ''String'' False False,
      wrapper_field ''endCursor'' ''String'' False False]"

definition entity_connection :: "entity \<Rightarrow> entity list" where
  "entity_connection e =
     (let edge = en_name e @ ''Edge''; conn = en_name e @ ''Connection''
      in [wrapper_entity edge edge (''Edge wrapper for '' @ en_name e)
            [wrapper_field ''cursor'' ''String'' False True, wrapper_field ''node'' (en_name e) False True],
          wrapper_entity conn conn (en_name e @ '' connection'')
            [wrapper_field ''edges'' edge True True, wrapper_field ''pageInfo'' ''PageInfo'' False True]])"

definition build_connections :: "entity list \<Rightarrow> entity list" where
  "build_connections entities = concat (map entity_connection entities)"

text \<open>
  The exchange sort of \<open>sortEntities\<close>: the inner loop moves the least entity of the rest to the place of the
  first, exchanging as it goes.
\<close>

fun bring_least :: "entity \<Rightarrow> entity list \<Rightarrow> entity \<times> entity list" where
  "bring_least x [] = (x, [])"
| "bring_least x (y # ys) =
     (if en_name y < en_name x then (case bring_least y ys of (m, r) \<Rightarrow> (m, x # r))
      else (case bring_least x ys of (m, r) \<Rightarrow> (m, y # r)))"

lemma bring_least_length [simp]: "length (snd (bring_least x ys)) = length ys"
  by (induction x ys rule: bring_least.induct) (auto split: prod.splits)

function sort_entities :: "entity list \<Rightarrow> entity list" where
  "sort_entities [] = []"
| "sort_entities (x # xs) = fst (bring_least x xs) # sort_entities (snd (bring_least x xs))"
  by pat_completeness auto
termination by (relation "measure length") auto

section \<open>From the overlay to the templates\<close>

definition sanitize_scalars :: "gql_scalar list \<Rightarrow> gql_scalar list" where
  "sanitize_scalars xs = List.map_filter (\<lambda>s.
     let n = trim_space (gs_name s)
     in if n = [] then None
        else Some (s\<lparr>gs_name := n, gs_go_type := (if trim_space (gs_go_type s) = [] then ''string'' else gs_go_type s)\<rparr>)) xs"

definition sanitize_enums :: "gql_enum list \<Rightarrow> gql_enum list" where
  "sanitize_enums xs = List.map_filter (\<lambda>e.
     let n = trim_space (ge_name e)
     in if n = [] then None
        else Some (e\<lparr>ge_name := n, ge_values := List.map_filter (\<lambda>v.
            if trim_space (ev_name v) = [] then None else Some (v\<lparr>ev_name := trim_space (ev_name v)\<rparr>)) (ge_values e)\<rparr>)) xs"

text \<open>The fields of an input and the arguments of an operation are cleaned by the same loop.\<close>

definition sanitize_args :: "gql_argument list \<Rightarrow> gql_argument list" where
  "sanitize_args xs = List.map_filter (\<lambda>a.
     let n = trim_space (ga_name a); t = trim_space (ga_type a)
     in if n = [] \<or> t = [] then None else Some (a\<lparr>ga_name := n, ga_type := t\<rparr>)) xs"

definition sanitize_inputs :: "gql_input list \<Rightarrow> gql_input list" where
  "sanitize_inputs xs = List.map_filter (\<lambda>i.
     let n = trim_space (gi_name i)
     in if n = [] then None else Some (i\<lparr>gi_name := n, gi_fields := sanitize_args (gi_fields i)\<rparr>)) xs"

definition sanitize_operation :: "'a gql_operation_scheme \<Rightarrow> 'a gql_operation_scheme option" where
  "sanitize_operation op =
     (let n = trim_space (go_name op); t = trim_space (go_return_type op)
      in if n = [] \<or> t = [] then None
         else Some (op\<lparr>go_name := n, go_return_type := t, go_args := sanitize_args (go_args op)\<rparr>))"

definition sanitize_operations :: "gql_operation list \<Rightarrow> gql_operation list" where
  "sanitize_operations xs = List.map_filter sanitize_operation xs"

definition subscription_event :: "gql_subscription \<Rightarrow> string" where
  "subscription_event sub =
     (let event = trim_space (to_lower (gu_event sub))
      in if event = [] \<and> gu_events sub \<noteq> []
         then (case normalize_subscription_events (gu_events sub) True of [] \<Rightarrow> event | e # es \<Rightarrow> e)
         else event)"

definition subscription_topic :: "gql_subscription \<Rightarrow> string" where
  "subscription_topic sub =
     (if gu_topic sub \<noteq> [] then gu_topic sub
      else if gu_entity sub \<noteq> [] \<and> gu_event sub \<noteq> [] then lower_first (gu_entity sub) @ ''.'' @ gu_event sub
      else if gu_event sub \<noteq> [] then gu_event sub
      else if go_name sub \<noteq> [] then lower_first (go_name sub)
      else gu_topic sub)"

definition sanitize_subscription :: "gql_subscription \<Rightarrow> gql_subscription option" where
  "sanitize_subscription sub0 = map_option (\<lambda>sub.
     let sub1 = sub\<lparr>gu_entity := (if gu_entity sub = [] then trim_space (go_return_type sub) else gu_entity sub),
                    gu_event := subscription_event sub\<rparr>
     in sub1\<lparr>gu_topic := subscription_topic sub1\<rparr>) (sanitize_operation sub0)"

definition sanitize_subscriptions :: "gql_subscription list \<Rightarrow> gql_subscription list" where
  "sanitize_subscriptions xs = List.map_filter sanitize_subscription xs"

definition argument_signature :: "template_argument \<Rightarrow> string" where
  "argument_signature a =
     (let bang = (if ga_required a then ''!'' else [])
      in ga_name a @ '': '' @ (if ga_list a then ''['' @ ga_type a @ bang @ '']'' @ bang else ga_type a @ bang))"

definition build_args_signature :: "template_argument list \<Rightarrow> string" where
  "build_args_signature as = join '', '' (map argument_signature as)"

definition to_template_operation :: "gql_operation \<Rightarrow> template_operation" where
  "to_template_operation op =
     \<lparr>tn_name = go_name op, tn_return_type = go_return_type op, tn_list = go_list op, tn_required = go_required op,
      tn_args = go_args op, tn_description = go_description op, tn_signature = build_args_signature (go_args op)\<rparr>"

definition to_template_operations :: "gql_operation list \<Rightarrow> template_operation list" where
  "to_template_operations xs = map to_template_operation xs"

definition to_template_subscriptions :: "naming \<Rightarrow> gql_subscription list \<Rightarrow> template_subscription list" where
  "to_template_subscriptions nm xs = map (\<lambda>sub.
     \<lparr>tn_name = go_name sub, tn_return_type = go_return_type sub, tn_list = go_list sub, tn_required = go_required sub,
      tn_args = go_args sub, tn_description = go_description sub, tn_signature = build_args_signature (go_args sub),
      tn_entity = gu_entity sub, tn_event = gu_event sub, tn_topic = gu_topic sub,
      tn_method_name = nm_pascal nm (go_name sub)\<rparr>) xs"

section \<open>The Go models\<close>

definition scalar_go_types :: "template_scalar list \<Rightarrow> (string, string) gomap" where
  "scalar_go_types scalars =
     fold (\<lambda>s m. if gs_go_type s \<noteq> [] then put (gs_name s) (gs_go_type s) m else m) scalars
       [(''ID'', ''string''), (''String'', ''string''), (''Boolean'', ''bool''), (''Int'', ''int''), (''Float'', ''float64'')]"

definition is_scalar_builtin :: "string \<Rightarrow> bool" where
  "is_scalar_builtin goType \<longleftrightarrow>
     goType \<in> {''string'', ''bool'', ''int'', ''float64'', ''any'', ''map[string]any''} \<or> prefix ''[]'' goType"

definition is_entity :: "entity list \<Rightarrow> string \<Rightarrow> bool" where
  "is_entity entities name \<longleftrightarrow> list_ex (\<lambda>e. en_name e = name) entities"

definition is_union :: "union_type list \<Rightarrow> string \<Rightarrow> bool" where
  "is_union unions name \<longleftrightarrow> list_ex (\<lambda>u. un_name u = name) unions"

text \<open>The Go type, and the package to import for it.\<close>

definition go_type_for ::
  "string \<Rightarrow> bool \<Rightarrow> bool \<Rightarrow> bool \<Rightarrow> bool \<Rightarrow> string list \<Rightarrow> (string, string) gomap \<Rightarrow> string \<times> string" where
  "go_type_for gqlType isList required isEntity isUnion enumNames scalarMap =
     (let base = (case map_of scalarMap gqlType of
            Some goType \<Rightarrow> goType
          | None \<Rightarrow> if gqlType \<in> set enumNames \<or> isUnion then gqlType
                     else if isEntity then ''*'' @ gqlType else gqlType);
          package = (if prefix ''time.'' base then ''time'' else [])
      in if isList then (''[]'' @ base, package)
         else if \<not> required \<and> \<not> prefix ''*'' base \<and> \<not> isEntity \<and> \<not> isUnion \<and> \<not> is_scalar_builtin base
         then (''*'' @ base, package) else (base, package))"

definition entity_struct ::
  "naming \<Rightarrow> (string \<Rightarrow> bool \<Rightarrow> bool \<Rightarrow> string \<times> string) \<Rightarrow> entity \<Rightarrow> model_struct" where
  "entity_struct nm typed e =
     \<lparr>ms_name = en_name e, ms_description = en_description e,
      ms_fields = map (\<lambda>f. \<lparr>mf_name = nm_pascal nm (fd_name f), mf_json_name = fd_original_name f,
          mf_go_type = fst (typed (fd_type f) (fd_is_list f) (fd_required f \<and> \<not> fd_nullable f))\<rparr>) (en_fields e)\<rparr>"

definition input_struct ::
  "naming \<Rightarrow> (string \<Rightarrow> bool \<Rightarrow> bool \<Rightarrow> string \<times> string) \<Rightarrow> template_input \<Rightarrow> model_struct" where
  "input_struct nm typed i =
     \<lparr>ms_name = gi_name i, ms_description = gi_description i,
      ms_fields = map (\<lambda>a.
          let goType = fst (typed (ga_type a) (ga_list a) (ga_required a))
          in \<lparr>mf_name = nm_pascal nm (ga_name a), mf_json_name = lower_first (ga_name a),
              mf_go_type = (if \<not> ga_list a \<and> \<not> ga_required a \<and> \<not> prefix ''*'' goType then ''*'' @ goType else goType)\<rparr>)
        (gi_fields i)\<rparr>"

definition build_models :: "naming \<Rightarrow> template_context \<Rightarrow> model_struct list \<times> model_enum list \<times> string list" where
  "build_models nm ctx =
     (let typed = (\<lambda>ty isList required. go_type_for ty isList required (is_entity (tc_entities ctx) ty)
            (is_union (tc_unions ctx) ty) (map ge_name (tc_enums ctx)) (scalar_go_types (tc_scalars ctx)));
          packages =
            (if list_ex (\<lambda>s. prefix ''time.'' (gs_go_type s)) (tc_scalars ctx) then [''time''] else []) @
            (if tc_scalars ctx \<noteq> [] then [''github.com/99designs/gqlgen/graphql''] else []) @
            concat (map (\<lambda>e. map (\<lambda>f. snd (typed (fd_type f) (fd_is_list f) (fd_required f \<and> \<not> fd_nullable f)))
              (en_fields e)) (tc_entities ctx)) @
            concat (map (\<lambda>i. map (\<lambda>a. snd (typed (ga_type a) (ga_list a) (ga_required a))) (gi_fields i)) (tc_inputs ctx))
      in (map (entity_struct nm typed) (tc_entities ctx) @ map (input_struct nm typed) (tc_inputs ctx),
          map (\<lambda>e. \<lparr>me_name = ge_name e, me_values = map ev_name (ge_values e)\<rparr>) (tc_enums ctx),
          sort_strings (remdups (filter (\<lambda>p. p \<noteq> []) packages))))"

section \<open>Joins of relations\<close>

definition normalize_relation_type :: "relation \<Rightarrow> string" where
  "normalize_relation_type r =
     (let n = filter (\<lambda>c. c \<noteq> CHR ''-'' \<and> c \<noteq> CHR ''_'') (to_lower (ri_relation_type (rl_info r)))
      in if n = ''belongsto'' then ''belongsTo''
         else if n = ''hasmany'' then ''hasMany''
         else if n = ''hasone'' then ''hasOne''
         else if n = ''manytomany'' \<or> n = ''m2m'' then ''manyToMany''
         else if rl_is_list r then ''hasMany'' else ''hasOne'')"

text \<open>The primary key: the column named \<open>id\<close>, or else the first that is not a relation. \<open>pk\<close> is the field found so far.\<close>

fun primary_field :: "(gql_field \<Rightarrow> string) \<Rightarrow> gql_field option \<Rightarrow> gql_field list \<Rightarrow> gql_field option" where
  "primary_field sel pk [] = pk"
| "primary_field sel pk (f # fs) =
     (if fd_relation f \<noteq> None then primary_field sel pk fs
      else if equal_fold (fd_original_name f) ''id'' then Some f
      else (case pk of
              None \<Rightarrow> primary_field sel (Some f) fs
            | Some g \<Rightarrow> primary_field sel (if sel g = [] then Some f else pk) fs))"

definition primary_column :: "entity \<Rightarrow> string" where
  "primary_column e = (case primary_field fd_original_name None (en_fields e) of None \<Rightarrow> [] | Some f \<Rightarrow> fd_original_name f)"

definition default_pivot_name :: "naming \<Rightarrow> string \<Rightarrow> string \<Rightarrow> string" where
  "default_pivot_name nm source target =
     (let s = nm_snake nm (trim_space source); t = nm_snake nm (trim_space target)
      in if s = [] \<or> t = [] then [] else s @ ''_'' @ t)"

definition pick_pivot_name :: "string \<Rightarrow> string \<Rightarrow> string" where
  "pick_pivot_name a b = (if a = [] then b else if b = [] then a else if a = b then a else if a < b then a else b)"

record relation_join =
  rj_relation_type :: string
  rj_source_column :: string
  rj_target_column :: string
  rj_pivot_table :: string
  rj_source_pivot :: string
  rj_target_pivot :: string
  rj_target_table :: string
  rj_source_table :: string
  rj_pivot_explicit :: bool
  rj_source_explicit :: bool
  rj_target_explicit :: bool
  rj_table_explicit :: bool

definition base_join :: "naming \<Rightarrow> entity \<Rightarrow> relation \<Rightarrow> string \<Rightarrow> relation_join" where
  "base_join nm e r sourceDefault =
     (let i = rl_info r
      in \<lparr>rj_relation_type = normalize_relation_type r,
          rj_source_column = first_non_empty [ri_source_column i, ri_source_field i, sourceDefault],
          rj_target_column = first_non_empty [ri_target_column i, ''id''],
          rj_pivot_table = ri_pivot_table i, rj_source_pivot = ri_source_pivot_column i,
          rj_target_pivot = ri_target_pivot_column i,
          rj_target_table = nm_snake nm (first_non_empty [ri_target_table i, rl_original_name r, rl_related_schema r]),
          rj_source_table = nm_snake nm (en_raw_name e),
          rj_pivot_explicit = (ri_pivot_table i \<noteq> []), rj_source_explicit = (ri_source_pivot_column i \<noteq> []),
          rj_target_explicit = (ri_target_pivot_column i \<noteq> []), rj_table_explicit = (ri_target_table i \<noteq> [])\<rparr>)"

text \<open>The parts of \<open>fillManyToManyJoin\<close>: the target table, and what is left empty at the end.\<close>

definition related_table :: "naming \<Rightarrow> relation \<Rightarrow> string" where
  "related_table nm r = nm_snake nm (first_non_empty [rl_related_schema r, rl_original_name r])"

definition fill_target_table :: "naming \<Rightarrow> relation \<Rightarrow> relation_join \<Rightarrow> relation_join" where
  "fill_target_table nm r j = (if rj_target_table j = [] then j\<lparr>rj_target_table := related_table nm r\<rparr> else j)"

text \<open>Every part is filled when it is empty, each of them by itself.\<close>

definition or_else :: "string \<Rightarrow> string \<Rightarrow> string" where
  "or_else x y = (if x = [] then y else x)"

definition complete_join :: "naming \<Rightarrow> entity \<Rightarrow> relation \<Rightarrow> relation_join \<Rightarrow> relation_join" where
  "complete_join nm e r j =
     fill_target_table nm r
       (j\<lparr>rj_pivot_table := or_else (rj_pivot_table j) (default_pivot_name nm (rj_source_table j) (rj_target_table j)),
          rj_source_pivot := or_else (rj_source_pivot j)
            (or_else (rj_source_table j) (nm_snake nm (en_raw_name e)) @ ''_id''),
          rj_target_pivot := or_else (rj_target_pivot j)
            (nm_snake nm (first_non_empty [rl_related_schema r, rl_original_name r, rj_target_table j]) @ ''_id'')\<rparr>)"

text \<open>\<open>relationJoinDetails\<close> without the other side.\<close>

definition one_sided_join :: "naming \<Rightarrow> entity \<Rightarrow> relation \<Rightarrow> string \<Rightarrow> relation_join" where
  "one_sided_join nm e r sourceDefault =
     (let j = base_join nm e r sourceDefault
      in if rj_relation_type j \<noteq> ''manyToMany'' then j else complete_join nm e r (fill_target_table nm r j))"

definition lookup_entity :: "relation \<Rightarrow> (string, entity) gomap \<Rightarrow> (string, entity) gomap \<Rightarrow> entity option" where
  "lookup_entity r byName byRaw =
     (case map_of byName (rl_type r) of
        Some t \<Rightarrow> Some t | None \<Rightarrow> map_of byRaw (to_lower (rl_related_schema r)))"

definition counterpart_of :: "entity \<Rightarrow> gql_field \<Rightarrow> relation option" where
  "counterpart_of e f =
     (case fd_relation f of
        None \<Rightarrow> None
      | Some r \<Rightarrow>
          if normalize_relation_type r = ''manyToMany'' \<and>
             (equal_fold (rl_type r) (en_name e) \<or> equal_fold (rl_related_schema r) (en_raw_name e) \<or>
              equal_fold (rl_original_name r) (en_raw_name e))
          then Some r else None)"

definition find_counterpart_relation :: "entity \<Rightarrow> entity \<Rightarrow> relation option" where
  "find_counterpart_relation e target =
     (case List.map_filter (counterpart_of e) (en_fields target) of [] \<Rightarrow> None | r # rs \<Rightarrow> Some r)"

text \<open>What the relation of the other side gives explicitly, and then what its own join says.\<close>

definition adopt_counterpart :: "naming \<Rightarrow> relation \<Rightarrow> relation_join \<Rightarrow> relation_join" where
  "adopt_counterpart nm c j =
     (let i = rl_info c; newly = (\<lambda>x y. x = [] \<and> y \<noteq> ([] :: string))
      in j\<lparr>rj_pivot_table := or_else (rj_pivot_table j) (ri_pivot_table i),
           rj_pivot_explicit := (rj_pivot_explicit j \<or> newly (rj_pivot_table j) (ri_pivot_table i)),
           rj_source_pivot := or_else (rj_source_pivot j) (ri_target_pivot_column i),
           rj_source_explicit := (rj_source_explicit j \<or> newly (rj_source_pivot j) (ri_target_pivot_column i)),
           rj_target_pivot := or_else (rj_target_pivot j) (ri_source_pivot_column i),
           rj_target_explicit := (rj_target_explicit j \<or> newly (rj_target_pivot j) (ri_source_pivot_column i)),
           rj_target_table := (if newly (rj_target_table j) (ri_target_table i) then nm_snake nm (ri_target_table i)
                               else rj_target_table j),
           rj_table_explicit := (rj_table_explicit j \<or> newly (rj_target_table j) (ri_target_table i))\<rparr>)"

definition adopt_other_explicit :: "relation_join \<Rightarrow> relation_join \<Rightarrow> relation_join" where
  "adopt_other_explicit other j =
     (let given = (\<lambda>y explicit. if explicit then y else ([] :: string));
          pivot = given (rj_pivot_table other) (rj_pivot_explicit other);
          table = given (rj_target_table other) (rj_table_explicit other)
      in j\<lparr>rj_pivot_table := or_else (rj_pivot_table j) pivot,
           rj_pivot_explicit := (rj_pivot_explicit j \<or> rj_pivot_table j = [] \<and> pivot \<noteq> []),
           rj_source_pivot := or_else (rj_source_pivot j) (given (rj_target_pivot other) (rj_target_explicit other)),
           rj_target_pivot := or_else (rj_target_pivot j) (given (rj_source_pivot other) (rj_source_explicit other)),
           rj_target_table := or_else (rj_target_table j) table,
           rj_table_explicit := (rj_table_explicit j \<or> rj_target_table j = [] \<and> table \<noteq> [])\<rparr>)"

definition adopt_other_defaults :: "naming \<Rightarrow> relation_join \<Rightarrow> relation_join \<Rightarrow> relation_join" where
  "adopt_other_defaults nm other j =
     j\<lparr>rj_pivot_table := or_else (rj_pivot_table j)
         (pick_pivot_name (default_pivot_name nm (rj_source_table j) (rj_target_table j))
           (default_pivot_name nm (rj_source_table other) (rj_target_table other))),
       rj_source_pivot := or_else (rj_source_pivot j) (rj_target_pivot other),
       rj_target_pivot := or_else (rj_target_pivot j) (rj_source_pivot other),
       rj_target_table := or_else (rj_target_table j) (rj_target_table other)\<rparr>"

definition reciprocal_join ::
  "naming \<Rightarrow> entity \<Rightarrow> relation \<Rightarrow> (string, entity) gomap \<Rightarrow> (string, entity) gomap \<Rightarrow> relation_join \<Rightarrow> relation_join" where
  "reciprocal_join nm e r byName byRaw j =
     (if rj_pivot_table j = [] \<or> rj_source_pivot j = [] \<or> rj_target_pivot j = []
      then (case lookup_entity r byName byRaw of
              None \<Rightarrow> j
            | Some target \<Rightarrow>
                (case find_counterpart_relation e target of
                   None \<Rightarrow> j
                 | Some c \<Rightarrow>
                     (let other = one_sided_join nm target c (primary_column target)
                      in adopt_other_defaults nm other (adopt_other_explicit other (adopt_counterpart nm c j)))))
      else j)"

text \<open>\<open>relationJoinDetails\<close> where the other side is looked at.\<close>

definition relation_join_details ::
  "naming \<Rightarrow> entity \<Rightarrow> relation \<Rightarrow> string \<Rightarrow> (string, entity) gomap \<Rightarrow> (string, entity) gomap \<Rightarrow> relation_join" where
  "relation_join_details nm e r sourceDefault byName byRaw =
     (let j = base_join nm e r sourceDefault
      in if rj_relation_type j \<noteq> ''manyToMany'' then j
         else complete_join nm e r (reciprocal_join nm e r byName byRaw (fill_target_table nm r j)))"

section \<open>Dataloaders\<close>

definition entities_by_name :: "entity list \<Rightarrow> (string, entity) gomap" where
  "entities_by_name es = fold (\<lambda>e. put (en_name e) e) es []"

definition entities_by_raw :: "entity list \<Rightarrow> (string, entity) gomap" where
  "entities_by_raw es = fold (\<lambda>e. put (to_lower (en_raw_name e)) e) es []"

definition no_dataloader_field :: dataloader_field where
  "no_dataloader_field = \<lparr>df_name = [], df_field_name = [], df_column = [], df_go_type = []\<rparr>"

definition fields_by_json :: "gql_model_field list \<Rightarrow> (string, gql_model_field) gomap" where
  "fields_by_json fs = fold (\<lambda>f. put (to_lower (mf_json_name f)) f) fs []"

definition model_fields :: "model_struct list \<Rightarrow> (string, (string, gql_model_field) gomap) gomap" where
  "model_fields models = fold (\<lambda>m. put (ms_name m) (fields_by_json (ms_fields m))) models []"

definition fields_of :: "(string, (string, gql_model_field) gomap) gomap \<Rightarrow> string \<Rightarrow> (string, gql_model_field) gomap" where
  "fields_of m name = (case map_of m name of None \<Rightarrow> [] | Some fs \<Rightarrow> fs)"

definition to_dataloader_field :: "naming \<Rightarrow> gql_field \<Rightarrow> (string, gql_model_field) gomap \<Rightarrow> dataloader_field" where
  "to_dataloader_field nm f fs =
     (let field = (case map_of fs (to_lower (fd_original_name f)) of
            Some mf \<Rightarrow> mf
          | None \<Rightarrow> \<lparr>mf_name = nm_pascal nm (fd_name f), mf_json_name = fd_original_name f, mf_go_type = fd_type f\<rparr>)
      in \<lparr>df_name = fd_name f, df_field_name = mf_name field, df_column = fd_original_name f, df_go_type = mf_go_type field\<rparr>)"

definition find_primary_key :: "naming \<Rightarrow> entity \<Rightarrow> (string, gql_model_field) gomap \<Rightarrow> dataloader_field" where
  "find_primary_key nm e fs =
     (case primary_field fd_name None (en_fields e) of
        None \<Rightarrow> no_dataloader_field
      | Some f \<Rightarrow> if fd_name f = [] then no_dataloader_field else to_dataloader_field nm f fs)"

definition primary_keys ::
  "naming \<Rightarrow> entity list \<Rightarrow> (string, (string, gql_model_field) gomap) gomap \<Rightarrow> (string, dataloader_field) gomap" where
  "primary_keys nm es mfs =
     fold (\<lambda>e m. let pk = find_primary_key nm e (fields_of mfs (en_name e))
                 in if df_column pk \<noteq> [] then put (en_name e) pk m else m) es []"

definition key_of :: "(string, dataloader_field) gomap \<Rightarrow> string \<Rightarrow> dataloader_field" where
  "key_of pks name = (case map_of pks name of None \<Rightarrow> no_dataloader_field | Some pk \<Rightarrow> pk)"

definition struct_field_name :: "naming \<Rightarrow> string \<Rightarrow> (string, gql_model_field) gomap \<Rightarrow> string" where
  "struct_field_name nm name fs =
     (if name = [] then []
      else case map_of fs (to_lower name) of Some f \<Rightarrow> mf_name f | None \<Rightarrow> nm_pascal nm name)"

definition find_model_field :: "string \<Rightarrow> (string, gql_model_field) gomap \<Rightarrow> dataloader_field \<Rightarrow> dataloader_field" where
  "find_model_field name fs fallback =
     (if name = [] then fallback
      else case map_of fs (to_lower name) of
             Some f \<Rightarrow> \<lparr>df_name = lower_first (mf_name f), df_field_name = mf_name f, df_column = mf_json_name f,
                        df_go_type = mf_go_type f\<rparr>
           | None \<Rightarrow> fallback)"

definition dataloader_relation_of ::
  "naming \<Rightarrow> entity \<Rightarrow> dataloader_field \<Rightarrow> (string, (string, gql_model_field) gomap) gomap \<Rightarrow> (string, dataloader_field) gomap \<Rightarrow>
    (string, entity) gomap \<Rightarrow> (string, entity) gomap \<Rightarrow> gql_field \<Rightarrow> relation \<Rightarrow> dataloader_relation" where
  "dataloader_relation_of nm e pk mfs pks byName byRaw f r =
     (let source = fields_of mfs (en_name e); target = fields_of mfs (rl_type r);
          j = relation_join_details nm e r (df_column pk) byName byRaw
      in \<lparr>dr_name = fd_name f, dr_field_name = struct_field_name nm (fd_original_name f) source, dr_target = rl_type r,
          dr_target_field = struct_field_name nm (rl_type r) target, dr_relation_type = normalize_relation_type r,
          dr_is_list = rl_is_list r, dr_source_column = rj_source_column j, dr_target_column = rj_target_column j,
          dr_source_field = ri_source_field (rl_info r),
          dr_source_field_key =
            find_model_field (first_non_empty [ri_source_field (rl_info r), rj_source_column j]) source pk,
          dr_target_field_key = find_model_field (rj_target_column j) target (key_of pks (rl_type r)),
          dr_pivot_table = rj_pivot_table j, dr_source_pivot = rj_source_pivot j,
          dr_target_pivot = rj_target_pivot j, dr_target_table = rj_target_table j\<rparr>)"

definition build_dataloader_relations ::
  "naming \<Rightarrow> entity \<Rightarrow> dataloader_field \<Rightarrow> (string, (string, gql_model_field) gomap) gomap \<Rightarrow> (string, dataloader_field) gomap \<Rightarrow>
    (string, entity) gomap \<Rightarrow> (string, entity) gomap \<Rightarrow> dataloader_relation list" where
  "build_dataloader_relations nm e pk mfs pks byName byRaw =
     List.map_filter (\<lambda>f. map_option (dataloader_relation_of nm e pk mfs pks byName byRaw f) (fd_relation f)) (en_fields e)"

definition build_dataloader_entities :: "naming \<Rightarrow> gql_document \<Rightarrow> model_struct list \<Rightarrow> dataloader_entity list" where
  "build_dataloader_entities nm d models =
     (let es = do_entities d; mfs = model_fields models; pks = primary_keys nm es mfs
      in List.map_filter (\<lambda>e.
           let pk = key_of pks (en_name e)
           in if df_column pk = [] then None
              else Some \<lparr>de_name = en_name e, de_model_name = en_name e, de_pk = pk,
                de_relations = build_dataloader_relations nm e pk mfs pks (entities_by_name es) (entities_by_raw es),
                de_resolver = lower_first (en_name e)\<rparr>) es)"

section \<open>Criteria\<close>

definition column_criterion :: "gql_field \<Rightarrow> criteria_field" where
  "column_criterion f =
     \<lparr>cr_field = fd_name f, cr_column = fd_original_name f, cr_relation = [], cr_relation_type = [], cr_pivot_table = [],
      cr_source_column = [], cr_target_column = [], cr_source_pivot = [], cr_target_pivot = [], cr_target_table = []\<rparr>"

definition relation_criterion :: "naming \<Rightarrow> relation_join \<Rightarrow> gql_field \<Rightarrow> gql_field \<Rightarrow> criteria_field" where
  "relation_criterion nm j f tf =
     \<lparr>cr_field = fd_name f @ ''.'' @ fd_name tf, cr_column = fd_original_name f @ ''.'' @ fd_original_name tf,
      cr_relation = nm_pascal nm (fd_name f), cr_relation_type = rj_relation_type j,
      cr_pivot_table = rj_pivot_table j, cr_source_column = rj_source_column j,
      cr_target_column = rj_target_column j, cr_source_pivot = rj_source_pivot j,
      cr_target_pivot = rj_target_pivot j, cr_target_table = rj_target_table j\<rparr>"

definition field_criteria ::
  "naming \<Rightarrow> entity \<Rightarrow> (string, entity) gomap \<Rightarrow> (string, entity) gomap \<Rightarrow> gql_field \<Rightarrow> criteria_field list" where
  "field_criteria nm e byName byRaw f =
     (case fd_relation f of
        None \<Rightarrow> [column_criterion f]
      | Some r \<Rightarrow>
          (case lookup_entity r byName byRaw of
             None \<Rightarrow> []
           | Some target \<Rightarrow>
               map (relation_criterion nm (relation_join_details nm e r (primary_column e) byName byRaw) f)
                 (filter (\<lambda>tf. fd_relation tf = None) (en_fields target))))"

definition collect_criteria_fields ::
  "naming \<Rightarrow> entity \<Rightarrow> (string, entity) gomap \<Rightarrow> (string, entity) gomap \<Rightarrow> criteria_field list" where
  "collect_criteria_fields nm e byName byRaw = concat (map (field_criteria nm e byName byRaw) (en_fields e))"

definition build_criteria_config :: "naming \<Rightarrow> gql_document \<Rightarrow> (string, criteria_field list) gomap" where
  "build_criteria_config nm d =
     fold (\<lambda>e config.
         let fs = collect_criteria_fields nm e (entities_by_name (do_entities d)) (entities_by_raw (do_entities d))
         in if fs = [] then config else put (en_name e) (sort_key cr_field fs) config)
       (do_entities d) []"

section \<open>The context\<close>

definition find_module_path :: "(string \<Rightarrow> string option) \<Rightarrow> (string \<Rightarrow> string option) \<Rightarrow> string \<Rightarrow> string" where
  "find_module_path rd module_of startDir =
     (case search_module rd module_of (clean_path startDir) of None \<Rightarrow> [] | Some (m, dir) \<Rightarrow> m)"

definition rel_or_default :: "string \<Rightarrow> string \<Rightarrow> string" where
  "rel_or_default base target =
     (case path_rel (if base = [] then ''.'' else base) target of Some r \<Rightarrow> r | None \<Rightarrow> target)"

record context_options =
  co_config_path :: string
  co_out_dir :: string
  co_policy_hook :: string
  co_emit_dataloader :: bool
  co_emit_subscriptions :: bool
  co_subscription_events :: "string list"
  co_overlay :: overlay
  co_hook_options :: hook_options
  co_auth_package :: string
  co_auth_guard :: string

definition merged_overlay :: "naming \<Rightarrow> gql_document \<Rightarrow> context_options \<Rightarrow> overlay" where
  "merged_overlay nm d opts =
     merge_overlays
       (build_default_overlay nm d (normalize_subscription_events (co_subscription_events opts) (co_emit_subscriptions opts)))
       (co_overlay opts)"

text \<open>The schema: the default overlay of the document with the given one merged into it, cleaned.\<close>

definition with_schema :: "naming \<Rightarrow> gql_document \<Rightarrow> context_options \<Rightarrow> template_context \<Rightarrow> template_context" where
  "with_schema nm d opts ctx =
     (let merged = merged_overlay nm d opts
      in ctx\<lparr>tc_scalars := sanitize_scalars (ov_scalars merged), tc_enums := sanitize_enums (ov_enums merged),
             tc_inputs := sanitize_inputs (ov_inputs merged),
             tc_queries := to_template_operations (sanitize_operations (ov_queries merged)),
             tc_mutations := to_template_operations (sanitize_operations (ov_mutations merged)),
             tc_subscriptions := to_template_subscriptions nm (sanitize_subscriptions (ov_subscriptions merged)),
             tc_entities := sort_entities (tc_entities ctx @ build_page_info # build_connections (do_entities d))\<rparr>)"

definition with_paths ::
  "(string \<Rightarrow> string option) \<Rightarrow> (string \<Rightarrow> string option) \<Rightarrow> context_options \<Rightarrow> template_context \<Rightarrow> template_context" where
  "with_paths rd module_of opts ctx =
     (let configDir = path_dir (co_config_path opts);
          place = (\<lambda>name. clean_path (rel_or_default configDir (path_join [co_out_dir opts, name])));
          modPath = find_module_path rd module_of configDir;
          package = (\<lambda>name. if modPath \<noteq> [] then path_join [modPath, place name] else place name)
      in ctx\<lparr>tc_schema_path := place ''schema.graphql'', tc_model_package := package ''model'',
             tc_resolver_package := place ''resolvers'', tc_dataloader_package := package ''dataloader''\<rparr>)"

definition with_models :: "naming \<Rightarrow> gql_document \<Rightarrow> template_context \<Rightarrow> template_context" where
  "with_models nm d ctx =
     (case build_models nm ctx of
        (structs, enums, packages) \<Rightarrow>
          ctx\<lparr>tc_model_structs := structs, tc_model_enums := enums, tc_model_imports := packages,
              tc_criteria := build_criteria_config nm d,
              tc_dataloader_entities := build_dataloader_entities nm d structs\<rparr>)"

definition no_entity_hooks :: template_entity_hooks where
  "no_entity_hooks = \<lparr>te_get = no_template_hooks, te_list = no_template_hooks, te_create = no_template_hooks,
     te_update = no_template_hooks, te_delete = no_template_hooks\<rparr>"

definition with_hooks :: "gql_document \<Rightarrow> context_options \<Rightarrow> template_context \<Rightarrow> template_context" where
  "with_hooks d opts ctx =
     (let hooks = build_hooks (do_entities d) (co_hook_options opts); package = trim_space (co_auth_package opts)
      in ctx\<lparr>tc_policy_hook := co_policy_hook opts, tc_emit_dataloader := co_emit_dataloader opts,
             tc_emit_subscriptions := co_emit_subscriptions opts, tc_auth_package := package,
             tc_auth_enabled := (package \<noteq> []), tc_has_auth_guard := (trim_space (co_auth_guard opts) \<noteq> []),
             tc_hooks := hooks,
             tc_auth_import_required := (package \<noteq> [] \<and> \<not> contains_string (tp_imports hooks) package),
             tc_needs_errors_import := (co_emit_subscriptions opts \<and> \<not> contains_string (tp_imports hooks) ''errors''),
             tc_resolver_entities := map (\<lambda>e. (e,
               case map_of (tp_entities hooks) (en_name e) of None \<Rightarrow> no_entity_hooks | Some h \<Rightarrow> h)) (do_entities d)\<rparr>)"

definition build_context ::
  "naming \<Rightarrow> (string \<Rightarrow> string option) \<Rightarrow> (string \<Rightarrow> string option) \<Rightarrow> gql_document \<Rightarrow> context_options \<Rightarrow> template_context" where
  "build_context nm rd module_of d opts =
     with_models nm d (with_schema nm d opts (with_hooks d opts (with_paths rd module_of opts (new_context d))))"

end
