(* ===== verification/Gql_Context_Properties.thy ===== *)
theory Gql_Context_Properties
  imports Gql_Context
begin

text \<open>
  What the context of the templates guarantees: the schema it describes is closed, the inputs of an entity
  agree, both sides of a many-to-many relation are joined over the same table, and query criteria only name
  columns of the document.
\<close>

section \<open>Sorting the entities\<close>

lemma bring_least_mset: "bring_least x ys = (m, r) \<Longrightarrow> add_mset m (mset r) = add_mset x (mset ys)"
  by (induction x ys arbitrary: m r rule: bring_least.induct) (auto split: if_splits prod.splits)

lemma bring_least_least:
  "bring_least x ys = (m, r) \<Longrightarrow> en_name m \<le> en_name x \<and> (\<forall>y \<in> set r. en_name m \<le> en_name y)"
proof (induction x ys arbitrary: m r rule: bring_least.induct)
  case (2 x y ys)
  show ?case
  proof (cases "en_name y < en_name x")
    case True
    obtain m' r' where s: "bring_least y ys = (m', r')" by (cases "bring_least y ys")
    with True 2(3) have "m = m'" "r = x # r'" by simp_all
    with 2(1) [OF True s] True show ?thesis by auto
  next
    case False
    obtain m' r' where s: "bring_least x ys = (m', r')" by (cases "bring_least x ys")
    with False 2(3) have "m = m'" "r = y # r'" by simp_all
    with 2(2) [OF False s] False show ?thesis by auto
  qed
qed simp

lemma sort_entities_mset: "mset (sort_entities xs) = mset xs"
proof (induction xs rule: sort_entities.induct)
  case (2 x xs)
  then show ?case using bring_least_mset [of x xs] by (cases "bring_least x xs") simp
qed simp

text \<open>
  The exchange sort of the code sorts: its result has the same entities, by ascending
  names.
\<close>

theorem sort_entities_sorts:
  "mset (sort_entities xs) = mset xs \<and> sorted (map en_name (sort_entities xs))"
proof
  show "sorted (map en_name (sort_entities xs))"
  proof (induction xs rule: sort_entities.induct)
    case (2 x xs)
    obtain m r where b: "bring_least x xs = (m, r)" by (cases "bring_least x xs")
    have "set (sort_entities r) = set r" by (metis sort_entities_mset set_mset_mset)
    with 2 bring_least_least [OF b] b show ?case by simp
  qed simp
qed (rule sort_entities_mset)

lemma set_sort_entities [simp]: "set (sort_entities xs) = set xs"
  by (metis sort_entities_mset set_mset_mset)

section \<open>The inputs of an entity\<close>

lemma positions_other:
  "k \<notin> (\<lambda>a. to_lower (ga_name a)) ` set as \<Longrightarrow>
    map_of (fold (\<lambda>(i, a). put (to_lower (ga_name a)) i) (enumerate n as) m) k = map_of m k"
  by (induction as arbitrary: n m) auto

lemma positions_at:
  "distinct (map (to_lower \<circ> ga_name) as) \<Longrightarrow> i < length as \<Longrightarrow>
    map_of (fold (\<lambda>(i, a). put (to_lower (ga_name a)) i) (enumerate n as) m) (to_lower (ga_name (as ! i))) = Some (n + i)"
proof (induction as arbitrary: n m i)
  case (Cons a as)
  then show ?case by (cases i) (simp_all add: positions_other comp_def)
qed simp

lemma name_positions_lookup:
  "distinct (map (to_lower \<circ> ga_name) as) \<Longrightarrow> i < length as \<Longrightarrow>
    map_of (name_positions as) (to_lower (ga_name (as ! i))) = Some i"
  using positions_at [of as i 0 "[]"] by (simp add: name_positions_def)

text \<open>
  The two inputs of an entity agree: as long as the lower-case names of its fields differ,
  the update input has the fields of the create input, in the same order, with nothing required. And both
  consist of exactly the fields that are no identifier, no relation, not read-only and not omitted.
\<close>

theorem entity_inputs_agree:
  assumes "distinct (map (to_lower \<circ> fd_name) (filter input_field_kept (en_fields e)))"
  shows "gi_fields (snd (build_entity_inputs e)) =
      map (\<lambda>a. a\<lparr>ga_required := False\<rparr>) (gi_fields (fst (build_entity_inputs e))) \<and>
    mset (gi_fields (fst (build_entity_inputs e))) = mset (map create_field (filter input_field_kept (en_fields e)))"
proof -
  define kept where "kept = filter input_field_kept (en_fields e)"
  define create where "create = sort_key create_rank (map create_field kept)"
  define us where "us = map (\<lambda>a. a\<lparr>ga_required := False\<rparr>) create"
  let ?rank = "update_rank (name_positions create)"
  have names: "mset (map (to_lower \<circ> ga_name) create) = mset (map (to_lower \<circ> fd_name) kept)"
    by (simp add: create_def create_field_def gql_arg_def multiset.map_comp comp_def)
  then have d: "distinct (map (to_lower \<circ> ga_name) create)"
    using assms mset_eq_imp_distinct_iff unfolding kept_def by blast
  have us: "mset us = mset (map update_field kept)"
    by (simp add: us_def create_def create_field_def update_field_def [abs_def] gql_arg_def multiset.map_comp comp_def)
  have rank: "?rank (us ! i) = (False, i, [])" if "i < length us" for i
    using name_positions_lookup [OF d, of i] that by (simp add: us_def update_rank_def)
  have ranks: "map ?rank us = map (\<lambda>i. (False, i, [])) [0..<length us]"
    by (rule nth_equalityI) (simp_all add: rank)
  have "sorted (map ?rank us)" unfolding ranks by (simp add: sorted_map sorted_wrt_iff_nth_less less_eq_prod_def)
  moreover have dr: "distinct (map ?rank us)" unfolding ranks by (simp add: distinct_map inj_on_def)
  ultimately have "sort_key ?rank (map update_field kept) = us"
    using sort_key_permuted [OF us, of ?rank] by (simp add: distinct_map sorted_sort_id sort_key_id_if_sorted)
  moreover have "map update_field kept = us" if "\<not> length kept > 1"
  proof -
    have "length us = length kept" by (simp add: us_def create_def)
    with us that show ?thesis by (cases kept) auto
  qed
  ultimately show ?thesis
    by (simp add: build_entity_inputs_def Let_def kept_def [symmetric] create_def [symmetric] us_def)
      (simp add: create_def)
qed

section \<open>The schema is closed\<close>

definition builtin_types :: "string list" where
  "builtin_types = [''Int'', ''Float'', ''String'', ''Boolean'', ''ID'']"

definition declared_types :: "template_context \<Rightarrow> string list" where
  "declared_types ctx =
     builtin_types @ map gs_name (tc_scalars ctx) @ map ge_name (tc_enums ctx) @ map gi_name (tc_inputs ctx) @
     map en_name (tc_entities ctx) @ map un_name (tc_unions ctx)"

definition operation_closed :: "template_context \<Rightarrow> template_operation \<Rightarrow> bool" where
  "operation_closed ctx op \<longleftrightarrow>
     tn_return_type op \<in> set (declared_types ctx) \<and> list_all (\<lambda>a. ga_type a \<in> set (declared_types ctx)) (tn_args op)"

text \<open>A merge loses no name.\<close>

definition points :: "('a \<Rightarrow> string) \<Rightarrow> 'a list \<times> (string, nat) gomap \<Rightarrow> bool" where
  "points name = (\<lambda>(res, seen). \<forall>n i. map_of seen n = Some i \<longrightarrow> i < length res \<and> name (res ! i) = n)"

lemma points_note: "points name st \<Longrightarrow> points name (note_item name x st)"
  by (cases st) (auto simp: points_def note_item_def nth_append less_Suc_eq split: if_splits)

lemma points_merge:
  assumes "points name st"
  shows "points name (merge_item name x st) \<and> name ` set (fst st) \<subseteq> name ` set (fst (merge_item name x st))"
proof -
  obtain res seen where st: "st = (res, seen)" by (cases st)
  show ?thesis
  proof (cases "map_of seen (name x)")
    case None
    then show ?thesis using points_note [OF assms, of x] by (auto simp: st merge_item_def note_item_def)
  next
    case (Some i)
    with assms have i: "i < length res" "name (res ! i) = name x" by (auto simp: st points_def)
    have m: "map name (res[i := x]) = map name res" using i by (metis list_update_id map_update)
    then have "set (map name (res[i := x])) = set (map name res)" by simp
    moreover have "name (res[i := x] ! j) = name (res ! j)" if "j < length res" for j
      using m that by (metis length_list_update nth_map)
    ultimately show ?thesis using Some assms by (auto simp: st points_def merge_item_def)
  qed
qed

lemma merge_named_names: "name ` set base \<subseteq> name ` set (merge_named name base extra)"
proof -
  have kept: "points name (fold (note_item name) xs st)" if "points name st" for xs st
    using that by (induction xs arbitrary: st) (simp_all add: points_note)
  have base: "fst (fold (note_item name) xs st) = fst st @ xs" for xs st
    by (induction xs arbitrary: st) (auto simp: note_item_def split: prod.split)
  have "name ` set (fst st) \<subseteq> name ` set (fst (fold (merge_item name) xs st))" if "points name st" for xs st
    using that
  proof (induction xs arbitrary: st)
    case (Cons x xs)
    note step = points_merge [OF Cons.prems, of x]
    from order_trans [OF conjunct2 [OF step] Cons.IH [OF conjunct1 [OF step]]] show ?case by simp
  qed simp
  from this [OF kept, of "([], [])" base extra] show ?thesis by (simp add: merge_named_def base points_def)
qed

lemma map_filter_names:
  assumes "\<And>x. P (name x) \<Longrightarrow> \<exists>y. f x = Some y \<and> name y = name x"
  shows "n \<in> name ` set xs \<Longrightarrow> P n \<Longrightarrow> n \<in> name ` set (List.map_filter f xs)"
  using assms by (induction xs) (force simp: List.map_filter_simps split: option.split)+

lemma sanitized_scalar_name: "is_trimmed n \<Longrightarrow> n \<noteq> [] \<Longrightarrow> n \<in> gs_name ` set xs \<Longrightarrow> n \<in> gs_name ` set (sanitize_scalars xs)"
  unfolding sanitize_scalars_def by (erule map_filter_names [rotated, where P = "\<lambda>n. is_trimmed n \<and> n \<noteq> []"]) simp_all

lemma sanitized_enum_name: "is_trimmed n \<Longrightarrow> n \<noteq> [] \<Longrightarrow> n \<in> ge_name ` set xs \<Longrightarrow> n \<in> ge_name ` set (sanitize_enums xs)"
  unfolding sanitize_enums_def by (erule map_filter_names [rotated, where P = "\<lambda>n. is_trimmed n \<and> n \<noteq> []"]) simp_all

lemma sanitized_input_name: "is_trimmed n \<Longrightarrow> n \<noteq> [] \<Longrightarrow> n \<in> gi_name ` set xs \<Longrightarrow> n \<in> gi_name ` set (sanitize_inputs xs)"
  unfolding sanitize_inputs_def by (erule map_filter_names [rotated, where P = "\<lambda>n. is_trimmed n \<and> n \<noteq> []"]) simp_all

lemma trimmed_append: "is_trimmed a \<Longrightarrow> is_trimmed b \<Longrightarrow> a \<noteq> [] \<Longrightarrow> b \<noteq> [] \<Longrightarrow> is_trimmed (a @ b)"
  by (simp add: is_trimmed_def)

lemma trimmed_between: "\<not> is_space c \<Longrightarrow> \<not> is_space d \<Longrightarrow> is_trimmed (c # s @ [d])"
  by (simp add: is_trimmed_def)

text \<open>Operations whose names and types are trimmed pass the cleaning as they are.\<close>

definition neat_arg :: "gql_argument \<Rightarrow> bool" where
  "neat_arg a \<longleftrightarrow> is_trimmed (ga_name a) \<and> ga_name a \<noteq> [] \<and> is_trimmed (ga_type a) \<and> ga_type a \<noteq> []"

definition neat :: "gql_operation \<Rightarrow> bool" where
  "neat op \<longleftrightarrow> is_trimmed (go_name op) \<and> go_name op \<noteq> [] \<and> is_trimmed (go_return_type op) \<and> go_return_type op \<noteq> [] \<and>
     list_all neat_arg (go_args op)"

lemma sanitize_neat_args: "list_all neat_arg as \<Longrightarrow> sanitize_args as = as"
  by (induction as) (auto simp: sanitize_args_def List.map_filter_simps neat_arg_def)

lemma sanitize_neat: "list_all neat ops \<Longrightarrow> sanitize_operations ops = ops"
  by (induction ops)
    (auto simp: sanitize_operations_def List.map_filter_simps sanitize_operation_def neat_def sanitize_neat_args)

lemma prefixed_trimmed [simp]:
  "is_trimmed n \<Longrightarrow> n \<noteq> [] \<Longrightarrow> is_trimmed (''get'' @ n)" "is_trimmed n \<Longrightarrow> n \<noteq> [] \<Longrightarrow> is_trimmed (''list'' @ n)"
  "is_trimmed n \<Longrightarrow> n \<noteq> [] \<Longrightarrow> is_trimmed (''create'' @ n)" "is_trimmed n \<Longrightarrow> n \<noteq> [] \<Longrightarrow> is_trimmed (''update'' @ n)"
  "is_trimmed n \<Longrightarrow> n \<noteq> [] \<Longrightarrow> is_trimmed (''delete'' @ n)" "is_trimmed n \<Longrightarrow> n \<noteq> [] \<Longrightarrow> is_trimmed (n @ ''Connection'')"
  "is_trimmed (''Create'' @ n @ ''Input'')" "is_trimmed (''Update'' @ n @ ''Input'')"
  by (simp_all add: is_trimmed_def is_space_code)

lemma schema_names_trimmed [simp]:
  "is_trimmed ''id''" "is_trimmed ''UUID''" "is_trimmed ''pagination''" "is_trimmed ''PaginationInput''"
  "is_trimmed ''orderBy''" "is_trimmed ''OrderByInput''" "is_trimmed ''filter''" "is_trimmed ''FilterInput''"
  "is_trimmed ''input''" "is_trimmed ''Boolean''"
  by (simp_all add: is_trimmed_def is_space_code)

lemma neat_op: "neat (gql_op n t as) \<longleftrightarrow> is_trimmed n \<and> n \<noteq> [] \<and> is_trimmed t \<and> t \<noteq> [] \<and> list_all neat_arg as"
  by (simp add: neat_def gql_op_def)

lemma neat_gql_arg: "neat_arg (gql_arg n t l r) \<longleftrightarrow> is_trimmed n \<and> n \<noteq> [] \<and> is_trimmed t \<and> t \<noteq> []"
  by (simp add: neat_arg_def gql_arg_def)

lemma input_names:
  "gi_name (fst (build_entity_inputs e)) = ''Create'' @ en_name e @ ''Input''"
  "gi_name (snd (build_entity_inputs e)) = ''Update'' @ en_name e @ ''Input''"
  by (simp_all add: build_entity_inputs_def Let_def)

lemma entity_mutations_fst:
  "entity_mutations e =
     [gql_op (''create'' @ en_name e) (en_name e) [gql_arg ''input'' (''Create'' @ en_name e @ ''Input'') False True],
      gql_op (''update'' @ en_name e) (en_name e)
        [gql_arg ''id'' ''UUID'' False True, gql_arg ''input'' (''Update'' @ en_name e @ ''Input'') False True],
      gql_op (''delete'' @ en_name e) ''Boolean'' [gql_arg ''id'' ''UUID'' False True]]"
proof -
  obtain c u where b: "build_entity_inputs e = (c, u)" by (cases "build_entity_inputs e")
  have "gi_name c = ''Create'' @ en_name e @ ''Input''" "gi_name u = ''Update'' @ en_name e @ ''Input''"
    using input_names [of e] b by simp_all
  then show ?thesis unfolding entity_mutations_def b prod.case by (simp only: )
qed

lemma neat_entity:
  assumes "is_trimmed (en_name e)" "en_name e \<noteq> []"
  shows "list_all neat (entity_queries e @ entity_mutations e)"
  using assms prefixed_trimmed [of "en_name e"]
  unfolding entity_queries_def entity_mutations_fst list_all_append list.pred_inject neat_op neat_gql_arg
  by (simp only: schema_names_trimmed append_is_Nil_conv list.distinct simp_thms list.pred_inject(1))

text \<open>The parts of the context that \<open>with_schema\<close> sets.\<close>

lemma context_schema:
  "tc_scalars (build_context nm rd mo d opts) = sanitize_scalars (ov_scalars (merged_overlay nm d opts))"
  "tc_enums (build_context nm rd mo d opts) = sanitize_enums (ov_enums (merged_overlay nm d opts))"
  "tc_inputs (build_context nm rd mo d opts) = sanitize_inputs (ov_inputs (merged_overlay nm d opts))"
  "tc_queries (build_context nm rd mo d opts) = to_template_operations (sanitize_operations (ov_queries (merged_overlay nm d opts)))"
  "tc_mutations (build_context nm rd mo d opts) = to_template_operations (sanitize_operations (ov_mutations (merged_overlay nm d opts)))"
  "tc_entities (build_context nm rd mo d opts) =
     sort_entities (do_entities d @ build_page_info # build_connections (do_entities d))"
  "tc_criteria (build_context nm rd mo d opts) = build_criteria_config nm d"
  by (simp_all add: build_context_def with_models_def with_schema_def with_hooks_def with_paths_def new_context_def Let_def
      split: prod.split)

lemma merged_names:
  "gs_name ` set default_scalars \<subseteq> gs_name ` set (ov_scalars (merged_overlay nm d opts))"
  "ge_name ` set default_enums \<subseteq> ge_name ` set (ov_enums (merged_overlay nm d opts))"
  "gi_name ` (set default_inputs \<union> (\<Union>e \<in> set (do_entities d). {fst (build_entity_inputs e), snd (build_entity_inputs e)})) \<subseteq>
    gi_name ` set (ov_inputs (merged_overlay nm d opts))"
proof -
  show "gs_name ` set default_scalars \<subseteq> gs_name ` set (ov_scalars (merged_overlay nm d opts))"
    "ge_name ` set default_enums \<subseteq> ge_name ` set (ov_enums (merged_overlay nm d opts))"
    by (simp_all add: merged_overlay_def merge_overlays_def merge_scalars_def merge_enums_def build_default_overlay_def
        merge_named_names)
  have "gi_name ` set (default_inputs @ concat (map (\<lambda>e. case build_entity_inputs e of (c, u) \<Rightarrow> [c, u]) (do_entities d))) \<subseteq>
      gi_name ` set (ov_inputs (merged_overlay nm d opts))"
    by (simp only: merged_overlay_def merge_overlays_def merge_inputs_def build_default_overlay_def overlay.simps
        merge_named_names)
  then show "gi_name ` (set default_inputs \<union> (\<Union>e \<in> set (do_entities d). {fst (build_entity_inputs e), snd (build_entity_inputs e)})) \<subseteq>
    gi_name ` set (ov_inputs (merged_overlay nm d opts))"
    by (auto simp: split_beta)
qed

lemma default_types_declared:
  "{''UUID'', ''PaginationInput'', ''OrderByInput'', ''FilterInput'', ''Boolean''} \<subseteq>
    set (declared_types (build_context nm rd mo d opts))"
proof -
  have "''UUID'' \<in> gs_name ` set default_scalars" by (simp add: default_scalars_def)
  with merged_names(1) have "''UUID'' \<in> gs_name ` set (ov_scalars (merged_overlay nm d opts))" by blast
  then have "''UUID'' \<in> gs_name ` set (tc_scalars (build_context nm rd mo d opts))"
    unfolding context_schema by (rule sanitized_scalar_name [rotated 2]) simp_all
  moreover have "n \<in> gi_name ` set (tc_inputs (build_context nm rd mo d opts))"
    if "n \<in> {''PaginationInput'', ''OrderByInput'', ''FilterInput''}" for n
  proof -
    have "n \<in> gi_name ` set default_inputs" using that by (auto simp: default_inputs_def)
    with merged_names(3) have "n \<in> gi_name ` set (ov_inputs (merged_overlay nm d opts))" by blast
    then show ?thesis unfolding context_schema by (rule sanitized_input_name [rotated 2]) (use that in auto)
  qed
  ultimately show ?thesis by (auto simp: declared_types_def builtin_types_def)
qed

lemma entity_types_declared:
  assumes "e \<in> set (do_entities d)"
  shows "{en_name e, en_name e @ ''Connection'', ''Create'' @ en_name e @ ''Input'', ''Update'' @ en_name e @ ''Input''} \<subseteq>
    set (declared_types (build_context nm rd mo d opts))"
proof -
  have "en_name e @ ''Connection'' \<in> en_name ` set (entity_connection e)"
    by (simp add: entity_connection_def wrapper_entity_def Let_def)
  then have "{en_name e, en_name e @ ''Connection''} \<subseteq> en_name ` set (tc_entities (build_context nm rd mo d opts))"
    using assms unfolding context_schema set_sort_entities build_connections_def by auto
  moreover have "n \<in> gi_name ` set (tc_inputs (build_context nm rd mo d opts))"
    if n: "n \<in> {''Create'' @ en_name e @ ''Input'', ''Update'' @ en_name e @ ''Input''}" for n
  proof -
    have "n \<in> gi_name ` (\<Union>e \<in> set (do_entities d). {fst (build_entity_inputs e), snd (build_entity_inputs e)})"
      using assms n input_names [of e, symmetric] by blast
    with merged_names(3) have "n \<in> gi_name ` set (ov_inputs (merged_overlay nm d opts))" by blast
    moreover have "is_trimmed n" "n \<noteq> []" using n prefixed_trimmed(7,8) by auto
    ultimately show ?thesis unfolding context_schema by (simp add: sanitized_input_name)
  qed
  ultimately show ?thesis unfolding declared_types_def by auto
qed

lemma template_op: "to_template_operation (gql_op n t as) =
    \<lparr>tn_name = n, tn_return_type = t, tn_list = False, tn_required = True, tn_args = as, tn_description = [],
     tn_signature = build_args_signature as\<rparr>"
  by (simp add: to_template_operation_def gql_op_def)

text \<open>
  C31 (safety). The generated schema is closed: whatever an overlay adds, renames or redefines, as long as
  it adds no operations of its own, every query and mutation returns a type and takes arguments of types
  that the schema declares; and these are two queries and three mutations for each entity.
\<close>

theorem operations_name_declared_types:
  assumes "list_all (\<lambda>e. is_trimmed (en_name e) \<and> en_name e \<noteq> []) (do_entities d)"
    and "ov_queries (co_overlay opts) = []" "ov_mutations (co_overlay opts) = []"
  shows "list_all (operation_closed (build_context nm rd mo d opts))
      (tc_queries (build_context nm rd mo d opts) @ tc_mutations (build_context nm rd mo d opts)) \<and>
    tc_queries (build_context nm rd mo d opts) = map to_template_operation (concat (map entity_queries (do_entities d))) \<and>
    tc_mutations (build_context nm rd mo d opts) = map to_template_operation (concat (map entity_mutations (do_entities d)))"
proof -
  let ?ctx = "build_context nm rd mo d opts"
  have "list_all neat (concat (map entity_queries (do_entities d)))" "list_all neat (concat (map entity_mutations (do_entities d)))"
    using assms(1) neat_entity by (auto simp: list_all_iff)
  note sane = sanitize_neat [OF this(1)] sanitize_neat [OF this(2)]
  have ops: "tc_queries ?ctx = map to_template_operation (concat (map entity_queries (do_entities d)))"
    "tc_mutations ?ctx = map to_template_operation (concat (map entity_mutations (do_entities d)))"
    unfolding context_schema
    by (simp_all add: merged_overlay_def merge_overlays_def assms(2,3) build_default_overlay_def sane to_template_operations_def)
  have "list_all (operation_closed ?ctx) (map to_template_operation (entity_queries e @ entity_mutations e))"
    if "e \<in> set (do_entities d)" for e
    using entity_types_declared [OF that, of nm rd mo opts] default_types_declared [of nm rd mo d opts]
    by (simp add: entity_queries_def entity_mutations_fst template_op operation_closed_def gql_arg_def del: append.simps)
  with ops show ?thesis by (auto simp: list_all_iff)
qed

section \<open>Both sides of a many-to-many relation\<close>

text \<open>What each step makes of the three parts that the two sides have to agree on.\<close>

lemma fill_target_table_sel [simp]:
  "rj_pivot_table (fill_target_table nm r j) = rj_pivot_table j"
  "rj_source_pivot (fill_target_table nm r j) = rj_source_pivot j"
  "rj_target_pivot (fill_target_table nm r j) = rj_target_pivot j"
  "rj_source_table (fill_target_table nm r j) = rj_source_table j"
  "rj_target_table j \<noteq> [] \<Longrightarrow> rj_target_table (fill_target_table nm r j) = rj_target_table j"
  by (simp_all add: fill_target_table_def)

lemma or_else_simps [simp]: "or_else [] y = y" "x \<noteq> [] \<Longrightarrow> or_else x y = x"
  by (simp_all add: or_else_def)

lemma or_else_assoc: "or_else (or_else x y) z = or_else x (or_else y z)"
  by (simp add: or_else_def)

lemma adopt_counterpart_sel [simp]:
  "rj_pivot_table (adopt_counterpart nm c j) = or_else (rj_pivot_table j) (ri_pivot_table (rl_info c))"
  "rj_source_pivot (adopt_counterpart nm c j) = or_else (rj_source_pivot j) (ri_target_pivot_column (rl_info c))"
  "rj_target_pivot (adopt_counterpart nm c j) = or_else (rj_target_pivot j) (ri_source_pivot_column (rl_info c))"
  "rj_source_table (adopt_counterpart nm c j) = rj_source_table j"
  "rj_target_table j \<noteq> [] \<Longrightarrow> rj_target_table (adopt_counterpart nm c j) = rj_target_table j"
  by (simp_all add: adopt_counterpart_def Let_def)

lemma adopt_other_sel [simp]:
  "rj_source_pivot (adopt_other_defaults nm other (adopt_other_explicit other j)) = or_else (rj_source_pivot j) (rj_target_pivot other)"
  "rj_target_pivot (adopt_other_defaults nm other (adopt_other_explicit other j)) = or_else (rj_target_pivot j) (rj_source_pivot other)"
  by (simp_all add: adopt_other_defaults_def adopt_other_explicit_def Let_def or_else_def)

lemma adopt_other_pivot:
  assumes "rj_target_table j \<noteq> []"
  shows "rj_pivot_table (adopt_other_defaults nm other (adopt_other_explicit other j)) =
      or_else (rj_pivot_table j) (or_else (if rj_pivot_explicit other then rj_pivot_table other else [])
        (pick_pivot_name (default_pivot_name nm (rj_source_table j) (rj_target_table j))
          (default_pivot_name nm (rj_source_table other) (rj_target_table other))))"
    and "rj_source_table (adopt_other_defaults nm other (adopt_other_explicit other j)) = rj_source_table j"
    and "rj_target_table (adopt_other_defaults nm other (adopt_other_explicit other j)) = rj_target_table j"
  using assms by (simp_all add: adopt_other_defaults_def adopt_other_explicit_def Let_def or_else_assoc)

lemma complete_join_sel [simp]:
  "rj_pivot_table (complete_join nm e r j) =
     or_else (rj_pivot_table j) (default_pivot_name nm (rj_source_table j) (rj_target_table j))"
  "rj_source_pivot (complete_join nm e r j) =
     or_else (rj_source_pivot j) (or_else (rj_source_table j) (nm_snake nm (en_raw_name e)) @ ''_id'')"
  "rj_source_table (complete_join nm e r j) = rj_source_table j"
  "rj_target_table j \<noteq> [] \<Longrightarrow> rj_target_table (complete_join nm e r j) = rj_target_table j"
  "rj_pivot_explicit (complete_join nm e r j) = rj_pivot_explicit j"
  by (simp_all add: complete_join_def fill_target_table_def)

lemma complete_join_target:
  "trim_space (rl_related_schema r) \<noteq> [] \<Longrightarrow> rj_target_pivot (complete_join nm e r j) =
     or_else (rj_target_pivot j) (nm_snake nm (rl_related_schema r) @ ''_id'')"
  by (simp add: complete_join_def)

lemma base_join_sel [simp]:
  "rj_relation_type (base_join nm e r s) = normalize_relation_type r"
  "rj_pivot_table (base_join nm e r s) = ri_pivot_table (rl_info r)"
  "rj_source_pivot (base_join nm e r s) = ri_source_pivot_column (rl_info r)"
  "rj_target_pivot (base_join nm e r s) = ri_target_pivot_column (rl_info r)"
  "rj_source_table (base_join nm e r s) = nm_snake nm (en_raw_name e)"
  "rj_pivot_explicit (base_join nm e r s) \<longleftrightarrow> ri_pivot_table (rl_info r) \<noteq> []"
  by (simp_all add: base_join_def Let_def)

definition target_table_of :: "naming \<Rightarrow> relation \<Rightarrow> string" where
  "target_table_of nm r = nm_snake nm (first_non_empty [ri_target_table (rl_info r), rl_original_name r, rl_related_schema r])"

lemma base_join_table [simp]: "rj_target_table (base_join nm e r s) = target_table_of nm r"
  by (simp add: base_join_def target_table_of_def Let_def)

lemma counterpart_many: "find_counterpart_relation e t = Some r \<Longrightarrow> normalize_relation_type r = ''manyToMany''"
proof -
  assume "find_counterpart_relation e t = Some r"
  then have "r \<in> set (List.map_filter (counterpart_of e) (en_fields t))"
    by (auto simp: find_counterpart_relation_def split: list.splits)
  then show ?thesis by (auto simp: List.map_filter_def counterpart_of_def split: option.splits if_splits)
qed

lemma fill_explicit [simp]: "rj_pivot_explicit (fill_target_table nm r j) = rj_pivot_explicit j"
  by (simp add: fill_target_table_def)

text \<open>The three parts of the join of a relation with its counterpart, in terms of what the two sides give.\<close>

lemma many_to_many_join:
  assumes "lookup_entity r byName byRaw = Some b" "find_counterpart_relation a b = Some c"
    and "normalize_relation_type r = ''manyToMany''"
    and "rl_related_schema r = en_raw_name b" "rl_related_schema c = en_raw_name a"
    and "trim_space (en_raw_name a) \<noteq> []" "trim_space (en_raw_name b) \<noteq> []"
    and "target_table_of nm r \<noteq> []" "target_table_of nm c \<noteq> []"
  shows "rj_source_pivot (relation_join_details nm a r s byName byRaw) =
      first_snippet [ri_source_pivot_column (rl_info r), ri_target_pivot_column (rl_info c), nm_snake nm (en_raw_name a) @ ''_id'']"
    and "rj_target_pivot (relation_join_details nm a r s byName byRaw) =
      first_snippet [ri_target_pivot_column (rl_info r), ri_source_pivot_column (rl_info c), nm_snake nm (en_raw_name b) @ ''_id'']"
    and "rj_pivot_table (relation_join_details nm a r s byName byRaw) =
      first_snippet [ri_pivot_table (rl_info r), ri_pivot_table (rl_info c),
        pick_pivot_name (default_pivot_name nm (nm_snake nm (en_raw_name a)) (target_table_of nm r))
          (default_pivot_name nm (nm_snake nm (en_raw_name b)) (target_table_of nm c))]"
proof -
  define j where "j = fill_target_table nm r (base_join nm a r s)"
  define other where "other = one_sided_join nm b c (primary_column b)"
  have d: "relation_join_details nm a r s byName byRaw = complete_join nm a r (reciprocal_join nm a r byName byRaw j)"
    using assms(3) by (simp add: relation_join_details_def j_def)
  have j: "rj_target_table j = target_table_of nm r" "rj_source_table j = nm_snake nm (en_raw_name a)"
    "rj_pivot_table j = ri_pivot_table (rl_info r)" "rj_source_pivot j = ri_source_pivot_column (rl_info r)"
    "rj_target_pivot j = ri_target_pivot_column (rl_info r)"
    using assms(8) by (simp_all add: j_def)
  have o': "other = complete_join nm b c (fill_target_table nm c (base_join nm b c (primary_column b)))"
    using counterpart_many [OF assms(2)] by (simp add: other_def one_sided_join_def)
  have other: "rj_source_table other = nm_snake nm (en_raw_name b)" "rj_target_table other = target_table_of nm c"
    "rj_source_pivot other = first_snippet [ri_source_pivot_column (rl_info c), nm_snake nm (en_raw_name b) @ ''_id'']"
    "rj_target_pivot other = first_snippet [ri_target_pivot_column (rl_info c), nm_snake nm (en_raw_name a) @ ''_id'']"
    "rj_pivot_explicit other \<longleftrightarrow> ri_pivot_table (rl_info c) \<noteq> []"
    using assms(5,6,9) unfolding o' by (simp_all add: complete_join_target or_else_def)
  have r: "reciprocal_join nm a r byName byRaw j =
      (if rj_pivot_table j = [] \<or> rj_source_pivot j = [] \<or> rj_target_pivot j = []
       then adopt_other_defaults nm other (adopt_other_explicit other (adopt_counterpart nm c j)) else j)"
    by (simp add: reciprocal_join_def assms(1,2) Let_def other_def)
  have t: "rj_target_table (adopt_counterpart nm c j) = target_table_of nm r" "target_table_of nm r \<noteq> []"
    using j(1) assms(8) by simp_all
  then have "rj_target_table (adopt_counterpart nm c j) \<noteq> []" by simp
  note p = adopt_other_pivot [OF this, of nm other]
  show "rj_source_pivot (relation_join_details nm a r s byName byRaw) =
      first_snippet [ri_source_pivot_column (rl_info r), ri_target_pivot_column (rl_info c), nm_snake nm (en_raw_name a) @ ''_id'']"
    unfolding d r by (simp add: j other or_else_def)
  show "rj_target_pivot (relation_join_details nm a r s byName byRaw) =
      first_snippet [ri_target_pivot_column (rl_info r), ri_source_pivot_column (rl_info c), nm_snake nm (en_raw_name b) @ ''_id'']"
    unfolding d r using assms(4,7) by (simp add: j other complete_join_target or_else_def)
  show "rj_pivot_table (relation_join_details nm a r s byName byRaw) =
      first_snippet [ri_pivot_table (rl_info r), ri_pivot_table (rl_info c),
        pick_pivot_name (default_pivot_name nm (nm_snake nm (en_raw_name a)) (target_table_of nm r))
          (default_pivot_name nm (nm_snake nm (en_raw_name b)) (target_table_of nm c))]"
    unfolding d r by (simp add: j other p t pick_pivot_name_def or_else_def)
qed

lemma pick_pivot_commutes: "pick_pivot_name a b = pick_pivot_name b a"
  by (auto simp: pick_pivot_name_def)

text \<open>The names a side gives explicitly do not contradict those of the other.\<close>

definition may_agree :: "string \<Rightarrow> string \<Rightarrow> bool" where
  "may_agree x y \<longleftrightarrow> x = [] \<or> y = [] \<or> x = y"

definition pivots_compatible :: "relationship_info \<Rightarrow> relationship_info \<Rightarrow> bool" where
  "pivots_compatible i k \<longleftrightarrow>
     may_agree (ri_pivot_table i) (ri_pivot_table k) \<and>
     may_agree (ri_source_pivot_column i) (ri_target_pivot_column k) \<and>
     may_agree (ri_target_pivot_column i) (ri_source_pivot_column k)"

text \<open>Two relations between two entities that are each other's counterparts.\<close>

definition mutual_relations ::
  "naming \<Rightarrow> (string, entity) gomap \<Rightarrow> (string, entity) gomap \<Rightarrow> entity \<Rightarrow> relation \<Rightarrow> entity \<Rightarrow> relation \<Rightarrow> bool" where
  "mutual_relations nm byName byRaw a r b c \<longleftrightarrow>
     lookup_entity r byName byRaw = Some b \<and> find_counterpart_relation a b = Some c \<and>
     lookup_entity c byName byRaw = Some a \<and> find_counterpart_relation b a = Some r \<and>
     rl_related_schema r = en_raw_name b \<and> rl_related_schema c = en_raw_name a \<and>
     trim_space (en_raw_name a) \<noteq> [] \<and> trim_space (en_raw_name b) \<noteq> [] \<and>
     target_table_of nm r \<noteq> [] \<and> target_table_of nm c \<noteq> []"

text \<open>
  C32 (equivalence). Both sides of a many-to-many relation are joined over the same table: when the two
  relations are each other's counterparts, whatever part of the join each of them gives or leaves to be
  derived, as long as what they give does not contradict, they arrive at one pivot table, and the column
  that is the source of the one side is the target of the other.
\<close>

theorem many_to_many_sides_agree:
  assumes "mutual_relations nm byName byRaw a r b c" "pivots_compatible (rl_info r) (rl_info c)"
  shows "rj_pivot_table (relation_join_details nm a r s byName byRaw) = rj_pivot_table (relation_join_details nm b c t byName byRaw) \<and>
    rj_source_pivot (relation_join_details nm a r s byName byRaw) = rj_target_pivot (relation_join_details nm b c t byName byRaw) \<and>
    rj_target_pivot (relation_join_details nm a r s byName byRaw) = rj_source_pivot (relation_join_details nm b c t byName byRaw)"
proof -
  note m = assms(1) [unfolded mutual_relations_def]
  have many: "normalize_relation_type r = ''manyToMany''" "normalize_relation_type c = ''manyToMany''"
    using m counterpart_many by blast+
  note one = many_to_many_join [of r byName byRaw b a c nm s] many_to_many_join [of c byName byRaw a b r nm t]
  show ?thesis
    using assms(2) pick_pivot_commutes m many
    by (auto simp: one pivots_compatible_def may_agree_def)
qed

definition related_entity :: "string \<Rightarrow> string \<Rightarrow> relationship_info \<Rightarrow> string \<Rightarrow> entity" where
  "related_entity name raw i other =
     wrapper_entity name raw []
       [wrapper_field ''id'' ''UUID'' False True,
        (wrapper_field ''links'' ''Link'' True False)\<lparr>fd_relation := Some
          \<lparr>rl_name = ''links'', rl_original_name = ''links'', rl_key = ''links'', rl_alias_for = [], rl_type = other,
           rl_cardinality = ''many'', rl_info = i, rl_related_schema = other, rl_is_list = True, rl_nullable = False\<rparr>\<rparr>]"

definition plain_info :: relationship_info where
  "plain_info = \<lparr>ri_related_schema = [], ri_related_type_name = [], ri_cardinality = [], ri_is_slice = True,
     ri_source_field = [], ri_source_column = [], ri_target_column = [], ri_foreign_key = [], ri_inverse = [],
     ri_relation_type = ''m2m'', ri_pivot_table = [], ri_source_pivot_column = [], ri_target_pivot_column = [],
     ri_target_table = []\<rparr>"

theorem many_to_many_sides_agree_witness:
  "\<exists>r c nm es. let a = related_entity ''post'' ''post'' (plain_info\<lparr>ri_pivot_table := ''post_tags''\<rparr>) ''tag'';
                  b = related_entity ''tag'' ''tag'' plain_info ''post''
    in fd_relation (en_fields a ! 1) = Some r \<and> fd_relation (en_fields b ! 1) = Some c \<and>
       rj_pivot_table (relation_join_details nm b c [] es es) = rj_pivot_table (relation_join_details nm a r [] es es)"
proof -
  let ?a = "related_entity ''post'' ''post'' (plain_info\<lparr>ri_pivot_table := ''post_tags''\<rparr>) ''tag''"
  let ?b = "related_entity ''tag'' ''tag'' plain_info ''post''"
  let ?nm = "\<lparr>nm_pascal = \<lambda>s. s, nm_snake = \<lambda>s. s\<rparr>"
  let ?es = "[(''post'', ?a), (''tag'', ?b)]"
  obtain r c where rc: "fd_relation (en_fields ?a ! 1) = Some r" "fd_relation (en_fields ?b ! 1) = Some c"
    by (simp add: related_entity_def wrapper_entity_def)
  then have rc': "r = the (fd_relation (en_fields ?a ! 1))" "c = the (fd_relation (en_fields ?b ! 1))" by simp_all
  have "mutual_relations ?nm ?es ?es ?a r ?b c" "pivots_compatible (rl_info r) (rl_info c)"
    unfolding rc' by code_simp+
  from many_to_many_sides_agree [OF this, of "[]" "[]"] rc show ?thesis unfolding Let_def by metis
qed

section \<open>Criteria name columns\<close>

lemma by_key_member:
  "map_of (fold (\<lambda>e. put (key e) e) es m) k = Some t \<Longrightarrow> t \<in> set es \<or> map_of m k = Some t"
  by (induction es arbitrary: m) (fastforce split: if_splits)+

lemma lookup_entity_member:
  "lookup_entity r (entities_by_name es) (entities_by_raw es) = Some t \<Longrightarrow> t \<in> set es"
  using by_key_member [of en_name es "[]"] by_key_member [of "\<lambda>e. to_lower (en_raw_name e)" es "[]"]
  by (auto simp: lookup_entity_def entities_by_name_def entities_by_raw_def split: option.splits)

text \<open>A criterion on a column of the entity, and one on a column of an entity its relation leads to.\<close>

definition own_criterion :: "entity \<Rightarrow> criteria_field \<Rightarrow> bool" where
  "own_criterion e c \<longleftrightarrow> list_ex (\<lambda>f. fd_relation f = None \<and> c = column_criterion f) (en_fields e)"

definition related_criterion :: "gql_document \<Rightarrow> entity \<Rightarrow> criteria_field \<Rightarrow> bool" where
  "related_criterion d e c \<longleftrightarrow>
     list_ex (\<lambda>f. fd_relation f \<noteq> None \<and>
       list_ex (\<lambda>t. list_ex (\<lambda>tf. fd_relation tf = None \<and> cr_field c = fd_name f @ ''.'' @ fd_name tf \<and>
           cr_column c = fd_original_name f @ ''.'' @ fd_original_name tf) (en_fields t)) (do_entities d)) (en_fields e)"

lemma field_criteria_named:
  assumes "f \<in> set (en_fields e)"
    and "c \<in> set (field_criteria nm e (entities_by_name (do_entities d)) (entities_by_raw (do_entities d)) f)"
  shows "own_criterion e c \<or> related_criterion d e c"
proof (cases "fd_relation f")
  case None
  with assms show ?thesis by (auto simp: field_criteria_def own_criterion_def list_ex_iff)
next
  case (Some r)
  with assms(2) obtain t where l: "lookup_entity r (entities_by_name (do_entities d)) (entities_by_raw (do_entities d)) = Some t"
    by (cases "lookup_entity r (entities_by_name (do_entities d)) (entities_by_raw (do_entities d))")
      (simp_all add: field_criteria_def)
  with assms(2) Some obtain tf where t: "tf \<in> set (en_fields t)" "fd_relation tf = None"
    and c: "cr_field c = fd_name f @ ''.'' @ fd_name tf" "cr_column c = fd_original_name f @ ''.'' @ fd_original_name tf"
    by (auto simp: field_criteria_def relation_criterion_def)
  with assms(1) Some lookup_entity_member [OF l] c show ?thesis
    unfolding related_criterion_def list_ex_iff by blast
qed

text \<open>
  The criteria of the resolvers only name columns: whatever the document, every criterion a
  client can use on an entity is the name and column of a field of that entity, or of a field of an entity
  of the document that one of its relations leads to.
\<close>

theorem criteria_name_columns:
  "list_all (\<lambda>(name, cs). list_ex (\<lambda>e. en_name e = name \<and> list_all (\<lambda>c. own_criterion e c \<or> related_criterion d e c) cs)
      (do_entities d)) (build_criteria_config nm d)"
proof -
  let ?ok = "\<lambda>(name, cs). list_ex (\<lambda>e. en_name e = name \<and> list_all (\<lambda>c. own_criterion e c \<or> related_criterion d e c) cs) (do_entities d)"
  have "list_all ?ok (fold (\<lambda>e config.
      let cs = collect_criteria_fields nm e (entities_by_name (do_entities d)) (entities_by_raw (do_entities d))
      in if cs = [] then config else put (en_name e) (sort_key cr_field cs) config) es config)"
    if "list_all ?ok config" "set es \<subseteq> set (do_entities d)" for es config
    using that
  proof (induction es arbitrary: config)
    case (Cons e es)
    let ?cs = "collect_criteria_fields nm e (entities_by_name (do_entities d)) (entities_by_raw (do_entities d))"
    have "list_all (\<lambda>c. own_criterion e c \<or> related_criterion d e c) (sort_key cr_field ?cs)"
      using field_criteria_named by (fastforce simp: list_all_iff collect_criteria_fields_def)
    with Cons.prems have "?ok (en_name e, sort_key cr_field ?cs)" by (auto simp: list_ex_iff)
    moreover have "list_all ?ok (put k v m)" if "?ok (k, v)" "list_all ?ok m" for k v m
      using that by (induction m) (auto simp: put_def)
    ultimately show ?case using Cons by (simp add: Let_def)
  qed simp
  then show ?thesis by (simp add: build_criteria_config_def)
qed

section \<open>A sample\<close>

definition sample_field :: "string \<Rightarrow> bool \<Rightarrow> gql_field" where
  "sample_field name required = wrapper_field name ''String'' False required"

definition sample_entity :: entity where
  "sample_entity = wrapper_entity ''Post'' ''post'' [] [sample_field ''title'' False, sample_field ''body'' True]"

theorem entity_inputs_agree_witness:
  "map ga_name (gi_fields (fst (build_entity_inputs sample_entity))) = [''body'', ''title''] \<and>
   map ga_name (gi_fields (snd (build_entity_inputs sample_entity))) = [''body'', ''title'']"
proof -
  have "distinct (map (to_lower \<circ> fd_name) (filter input_field_kept (en_fields sample_entity)))" by code_simp
  note entity_inputs_agree [OF this]
  moreover have "map ga_name (gi_fields (fst (build_entity_inputs sample_entity))) = [''body'', ''title'']" by code_simp
  ultimately show ?thesis by (simp add: comp_def)
qed

definition no_overlay :: overlay where
  "no_overlay = \<lparr>ov_scalars = [], ov_enums = [], ov_inputs = [], ov_queries = [], ov_mutations = [], ov_subscriptions = [],
     ov_hooks = \<lparr>oh_imports = [], oh_default = zero_hook_set, oh_entities = []\<rparr>\<rparr>"

definition sample_options :: context_options where
  "sample_options = \<lparr>co_config_path = ''gqlgen.yml'', co_out_dir = ''graph'', co_policy_hook = [], co_emit_dataloader = False,
     co_emit_subscriptions = False, co_subscription_events = [], co_overlay = no_overlay,
     co_hook_options = \<lparr>ho_overlay = ov_hooks no_overlay, ho_auth_package = [], ho_auth_guard = [], ho_auth_fail = []\<rparr>,
     co_auth_package = [], co_auth_guard = []\<rparr>"

theorem operations_name_declared_types_witness:
  "let ctx = build_context \<lparr>nm_pascal = \<lambda>s. s, nm_snake = \<lambda>s. s\<rparr> (\<lambda>p. None) (\<lambda>s. None)
               \<lparr>do_entities = [sample_entity], do_unions = []\<rparr> sample_options
   in list_all (operation_closed ctx) (tc_queries ctx @ tc_mutations ctx) \<and> length (tc_mutations ctx) = 3"
proof -
  let ?d = "\<lparr>do_entities = [sample_entity], do_unions = []\<rparr>"
  let ?nm = "\<lparr>nm_pascal = \<lambda>s :: string. s, nm_snake = \<lambda>s :: string. s\<rparr>"
  have "list_all (\<lambda>e. is_trimmed (en_name e) \<and> en_name e \<noteq> []) (do_entities ?d)" by code_simp
  moreover have "ov_queries (co_overlay sample_options) = []" "ov_mutations (co_overlay sample_options) = []"
    by (simp_all add: sample_options_def no_overlay_def)
  ultimately have "list_all (operation_closed (build_context ?nm (\<lambda>p. None) (\<lambda>s. None) ?d sample_options))
      (tc_queries (build_context ?nm (\<lambda>p. None) (\<lambda>s. None) ?d sample_options) @
       tc_mutations (build_context ?nm (\<lambda>p. None) (\<lambda>s. None) ?d sample_options))"
    "tc_mutations (build_context ?nm (\<lambda>p. None) (\<lambda>s. None) ?d sample_options) =
      map to_template_operation (concat (map entity_mutations (do_entities ?d)))"
    using operations_name_declared_types [of ?d sample_options ?nm "\<lambda>p. None" "\<lambda>s. None"] by blast+
  moreover have "length (map to_template_operation (concat (map entity_mutations (do_entities ?d)))) = 3"
    by (simp add: entity_mutations_fst)
  ultimately show ?thesis unfolding Let_def by (simp only: simp_thms)
qed

end
