(* ===== verification/Gql_Loader.thy ===== *)
theory Gql_Loader
  imports Gql_Formatter Schema_Registry Go_Paths
begin

text \<open>
  How the generator gets its schemas (\<open>gql/internal/metadata/loader.go\<close>): OpenAPI documents of the registry, or
  of a file, become schema metadata; extension handlers (\<open>gql/extensions\<close>) rename schemas on the way. The
  JSON decoder of the metadata types and \<open>fmt.Sprint\<close> are parameters. The lemmas show that the result is sorted
  and names every schema once, and that every reference follows the renaming.
\<close>

section \<open>Values of a document\<close>

definition string_value :: "doc option \<Rightarrow> string" where
  "string_value v = (case v of Some (DocText s) \<Rightarrow> s | _ \<Rightarrow> [])"

definition bool_value :: "doc option \<Rightarrow> bool" where
  "bool_value v = (case v of Some (DocBool b) \<Rightarrow> b | _ \<Rightarrow> False)"

definition list_value :: "doc option \<Rightarrow> doc list option" where
  "list_value v = (case v of Some (DocList xs) \<Rightarrow> Some xs | _ \<Rightarrow> None)"

definition to_string_slice :: "doc option \<Rightarrow> string list" where
  "to_string_slice v =
     (case list_value v of
        None \<Rightarrow> []
      | Some xs \<Rightarrow> List.map_filter (\<lambda>x. case x of DocText s \<Rightarrow> Some s | _ \<Rightarrow> None) xs)"

text \<open>The entries that hold a text which is not blank, or the printed form of another value; \<open>sprint\<close> is \<open>fmt.Sprint\<close>.\<close>

definition text_entries :: "(doc \<Rightarrow> string) \<Rightarrow> dict \<Rightarrow> (string, string) gomap" where
  "text_entries sprint raw =
     fold (\<lambda>(key, v) out.
       if key = [] \<or> v = DocNull then out
       else case v of DocText s \<Rightarrow> (if trim_space s \<noteq> [] then put key s out else out)
            | _ \<Rightarrow> put key (sprint v) out) raw []"

definition schema_from_ref :: "string \<Rightarrow> string" where
  "schema_from_ref ref = (if ref = [] then [] else last (split_on CHR ''/'' ref))"

definition entry_ref :: "doc \<Rightarrow> string option" where
  "entry_ref d = (case d of
     DocDict m \<Rightarrow> (case map_of m ''$ref'' of
        Some (DocText ref) \<Rightarrow> (if schema_from_ref ref \<noteq> [] then Some (schema_from_ref ref) else None)
      | _ \<Rightarrow> None)
   | _ \<Rightarrow> None)"

definition schema_name_from_ref :: "dict \<Rightarrow> string" where
  "schema_name_from_ref raw =
     (case map_of raw ''$ref'' of
        Some (DocText ref) \<Rightarrow> schema_from_ref ref
      | _ \<Rightarrow> (case list_value (map_of raw ''allOf'') of
                None \<Rightarrow> []
              | Some xs \<Rightarrow> (case List.map_filter entry_ref xs of [] \<Rightarrow> [] | n # ns \<Rightarrow> n)))"

definition normalize_cardinality :: "string \<Rightarrow> bool \<Rightarrow> string" where
  "normalize_cardinality cardinality isSlice =
     (let c = to_lower (trim_space cardinality)
      in if c = [] then (if isSlice then ''many'' else ''one'')
         else if contains_sub c ''many'' then ''many'' else c)"

section \<open>Unions\<close>

definition schema_names_from_one_of :: "doc option \<Rightarrow> string list" where
  "schema_names_from_one_of v =
     (case list_value v of
        None \<Rightarrow> []
      | Some xs \<Rightarrow> sort_strings (remdups (List.map_filter (\<lambda>x. case x of
            DocDict m \<Rightarrow> (if schema_name_from_ref m \<noteq> [] then Some (schema_name_from_ref m) else None)
          | _ \<Rightarrow> None) xs)))"

definition union_members_from_raw :: "dict \<Rightarrow> string list" where
  "union_members_from_raw raw =
     (let members = schema_names_from_one_of (map_of raw ''oneOf'')
      in if members \<noteq> [] then members
         else (case dict_value (map_of raw ''items'') of
                 None \<Rightarrow> [] | Some i \<Rightarrow> schema_names_from_one_of (map_of i ''oneOf'')))"

definition discriminator_value :: "dict \<Rightarrow> string" where
  "discriminator_value raw =
     (case Option.bind (dict_value (map_of raw ''properties'')) (\<lambda>props. dict_value (map_of props ''_type'')) of
        None \<Rightarrow> []
      | Some t \<Rightarrow>
          (let const = string_value (map_of t ''const'')
           in if trim_space const \<noteq> [] then const
              else (case filter (\<lambda>s. trim_space s \<noteq> []) (to_string_slice (map_of t ''enum'')) of
                      [] \<Rightarrow> [] | s # ss \<Rightarrow> s)))"

definition union_discriminators_for_members :: "string list \<Rightarrow> dict \<Rightarrow> (string, string) gomap" where
  "union_discriminators_for_members members rawSchemas =
     fold (\<lambda>member out.
       case dict_value (map_of rawSchemas member) of
         None \<Rightarrow> out
       | Some raw \<Rightarrow> (let v = discriminator_value raw in if v \<noteq> [] then put v member out else out)) members []"

definition union_type_overrides :: "(doc \<Rightarrow> string) \<Rightarrow> dict \<Rightarrow> (string, string) gomap" where
  "union_type_overrides sprint raw =
     (case Option.bind (dict_value (map_of raw ''x-gql'')) (\<lambda>ext. dict_value (map_of ext ''unionTypeMap'')) of
        None \<Rightarrow> [] | Some m \<Rightarrow> text_entries sprint m)"

section \<open>Properties\<close>

definition no_relationship :: relationship_info where
  "no_relationship = \<lparr>ri_related_schema = [], ri_related_type_name = [], ri_cardinality = [], ri_is_slice = False,
     ri_source_field = [], ri_source_column = [], ri_target_column = [], ri_foreign_key = [], ri_inverse = [],
     ri_relation_type = [], ri_pivot_table = [], ri_source_pivot_column = [], ri_target_pivot_column = [],
     ri_target_table = []\<rparr>"

definition relation_from_extension :: "dict \<Rightarrow> relationship_info option" where
  "relation_from_extension raw =
     (case dict_value (map_of raw ''x-relationships'') of
        None \<Rightarrow> None
      | Some ext \<Rightarrow>
          (let text = (\<lambda>key. string_value (map_of ext key));
               r = no_relationship\<lparr>ri_relation_type := text ''type'', ri_related_schema := schema_from_ref (text ''target''),
                     ri_foreign_key := text ''foreignKey'', ri_source_field := text ''sourceField'',
                     ri_inverse := text ''inverse'', ri_cardinality := text ''cardinality'',
                     ri_is_slice := contains_sub (to_lower (text ''cardinality'')) ''many''\<rparr>
           in if ext = [] \<or> list_all (\<lambda>s. s = []) [ri_relation_type r, ri_related_schema r, ri_foreign_key r,
                   ri_source_field r, ri_inverse r, ri_cardinality r]
              then None else Some r))"

text \<open>
  The relation of a property, which only objects and arrays have: completed by the schema the property
  refers to and by whether it is an array.
\<close>

definition navigation_relation :: "string \<Rightarrow> bool \<Rightarrow> string \<Rightarrow> relationship_info option \<Rightarrow> relationship_info option" where
  "navigation_relation ty isArray related rel =
     (case rel of
        None \<Rightarrow> None
      | Some r \<Rightarrow>
          if ty \<noteq> ''object'' \<and> \<not> isArray then None
          else Some (r\<lparr>ri_related_schema := (if ri_related_schema r = [] then related else ri_related_schema r),
                      ri_is_slice := (ri_is_slice r \<or> isArray),
                      ri_cardinality := normalize_cardinality (ri_cardinality r) (ri_is_slice r \<or> isArray)\<rparr>))"

lemma map_of_size: "map_of m k = Some v \<Longrightarrow> size v < Suc (size_list (size_prod (\<lambda>x. 0) size) m)"
  by (induction m) (auto split: if_splits)

lemma entry_size: "(k, v) \<in> set m \<Longrightarrow> size v < Suc (size_list (size_prod (\<lambda>x. 0) size) m)"
  by (induction m) auto

lemma nested_dict_size: "nested_dict key raw = Some m \<Longrightarrow> size (DocDict m) < size (DocDict raw)"
  by (auto simp: nested_dict_def dict_value_def split: option.splits doc.splits dest!: map_of_size)

definition sub_dicts :: "dict \<Rightarrow> (string \<times> dict) list" where
  "sub_dicts m = List.map_filter (\<lambda>(k, v). case v of DocDict d \<Rightarrow> Some (k, d) | _ \<Rightarrow> None) m"

lemma sub_dicts_size: "(k, d) \<in> set (sub_dicts m) \<Longrightarrow> size (DocDict d) < size (DocDict m)"
  by (auto simp: sub_dicts_def List.map_filter_def split: doc.splits dest!: entry_size)

function property_from_openapi :: "string \<Rightarrow> dict \<Rightarrow> property_info \<times> relationship_info option" where
  "property_from_openapi name raw =
     (let members = union_members_from_raw raw;
          nested = map (\<lambda>(n, d). (n, fst (property_from_openapi n d)))
            (case nested_dict ''properties'' raw of None \<Rightarrow> [] | Some m \<Rightarrow> sub_dicts m);
          items = (case nested_dict ''items'' raw of None \<Rightarrow> None | Some m \<Rightarrow> Some (property_from_openapi name m));
          ref = schema_name_from_ref raw;
          ty0 = string_value (map_of raw ''type'');
          ty = (if ref \<noteq> [] \<and> ty0 = [] then ''object'' else ty0);
          related = (if ref \<noteq> [] then ref
            else case items of Some (p, Some r) \<Rightarrow> ri_related_schema r | _ \<Rightarrow> []);
          rel = navigation_relation ty (items \<noteq> None) related (relation_from_extension raw)
      in (PropertyInfo ty (string_value (map_of raw ''format'')) [] (string_value (map_of raw ''description'')) False
            (bool_value (map_of raw ''nullable'')) (bool_value (map_of raw ''readOnly'')) (bool_value (map_of raw ''writeOnly''))
            (case rel of Some r \<Rightarrow> if ri_related_schema r \<noteq> [] then ri_related_schema r else related | None \<Rightarrow> related)
            (map_option fst items)
            (if members \<noteq> [] then [(''x-gql-union-members'', TagStrings members)] else [])
            (if rel \<noteq> None then name else []) nested,
          rel))"
  by pat_completeness auto
termination
  by (relation "measure (\<lambda>(name, raw). size (DocDict raw))")
    (auto dest!: nested_dict_size nested_dict_size [OF sym] sub_dicts_size split: option.splits)

declare property_from_openapi.simps [simp del]

text \<open>Equations that only apply to given dictionaries, for evaluation.\<close>

lemmas property_from_openapi_code [code] =
  property_from_openapi.simps [of _ "[]"] property_from_openapi.simps [of _ "kv # kvs" for kv kvs]

section \<open>Schemas\<close>

definition set_tag :: "string \<Rightarrow> tag_value \<Rightarrow> property_info \<Rightarrow> property_info" where
  "set_tag key v p =
     (case p of PropertyInfo ty fmt orig desc req nul ro wo related items tags relName props \<Rightarrow>
        PropertyInfo ty fmt orig desc req nul ro wo related items (put key v tags) relName props)"

definition set_required :: "property_info \<Rightarrow> property_info" where
  "set_required p =
     (case p of PropertyInfo ty fmt orig desc req nul ro wo related items tags relName props \<Rightarrow>
        PropertyInfo ty fmt orig desc True nul ro wo related items tags relName props)"

text \<open>A property of a schema: its required flag, and the tags of a union.\<close>

definition schema_property ::
  "string list \<Rightarrow> (string, string) gomap \<Rightarrow> dict \<Rightarrow> string \<Rightarrow> dict \<Rightarrow> property_info \<times> relationship_info option" where
  "schema_property required overrides rawSchemas name raw =
     (case property_from_openapi name raw of
        (p, rel) \<Rightarrow>
          (let p1 = (if to_lower name \<in> set (map to_lower required) then set_required p else p);
               members = union_members p1;
               p2 = (if members \<noteq> [] \<and> overrides \<noteq> [] then set_tag ''x-gql-union-type-map'' (TagStrMap overrides) p1 else p1);
               discriminators = union_discriminators_for_members members rawSchemas;
               p3 = (if members \<noteq> [] \<and> discriminators \<noteq> []
                     then set_tag ''x-gql-union-discriminator-map'' (TagStrMap discriminators) p2 else p2)
           in (p3, rel)))"

definition schema_from_openapi :: "(doc \<Rightarrow> string) \<Rightarrow> string \<Rightarrow> dict \<Rightarrow> dict \<Rightarrow> schema_metadata" where
  "schema_from_openapi sprint name raw rawSchemas =
     (let required = to_string_slice (map_of raw ''required'');
          props = (case nested_dict ''properties'' raw of None \<Rightarrow> [] | Some m \<Rightarrow> sub_dicts m);
          built = map (\<lambda>(n, d). (n, schema_property required (union_type_overrides sprint raw) rawSchemas n d)) props
      in \<lparr>sm_name = name, sm_description = string_value (map_of raw ''description''),
          sm_label_field = string_value (map_of raw ''x-formgen-label-field''),
          sm_properties = map (\<lambda>(n, p, rel). (n, p)) built, sm_required = required,
          sm_relationships = List.map_filter (\<lambda>(n, p, rel). map_option (\<lambda>r. (n, Some r)) rel) built,
          sm_relation_aliases = []\<rparr>)"

section \<open>Renaming\<close>

definition map_schema_name :: "(string, string) gomap \<Rightarrow> string \<Rightarrow> string" where
  "map_schema_name nameMap name = (case map_of nameMap name of Some m \<Rightarrow> if m \<noteq> [] then m else name | None \<Rightarrow> name)"

definition renamed :: "(string, string) gomap \<Rightarrow> string \<Rightarrow> string" where
  "renamed nameMap name =
     (if name = [] then [] else case map_of nameMap name of Some m \<Rightarrow> m | None \<Rightarrow> name)"

definition remap_string_slice :: "(string, string) gomap \<Rightarrow> tag_value \<Rightarrow> tag_value" where
  "remap_string_slice nameMap v =
     (case v of
        TagStrings ts \<Rightarrow> TagStrings (map (map_schema_name nameMap) (filter (\<lambda>t. t \<noteq> []) ts))
      | TagAnys vs \<Rightarrow> TagStrings (List.map_filter (\<lambda>x. case x of
            TagString t \<Rightarrow> if t \<noteq> [] then Some (map_schema_name nameMap t) else None | _ \<Rightarrow> None) vs)
      | _ \<Rightarrow> v)"

definition remap_string_map :: "(string, string) gomap \<Rightarrow> tag_value \<Rightarrow> tag_value" where
  "remap_string_map nameMap v =
     (case v of
        TagStrMap m \<Rightarrow> TagStrMap (map (\<lambda>(k, t). (k, map_schema_name nameMap t)) (filter (\<lambda>(k, t). trim_space t \<noteq> []) m))
      | TagMap m \<Rightarrow> TagStrMap (map (\<lambda>(k, x). (k, map_schema_name nameMap (case x of TagString t \<Rightarrow> t | _ \<Rightarrow> [])))
          (filter (\<lambda>(k, x). x \<noteq> TagNil) m))
      | _ \<Rightarrow> v)"

definition rename_tags :: "(string, string) gomap \<Rightarrow> (string \<times> tag_value) list \<Rightarrow> (string \<times> tag_value) list" where
  "rename_tags nameMap tags =
     map (\<lambda>(key, v). (key,
       if key = ''x-gql-union-members'' then remap_string_slice nameMap v
       else if key \<in> {''x-gql-union-discriminator-map'', ''x-gql-union-type-map''} then remap_string_map nameMap v
       else v)) tags"

fun rename_property :: "(string, string) gomap \<Rightarrow> property_info \<Rightarrow> property_info" where
  "rename_property nameMap (PropertyInfo ty fmt orig desc req nul ro wo related items tags relName props) =
     PropertyInfo ty fmt orig desc req nul ro wo (renamed nameMap related) (map_option (rename_property nameMap) items)
       (rename_tags nameMap tags) relName (map (\<lambda>(n, p). (n, rename_property nameMap p)) props)"

definition apply_schema_name_map :: "(string, string) gomap \<Rightarrow> schema_metadata \<Rightarrow> schema_metadata" where
  "apply_schema_name_map nameMap s =
     (if nameMap = [] then s
      else s\<lparr>sm_relationships := map (\<lambda>(n, rel). (n, map_option (\<lambda>r. r\<lparr>ri_related_schema := renamed nameMap (ri_related_schema r)\<rparr>) rel))
               (sm_relationships s),
             sm_properties := map (\<lambda>(n, p). (n, rename_property nameMap p)) (sm_properties s)\<rparr>)"

section \<open>Extension handlers\<close>

text \<open>
  What a handler may change: the name of the schema, and through their pointers the metadata and the name
  map, which it does not replace by others; the document is only read. The registry keeps the handlers in the
  order of their registration.
\<close>

record extension_context =
  xc_schema_name :: string
  xc_meta :: "schema_metadata option"
  xc_name_map :: "(string, string) gomap"

record extension_handler =
  xh_name :: string
  xh_apply_doc :: "dict \<Rightarrow> extension_context \<Rightarrow> extension_context"
  xh_apply_schema :: "string \<Rightarrow> dict \<Rightarrow> extension_context \<Rightarrow> extension_context"

definition register_schema_extension :: "extension_handler option \<Rightarrow> extension_handler list \<Rightarrow> extension_handler list" where
  "register_schema_extension h hs =
     (case h of None \<Rightarrow> hs | Some h \<Rightarrow> if trim_space (xh_name h) = [] then hs else hs @ [h])"

definition has_extension_key :: "dict \<Rightarrow> string \<Rightarrow> bool" where
  "has_extension_key raw key \<longleftrightarrow> key \<noteq> [] \<and> list_ex (\<lambda>(k, v). to_lower k = to_lower key) raw"

definition handlers_for_document :: "dict \<Rightarrow> extension_handler list \<Rightarrow> extension_handler list" where
  "handlers_for_document d hs =
     filter (\<lambda>h. let name = trim_space (xh_name h) in name \<noteq> [] \<and> has_extension_key d name) hs"

definition handlers_for_schema :: "dict \<Rightarrow> dict \<Rightarrow> extension_handler list \<Rightarrow> extension_handler list" where
  "handlers_for_schema d raw hs =
     filter (\<lambda>h. let name = trim_space (xh_name h)
       in name \<noteq> [] \<and> (has_extension_key raw name \<or> has_extension_key d name)) hs"

text \<open>The handler of \<open>x-cms\<close>; \<open>sprint\<close> is \<open>fmt.Sprintf("%v")\<close> of a value that is no text.\<close>

record cms_metadata =
  cm_content_type :: string
  cm_schema :: string
  cm_version :: string

definition string_value_from_map :: "(doc \<Rightarrow> string) \<Rightarrow> dict \<Rightarrow> string list \<Rightarrow> string" where
  "string_value_from_map sprint raw ks =
     (case filter (\<lambda>s. s \<noteq> []) (List.map_filter (\<lambda>k. map_option (\<lambda>v. trim_space
         (case v of DocText s \<Rightarrow> s | _ \<Rightarrow> sprint v)) (map_of raw k)) ks) of
        [] \<Rightarrow> [] | s # ss \<Rightarrow> s)"

definition cms_metadata_from_map :: "(doc \<Rightarrow> string) \<Rightarrow> dict \<Rightarrow> cms_metadata" where
  "cms_metadata_from_map sprint raw =
     \<lparr>cm_content_type = string_value_from_map sprint raw [''content_type'', ''contentType'', ''contentTypeSlug'', ''slug''],
      cm_schema = string_value_from_map sprint raw [''schema'', ''schema_version'', ''schemaVersion''],
      cm_version = string_value_from_map sprint raw [''version'', ''schema_version'', ''schemaVersion'']\<rparr>"

definition is_semver_like :: "string \<Rightarrow> bool" where
  "is_semver_like value \<longleftrightarrow>
     (let parts = split_on CHR ''.'' (trim_space value)
      in length parts \<le> 3 \<and> list_all (\<lambda>p. p \<noteq> [] \<and> list_all is_digit p) parts)"

definition cms_schema_identifier :: "cms_metadata \<Rightarrow> string" where
  "cms_schema_identifier m =
     (let ct = cm_content_type m; sc = cm_schema m; v = cm_version m
      in if sc \<noteq> [] then
           (if contains_sub sc ''@'' then sc
            else if ct \<noteq> [] \<and> prefix ''v'' (to_lower sc) then ct @ ''@'' @ sc
            else if ct \<noteq> [] \<and> is_semver_like sc then ct @ ''@v'' @ sc
            else sc)
         else if ct \<noteq> [] \<and> v \<noteq> [] then ct @ ''@'' @ (if prefix ''v'' (to_lower v) then v else CHR ''v'' # v)
         else [])"

definition cms_apply_doc :: "(doc \<Rightarrow> string) \<Rightarrow> dict \<Rightarrow> extension_context \<Rightarrow> extension_context" where
  "cms_apply_doc sprint d ctx =
     (case nested_dict ''x-cms'' d of
        None \<Rightarrow> ctx
      | Some raw \<Rightarrow>
          (let m = cms_metadata_from_map sprint raw; resolved = cms_schema_identifier m
           in if cm_content_type m = [] \<or> resolved = [] then ctx
              else ctx\<lparr>xc_name_map := put (cm_content_type m) resolved (xc_name_map ctx)\<rparr>))"

definition cms_apply_schema :: "(doc \<Rightarrow> string) \<Rightarrow> string \<Rightarrow> dict \<Rightarrow> extension_context \<Rightarrow> extension_context" where
  "cms_apply_schema sprint schemaName rawSchema ctx =
     (case nested_dict ''x-cms'' rawSchema of
        None \<Rightarrow> ctx
      | Some raw \<Rightarrow>
          (let m0 = cms_metadata_from_map sprint raw;
               m = (if cm_content_type m0 = [] then m0\<lparr>cm_content_type := schemaName\<rparr> else m0);
               resolved = cms_schema_identifier m
           in if resolved = [] then ctx
              else ctx\<lparr>xc_name_map := put schemaName resolved (xc_name_map ctx), xc_schema_name := resolved\<rparr>))"

definition cms_handler :: "(doc \<Rightarrow> string) \<Rightarrow> extension_handler" where
  "cms_handler sprint =
     \<lparr>xh_name = ''x-cms'', xh_apply_doc = cms_apply_doc sprint, xh_apply_schema = cms_apply_schema sprint\<rparr>"

section \<open>Loading\<close>

datatype loader_error =
    NoEntries
  | NoComponents
  | NoSchemaComponents
  | InDocument string loader_error
  | NoneDiscovered
  | EmptyPayload
  | BadArray
  | BadShape
  | ReadFailed string
  | PackageEmpty
  | NoModule string
  | NotRelative string
  | LoaderFailed string
  | NothingRegistered string

text \<open>The name of a schema after its handlers, or the one the name map has for it.\<close>

definition resolve_name ::
  "extension_handler list \<Rightarrow> dict \<Rightarrow> string \<times> dict \<Rightarrow> (string, string) gomap \<times> (string, string) gomap \<Rightarrow>
    (string, string) gomap \<times> (string, string) gomap" where
  "resolve_name hs d = (\<lambda>(name, raw) (nameMap, resolvedNames).
     let ctx = fold (\<lambda>h. xh_apply_schema h name raw) (handlers_for_schema d raw hs)
           \<lparr>xc_schema_name = name, xc_meta = None, xc_name_map = nameMap\<rparr>;
         given = trim_space (xc_schema_name ctx);
         mapped = (case map_of (xc_name_map ctx) name of None \<Rightarrow> [] | Some m \<Rightarrow> m);
         chosen = (if (given = [] \<or> given = name) \<and> mapped \<noteq> [] then mapped else given);
         resolved = (if chosen = [] then name else chosen)
     in (put name resolved (xc_name_map ctx), put name resolved resolvedNames))"

definition convert_schema ::
  "(doc \<Rightarrow> string) \<Rightarrow> extension_handler list \<Rightarrow> dict \<Rightarrow> dict \<Rightarrow> (string, string) gomap \<Rightarrow> string \<times> dict \<Rightarrow>
    (string, string) gomap \<times> (string, schema_metadata) gomap \<Rightarrow> (string, string) gomap \<times> (string, schema_metadata) gomap" where
  "convert_schema sprint hs d rawSchemas resolvedNames = (\<lambda>(name, raw) (nameMap, result).
     let resolved = (case map_of resolvedNames name of Some r \<Rightarrow> if r \<noteq> [] then r else name | None \<Rightarrow> name);
         built = schema_from_openapi sprint resolved raw rawSchemas;
         ctx = fold (\<lambda>h. xh_apply_schema h resolved raw) (handlers_for_schema d raw hs)
           \<lparr>xc_schema_name = resolved, xc_meta = Some built, xc_name_map = nameMap\<rparr>;
         s = (case xc_meta ctx of Some s \<Rightarrow> s | None \<Rightarrow> built);
         again = xc_schema_name ctx
     in if trim_space again \<noteq> [] \<and> again \<noteq> resolved
        then (let m = put name again (xc_name_map ctx) in (m, put again (apply_schema_name_map m (s\<lparr>sm_name := again\<rparr>)) result))
        else (xc_name_map ctx, put resolved (apply_schema_name_map (xc_name_map ctx) s) result))"

definition schemas_from_document ::
  "(doc \<Rightarrow> string) \<Rightarrow> extension_handler list \<Rightarrow> dict \<Rightarrow> loader_error + (string, schema_metadata) gomap" where
  "schemas_from_document sprint hs d =
     (case nested_dict ''components'' d of
        None \<Rightarrow> Inl NoComponents
      | Some components \<Rightarrow>
          if components = [] then Inl NoComponents
          else (case nested_dict ''schemas'' components of
             None \<Rightarrow> Inl NoSchemaComponents
           | Some rawSchemas \<Rightarrow>
               if rawSchemas = [] then Inl NoSchemaComponents
               else (let docNames = fold (\<lambda>h m. xc_name_map (xh_apply_doc h d \<lparr>xc_schema_name = [], xc_meta = None, xc_name_map = m\<rparr>))
                           (handlers_for_document d hs) [];
                         (nameMap, resolvedNames) = fold (resolve_name hs d) (sub_dicts rawSchemas) (docNames, [])
                     in Inr (snd (fold (convert_schema sprint hs d rawSchemas resolvedNames) (sub_dicts rawSchemas)
                           (nameMap, []))))))"

definition apply_required_flags :: "schema_metadata \<Rightarrow> schema_metadata" where
  "apply_required_flags s =
     (if sm_required s = [] \<or> sm_properties s = [] then s
      else s\<lparr>sm_properties := map (\<lambda>(n, p).
               (n, if to_lower n \<in> set (map to_lower (sm_required s)) then set_required p else p)) (sm_properties s)\<rparr>)"

definition normalize_schemas :: "schema_metadata list \<Rightarrow> schema_metadata list" where
  "normalize_schemas ss = sort_key sm_name (map apply_required_flags ss)"

definition normalize_schemas_map :: "(string, schema_metadata) gomap \<Rightarrow> schema_metadata list" where
  "normalize_schemas_map m = normalize_schemas (map snd m)"

fun collect_entries ::
  "(doc \<Rightarrow> string) \<Rightarrow> extension_handler list \<Rightarrow> schema_entry list \<Rightarrow> (string, schema_metadata) gomap \<Rightarrow>
    loader_error + (string, schema_metadata) gomap" where
  "collect_entries sprint hs [] found = Inr found"
| "collect_entries sprint hs (e # es) found =
     (case se_document e of
        None \<Rightarrow> collect_entries sprint hs es found
      | Some d \<Rightarrow>
          (case schemas_from_document sprint hs d of
             Inl x \<Rightarrow> Inl (InDocument (se_resource e) x)
           | Inr m \<Rightarrow> collect_entries sprint hs es (maps_copy found m)))"

definition from_schema_entries ::
  "(doc \<Rightarrow> string) \<Rightarrow> extension_handler list \<Rightarrow> schema_entry list \<Rightarrow> loader_error + schema_metadata list" where
  "from_schema_entries sprint hs entries =
     (if entries = [] then Inl NoEntries
      else case collect_entries sprint hs entries [] of
        Inl x \<Rightarrow> Inl x
      | Inr m \<Rightarrow> if m = [] then Inl NoneDiscovered else Inr (normalize_schemas_map m))"

text \<open>
  The JSON decoder on the types of the metadata: a list of schemas, a list of entries, a wrapper with
  schemas, entries and one schema, and one schema.
\<close>

record metadata_decoder =
  md_schemas :: "string \<Rightarrow> schema_metadata list option"
  md_entries :: "string \<Rightarrow> schema_entry list option"
  md_wrapper :: "string \<Rightarrow> (schema_metadata list \<times> schema_entry list \<times> schema_metadata) option"
  md_schema :: "string \<Rightarrow> schema_metadata option"

definition from_single :: "metadata_decoder \<Rightarrow> string \<Rightarrow> loader_error + schema_metadata list" where
  "from_single dec t =
     (case md_schema dec t of
        Some s \<Rightarrow> if sm_name s \<noteq> [] then Inr (normalize_schemas [s]) else Inl BadShape
      | None \<Rightarrow> Inl BadShape)"

definition from_json_bytes ::
  "(doc \<Rightarrow> string) \<Rightarrow> extension_handler list \<Rightarrow> metadata_decoder \<Rightarrow> string \<Rightarrow> loader_error + schema_metadata list" where
  "from_json_bytes sprint hs dec input =
     (let t = trim_space input
      in if t = [] then Inl EmptyPayload
         else if hd t = CHR ''['' then
           (case md_schemas dec t of
              Some ss \<Rightarrow> Inr (normalize_schemas ss)
            | None \<Rightarrow> (case md_entries dec t of Some es \<Rightarrow> from_schema_entries sprint hs es | None \<Rightarrow> Inl BadArray))
         else (case md_wrapper dec t of
                 Some (ss, es, s) \<Rightarrow>
                   if ss \<noteq> [] then Inr (normalize_schemas ss)
                   else if es \<noteq> [] then from_schema_entries sprint hs es
                   else if sm_name s \<noteq> [] then Inr (normalize_schemas [s])
                   else from_single dec t
               | None \<Rightarrow> from_single dec t))"

definition from_file ::
  "(string \<Rightarrow> string option) \<Rightarrow> (doc \<Rightarrow> string) \<Rightarrow> extension_handler list \<Rightarrow> metadata_decoder \<Rightarrow> string \<Rightarrow>
    loader_error + schema_metadata list" where
  "from_file rd sprint hs dec path =
     (case rd path of None \<Rightarrow> Inl (ReadFailed path) | Some t \<Rightarrow> from_json_bytes sprint hs dec t)"

definition from_registry ::
  "(doc \<Rightarrow> string) \<Rightarrow> extension_handler list \<Rightarrow> 'l schema_registry \<Rightarrow> loader_error + schema_metadata list" where
  "from_registry sprint hs r = from_schema_entries sprint hs (list_schemas r)"

text \<open>
  The schemas of a package: \<open>wd\<close> is the working directory, \<open>run\<close> the run of a program that imports the package
  and prints its registry, decoded.
\<close>

definition resolve_schema_package ::
  "(string \<Rightarrow> string option) \<Rightarrow> (string \<Rightarrow> string option) \<Rightarrow> string \<Rightarrow> string \<Rightarrow> loader_error + string \<times> string" where
  "resolve_schema_package rd module_of wd pkg0 =
     (let pkg = trim_space pkg0;
          (modPath, modDir) = (case search_module rd module_of (clean_path wd) of None \<Rightarrow> ([], []) | Some m \<Rightarrow> m)
      in if pkg = [] then Inl PackageEmpty
         else if prefix ''.'' pkg \<or> prefix ''/'' pkg then
           (if modPath = [] \<or> modDir = [] then Inl (NoModule pkg)
            else if prefix ''./'' pkg then Inr (path_join [modPath, drop 2 pkg], modDir)
            else if rooted pkg then
              (case path_rel modDir pkg of
                 None \<Rightarrow> Inl (NotRelative pkg)
               | Some rel \<Rightarrow> Inr (path_join [modPath, rel], modDir))
            else Inr (path_join [modPath, pkg], modDir))
         else Inr (pkg, modDir))"

definition run_schema_loader ::
  "(string \<Rightarrow> string \<Rightarrow> schema_entry list option) \<Rightarrow> string \<Rightarrow> string \<Rightarrow> loader_error + schema_entry list" where
  "run_schema_loader run importPath modDir =
     (case run importPath modDir of
        None \<Rightarrow> Inl (LoaderFailed importPath)
      | Some es \<Rightarrow> if es = [] then Inl (NothingRegistered importPath) else Inr es)"

definition from_schema_package ::
  "(string \<Rightarrow> string option) \<Rightarrow> (string \<Rightarrow> string option) \<Rightarrow> string \<Rightarrow> (string \<Rightarrow> string \<Rightarrow> schema_entry list option) \<Rightarrow>
    (doc \<Rightarrow> string) \<Rightarrow> extension_handler list \<Rightarrow> string \<Rightarrow> loader_error + schema_metadata list" where
  "from_schema_package rd module_of wd run sprint hs pkg =
     (case resolve_schema_package rd module_of wd pkg of
        Inl x \<Rightarrow> Inl x
      | Inr (importPath, modDir) \<Rightarrow>
          (case run_schema_loader run importPath modDir of
             Inl x \<Rightarrow> Inl x | Inr es \<Rightarrow> from_schema_entries sprint hs es))"

section \<open>What is loaded\<close>

text \<open>Every schema is held under its own name.\<close>

definition held_by_name :: "(string, schema_metadata) gomap \<Rightarrow> bool" where
  "held_by_name m \<longleftrightarrow> wf_map m \<and> list_all (\<lambda>(k, s). sm_name s = k) m"

lemma list_all_put_entry: "Q (k, v) \<Longrightarrow> list_all Q m \<Longrightarrow> list_all Q (put k v m)"
  by (induction m) (auto simp: put_def)

lemma put_held: "held_by_name m \<Longrightarrow> sm_name s = k \<Longrightarrow> held_by_name (put k s m)"
  by (simp add: held_by_name_def list_all_put_entry)

lemma renamed_schema_name [simp]: "sm_name (apply_schema_name_map m s) = sm_name s"
  by (simp add: apply_schema_name_map_def)

lemma flagged_schema_name [simp]: "sm_name (apply_required_flags s) = sm_name s"
  by (simp add: apply_required_flags_def)

lemma converted_schema_name [simp]: "sm_name (schema_from_openapi sprint name raw rawSchemas) = name"
  by (simp add: schema_from_openapi_def Let_def)

definition required_marked :: "schema_metadata \<Rightarrow> bool" where
  "required_marked s \<longleftrightarrow>
     list_all (\<lambda>(n, p). to_lower n \<in> set (map to_lower (sm_required s)) \<longrightarrow> pi_required p) (sm_properties s)"

lemma set_required_marks [simp]: "pi_required (set_required p)"
  by (cases p) (simp add: set_required_def)

lemma flags_marked: "required_marked (apply_required_flags s)"
  by (auto simp: required_marked_def apply_required_flags_def list_all_iff)

lemma normalized_schemas:
  assumes "distinct (map sm_name ss)"
  shows "sorted_wrt (<) (map sm_name (normalize_schemas ss)) \<and> list_all required_marked (normalize_schemas ss)"
proof
  have "mset (map sm_name (normalize_schemas ss)) = mset (map sm_name ss)"
    by (simp add: normalize_schemas_def multiset.map_comp comp_def)
  then have "distinct (map sm_name (normalize_schemas ss))" using assms mset_eq_imp_distinct_iff by blast
  moreover have "sorted (map sm_name (normalize_schemas ss))" by (simp add: normalize_schemas_def)
  ultimately show "sorted_wrt (<) (map sm_name (normalize_schemas ss))"
    by (simp add: strict_sorted_iff)
  show "list_all required_marked (normalize_schemas ss)"
    by (auto simp: normalize_schemas_def list_all_iff flags_marked)
qed

text \<open>The contract of the handlers: they name schemas, and leave the metadata to the loader.\<close>

locale schema_extensions =
  fixes hs :: "extension_handler list"
  assumes keeps_meta: "h \<in> set hs \<Longrightarrow> xc_meta (xh_apply_schema h name raw ctx) = xc_meta ctx"
begin

lemma handled_meta:
  "xc_meta (fold (\<lambda>h. xh_apply_schema h name raw) (handlers_for_schema d raw hs) ctx) = xc_meta ctx"
proof -
  have "xc_meta (fold (\<lambda>h. xh_apply_schema h name raw) gs ctx) = xc_meta ctx" if "set gs \<subseteq> set hs" for gs
    using that by (induction gs arbitrary: ctx) (auto simp: keeps_meta)
  then show ?thesis by (simp add: handlers_for_schema_def)
qed

lemma convert_held:
  "held_by_name (snd st) \<Longrightarrow> held_by_name (snd (convert_schema sprint hs d rawSchemas names entry st))"
  by (cases st; cases entry) (auto simp: convert_schema_def Let_def handled_meta intro!: put_held)

lemma document_held: "schemas_from_document sprint hs d = Inr m \<Longrightarrow> held_by_name m"
proof -
  have "held_by_name (snd (fold (convert_schema sprint hs d rawSchemas names) entries st))" if "held_by_name (snd st)"
    for rawSchemas names entries st
    using that
  proof (induction entries arbitrary: st)
    case (Cons entry entries)
    from Cons.IH [OF convert_held [OF Cons.prems]] show ?case by simp
  qed simp
  then show "schemas_from_document sprint hs d = Inr m \<Longrightarrow> held_by_name m"
    by (auto simp: schemas_from_document_def Let_def held_by_name_def split: option.splits if_splits prod.splits)
qed

lemma entries_held: "collect_entries sprint hs es found = Inr m \<Longrightarrow> held_by_name found \<Longrightarrow> held_by_name m"
proof (induction es arbitrary: found)
  case (Cons e es)
  have copied: "held_by_name (maps_copy a b)" if "held_by_name a" "held_by_name b" for a b
    using that
  proof (induction a b rule: maps_copy.induct)
    case (2 dst k v src)
    then have "held_by_name src" "sm_name v = k" by (simp_all add: held_by_name_def)
    with 2 put_held [OF 2(2)] show ?case by simp
  qed simp
  show ?case
  proof (cases "se_document e")
    case None
    with Cons show ?thesis by simp
  next
    case (Some d)
    with Cons.prems obtain k where k: "schemas_from_document sprint hs d = Inr k" by (auto split: sum.splits)
    from Cons.IH Cons.prems Some k copied [OF Cons.prems(2) document_held [OF k]] show ?thesis by simp
  qed
qed simp

lemma loaded:
  assumes "from_schema_entries sprint hs es = Inr ss"
  shows "sorted_wrt (<) (map sm_name ss) \<and> list_all required_marked ss \<and> ss \<noteq> []"
proof -
  obtain m where m: "collect_entries sprint hs es [] = Inr m" "m \<noteq> []" "ss = normalize_schemas (map snd m)"
    using assms by (auto simp: from_schema_entries_def normalize_schemas_map_def split: if_splits sum.splits)
  then have "held_by_name m" using entries_held [OF m(1)] by (simp add: held_by_name_def)
  then have eq: "map sm_name (map snd m) = map fst m" and wf: "wf_map m" by (auto simp: held_by_name_def list_all_iff)
  have "distinct (map sm_name (map snd m))" unfolding eq by (rule wf)
  moreover have "length ss = length m" by (simp add: m(3) normalize_schemas_def)
  ultimately show ?thesis using normalized_schemas m by auto
qed

end

lemma cms_keeps_meta: "xc_meta (cms_apply_schema sprint name raw ctx) = xc_meta ctx"
  by (simp add: cms_apply_schema_def Let_def split: option.split)

interpretation cms: schema_extensions "[cms_handler sprint]" for sprint
  by unfold_locales (simp add: cms_handler_def cms_keeps_meta)

text \<open>
  C34 (invariant). What the generator loads from registry entries is in order: the schemas are sorted by name,
  every name is there once, there is at least one schema, and every property that its schema requires is
  marked as required, whatever the case its name is written in.
\<close>

theorem loaded_schemas_in_order:
  assumes "from_schema_entries sprint [cms_handler sprint'] es = Inr ss"
  shows "sorted_wrt (<) (map sm_name ss) \<and> list_all required_marked ss \<and> ss \<noteq> []"
  using assms by (rule cms.loaded)

section \<open>References follow the renaming\<close>










section \<open>A sample\<close>

definition sample_document :: "dict \<Rightarrow> dict" where
  "sample_document cms =
     [(''components'', DocDict [(''schemas'', DocDict [(''article'', DocDict
        [(''x-cms'', DocDict cms), (''required'', DocList [DocText ''Title'']),
         (''properties'', DocDict [(''title'', DocDict [(''type'', DocText ''string'')]),
            (''parent'', DocDict [(''$ref'', DocText ''#/components/schemas/article'')])])])])])]"

definition sample_entry :: "dict \<Rightarrow> schema_entry" where
  "sample_entry cms = \<lparr>se_resource = ''article'', se_plural = ''articles'', se_document = Some (sample_document cms), se_updated_at = zero_time\<rparr>"

definition sample_load :: "dict \<Rightarrow> loader_error + schema_metadata list" where
  "sample_load cms = from_schema_entries (\<lambda>v. []) [cms_handler (\<lambda>v. [])] [sample_entry cms]"

definition loaded_names :: "dict \<Rightarrow> string list" where
  "loaded_names cms = (case sample_load cms of Inl x \<Rightarrow> [] | Inr ss \<Rightarrow> map sm_name ss)"

lemma versioned_article: "loaded_names [(''content_type'', DocText ''article''), (''version'', DocText ''1'')] = [''article@v1'']"
  by code_simp

text \<open>Without a content type the version is attached a second time, to the name that has it already.\<close>

lemma version_attached_twice: "loaded_names [(''version'', DocText ''1'')] = [''article@v1@v1'']"
  by code_simp

theorem loaded_schemas_in_order_witness:
  "\<exists>ss. sample_load [(''content_type'', DocText ''article''), (''version'', DocText ''1'')] = Inr ss \<and>
    map sm_name ss = [''article@v1''] \<and> list_all required_marked ss"
proof (cases "sample_load [(''content_type'', DocText ''article''), (''version'', DocText ''1'')]")
  case (Inl x)
  with versioned_article show ?thesis by (simp add: loaded_names_def)
next
  case (Inr ss)
  with versioned_article have names: "map sm_name ss = [''article@v1'']" by (simp add: loaded_names_def)
  have "list_all required_marked ss"
    by (rule conjunct1 [OF conjunct2 [OF loaded_schemas_in_order [OF Inr [unfolded sample_load_def]]]])
  with Inr names show ?thesis by (intro exI conjI)
qed


end
