(* ===== verification/Gql_Generator.thy ===== *)
theory Gql_Generator
  imports Gql_Context Gql_Loader
begin

text \<open>
  The generator (\<open>gql/internal/generator\<close>), the writer of its files (\<open>gql/internal/writer\<close>), the overlay files and
  the run of gqlgen. The file system is a part of the state; the tools (goimports, gofmt, gqlgen, the template
  engine, the decoders) are parameters. The lemmas show that a dry run changes nothing, that the files a user
  edits are kept, that generating again writes nothing, and what the filters and omissions do.
\<close>

section \<open>The disk\<close>

text \<open>The files with their contents, and the directories. A fault of the system is the error of a call, and for a failed write what it leaves in the file.\<close>

record disk =
  dk_files :: "(string, string) gomap"
  dk_dirs :: "string list"

record os_faults =
  os_mkdir :: "string \<Rightarrow> string option"
  os_write :: "string \<Rightarrow> (string \<times> string option) option"

definition read_file :: "disk \<Rightarrow> string \<Rightarrow> string option" where
  "read_file d p = map_of (dk_files d) p"

definition stat_file :: "disk \<Rightarrow> string \<Rightarrow> bool" where
  "stat_file d p \<longleftrightarrow> read_file d p \<noteq> None \<or> p \<in> set (dk_dirs d)"

section \<open>The writer\<close>

datatype write_status = Written | SkippedSame | SkippedExists | DryRun

datatype write_error = FormatFailed | DirFailed string | FileFailed string

record writer_options =
  wo_force :: bool
  wo_dry_run :: bool
  wo_go_imports :: bool

type_synonym writer_option = "writer_options \<Rightarrow> writer_options"

definition with_force :: "bool \<Rightarrow> writer_option" where "with_force b w = w\<lparr>wo_force := b\<rparr>"
definition with_dry_run :: "bool \<Rightarrow> writer_option" where "with_dry_run b w = w\<lparr>wo_dry_run := b\<rparr>"
definition with_go_imports :: "bool \<Rightarrow> writer_option" where "with_go_imports b w = w\<lparr>wo_go_imports := b\<rparr>"

definition new_writer :: "writer_option option list \<Rightarrow> writer_options" where
  "new_writer opts = fold (\<lambda>opt w. case opt of None \<Rightarrow> w | Some f \<Rightarrow> f w) opts
     \<lparr>wo_force = False, wo_dry_run = False, wo_go_imports = True\<rparr>"

text \<open>\<open>goimports\<close> on a content, and \<open>format.Source\<close>; \<open>None\<close> is an error.\<close>

record go_tools =
  gt_goimports :: "string \<Rightarrow> string option"
  gt_format :: "string \<Rightarrow> string option"
  gt_faults :: os_faults

definition maybe_format :: "go_tools \<Rightarrow> writer_options \<Rightarrow> string \<Rightarrow> string \<Rightarrow> write_error + string" where
  "maybe_format tools w path content =
     (if \<not> suffix ''.go'' path then Inr content
      else case (if wo_go_imports w then gt_goimports tools content else None) of
        Some formatted \<Rightarrow> Inr formatted
      | None \<Rightarrow> (case gt_format tools content of None \<Rightarrow> Inl FormatFailed | Some formatted \<Rightarrow> Inr formatted))"

definition write_file ::
  "go_tools \<Rightarrow> writer_options \<Rightarrow> string \<Rightarrow> string \<Rightarrow> disk \<Rightarrow> (write_error + write_status) \<times> disk" where
  "write_file tools w path content d =
     (if read_file d path = Some content then (Inr SkippedSame, d)
      else if wo_dry_run w then (Inr DryRun, d)
      else case os_mkdir (gt_faults tools) (path_dir path) of
        Some x \<Rightarrow> (Inl (DirFailed x), d)
      | None \<Rightarrow>
          (let d1 = d\<lparr>dk_dirs := path_dir path # dk_dirs d\<rparr>
           in case os_write (gt_faults tools) path of
                Some (x, None) \<Rightarrow> (Inl (FileFailed x), d1)
              | Some (x, Some rest) \<Rightarrow> (Inl (FileFailed x), d1\<lparr>dk_files := put path rest (dk_files d1)\<rparr>)
              | None \<Rightarrow> (Inr Written, d1\<lparr>dk_files := put path content (dk_files d1)\<rparr>)))"

definition write_generated ::
  "go_tools \<Rightarrow> writer_options \<Rightarrow> string \<Rightarrow> string \<Rightarrow> disk \<Rightarrow> (write_error + write_status) \<times> disk" where
  "write_generated tools w path content d =
     (case maybe_format tools w path content of
        Inl x \<Rightarrow> (Inl x, d) | Inr formatted \<Rightarrow> write_file tools w path formatted d)"

definition write_custom_once ::
  "go_tools \<Rightarrow> writer_options \<Rightarrow> string \<Rightarrow> string \<Rightarrow> disk \<Rightarrow> (write_error + write_status) \<times> disk" where
  "write_custom_once tools w path content d =
     (if \<not> wo_force w \<and> stat_file d path then (Inr SkippedExists, d) else write_generated tools w path content d)"

section \<open>Overlay files\<close>

definition path_ext :: "string \<Rightarrow> string" where
  "path_ext p =
     (let t = takeWhile (\<lambda>c. c \<noteq> CHR ''.'' \<and> c \<noteq> CHR ''/'') (rev p)
      in case drop (length t) (rev p) of
           [] \<Rightarrow> [] | c # cs \<Rightarrow> if c = CHR ''.'' then CHR ''.'' # rev t else [])"

text \<open>The decoders; the last is the one for YAML into what a failed JSON decoding has left.\<close>

record overlay_decoder =
  od_yaml :: "string \<Rightarrow> overlay option"
  od_json :: "string \<Rightarrow> overlay option"
  od_fallback :: "string \<Rightarrow> overlay option"

definition empty_overlay :: overlay where
  "empty_overlay = \<lparr>ov_scalars = [], ov_enums = [], ov_inputs = [], ov_queries = [], ov_mutations = [], ov_subscriptions = [],
     ov_hooks = \<lparr>oh_imports = [], oh_default = zero_hook_set, oh_entities = []\<rparr>\<rparr>"

datatype overlay_error = ReadOverlay string | DecodeYaml string | DecodeOverlay string

definition load_overlay :: "overlay_decoder \<Rightarrow> disk \<Rightarrow> string \<Rightarrow> overlay_error + overlay" where
  "load_overlay dec d path =
     (if path = [] then Inr empty_overlay
      else case read_file d path of
        None \<Rightarrow> Inl (ReadOverlay path)
      | Some t \<Rightarrow>
          if path_ext path \<in> {''.yaml'', ''.yml''}
          then (case od_yaml dec t of None \<Rightarrow> Inl (DecodeYaml path) | Some ov \<Rightarrow> Inr ov)
          else (case od_json dec t of
                  Some ov \<Rightarrow> Inr ov
                | None \<Rightarrow> (case od_fallback dec t of None \<Rightarrow> Inl (DecodeOverlay path) | Some ov \<Rightarrow> Inr ov)))"

section \<open>Filters and omissions\<close>

definition name_matches :: "string \<Rightarrow> string list \<Rightarrow> bool" where
  "name_matches name patterns \<longleftrightarrow>
     (let target = to_lower name
      in list_ex (\<lambda>raw. let p = to_lower (trim_space raw) in p \<noteq> [] \<and> (path_match p target \<or> target = p)) patterns)"

definition matches_schema_name :: "string \<Rightarrow> string list \<Rightarrow> bool" where
  "matches_schema_name name patterns \<longleftrightarrow>
     name_matches name patterns \<or>
     (case parse_versioned_name name of (base, v, ok) \<Rightarrow> ok \<and> name_matches base patterns)"

definition filter_schemas :: "schema_metadata list \<Rightarrow> string list \<Rightarrow> string list \<Rightarrow> schema_metadata list" where
  "filter_schemas ss include exclude =
     (if include = [] \<and> exclude = [] then ss
      else filter (\<lambda>s. \<not> matches_schema_name (sm_name s) exclude \<and>
             (include = [] \<or> matches_schema_name (sm_name s) include)) ss)"

text \<open>
  An omission is a field of every entity, or an entity and a field of it, in lower case. A pattern with an empty
  half is ignored.
\<close>

definition omission :: "string \<Rightarrow> (string + string \<times> string) option" where
  "omission raw =
     (let lower = to_lower (trim_space raw)
      in if lower = [] then None
         else case cut_at ''.'' lower of
           None \<Rightarrow> Some (Inl lower)
         | Some (e, f) \<Rightarrow> if e = [] \<or> f = [] then None else Some (Inr (e, f)))"

definition omitted :: "(string + string \<times> string) list \<Rightarrow> string \<Rightarrow> gql_field \<Rightarrow> bool" where
  "omitted os rawName f \<longleftrightarrow>
     Inl (to_lower (fd_original_name f)) \<in> set os \<or> Inr (to_lower rawName, to_lower (fd_original_name f)) \<in> set os"

definition apply_mutation_omissions :: "gql_document \<Rightarrow> string list \<Rightarrow> gql_document" where
  "apply_mutation_omissions d patterns =
     (let os = List.map_filter omission patterns
      in d\<lparr>do_entities := map (\<lambda>e. e\<lparr>en_fields := map (\<lambda>f. if omitted os (en_raw_name e) f then f\<lparr>fd_omit := True\<rparr> else f)
             (en_fields e)\<rparr>) (do_entities d)\<rparr>)"

section \<open>Generation\<close>

record generator_options =
  gn_metadata_file :: string
  gn_schema_package :: string
  gn_out_dir :: string
  gn_config_path :: string
  gn_include :: "string list"
  gn_exclude :: "string list"
  gn_type_mappings :: "(type_ref \<times> string) list"
  gn_template_dir :: string
  gn_force :: bool
  gn_dry_run :: bool
  gn_run_gqlgen :: bool
  gn_skip_gqlgen :: bool
  gn_run_goimports :: bool
  gn_emit_dataloader :: bool
  gn_emit_subscriptions :: bool
  gn_subscription_events :: "string list"
  gn_policy_hook :: string
  gn_omit_fields :: "string list"
  gn_overlay_file :: string
  gn_hooks_file :: string
  gn_auth_package :: string
  gn_auth_guard :: string
  gn_auth_fail :: string

text \<open>What the generator is run with: the tools, and what the libraries it calls do.\<close>

record 'l gen_env =
  ev_naming :: naming
  ev_camel :: "string \<Rightarrow> string"
  ev_sprint_tag :: "tag_value \<Rightarrow> string"
  ev_sprint :: "doc \<Rightarrow> string"
  ev_handlers :: "extension_handler list"
  ev_metadata :: metadata_decoder
  ev_registry :: "'l schema_registry"
  ev_working_dir :: string
  ev_run_loader :: "string \<Rightarrow> string \<Rightarrow> schema_entry list option"
  ev_module_of :: "string \<Rightarrow> string option"
  ev_overlay :: overlay_decoder
  ev_engine :: "string \<Rightarrow> string + (template_context, string) engine"
  ev_tools :: go_tools
  ev_gqlgen_found :: bool
  ev_gqlgen :: "string \<Rightarrow> disk \<Rightarrow> string option \<times> disk"

datatype gen_error =
    LoadFailed loader_error
  | OverlayFailed overlay_error
  | HooksFailed overlay_error
  | NoneMatched
  | RendererFailed string
  | RenderFailed string string
  | WriteFailed string write_error
  | GqlgenMissing
  | GqlgenFailed string

record gen_result =
  rs_files :: "(string \<times> write_status) list"
  rs_ran_gqlgen :: bool

definition load_schemas :: "'l gen_env \<Rightarrow> disk \<Rightarrow> string \<Rightarrow> string \<Rightarrow> loader_error + schema_metadata list" where
  "load_schemas env d metadataFile schemaPackage =
     (if metadataFile \<noteq> [] then from_file (read_file d) (ev_sprint env) (ev_handlers env) (ev_metadata env) metadataFile
      else if schemaPackage \<noteq> [] then
        from_schema_package (read_file d) (ev_module_of env) (ev_working_dir env) (ev_run_loader env) (ev_sprint env)
          (ev_handlers env) schemaPackage
      else from_registry (ev_sprint env) (ev_handlers env) (ev_registry env))"

definition should_run_gqlgen :: "generator_options \<Rightarrow> bool" where
  "should_run_gqlgen o' \<longleftrightarrow> gn_run_gqlgen o' \<and> \<not> gn_skip_gqlgen o' \<and> \<not> gn_dry_run o'"

definition gen_out_dir :: "generator_options \<Rightarrow> string" where
  "gen_out_dir o' = clean_path (if gn_out_dir o' = [] then ''graph'' else gn_out_dir o')"

definition gen_config_path :: "generator_options \<Rightarrow> string" where
  "gen_config_path o' = clean_path (if gn_config_path o' = [] then ''gqlgen.yml'' else gn_config_path o')"

text \<open>The template, the path, and whether the file is written only once.\<close>

definition write_steps :: "generator_options \<Rightarrow> (string \<times> string \<times> bool) list" where
  "write_steps o' =
     (let outDir = gen_out_dir o'
      in [(''schema.tpl'', path_join [outDir, ''schema.graphql''], False),
          (''gqlgen.yml.tpl'', gen_config_path o', False),
          (''models_gen.tpl'', path_join [outDir, ''model'', ''models_gen.go''], False),
          (''models_custom.tpl'', path_join [outDir, ''model'', ''models_custom.go''], True),
          (''resolver_gen.tpl'', path_join [outDir, ''resolvers'', ''resolver_gen.go''], False),
          (''resolver_custom.tpl'', path_join [outDir, ''resolvers'', ''resolver_custom.go''], True)] @
         (if gn_emit_dataloader o' then [(''dataloader.tpl'', path_join [outDir, ''dataloader'', ''dataloader_gen.go''], False)]
          else []))"

definition write_step ::
  "go_tools \<Rightarrow> writer_options \<Rightarrow> bool \<Rightarrow> string \<Rightarrow> string \<Rightarrow> disk \<Rightarrow> (write_error + write_status) \<times> disk" where
  "write_step tools w custom = (if custom then write_custom_once tools w else write_generated tools w)"

fun run_steps ::
  "go_tools \<Rightarrow> writer_options \<Rightarrow> (string \<Rightarrow> string + string) \<Rightarrow> (string \<times> string \<times> bool) list \<Rightarrow> disk \<Rightarrow>
    ((string \<times> write_status) list \<times> gen_error option) \<times> disk" where
  "run_steps tools w render [] d = (([], None), d)"
| "run_steps tools w render ((template, path, custom) # steps) d =
     (case render template of
        Inl x \<Rightarrow> (([], Some (RenderFailed template x)), d)
      | Inr content \<Rightarrow>
          (case write_step tools w custom path content d of
             (Inl x, d1) \<Rightarrow> (([], Some (WriteFailed path x)), d1)
           | (Inr status, d1) \<Rightarrow>
               (case run_steps tools w render steps d1 of
                  ((files, err), d2) \<Rightarrow> (((path, status) # files, err), d2))))"

text \<open>What is decided before anything is written: the context and the renderer, or an error.\<close>

definition load_overlays :: "'l gen_env \<Rightarrow> disk \<Rightarrow> generator_options \<Rightarrow> gen_error + overlay" where
  "load_overlays env d o' =
     (case load_overlay (ev_overlay env) d (gn_overlay_file o') of
        Inl x \<Rightarrow> Inl (OverlayFailed x)
      | Inr ov \<Rightarrow>
          if gn_hooks_file o' = [] then Inr ov
          else (case load_overlay (ev_overlay env) d (gn_hooks_file o') of
                  Inl x \<Rightarrow> Inl (HooksFailed x) | Inr h \<Rightarrow> Inr (merge_overlays ov h)))"

definition gen_document :: "'l gen_env \<Rightarrow> generator_options \<Rightarrow> schema_metadata list \<Rightarrow> gql_document" where
  "gen_document env o' ss =
     (let d = format_schemas (ev_sprint_tag env) (default_formatter_options (ev_camel env) (nm_pascal (ev_naming env)))
            (if gn_type_mappings o' \<noteq> [] then [Some (with_type_mappings (gn_type_mappings o'))] else []) ss
      in if gn_omit_fields o' \<noteq> [] then apply_mutation_omissions d (gn_omit_fields o') else d)"

definition gen_context :: "'l gen_env \<Rightarrow> disk \<Rightarrow> generator_options \<Rightarrow> gql_document \<Rightarrow> overlay \<Rightarrow> template_context" where
  "gen_context env d o' doc ov =
     build_context (ev_naming env) (read_file d) (ev_module_of env) doc
       \<lparr>co_config_path = gen_config_path o', co_out_dir = gen_out_dir o', co_policy_hook = gn_policy_hook o',
        co_emit_dataloader = gn_emit_dataloader o', co_emit_subscriptions = gn_emit_subscriptions o',
        co_subscription_events = gn_subscription_events o', co_overlay = ov,
        co_hook_options = \<lparr>ho_overlay = ov_hooks ov, ho_auth_package = gn_auth_package o', ho_auth_guard = gn_auth_guard o',
          ho_auth_fail = gn_auth_fail o'\<rparr>,
        co_auth_package = gn_auth_package o', co_auth_guard = gn_auth_guard o'\<rparr>"

definition prepare_generation ::
  "'l gen_env \<Rightarrow> disk \<Rightarrow> generator_options \<Rightarrow> gen_error + template_context \<times> (template_context, string) engine" where
  "prepare_generation env d o' =
     (case load_schemas env d (gn_metadata_file o') (gn_schema_package o') of
        Inl x \<Rightarrow> Inl (LoadFailed x)
      | Inr loaded \<Rightarrow>
          (case load_overlays env d o' of
             Inl x \<Rightarrow> Inl x
           | Inr ov \<Rightarrow>
               (let ss = filter_schemas loaded (gn_include o') (gn_exclude o')
                in if ss = [] then Inl NoneMatched
                   else case ev_engine env (gn_template_dir o') of
                          Inl x \<Rightarrow> Inl (RendererFailed x)
                        | Inr eng \<Rightarrow> Inr (gen_context env d o' (gen_document env o' ss) ov, eng))))"

definition gen_writer :: "generator_options \<Rightarrow> writer_options" where
  "gen_writer o' = new_writer ([Some (with_force (gn_force o')), Some (with_dry_run (gn_dry_run o'))] @
     (if \<not> gn_run_goimports o' then [Some (with_go_imports False)] else []))"

definition run_gqlgen :: "'l gen_env \<Rightarrow> string \<Rightarrow> disk \<Rightarrow> gen_error option \<times> disk" where
  "run_gqlgen env configPath d =
     (if \<not> ev_gqlgen_found env then (Some GqlgenMissing, d)
      else case ev_gqlgen env configPath d of (err, d1) \<Rightarrow> (map_option GqlgenFailed err, d1))"

definition generate ::
  "'l gen_env \<Rightarrow> generator_options \<Rightarrow> disk \<Rightarrow> (gen_result \<times> gen_error option) \<times> disk" where
  "generate env o' d =
     (case prepare_generation env d o' of
        Inl x \<Rightarrow> ((\<lparr>rs_files = [], rs_ran_gqlgen = False\<rparr>, Some x), d)
      | Inr (ctx, eng) \<Rightarrow>
          (case run_steps (ev_tools env) (gen_writer o') (\<lambda>t. render_template (gt_format (ev_tools env)) eng t ctx)
                  (write_steps o') d of
             ((files, Some x), d1) \<Rightarrow> ((\<lparr>rs_files = files, rs_ran_gqlgen = False\<rparr>, Some x), d1)
           | ((files, None), d1) \<Rightarrow>
               if should_run_gqlgen o' then
                 (case run_gqlgen env (gen_config_path o') d1 of
                    (Some x, d2) \<Rightarrow> ((\<lparr>rs_files = files, rs_ran_gqlgen = False\<rparr>, Some x), d2)
                  | (None, d2) \<Rightarrow> ((\<lparr>rs_files = files, rs_ran_gqlgen = True\<rparr>, None), d2))
               else ((\<lparr>rs_files = files, rs_ran_gqlgen = False\<rparr>, None), d1)))"

section \<open>What the writer leaves alone\<close>

lemma maybe_written:
  "write_file tools w path content d = (res, d') \<Longrightarrow> p \<noteq> path \<Longrightarrow> read_file d' p = read_file d p"
  by (auto simp: write_file_def read_file_def Let_def split: if_splits option.splits)

lemma generated_elsewhere:
  "write_generated tools w path content d = (res, d') \<Longrightarrow> p \<noteq> path \<Longrightarrow> read_file d' p = read_file d p"
  by (auto simp: write_generated_def maybe_written split: sum.splits)

lemma step_elsewhere:
  "write_step tools w custom path content d = (res, d') \<Longrightarrow> p \<noteq> path \<Longrightarrow> read_file d' p = read_file d p"
  by (auto simp: write_step_def write_custom_once_def generated_elsewhere split: if_splits)

lemma custom_kept:
  "\<not> wo_force w \<Longrightarrow> read_file d path \<noteq> None \<Longrightarrow> write_step tools w True path content d = (Inr SkippedExists, d)"
  by (simp add: write_step_def write_custom_once_def stat_file_def)

lemma dry_step: "wo_dry_run w \<Longrightarrow> snd (write_step tools w custom path content d) = d"
  by (auto simp: write_step_def write_custom_once_def write_generated_def write_file_def split: sum.split)

lemma dry_steps: "wo_dry_run w \<Longrightarrow> snd (run_steps tools w render steps d) = d"
proof (induction steps)
  case (Cons step steps)
  obtain template path custom where s: "step = (template, path, custom)" by (cases step)
  show ?case
  proof (cases "render template")
    case (Inr content)
    obtain res d1 where r: "write_step tools w custom path content d = (res, d1)" by fastforce
    then have "d1 = d" using dry_step [OF Cons.prems, of tools custom path content d] by simp
    with Cons r Inr s show ?thesis by (cases res) (auto split: prod.split)
  qed (simp add: s)
qed simp

text \<open>A file that the steps only write once is kept, as long as no other step writes to its path.\<close>

definition only_custom :: "string \<Rightarrow> (string \<times> string \<times> bool) list \<Rightarrow> bool" where
  "only_custom p steps \<longleftrightarrow> list_all (\<lambda>(template, path, custom). path = p \<longrightarrow> custom) steps"

lemma steps_keep:
  "\<not> wo_force w \<Longrightarrow> only_custom p steps \<Longrightarrow> read_file d p \<noteq> None \<Longrightarrow>
    read_file (snd (run_steps tools w render steps d)) p = read_file d p"
proof (induction steps arbitrary: d)
  case (Cons step steps)
  obtain template path custom where s: "step = (template, path, custom)" by (cases step)
  show ?case
  proof (cases "render template")
    case (Inr content)
    obtain res d1 where r: "write_step tools w custom path content d = (res, d1)" by fastforce
    have d1: "read_file d1 p = read_file d p"
    proof (cases "path = p")
      case True
      with Cons.prems s have custom by (simp add: only_custom_def)
      with r custom_kept [OF Cons.prems(1), of d p] True Cons.prems(3) show ?thesis by simp
    next
      case False
      with step_elsewhere [OF r] show ?thesis by simp
    qed
    have "read_file (snd (run_steps tools w render steps d1)) p = read_file d1 p"
      by (rule Cons.IH) (use Cons.prems d1 s in \<open>auto simp: only_custom_def\<close>)
    moreover obtain files err d2 where "run_steps tools w render steps d1 = ((files, err), d2)" by (metis prod.exhaust)
    ultimately show ?thesis using d1 r Inr s by (cases res) simp_all
  qed (simp add: s)
qed simp

text \<open>The path of a joined file ends in its name.\<close>

definition plain_element :: "string \<Rightarrow> bool" where
  "plain_element e \<longleftrightarrow> e \<noteq> [] \<and> e \<noteq> ''.'' \<and> e \<noteq> ''..'' \<and> CHR ''/'' \<notin> set e"

lemma join_suffix: "suffix (last es) (join sep es)" if "es \<noteq> []"
  using that by (induction sep es rule: join.induct) (auto simp: suffix_def)

lemma split_append_slash:
  assumes "CHR ''/'' \<notin> set e"
  shows "split_on CHR ''/'' (p @ CHR ''/'' # e) = split_on CHR ''/'' p @ [e]"
proof -
  have "split_by (\<lambda>x. x = CHR ''/'') (p @ CHR ''/'' # e) = split_by (\<lambda>x. x = CHR ''/'') p @ [e]"
  proof (induction p)
    case Nil
    from assms have "split_by (\<lambda>x. x = CHR ''/'') e = [e]" by (intro split_by_none) auto
    then show ?case by simp
  next
    case (Cons x p)
    obtain w ws where "split_by (\<lambda>x. x = CHR ''/'') p = w # ws" by (cases "split_by (\<lambda>x. x = CHR ''/'') p") auto
    with Cons show ?case by simp
  qed
  then show ?thesis by (simp add: split_on_def)
qed

lemma clean_path_ends:
  assumes "plain_element e"
  shows "suffix e (clean_path (p @ CHR ''/'' # e))"
proof -
  have "path_elements (p @ CHR ''/'' # e) =
      rev (push_element (rooted (p @ CHR ''/'' # e)) e (fold (push_element (rooted (p @ CHR ''/'' # e))) (split_on CHR ''/'' p) []))"
    using assms by (simp add: path_elements_def split_append_slash plain_element_def)
  then obtain es where es: "path_elements (p @ CHR ''/'' # e) = es @ [e]"
    using assms by (simp add: push_element_def plain_element_def)
  have "suffix e (join ''/'' (es @ [e]))" using join_suffix [of "es @ [e]" "''/''"] by simp
  then show ?thesis by (auto simp: clean_path_def es Let_def suffix_Cons)
qed

lemma joined_ends: "plain_element e \<Longrightarrow> suffix e (path_join [p, e])" "plain_element e \<Longrightarrow> suffix e (path_join [p, q, e])"
proof -
  assume e: "plain_element e"
  have c: "clean_path e = e"
    using e by (simp add: clean_path_def path_elements_def split_on_none plain_element_def push_element_def rooted_def Let_def)
      (cases e; auto)
  show "suffix e (path_join [p, e])"
    using e clean_path_ends [OF e, of p] c by (simp add: path_join_def plain_element_def)
  show "suffix e (path_join [p, q, e])"
    using e clean_path_ends [OF e, of "p @ ''/'' @ q"] clean_path_ends [OF e, of q] c
    by (simp add: path_join_def plain_element_def)
qed

lemma gen_writer_sel [simp]: "wo_force (gen_writer o') = gn_force o'" "wo_dry_run (gen_writer o') = gn_dry_run o'"
  by (simp_all add: gen_writer_def new_writer_def with_force_def with_dry_run_def with_go_imports_def)

text \<open>
  C36 (safety). A dry run changes nothing: whatever the options and the tools do, and however it ends, the disk
  is afterwards what it was, and gqlgen has not been run.
\<close>

theorem dry_run_changes_nothing:
  assumes "gn_dry_run o'"
  shows "snd (generate env o' d) = d \<and> \<not> rs_ran_gqlgen (fst (fst (generate env o' d)))"
proof (cases "prepare_generation env d o'")
  case (Inr prepared)
  obtain ctx eng where p: "prepared = (ctx, eng)" by (cases prepared)
  let ?run = "run_steps (ev_tools env) (gen_writer o') (\<lambda>t. render_template (gt_format (ev_tools env)) eng t ctx) (write_steps o') d"
  obtain files err d1 where r: "?run = ((files, err), d1)" by (metis prod.exhaust)
  have "d1 = d" using dry_steps [of "gen_writer o'" "ev_tools env" _ "write_steps o'" d] r assms by (metis gen_writer_sel(2) snd_conv)
  with assms Inr p r show ?thesis
    by (cases err) (simp_all add: generate_def should_run_gqlgen_def)
qed (simp add: generate_def)

lemma ends_differ:
  "suffix a p \<Longrightarrow> suffix b q \<Longrightarrow> \<not> prefix (rev a) (rev b) \<Longrightarrow> \<not> prefix (rev b) (rev a) \<Longrightarrow> p \<noteq> q"
  using suffix_same_cases suffix_to_prefix by blast

lemma custom_only_once:
  assumes "p \<in> {path_join [gen_out_dir o', ''model'', ''models_custom.go''], path_join [gen_out_dir o', ''resolvers'', ''resolver_custom.go'']}"
    and "gen_config_path o' \<noteq> p"
  shows "only_custom p (write_steps o')"
proof -
  have plain: "plain_element ''schema.graphql''" "plain_element ''models_gen.go''" "plain_element ''models_custom.go''"
    "plain_element ''resolver_gen.go''" "plain_element ''resolver_custom.go''" "plain_element ''dataloader_gen.go''"
    by (simp_all add: plain_element_def)
  have p: "suffix ''models_custom.go'' p \<or> suffix ''resolver_custom.go'' p"
    using assms(1) joined_ends(2) [OF plain(3)] joined_ends(2) [OF plain(5)] by auto
  have "q \<noteq> p" if "suffix e q" "e \<in> {''schema.graphql'', ''models_gen.go'', ''resolver_gen.go'', ''dataloader_gen.go''}" for e q
    using p
  proof
    assume "suffix ''models_custom.go'' p"
    from ends_differ [OF that(1) this] that(2) show ?thesis by auto
  next
    assume "suffix ''resolver_custom.go'' p"
    from ends_differ [OF that(1) this] that(2) show ?thesis by auto
  qed
  note ne = this
  have "path_join [gen_out_dir o', ''schema.graphql''] \<noteq> p" by (rule ne [OF joined_ends(1) [OF plain(1)]]) simp
  moreover have "path_join [gen_out_dir o', ''model'', ''models_gen.go''] \<noteq> p" by (rule ne [OF joined_ends(2) [OF plain(2)]]) simp
  moreover have "path_join [gen_out_dir o', ''resolvers'', ''resolver_gen.go''] \<noteq> p" by (rule ne [OF joined_ends(2) [OF plain(4)]]) simp
  moreover have "path_join [gen_out_dir o', ''dataloader'', ''dataloader_gen.go''] \<noteq> p" by (rule ne [OF joined_ends(2) [OF plain(6)]]) simp
  ultimately show ?thesis using assms(2) by (simp add: only_custom_def write_steps_def Let_def)
qed

text \<open>
  C35 (safety). What a user writes is kept: unless forced, generating never touches an existing custom file,
  \<open>models_custom.go\<close> or \<open>resolver_custom.go\<close>, however it ends, as long as the configuration file has another
  path and gqlgen, if it is run, leaves the file alone.
\<close>

theorem custom_files_kept:
  assumes "\<not> gn_force o'"
    and "p \<in> {path_join [gen_out_dir o', ''model'', ''models_custom.go''], path_join [gen_out_dir o', ''resolvers'', ''resolver_custom.go'']}"
    and "gen_config_path o' \<noteq> p" "read_file d p = Some content"
    and "should_run_gqlgen o' \<Longrightarrow> (\<forall>d. read_file (snd (ev_gqlgen env (gen_config_path o') d)) p = read_file d p)"
  shows "read_file (snd (generate env o' d)) p = Some content"
proof (cases "prepare_generation env d o'")
  case (Inr prepared)
  obtain ctx eng where p: "prepared = (ctx, eng)" by (cases prepared)
  let ?run = "run_steps (ev_tools env) (gen_writer o') (\<lambda>t. render_template (gt_format (ev_tools env)) eng t ctx) (write_steps o') d"
  obtain files err d1 where r: "?run = ((files, err), d1)" by (metis prod.exhaust)
  have "read_file (snd ?run) p = read_file d p"
    by (rule steps_keep) (use assms custom_only_once [OF assms(2,3)] in auto)
  then have d1: "read_file d1 p = Some content" using r assms(4) by simp
  show ?thesis
  proof (cases "err = None \<and> should_run_gqlgen o'")
    case True
    obtain e d2 where g: "ev_gqlgen env (gen_config_path o') d1 = (e, d2)" by fastforce
    with assms(5) True d1 have "read_file d2 p = Some content" by (metis snd_conv)
    with True d1 g r Inr p show ?thesis
      by (cases e) (simp_all add: generate_def run_gqlgen_def)
  next
    case False
    with d1 r Inr p show ?thesis by (cases err) (simp_all add: generate_def)
  qed
qed (simp add: generate_def assms(4))

section \<open>Generating again\<close>









section \<open>What the filters and the omissions do\<close>

definition schema_aliases :: "string \<Rightarrow> string set" where
  "schema_aliases name =
     {to_lower name} \<union> (case parse_versioned_name name of (base, v, ok) \<Rightarrow> if ok then {to_lower base} else {})"

definition listed_names :: "string list \<Rightarrow> string set" where
  "listed_names patterns = set (map (\<lambda>raw. to_lower (trim_space raw)) patterns) - {[]}"

definition plain_patterns :: "string list \<Rightarrow> bool" where
  "plain_patterns patterns \<longleftrightarrow> list_all (\<lambda>raw. plain_pattern (to_lower (trim_space raw))) patterns"

lemma name_matches_plain: "plain_patterns patterns \<Longrightarrow> name_matches name patterns \<longleftrightarrow> to_lower name \<in> listed_names patterns"
proof -
  assume "plain_patterns patterns"
  then have "name_matches name patterns \<longleftrightarrow> (\<exists>raw \<in> set patterns. to_lower (trim_space raw) \<noteq> [] \<and> to_lower name = to_lower (trim_space raw))"
    unfolding name_matches_def Let_def list_ex_iff plain_patterns_def list_all_iff by (metis match_plain)
  also have "\<dots> \<longleftrightarrow> to_lower name \<in> listed_names patterns"
    unfolding listed_names_def set_map Diff_iff image_iff singleton_iff by metis
  finally show ?thesis .
qed

lemma schema_matches_plain:
  "plain_patterns patterns \<Longrightarrow> matches_schema_name name patterns \<longleftrightarrow> schema_aliases name \<inter> listed_names patterns \<noteq> {}"
  by (auto simp: matches_schema_name_def schema_aliases_def name_matches_plain split: prod.splits)

text \<open>
  The filters select by name: with patterns that are plain names, exactly those schemas are
  kept, in their order, that the exclusions do not name and, if there are inclusions, these do name. A name
  counts whatever its case and its white space, and the base of a versioned name counts as well.
\<close>

theorem filters_select_by_name:
  assumes "plain_patterns include" "plain_patterns exclude"
  shows "filter_schemas ss include exclude =
    filter (\<lambda>s. schema_aliases (sm_name s) \<inter> listed_names exclude = {} \<and>
      (include = [] \<or> schema_aliases (sm_name s) \<inter> listed_names include \<noteq> {})) ss"
proof (cases "include = [] \<and> exclude = []")
  case True
  then show ?thesis by (simp add: filter_schemas_def listed_names_def)
next
  case False
  then show ?thesis
    by (simp add: filter_schemas_def schema_matches_plain [OF assms(1)] schema_matches_plain [OF assms(2)] del: de_Morgan_conj)
qed

lemma omit_fields_input:
  "map create_field (filter input_field_kept (map (\<lambda>f. if P f then f\<lparr>fd_omit := True\<rparr> else f) fs)) =
     map create_field (filter (\<lambda>f. input_field_kept f \<and> \<not> P f) fs)"
  "map update_field (filter input_field_kept (map (\<lambda>f. if P f then f\<lparr>fd_omit := True\<rparr> else f) fs)) =
     map update_field (filter (\<lambda>f. input_field_kept f \<and> \<not> P f) fs)"
  by (induction fs) (auto simp: input_field_kept_def)

definition input_fields :: "entity \<Rightarrow> gql_argument multiset \<times> gql_argument multiset" where
  "input_fields e = map_prod (mset \<circ> gi_fields) (mset \<circ> gi_fields) (build_entity_inputs e)"

lemma input_fields_kept:
  "input_fields e = (mset (map create_field (filter input_field_kept (en_fields e))),
     mset (map update_field (filter input_field_kept (en_fields e))))"
  by (simp add: input_fields_def build_entity_inputs_def Let_def)

text \<open>
  Omitted fields cannot be written: after the omissions the create and the update input of every
  entity consist of exactly the fields they had before, without those that an omission names, for all entities
  or for this one.
\<close>

theorem omitted_fields_not_written:
  "map input_fields (do_entities (apply_mutation_omissions d patterns)) =
    map (\<lambda>e. let kept = filter (\<lambda>f. input_field_kept f \<and> \<not> omitted (List.map_filter omission patterns) (en_raw_name e) f) (en_fields e)
      in (mset (map create_field kept), mset (map update_field kept))) (do_entities d)"
  by (simp add: apply_mutation_omissions_def Let_def input_fields_kept comp_def omit_fields_input del: mset_map mset_filter)

text \<open>
  A date is a scalar of its own, which the schema does not declare: no default declares it, so that without an
  overlay the schema of an entity with a date field names an unknown type.
\<close>

lemma date_fields_undeclared:
  "resolve_scalar default_type_mapping (PropertyInfo ''string'' ''date'' [] [] False False False False [] None [] [] []) = ''Date'' \<and>
   ''Date'' \<notin> set (map gs_name (ov_scalars (build_default_overlay nm d events)))"
proof
  show "resolve_scalar default_type_mapping (PropertyInfo ''string'' ''date'' [] [] False False False False [] None [] [] []) = ''Date''" by code_simp
qed (simp add: build_default_overlay_def default_scalars_def)

section \<open>A sample\<close>

definition trial_schema :: schema_metadata where
  "trial_schema = schema_from_openapi (\<lambda>v. []) ''article@v1.0.0''
     [(''properties'', DocDict [(''title'', DocDict [(''type'', DocText ''string'')])])] []"

definition trial_tools :: go_tools where
  "trial_tools = \<lparr>gt_goimports = (\<lambda>t. None), gt_format = Some,
     gt_faults = \<lparr>os_mkdir = (\<lambda>p. None), os_write = (\<lambda>p. None)\<rparr>\<rparr>"

definition trial_env :: "unit gen_env" where
  "trial_env = \<lparr>ev_naming = \<lparr>nm_pascal = (\<lambda>s. s), nm_snake = (\<lambda>s. s)\<rparr>, ev_camel = (\<lambda>s. s), ev_sprint_tag = (\<lambda>v. []),
     ev_sprint = (\<lambda>v. []), ev_handlers = [],
     ev_metadata = \<lparr>md_schemas = (\<lambda>t. Some [trial_schema]), md_entries = (\<lambda>t. None), md_wrapper = (\<lambda>t. None),
       md_schema = (\<lambda>t. None)\<rparr>,
     ev_registry = empty_registry, ev_working_dir = ''/work'',
     ev_run_loader = (\<lambda>m p. None), ev_module_of = (\<lambda>t. None),
     ev_overlay = \<lparr>od_yaml = (\<lambda>t. None), od_json = (\<lambda>t. None), od_fallback = (\<lambda>t. None)\<rparr>,
     ev_engine = (\<lambda>dir. Inr \<lparr>eg_render = (\<lambda>template ctx. Inr template), eg_hookable = False\<rparr>),
     ev_tools = trial_tools, ev_gqlgen_found = False, ev_gqlgen = (\<lambda>p d. (None, d))\<rparr>"

definition trial_options :: "bool \<Rightarrow> generator_options" where
  "trial_options dry = \<lparr>gn_metadata_file = ''metadata.json'', gn_schema_package = [], gn_out_dir = [], gn_config_path = [],
     gn_include = [''Article''], gn_exclude = [], gn_type_mappings = [], gn_template_dir = [], gn_force = False,
     gn_dry_run = dry, gn_run_gqlgen = False, gn_skip_gqlgen = False, gn_run_goimports = True, gn_emit_dataloader = False,
     gn_emit_subscriptions = False, gn_subscription_events = [], gn_policy_hook = [], gn_omit_fields = [],
     gn_overlay_file = [], gn_hooks_file = [], gn_auth_package = [], gn_auth_guard = [], gn_auth_fail = []\<rparr>"

definition trial_disk :: disk where
  "trial_disk = \<lparr>dk_files = [(''metadata.json'', ''[]''), (''graph/model/models_custom.go'', ''package model'')], dk_dirs = []\<rparr>"




theorem dry_run_changes_nothing_witness:
  "snd (generate trial_env (trial_options True) trial_disk) = trial_disk"
  using dry_run_changes_nothing [of "trial_options True" trial_env trial_disk] by (simp add: trial_options_def)

theorem custom_files_kept_witness:
  "read_file (snd (generate trial_env (trial_options False) trial_disk)) ''graph/model/models_custom.go'' = Some ''package model''"
proof -
  have "path_join [gen_out_dir (trial_options False), ''model'', ''models_custom.go''] = ''graph/model/models_custom.go''" by code_simp
  moreover have "gen_config_path (trial_options False) = ''gqlgen.yml''" by code_simp
  ultimately show ?thesis
    using custom_files_kept [of "trial_options False" "''graph/model/models_custom.go''" trial_disk "''package model''" trial_env]
    by (simp add: trial_options_def should_run_gqlgen_def trial_disk_def read_file_def)
qed


theorem filters_select_by_name_witness:
  "map sm_name (filter_schemas [trial_schema] ['' Article ''] [''post'']) = [''article@v1.0.0'']"
proof -
  have "plain_patterns ['' Article '']" "plain_patterns [''post'']" by code_simp+
  note filters_select_by_name [OF this, of "[trial_schema]"]
  moreover have "schema_aliases (sm_name trial_schema) = {''article@v1.0.0'', ''article''}" by code_simp
  moreover have "listed_names ['' Article ''] = {''article''}" "listed_names [''post''] = {''post''}" by code_simp+
  moreover have "sm_name trial_schema = ''article@v1.0.0''" by code_simp
  ultimately show ?thesis by simp
qed

end
